(* ===== verification/Prelude.thy ===== *)
theory Prelude
  imports Main "HOL-Library.Word" "HOL-Library.Signed_Division"
begin

text \<open>
  Shared vocabulary of the development: names for the program's basic types (bytes,
  identifiers, instants, durations), Go's 64-bit integer arithmetic and big-endian 32-bit
  integers. The monad in which stateful operations are written is in theory \<open>Act\<close>.
\<close>

section \<open>Basic types\<close>

type_synonym byte = "8 word"

text \<open>
  A UUID is an opaque 16-byte value; the program compares identifiers for equality, and the
  keyset queries order them bytewise. A UUID is represented by the number its bytes spell in
  big-endian order; \<open>uuid.Nil\<close> is \<open>0\<close>.
\<close>

type_synonym uuid = nat

text \<open>
  Instants and durations are nanoseconds. An instant counts from Go's zero \<open>time.Time\<close>
  (January 1, year 1, UTC), so \<open>t.IsZero()\<close> is \<open>t = 0\<close>.
\<close>

type_synonym time = int
type_synonym duration = int

definition unix_epoch_seconds :: int where
  "unix_epoch_seconds = 62135596800"

definition nanos_per_second :: int where
  "nanos_per_second = 1000000000"

text \<open>\<open>t.Unix()\<close>: whole seconds since January 1, 1970.\<close>

definition time_Unix :: "time \<Rightarrow> int" where
  "time_Unix t = t div nanos_per_second - unix_epoch_seconds"

lemma time_Unix_mono: "s \<le> t \<Longrightarrow> time_Unix s \<le> time_Unix t"
  by (simp add: time_Unix_def nanos_per_second_def zdiv_mono1)

section \<open>Go's int64\<close>

text \<open>
  Quantities of type \<open>int64\<close> (and \<open>int\<close>, which is 64 bits wide on the supported
  platforms) are integers; a sum or product is reduced by \<open>int64_wrap\<close> where the code can
  overflow. Go's \<open>/\<close> and \<open>%\<close> truncate towards zero: \<open>sdiv\<close> and \<open>smod\<close>.
\<close>

definition int64_wrap :: "int \<Rightarrow> int" where
  "int64_wrap x = (x + 2 ^ 63) mod 2 ^ 64 - 2 ^ 63"

definition int64_ok :: "int \<Rightarrow> bool" where
  "int64_ok x \<longleftrightarrow> - (2 ^ 63) \<le> x \<and> x < 2 ^ 63"

lemma int64_wrap_id [simp]: "int64_ok x \<Longrightarrow> int64_wrap x = x"
  by (simp add: int64_wrap_def int64_ok_def)

lemma int64_ok_wrap [simp]: "int64_ok (int64_wrap x)"
  by (simp add: int64_wrap_def int64_ok_def)

lemma sdiv_nonneg [simp]: "0 \<le> a \<Longrightarrow> 0 \<le> b \<Longrightarrow> (a::int) sdiv b = a div b"
  by (cases "a = 0"; cases "b = 0") (auto simp: signed_divide_int_def)

lemma smod_nonneg [simp]: "0 \<le> a \<Longrightarrow> 0 \<le> b \<Longrightarrow> (a::int) smod b = a mod b"
  by (cases "a = 0") (auto simp: signed_modulo_int_def sgn_if)

section \<open>Big-endian 32-bit integers\<close>

unbundle bit_operations_syntax

text \<open>\<open>binary.BigEndian.PutUint32\<close> and \<open>binary.BigEndian.Uint32\<close>.\<close>

definition PutUint32 :: "32 word \<Rightarrow> byte list" where
  "PutUint32 x =
     [ucast (drop_bit 24 x), ucast (drop_bit 16 x), ucast (drop_bit 8 x), ucast x]"

definition Uint32 :: "byte list \<Rightarrow> 32 word" where
  "Uint32 bs = foldl (\<lambda>acc b. push_bit 8 acc OR ucast b) 0 bs"

lemma length_PutUint32 [simp]: "length (PutUint32 x) = 4"
  by (simp add: PutUint32_def)

lemma Uint32_PutUint32 [simp]: "Uint32 (PutUint32 x) = x"
proof (rule bit_word_eqI)
  fix n assume "n < LENGTH(32)"
  then consider "n < 8" | "8 \<le> n" "n < 16" | "16 \<le> n" "n < 24" | "24 \<le> n" "n < 32"
    by fastforce
  then show "bit (Uint32 (PutUint32 x)) n \<longleftrightarrow> bit x n"
    by cases (auto simp: Uint32_def PutUint32_def bit_simps)
qed

lemma distinct_filter_single:
  "distinct (map k xs) \<Longrightarrow> x \<in> set xs \<Longrightarrow> filter (\<lambda>y. k y = k x) xs = [x]"
  by (induction xs) (auto simp: filter_empty_conv image_iff)

end
