(* ===== verification/Entity.thy ===== *)
theory Entity
  imports Prelude
begin

text \<open>
  The domain types of \<open>internal/entity\<close> and the error taxonomy of
  \<open>internal/domain/errors.go\<close>: one record per struct, one datatype per enumeration, one
  definition per method. Pointers that may be nil are options.

  A Go error value is identified with the sentinel that \<open>errors.Is\<close> finds in its chain;
  the text that \<open>fmt.Errorf("%w: ...")\<close> adds is not modelled.
\<close>

section \<open>Errors\<close>

datatype error =
    ErrNotFound
  | ErrAlreadyExists
  | ErrUnauthenticated
  | ErrPermissionDenied
  | ErrInvalidArgument
  | ErrQuotaExceeded
  | ErrFileLocked
  | ErrChecksumMismatch
  | ErrUploadIncomplete
  | ErrUploadExpired
  | ErrTokenReuse
  | ErrRateLimited
  | ErrPasswordRequired
  | ErrCiphertextCorrupt
  | ErrInvalidHash
  | ErrInvalidCursor
  | ErrCanceled
  | ErrDeadlineExceeded
  | ErrInternal

text \<open>
  \<open>ErrCiphertextCorrupt\<close>, \<open>ErrInvalidHash\<close> and \<open>ErrInvalidCursor\<close> are the sentinels of
  \<open>pkg/crypto\<close> and \<open>pkg/pagination\<close>; \<open>ErrCanceled\<close> and \<open>ErrDeadlineExceeded\<close> are
  \<open>context.Canceled\<close> and \<open>context.DeadlineExceeded\<close>; \<open>ErrInternal\<close> is any error that
  matches no sentinel.
\<close>

section \<open>Users and sessions (user.go)\<close>

datatype Role = RoleUser | RoleAdmin | RoleOther string

record User =
  User_ID :: uuid
  User_Email :: string
  User_PasswordHash :: string
  User_DisplayName :: string
  User_Role :: Role
  User_CreatedAt :: time
  User_UpdatedAt :: time
  User_DeletedAt :: "time option"

definition User_IsAdmin :: "User \<Rightarrow> bool" where
  "User_IsAdmin u \<longleftrightarrow> User_Role u = RoleAdmin"

record Session =
  Session_ID :: uuid
  Session_UserID :: uuid
  Session_FamilyID :: uuid
  Session_TokenHash :: "byte list"
  Session_UserAgent :: string
  Session_IP :: string
  Session_ExpiresAt :: time
  Session_CreatedAt :: time
  Session_RevokedAt :: "time option"
  Session_ReplacedBy :: "uuid option"

definition Session_IsActive :: "Session \<Rightarrow> time \<Rightarrow> bool" where
  "Session_IsActive s now \<longleftrightarrow> Session_RevokedAt s = None \<and> now < Session_ExpiresAt s"

record Quota =
  Quota_UserID :: uuid
  Quota_QuotaBytes :: int
  Quota_UsedBytes :: int
  Quota_UpdatedAt :: time

definition Quota_CanStore :: "Quota \<Rightarrow> int \<Rightarrow> bool" where
  "Quota_CanStore q n \<longleftrightarrow> int64_wrap (Quota_UsedBytes q + n) \<le> Quota_QuotaBytes q"

text \<open>The authenticated principal (\<open>internal/domain/service.go\<close>).\<close>

record Identity =
  Identity_UserID :: uuid
  Identity_Email :: string
  Identity_Role :: Role

section \<open>Folders, files, versions, blobs (file.go)\<close>

record Folder =
  Folder_ID :: uuid
  Folder_OwnerID :: uuid
  Folder_ParentID :: "uuid option"
  Folder_Name :: string
  Folder_CreatedAt :: time
  Folder_UpdatedAt :: time
  Folder_DeletedAt :: "time option"

record File =
  File_ID :: uuid
  File_OwnerID :: uuid
  File_FolderID :: "uuid option"
  File_Name :: string
  File_MimeType :: string
  File_CurrentVersionID :: "uuid option"
  File_LockedBy :: "uuid option"
  File_LockedAt :: "time option"
  File_IsDeleted :: bool
  File_DeletedAt :: "time option"
  File_CreatedAt :: time
  File_UpdatedAt :: time
  File_SizeBytes :: int
  File_ChecksumSHA256 :: "byte list"
  File_VersionNumber :: int

definition File_IsLockedByOther :: "File \<Rightarrow> uuid \<Rightarrow> bool" where
  "File_IsLockedByOther f userID \<longleftrightarrow>
     (case File_LockedBy f of None \<Rightarrow> False | Some holder \<Rightarrow> holder \<noteq> userID)"

record Version =
  Version_ID :: uuid
  Version_FileID :: uuid
  Version_VersionNumber :: int
  Version_BlobID :: uuid
  Version_SizeBytes :: int
  Version_CreatedBy :: uuid
  Version_CreatedAt :: time
  Version_ChecksumSHA256 :: "byte list"

record Blob =
  Blob_ID :: uuid
  Blob_ChecksumSHA256 :: "byte list"
  Blob_SizeBytes :: int
  Blob_StorageKey :: string
  Blob_WrappedDEK :: "byte list"
  Blob_RefCount :: int
  Blob_CreatedAt :: time

section \<open>Shares (share.go)\<close>

datatype Permission =
    PermissionViewer
  | PermissionEditor
  | PermissionOwner
  | PermissionOther string

text \<open>The map literal in \<open>Allows\<close>; a missing key reads as 0.\<close>

fun Permission_rank :: "Permission \<Rightarrow> nat" where
  "Permission_rank PermissionViewer = 1"
| "Permission_rank PermissionEditor = 2"
| "Permission_rank PermissionOwner = 3"
| "Permission_rank (PermissionOther _) = 0"

definition Permission_Allows :: "Permission \<Rightarrow> Permission \<Rightarrow> bool" where
  "Permission_Allows p required \<longleftrightarrow> Permission_rank p \<ge> Permission_rank required"

fun Permission_Valid :: "Permission \<Rightarrow> bool" where
  "Permission_Valid PermissionViewer = True"
| "Permission_Valid PermissionEditor = True"
| "Permission_Valid PermissionOwner = True"
| "Permission_Valid (PermissionOther _) = False"

text \<open>Permission levels form a preorder under the rank (unknown permissions at the bottom).\<close>

instantiation Permission :: preorder
begin

definition less_eq_Permission :: "Permission \<Rightarrow> Permission \<Rightarrow> bool" where
  "p \<le> q \<longleftrightarrow> Permission_Allows q p"

definition less_Permission :: "Permission \<Rightarrow> Permission \<Rightarrow> bool" where
  "p < q \<longleftrightarrow> Permission_Allows q p \<and> \<not> Permission_Allows p q"

instance
  by standard (auto simp: less_eq_Permission_def less_Permission_def Permission_Allows_def)

end

record Share =
  Share_ID :: uuid
  Share_FileID :: uuid
  Share_OwnerID :: uuid
  Share_GranteeID :: "uuid option"
  Share_TokenHash :: "byte list option"
  Share_Permission :: Permission
  Share_PasswordHash :: "string option"
  Share_ExpiresAt :: "time option"
  Share_CreatedAt :: time
  Share_RevokedAt :: "time option"

definition Share_IsActive :: "Share \<Rightarrow> time \<Rightarrow> bool" where
  "Share_IsActive s now =
     (if Share_RevokedAt s \<noteq> None then False
      else case Share_ExpiresAt s of
        Some expires \<Rightarrow> \<not> now > expires
      | None \<Rightarrow> True)"

definition Share_IsPublicLink :: "Share \<Rightarrow> bool" where
  "Share_IsPublicLink s \<longleftrightarrow> Share_TokenHash s \<noteq> None"

section \<open>Upload sessions (upload.go)\<close>

datatype UploadStatus = UploadPending | UploadCompleted | UploadAborted | UploadExpired

record UploadSession =
  Upload_ID :: uuid
  Upload_UserID :: uuid
  Upload_FolderID :: "uuid option"
  Upload_Name :: string
  Upload_MimeType :: string
  Upload_SizeBytes :: int
  Upload_ChecksumSHA256 :: "byte list"
  Upload_ChunkSize :: int
  Upload_TotalChunks :: int
  Upload_Status :: UploadStatus
  Upload_CreatedAt :: time
  Upload_ExpiresAt :: time

definition Upload_IsActive :: "UploadSession \<Rightarrow> time \<Rightarrow> bool" where
  "Upload_IsActive u now \<longleftrightarrow> Upload_Status u = UploadPending \<and> now < Upload_ExpiresAt u"

definition ExpectedChunkSize :: "UploadSession \<Rightarrow> int \<Rightarrow> int" where
  "ExpectedChunkSize u index =
     (let remainder = Upload_SizeBytes u smod Upload_ChunkSize u in
      if index = Upload_TotalChunks u - 1 \<and> remainder \<noteq> 0 then remainder else Upload_ChunkSize u)"

record Chunk =
  Chunk_SessionID :: uuid
  Chunk_Index :: int
  Chunk_SizeBytes :: int
  Chunk_ChecksumSHA256 :: "byte list"
  Chunk_StorageKey :: string
  Chunk_UploadedAt :: time

section \<open>Audit (audit.go)\<close>

datatype AuditAction =
    AuditUserRegistered
  | AuditUserLogin
  | AuditUserLoginFailed
  | AuditUserLogout
  | AuditTokenReuse
  | AuditFileUploaded
  | AuditFileDownloaded
  | AuditFileDeleted
  | AuditFileRestored
  | AuditFileLocked
  | AuditFileUnlocked
  | AuditVersionRestored
  | AuditShareCreated
  | AuditShareRevoked
  | AuditShareAccessed

record AuditEntry =
  Audit_UserID :: "uuid option"
  Audit_Action :: AuditAction
  Audit_ResourceType :: string
  Audit_ResourceID :: string
  Audit_IP :: string
  Audit_UserAgent :: string
  Audit_Metadata :: "(string \<times> string) list"
  Audit_CreatedAt :: time

section \<open>Properties\<close>

lemma Share_IsActive_iff:
  "Share_IsActive s now \<longleftrightarrow>
     Share_RevokedAt s = None \<and> (\<forall>e. Share_ExpiresAt s = Some e \<longrightarrow> now \<le> e)"
  by (auto simp: Share_IsActive_def split: option.splits)

lemma Share_IsActive_antimono:
  "Share_IsActive s t' \<Longrightarrow> t \<le> t' \<Longrightarrow> Share_IsActive s t"
  by (auto simp: Share_IsActive_iff)

text \<open>
  The chunk plan. A session opened for \<open>SizeBytes\<close> bytes with
  \<open>TotalChunks = \<lceil>SizeBytes / ChunkSize\<rceil>\<close> chunks expects chunk sizes that are positive, at
  most \<open>ChunkSize\<close>, and add up to exactly \<open>SizeBytes\<close>.
\<close>

definition chunk_plan :: "UploadSession \<Rightarrow> bool" where
  "chunk_plan u \<longleftrightarrow> 0 < Upload_ChunkSize u \<and> 0 < Upload_SizeBytes u \<and>
     Upload_TotalChunks u = (Upload_SizeBytes u + Upload_ChunkSize u - 1) div Upload_ChunkSize u"

definition expected_sizes :: "UploadSession \<Rightarrow> int list" where
  "expected_sizes u = map (\<lambda>i. ExpectedChunkSize u (int i)) [0 ..< nat (Upload_TotalChunks u)]"

lemma ceil_div_int:
  assumes "0 < (c::int)" and "0 < s"
  shows "(s + c - 1) div c = (if s mod c = 0 then s div c else s div c + 1)"
proof -
  have "s = c * (s div c) + s mod c" by simp
  then have "(s + c - 1) div c = s div c + (s mod c + c - 1) div c"
    using assms by (metis add.assoc add_diff_eq div_mult_self4 order_less_irrefl)
  also have "(s mod c + c - 1) div c = (if s mod c = 0 then 0 else 1)"
  proof (cases "s mod c = 0")
    case True
    with assms show ?thesis by simp
  next
    case False
    then have "0 < s mod c" "s mod c < c"
      using assms by (simp_all add: order_neq_le_trans)
    then have "(s mod c + c - 1) div c = (s mod c - 1) div c + 1"
      using assms div_add_self1 [of c "s mod c - 1"] by (simp add: algebra_simps)
    also have "(s mod c - 1) div c = 0"
      using \<open>0 < s mod c\<close> \<open>s mod c < c\<close> by simp
    finally show ?thesis using False by simp
  qed
  finally show ?thesis by simp
qed

lemma sum_list_last_differs:
  "n = Suc m \<Longrightarrow> sum_list (map (\<lambda>i. if i = m then (r::int) else c) [0 ..< n]) = int m * c + r"
proof -
  have "map (\<lambda>i. if i = m then r else c) [0 ..< m] = replicate m c"
    by (rule nth_equalityI) simp_all
  moreover assume "n = Suc m"
  ultimately show ?thesis
    by (simp add: sum_list_replicate)
qed

lemma expected_sizes_sum_aux:
  assumes "chunk_plan u"
  shows "sum_list (expected_sizes u) = Upload_SizeBytes u"
proof -
  let ?c = "Upload_ChunkSize u" and ?s = "Upload_SizeBytes u" and ?n = "Upload_TotalChunks u"
  from assms have c: "0 < ?c" and s: "0 < ?s"
    and n: "?n = (if ?s mod ?c = 0 then ?s div ?c else ?s div ?c + 1)"
    by (auto simp: chunk_plan_def ceil_div_int)
  have q: "0 \<le> ?s div ?c" using c s by (simp add: pos_imp_zdiv_nonneg_iff)
  have pos: "0 < ?n"
  proof (cases "?s mod ?c = 0")
    case True
    then have "?s = ?c * (?s div ?c)" by auto
    with s c q have "0 < ?s div ?c" by (metis mult_zero_right order_le_less)
    with True n show ?thesis by simp
  next
    case False
    with n q show ?thesis by simp
  qed
  then obtain m where m: "nat ?n = Suc m" "?n = int m + 1"
    by (metis nat_0_le nonneg_int_cases of_nat_Suc Suc_pred' add.commute less_imp_le nat_less_iff
        of_nat_0 zero_less_nat_eq)
  define r where "r = (if ?s mod ?c = 0 then ?c else ?s mod ?c)"
  have "expected_sizes u = map (\<lambda>i. if i = m then r else ?c) [0 ..< Suc m]"
    using c s m by (auto simp: expected_sizes_def ExpectedChunkSize_def Let_def r_def)
  then have "sum_list (expected_sizes u) = int m * ?c + r"
    by (simp only: sum_list_last_differs)
  also have "\<dots> = ?s"
  proof (cases "?s mod ?c = 0")
    case True
    then have "?s = ?c * (int m + 1)" using n m by auto
    with True show ?thesis by (simp add: r_def algebra_simps)
  next
    case False
    then have "int m = ?s div ?c" using n m by simp
    with False show ?thesis by (simp add: r_def)
  qed
  finally show ?thesis .
qed

end
