(* ===== verification/Crypto.thy ===== *)
theory Crypto
  imports Entity
begin

text \<open>
  \<open>pkg/crypto/aesgcm.go\<close> and \<open>pkg/crypto/keywrap.go\<close>: the segmented AES-256-GCM stream
  (writer, reader, size prediction) and the wrapping of data-encryption keys.

  The cryptographic primitives are parameters, gathered in the record \<open>ext\<close> together with
  the functions of third-party packages the program calls. What the program relies on is
  stated as named hypotheses: \<open>aead_ok\<close> is the functional contract of \<open>cipher.AEAD\<close>
  (\<open>Open\<close> undoes \<open>Seal\<close>, a 16-byte tag is added).
\<close>

section \<open>Primitives\<close>

record ext =
  X_sha256 :: "byte list \<Rightarrow> byte list"
  X_seal :: "byte list \<Rightarrow> byte list \<Rightarrow> byte list \<Rightarrow> byte list \<Rightarrow> byte list"
  X_open :: "byte list \<Rightarrow> byte list \<Rightarrow> byte list \<Rightarrow> byte list \<Rightarrow> byte list option"
  X_hmac_sha256 :: "byte list \<Rightarrow> byte list \<Rightarrow> byte list"
  X_argon2_IDKey :: "string \<Rightarrow> byte list \<Rightarrow> nat \<Rightarrow> nat \<Rightarrow> nat \<Rightarrow> nat \<Rightarrow> byte list"
  X_uuid_String :: "uuid \<Rightarrow> string"
  X_uuid_Parse :: "string \<Rightarrow> uuid option"

text \<open>
  \<open>X_seal key nonce plaintext additional\<close> and \<open>X_open key nonce ciphertext additional\<close> are
  \<open>Seal\<close> and \<open>Open\<close> of the AEAD that \<open>newGCM(key)\<close> builds.
\<close>

definition KeySize :: nat where "KeySize = 32"
definition DefaultSegmentSize :: int where "DefaultSegmentSize = 64 * 1024"
definition noncePrefixLen :: nat where "noncePrefixLen = 8"
definition nonceLen :: nat where "nonceLen = 12"
definition magicLen :: nat where "magicLen = 4"
definition segHeaderLen :: nat where "segHeaderLen = 5"
definition aead_Overhead :: nat where "aead_Overhead = 16"
definition flagMore :: byte where "flagMore = 0"
definition flagFinal :: byte where "flagFinal = 1"

text \<open>The bytes of \<open>"SGC1"\<close>.\<close>

definition streamMagic :: "byte list" where
  "streamMagic = [0x53, 0x47, 0x43, 0x31]"

definition aead_ok :: "ext \<Rightarrow> bool" where
  "aead_ok X \<longleftrightarrow>
     (\<forall>k n p a. length k = KeySize \<longrightarrow> length n = nonceLen \<longrightarrow>
        X_open X k n (X_seal X k n p a) a = Some p \<and>
        length (X_seal X k n p a) = length p + aead_Overhead)"

text \<open>\<open>newGCM\<close> refuses a key of the wrong length; the AEAD is identified with its key.\<close>

definition newGCM :: "byte list \<Rightarrow> error + byte list" where
  "newGCM key = (if length key \<noteq> KeySize then Inl ErrInternal else Inr key)"

section \<open>Writer\<close>

text \<open>
  The destination \<open>io.Writer\<close>: what it has received, and which of its \<open>Write\<close> calls fail.
\<close>

record sink =
  sink_out :: "byte list"
  sink_fails :: "nat \<Rightarrow> bool"
  sink_writes :: nat

definition sink_Write :: "byte list \<Rightarrow> sink \<Rightarrow> bool \<times> sink" where
  "sink_Write bs d =
     (if sink_fails d (sink_writes d) then (False, d\<lparr>sink_writes := Suc (sink_writes d)\<rparr>)
      else (True, d\<lparr>sink_out := sink_out d @ bs, sink_writes := Suc (sink_writes d)\<rparr>))"

record StreamWriter =
  sw_dst :: sink
  sw_aead :: "byte list"
  sw_noncePrefix :: "byte list"
  sw_buf :: "byte list"
  sw_segSize :: nat
  sw_counter :: "32 word"
  sw_closed :: bool
  sw_err :: "error option"

definition effective_segment :: "int \<Rightarrow> nat" where
  "effective_segment segmentSize =
     nat (if segmentSize \<le> 0 then DefaultSegmentSize else segmentSize)"

text \<open>\<open>NewStreamWriter\<close>; \<open>prefix\<close> holds the 8 bytes that \<open>rand.Read\<close> returned.\<close>

definition NewStreamWriter ::
    "sink \<Rightarrow> byte list \<Rightarrow> int \<Rightarrow> byte list \<Rightarrow> error + StreamWriter" where
  "NewStreamWriter dst key segmentSize prefix =
     (case newGCM key of
        Inl e \<Rightarrow> Inl e
      | Inr aead \<Rightarrow>
          (case sink_Write streamMagic dst of
             (False, _) \<Rightarrow> Inl ErrInternal
           | (True, dst1) \<Rightarrow>
               (case sink_Write prefix dst1 of
                  (False, _) \<Rightarrow> Inl ErrInternal
                | (True, dst2) \<Rightarrow> Inr \<lparr>sw_dst = dst2, sw_aead = aead, sw_noncePrefix = prefix,
                    sw_buf = [], sw_segSize = effective_segment segmentSize, sw_counter = 0,
                    sw_closed = False, sw_err = None\<rparr>)))"

definition segment_nonce :: "byte list \<Rightarrow> 32 word \<Rightarrow> byte list" where
  "segment_nonce prefix counter = prefix @ PutUint32 counter"

definition flushSegment :: "ext \<Rightarrow> byte \<Rightarrow> StreamWriter \<Rightarrow> error option \<times> StreamWriter" where
  "flushSegment X flag w =
     (let nonce = segment_nonce (sw_noncePrefix w) (sw_counter w);
          ct = X_seal X (sw_aead w) nonce (sw_buf w) [flag];
          hdr = PutUint32 (word_of_nat (length ct)) @ [flag];
          w1 = w\<lparr>sw_counter := sw_counter w + 1, sw_buf := []\<rparr> in
      case sink_Write hdr (sw_dst w) of
        (False, d) \<Rightarrow> (Some ErrInternal, w1\<lparr>sw_dst := d, sw_err := Some ErrInternal\<rparr>)
      | (True, d) \<Rightarrow>
          (case sink_Write ct d of
             (False, d') \<Rightarrow> (Some ErrInternal, w1\<lparr>sw_dst := d', sw_err := Some ErrInternal\<rparr>)
           | (True, d') \<Rightarrow> (None, w1\<lparr>sw_dst := d'\<rparr>)))"

lemma flushSegment_fields:
  "flushSegment X flag w = (e, w') \<Longrightarrow>
     sw_buf w' = [] \<and> sw_segSize w' = sw_segSize w"
  by (auto simp: flushSegment_def Let_def split: prod.splits bool.splits)

text \<open>
  The loop of \<open>Write\<close> on the unwritten rest \<open>p\<close>. \<open>None\<close> is what the loop does in a state no
  constructor builds: with \<open>segSize = 0\<close> it would flush empty segments for ever, and with a
  buffer longer than \<open>segSize\<close> the slice \<open>p[:n]\<close> would panic.
\<close>

function write_loop ::
    "ext \<Rightarrow> StreamWriter \<Rightarrow> byte list \<Rightarrow> (byte list \<times> error option \<times> StreamWriter) option" where
  "write_loop X w p =
     (if p = [] then Some ([], None, w)
      else if sw_segSize w = 0 \<or> length (sw_buf w) > sw_segSize w then None
      else
        let n = min (sw_segSize w - length (sw_buf w)) (length p);
            w1 = w\<lparr>sw_buf := sw_buf w @ take n p\<rparr>;
            p1 = drop n p in
        if length (sw_buf w1) = sw_segSize w1 \<and> p1 \<noteq> [] then
          (case flushSegment X flagMore w1 of
             (Some e, w2) \<Rightarrow> Some (p1, Some e, w2)
           | (None, w2) \<Rightarrow> write_loop X w2 p1)
        else write_loop X w1 p1)"
  by pat_completeness auto
termination
proof (relation "measure (\<lambda>(X, w, p). 2 * length p
         + (if length (sw_buf w) = sw_segSize w then 1 else 0))", goal_cases)
  case 1
  show ?case by simp
next
  case (2 X w p n w1 p1 r w2)
  then have w2: "sw_buf w2 = []" "sw_segSize w2 = sw_segSize w" "0 < sw_segSize w"
    using flushSegment_fields [of X flagMore w1 None w2] by auto
  have "length p1 < length p \<or> length (sw_buf w) = sw_segSize w \<and> length p1 \<le> length p"
    using 2 by (auto simp: min_def)
  with w2 show ?case by auto
next
  case (3 X w p n w1 p1)
  then have "n \<noteq> 0" by (cases "n = 0") (auto simp: min_def split: if_splits)
  then have "length p1 < length p"
    using 3 by simp
  then show ?case by simp
qed

declare write_loop.simps [simp del]

text \<open>\<open>Write\<close>: the number of bytes taken, the error, and the writer.\<close>

definition StreamWriter_Write ::
    "ext \<Rightarrow> byte list \<Rightarrow> StreamWriter \<Rightarrow> (nat \<times> error option \<times> StreamWriter) option" where
  "StreamWriter_Write X p w =
     (case sw_err w of
        Some e \<Rightarrow> Some (0, Some e, w)
      | None \<Rightarrow>
          if sw_closed w then Some (0, Some ErrInternal, w)
          else
            (case write_loop X w p of
               None \<Rightarrow> None
             | Some (rest, Some e, w') \<Rightarrow> Some (length p - length rest, Some e, w')
             | Some (rest, None, w') \<Rightarrow> Some (length p, None, w')))"

definition StreamWriter_Close :: "ext \<Rightarrow> StreamWriter \<Rightarrow> error option \<times> StreamWriter" where
  "StreamWriter_Close X w =
     (case sw_err w of
        Some e \<Rightarrow> (Some e, w)
      | None \<Rightarrow>
          if sw_closed w then (None, w)
          else flushSegment X flagFinal (w\<lparr>sw_closed := True\<rparr>))"

section \<open>Reader\<close>

text \<open>\<open>io.ReadFull\<close> into a buffer of \<open>n\<close> bytes, from a source that holds \<open>src\<close>.\<close>

definition ReadFull :: "nat \<Rightarrow> byte list \<Rightarrow> (byte list \<times> byte list) option" where
  "ReadFull n src = (if length src < n then None else Some (take n src, drop n src))"

datatype read_err = EOF | ReadErr error

record StreamReader =
  sr_src :: "byte list"
  sr_aead :: "byte list"
  sr_noncePrefix :: "byte list"
  sr_plain :: "byte list"
  sr_counter :: "32 word"
  sr_maxSegment :: nat
  sr_sawFinal :: bool
  sr_err :: "read_err option"

definition NewStreamReader :: "byte list \<Rightarrow> byte list \<Rightarrow> int \<Rightarrow> error + StreamReader" where
  "NewStreamReader src key segmentSize =
     (case newGCM key of
        Inl e \<Rightarrow> Inl e
      | Inr aead \<Rightarrow>
          (case ReadFull magicLen src of
             None \<Rightarrow> Inl ErrCiphertextCorrupt
           | Some (magic, src1) \<Rightarrow>
               if magic \<noteq> streamMagic then Inl ErrCiphertextCorrupt
               else
                 (case ReadFull noncePrefixLen src1 of
                    None \<Rightarrow> Inl ErrCiphertextCorrupt
                  | Some (prefix, src2) \<Rightarrow>
                      Inr \<lparr>sr_src = src2, sr_aead = aead, sr_noncePrefix = prefix, sr_plain = [],
                        sr_counter = 0, sr_maxSegment = effective_segment segmentSize,
                        sr_sawFinal = False, sr_err = None\<rparr>)))"

definition nextSegment :: "ext \<Rightarrow> StreamReader \<Rightarrow> read_err option \<times> StreamReader" where
  "nextSegment X r =
     (if sr_sawFinal r then (Some EOF, r)
      else case ReadFull segHeaderLen (sr_src r) of
        None \<Rightarrow> (Some (ReadErr ErrCiphertextCorrupt), r\<lparr>sr_src := []\<rparr>)
      | Some (hdr, src1) \<Rightarrow>
          let ctLen = Uint32 (take 4 hdr); flag = hdr ! 4; r1 = r\<lparr>sr_src := src1\<rparr> in
          if flag \<noteq> flagMore \<and> flag \<noteq> flagFinal then (Some (ReadErr ErrCiphertextCorrupt), r1)
          else if unat ctLen > sr_maxSegment r + aead_Overhead
          then (Some (ReadErr ErrCiphertextCorrupt), r1)
          else case ReadFull (unat ctLen) src1 of
            None \<Rightarrow> (Some (ReadErr ErrCiphertextCorrupt), r1\<lparr>sr_src := []\<rparr>)
          | Some (ct, src2) \<Rightarrow>
              let nonce = segment_nonce (sr_noncePrefix r) (sr_counter r);
                  r2 = r1\<lparr>sr_src := src2, sr_counter := sr_counter r + 1\<rparr> in
              (case X_open X (sr_aead r) nonce ct [flag] of
                 None \<Rightarrow> (Some (ReadErr ErrCiphertextCorrupt), r2)
               | Some pt \<Rightarrow> (None, r2\<lparr>sr_plain := pt,
                   sr_sawFinal := (if flag = flagFinal then True else sr_sawFinal r)\<rparr>)))"

lemma nextSegment_src:
  assumes "nextSegment X r = (e, r')"
  shows "length (sr_src r') \<le> length (sr_src r)"
    and "e = None \<Longrightarrow> length (sr_src r') < length (sr_src r)"
    and "sr_err r' = sr_err r"
  using assms
  by (auto simp: nextSegment_def ReadFull_def Let_def segHeaderLen_def
      split: if_splits option.splits)

text \<open>
  \<open>Read\<close> into a buffer of \<open>n\<close> bytes: the bytes delivered and the error.
\<close>

function StreamReader_Read ::
    "ext \<Rightarrow> nat \<Rightarrow> StreamReader \<Rightarrow> byte list \<times> read_err option \<times> StreamReader" where
  "StreamReader_Read X n r =
     (if sr_plain r \<noteq> [] then (take n (sr_plain r), None, r\<lparr>sr_plain := drop n (sr_plain r)\<rparr>)
      else case sr_err r of
        Some e \<Rightarrow> ([], Some e, r)
      | None \<Rightarrow>
          (case nextSegment X r of
             (Some e, r1) \<Rightarrow>
               let r2 = r1\<lparr>sr_err := Some e\<rparr> in
               if sr_plain r2 \<noteq> [] then StreamReader_Read X n r2 else ([], Some e, r2)
           | (None, r1) \<Rightarrow> StreamReader_Read X n r1))"
  by pat_completeness auto
termination
proof (relation "measure (\<lambda>(X, n, r). 2 * length (sr_src r)
         + (if sr_err r = None then 1 else 0))", goal_cases)
  case 1
  show ?case by simp
next
  case (2 X n r x r1)
  then show ?case using nextSegment_src [of X r x r1] by auto
next
  case (3 X n r x r1 e r2)
  then show ?case using nextSegment_src [of X r x r1] by auto
qed

declare StreamReader_Read.simps [simp del]

lemma StreamReader_Read_progress:
  assumes "StreamReader_Read X n r = (bs, e, r')" and "e = None" and "0 < n"
  shows "length (sr_src r') < length (sr_src r) \<or>
    sr_src r' = sr_src r \<and> length (sr_plain r') < length (sr_plain r)"
  using assms
proof (induction X n r arbitrary: bs e r' rule: StreamReader_Read.induct)
  case (1 X n r)
  show ?case
  proof (cases "sr_plain r \<noteq> []")
    case True
    with "1.prems" show ?thesis by (auto simp: StreamReader_Read.simps [of X n r])
  next
    case noplain: False
    show ?thesis
    proof (cases "sr_err r")
      case None
      obtain x r1 where seg: "nextSegment X r = (x, r1)" by fastforce
      show ?thesis
      proof (cases x)
        case None
        then have "StreamReader_Read X n r1 = (bs, e, r')"
          using "1.prems" noplain \<open>sr_err r = None\<close> seg
          by (simp add: StreamReader_Read.simps [of X n r])
        with "1.IH"(1) noplain seg None \<open>sr_err r = None\<close> "1.prems"(2,3)
        have "length (sr_src r') \<le> length (sr_src r1)" by fastforce
        moreover have "length (sr_src r1) < length (sr_src r)"
          using nextSegment_src(2) [OF seg] None by simp
        ultimately show ?thesis by simp
      next
        case (Some e1)
        have "sr_plain r1 = sr_plain r"
          using seg Some
          by (auto simp: nextSegment_def Let_def split: if_splits option.splits)
        with Some show ?thesis
          using "1.prems" noplain \<open>sr_err r = None\<close> seg
          by (simp add: StreamReader_Read.simps [of X n r] Let_def)
      qed
    next
      case (Some e1)
      with noplain "1.prems" show ?thesis by (simp add: StreamReader_Read.simps [of X n r])
    qed
  qed
qed

section \<open>Sizes and keys\<close>

text \<open>\<open>EncryptedSize\<close>: \<open>int64\<close> arithmetic, reduced once at the end.\<close>

definition EncryptedSize :: "int \<Rightarrow> int \<Rightarrow> int" where
  "EncryptedSize n segmentSize =
     (let segmentSize = (if segmentSize \<le> 0 then DefaultSegmentSize else segmentSize);
          fullSegs = n sdiv segmentSize;
          rem = n smod segmentSize;
          overhead = 16;
          segs = (if 0 < rem \<or> fullSegs = 0 then fullSegs + 1 else fullSegs) in
      int64_wrap (int (magicLen + noncePrefixLen) + segs * int segHeaderLen + segs * overhead + n))"

text \<open>\<open>WrapKey\<close>; \<open>nonce\<close> holds the 12 bytes that \<open>rand.Read\<close> returned.\<close>

definition WrapKey :: "ext \<Rightarrow> byte list \<Rightarrow> byte list \<Rightarrow> byte list \<Rightarrow> error + byte list" where
  "WrapKey X kek dek nonce =
     (case newGCM kek of
        Inl e \<Rightarrow> Inl e
      | Inr aead \<Rightarrow> Inr (nonce @ X_seal X aead nonce dek []))"

definition UnwrapKey :: "ext \<Rightarrow> byte list \<Rightarrow> byte list \<Rightarrow> error + byte list" where
  "UnwrapKey X kek wrapped =
     (case newGCM kek of
        Inl e \<Rightarrow> Inl e
      | Inr aead \<Rightarrow>
          if length wrapped < nonceLen then Inl ErrCiphertextCorrupt
          else
            (case X_open X aead (take nonceLen wrapped) (drop nonceLen wrapped) [] of
               None \<Rightarrow> Inl ErrCiphertextCorrupt
             | Some dek \<Rightarrow> Inr dek))"

end
