(* ===== verification/Crypto_Stream.thy ===== *)
theory Crypto_Stream
  imports Crypto
begin

text \<open>
  The encrypted stream as a whole: writing a plaintext through \<open>StreamWriter\<close> in any
  division into \<open>Write\<close> calls, and reading it back through \<open>StreamReader\<close> with any
  buffer size.

  A reference definition of the format (\<open>stream_format\<close>) states what a stream is. The
  writer produces exactly it, the reader inverts it, rejects every strict prefix of it, and
  accepts nothing else; \<open>EncryptedSize\<close> is its length.
\<close>

section \<open>Whole streams\<close>

definition good_sink :: sink where
  "good_sink = \<lparr>sink_out = [], sink_fails = (\<lambda>_. False), sink_writes = 0\<rparr>"

fun write_all :: "ext \<Rightarrow> byte list list \<Rightarrow> StreamWriter \<Rightarrow> (error + StreamWriter) option" where
  "write_all X [] w = Some (Inr w)"
| "write_all X (p # ps) w =
     (case StreamWriter_Write X p w of
        None \<Rightarrow> None
      | Some (n, Some e, w') \<Rightarrow> Some (Inl e)
      | Some (n, None, w') \<Rightarrow> write_all X ps w')"

definition encrypt_stream ::
    "ext \<Rightarrow> sink \<Rightarrow> byte list \<Rightarrow> int \<Rightarrow> byte list \<Rightarrow> byte list list \<Rightarrow> (error + byte list) option" where
  "encrypt_stream X dst key segmentSize prefix ps =
     (case NewStreamWriter dst key segmentSize prefix of
        Inl e \<Rightarrow> Some (Inl e)
      | Inr w \<Rightarrow>
          (case write_all X ps w of
             None \<Rightarrow> None
           | Some (Inl e) \<Rightarrow> Some (Inl e)
           | Some (Inr w') \<Rightarrow>
               (case StreamWriter_Close X w' of
                  (Some e, _) \<Rightarrow> Some (Inl e)
                | (None, w'') \<Rightarrow> Some (Inr (sink_out (sw_dst w''))))))"

function ReadAll :: "ext \<Rightarrow> nat \<Rightarrow> StreamReader \<Rightarrow> byte list \<times> error option" where
  "ReadAll X n r =
     (case StreamReader_Read X (Suc n) r of
        (bs, Some EOF, r') \<Rightarrow> (bs, None)
      | (bs, Some (ReadErr e), r') \<Rightarrow> (bs, Some e)
      | (bs, None, r') \<Rightarrow> (case ReadAll X n r' of (cs, e) \<Rightarrow> (bs @ cs, e)))"
  by pat_completeness auto
termination
proof (relation "measures [\<lambda>(X, n, r). length (sr_src r), \<lambda>(X, n, r). length (sr_plain r)]",
    goal_cases)
  case 1
  show ?case by simp
next
  case (2 X n r bs y z r')
  then show ?case using StreamReader_Read_progress [of X "Suc n" r bs z r'] by auto
qed

declare ReadAll.simps [simp del]

definition decrypt_stream :: "ext \<Rightarrow> nat \<Rightarrow> byte list \<Rightarrow> byte list \<Rightarrow> int \<Rightarrow> error + byte list" where
  "decrypt_stream X n src key segmentSize =
     (case NewStreamReader src key segmentSize of
        Inl e \<Rightarrow> Inl e
      | Inr r \<Rightarrow> (case ReadAll X n r of (bs, None) \<Rightarrow> Inr bs | (bs, Some e) \<Rightarrow> Inl e))"

section \<open>Reference format\<close>

fun segs :: "nat \<Rightarrow> 'a list \<Rightarrow> 'a list list" where
  "segs s p = (if s = 0 \<or> length p \<le> s then [p] else take s p # segs s (drop s p))"

declare segs.simps [simp del]

definition frame :: "ext \<Rightarrow> byte list \<Rightarrow> byte list \<Rightarrow> 32 word \<Rightarrow> byte \<Rightarrow> byte list \<Rightarrow> byte list" where
  "frame X key prefix c flag seg =
     (let ct = X_seal X key (segment_nonce prefix c) seg [flag] in
      PutUint32 (word_of_nat (length ct)) @ [flag] @ ct)"

fun more_frames ::
    "ext \<Rightarrow> byte list \<Rightarrow> byte list \<Rightarrow> 32 word \<Rightarrow> byte list list \<Rightarrow> byte list" where
  "more_frames X key prefix c [] = []"
| "more_frames X key prefix c (p # ps) =
     frame X key prefix c flagMore p @ more_frames X key prefix (c + 1) ps"

definition stream_body ::
    "ext \<Rightarrow> byte list \<Rightarrow> byte list \<Rightarrow> 32 word \<Rightarrow> byte list list \<Rightarrow> byte list" where
  "stream_body X key prefix c ss =
     more_frames X key prefix c (butlast ss) @
     frame X key prefix (c + word_of_nat (length (butlast ss))) flagFinal (last ss)"

definition stream_format :: "ext \<Rightarrow> byte list \<Rightarrow> byte list \<Rightarrow> nat \<Rightarrow> byte list \<Rightarrow> byte list" where
  "stream_format X key prefix s p = streamMagic @ prefix @ stream_body X key prefix 0 (segs s p)"

lemma segs_nonempty [simp]: "segs s p \<noteq> []"
  by (subst segs.simps) simp

lemma segs_count [simp]:
  "1 + word_of_nat (length (segs s p) - Suc 0) = (word_of_nat (length (segs s p)) :: 32 word)"
  using segs_nonempty [of s p] by (cases "segs s p") simp_all

lemma concat_segs [simp]: "concat (segs s p) = p"
  by (induction s p rule: segs.induct) (subst segs.simps, auto)

lemma segs_short: "length p \<le> s \<Longrightarrow> segs s p = [p]"
  by (simp add: segs.simps)

lemma segs_long: "0 < s \<Longrightarrow> length b = s \<Longrightarrow> p \<noteq> [] \<Longrightarrow> segs s (b @ p) = b # segs s p"
  by (subst segs.simps) simp

lemma segs_bound: "0 < s \<Longrightarrow> x \<in> set (segs s p) \<Longrightarrow> length x \<le> s"
proof (induction s p rule: segs.induct)
  case (1 s p)
  then show ?case by (subst (asm) (2) segs.simps) (auto split: if_splits)
qed

lemma segs_butlast_last:
  "0 < s \<Longrightarrow> segs s (q @ p) = butlast (segs s q) @ segs s (last (segs s q) @ p)"
proof (induction s q rule: segs.induct)
  case (1 s q)
  show ?case
  proof (cases "length q \<le> s")
    case True
    then show ?thesis by (simp add: segs_short)
  next
    case False
    with 1 have IH: "segs s (drop s q @ p) =
        butlast (segs s (drop s q)) @ segs s (last (segs s (drop s q)) @ p)" by simp
    have q: "segs s q = take s q # segs s (drop s q)"
      using False "1.prems" by (subst segs.simps) simp
    have "segs s (q @ p) = segs s (take s q @ (drop s q @ p))"
      by (simp only: append_assoc [symmetric] append_take_drop_id)
    also have "\<dots> = take s q # segs s (drop s q @ p)"
      using False "1.prems" by (intro segs_long) auto
    finally show ?thesis using IH by (simp add: q)
  qed
qed

section \<open>The writer produces the format\<close>

definition sink_good :: "sink \<Rightarrow> bool" where
  "sink_good d \<longleftrightarrow> (\<forall>i. \<not> sink_fails d i)"

lemma flush_good:
  assumes "sink_good (sw_dst w)"
  obtains w' where "flushSegment X flag w = (None, w')"
    and "sink_out (sw_dst w') = sink_out (sw_dst w) @
      frame X (sw_aead w) (sw_noncePrefix w) (sw_counter w) flag (sw_buf w)"
    and "sw_counter w' = sw_counter w + 1" and "sw_buf w' = []" and "sink_good (sw_dst w')"
    and "sw_aead w' = sw_aead w" and "sw_noncePrefix w' = sw_noncePrefix w"
    and "sw_segSize w' = sw_segSize w" and "sw_closed w' = sw_closed w" and "sw_err w' = sw_err w"
  using assms
  by (auto simp: flushSegment_def sink_Write_def sink_good_def frame_def Let_def)

definition writer_at :: "ext \<Rightarrow> byte list \<Rightarrow> byte list \<Rightarrow> nat \<Rightarrow> byte list \<Rightarrow> StreamWriter \<Rightarrow> bool" where
  "writer_at X key prefix s q w \<longleftrightarrow>
     sw_aead w = key \<and> sw_noncePrefix w = prefix \<and> sw_segSize w = s \<and> 0 < s \<and>
     \<not> sw_closed w \<and> sw_err w = None \<and> sink_good (sw_dst w) \<and>
     sw_buf w = last (segs s q) \<and>
     sw_counter w = word_of_nat (length (butlast (segs s q))) \<and>
     sink_out (sw_dst w) =
       streamMagic @ prefix @ more_frames X key prefix 0 (butlast (segs s q))"

lemma more_frames_append:
  "more_frames X k pre c (xs @ ys) =
     more_frames X k pre c xs @ more_frames X k pre (c + word_of_nat (length xs)) ys"
  by (induction xs arbitrary: c) (simp_all add: algebra_simps)

text \<open>
  \<open>wrote X w p w'\<close>: the writer \<open>w'\<close> is \<open>w\<close> after the bytes \<open>p\<close>; full segments are on the
  destination, the last one stays in the buffer.
\<close>

definition wrote :: "ext \<Rightarrow> StreamWriter \<Rightarrow> byte list \<Rightarrow> StreamWriter \<Rightarrow> bool" where
  "wrote X w p w' \<longleftrightarrow>
     (let ss = segs (sw_segSize w) (sw_buf w @ p) in
      sw_buf w' = last ss \<and> sw_counter w' = sw_counter w + word_of_nat (length (butlast ss)) \<and>
      sink_out (sw_dst w') = sink_out (sw_dst w) @
        more_frames X (sw_aead w) (sw_noncePrefix w) (sw_counter w) (butlast ss)) \<and>
     sink_good (sw_dst w') \<and> sw_aead w' = sw_aead w \<and> sw_noncePrefix w' = sw_noncePrefix w \<and>
     sw_segSize w' = sw_segSize w \<and> sw_err w' = None \<and> \<not> sw_closed w'"

definition writer_ready :: "StreamWriter \<Rightarrow> bool" where
  "writer_ready w \<longleftrightarrow> 0 < sw_segSize w \<and> length (sw_buf w) \<le> sw_segSize w \<and>
     sink_good (sw_dst w) \<and> sw_err w = None \<and> \<not> sw_closed w"

lemma write_loop_good:
  "writer_ready w \<Longrightarrow> \<exists>w'. write_loop X w p = Some ([], None, w') \<and> wrote X w p w'"
proof (induction X w p rule: write_loop.induct)
  case (1 X w p)
  show ?case
  proof (cases "p = []")
    case True
    with "1.prems" show ?thesis
      by (intro exI [of _ w])
        (simp add: write_loop.simps [of X w "[]"] segs_short wrote_def writer_ready_def)
  next
    case False
    define n where "n = min (sw_segSize w - length (sw_buf w)) (length p)"
    define w1 where "w1 = w\<lparr>sw_buf := sw_buf w @ take n p\<rparr>"
    define p1 where "p1 = drop n p"
    have guard: "\<not> (sw_segSize w = 0 \<or> length (sw_buf w) > sw_segSize w)"
      using "1.prems" by (simp add: writer_ready_def)
    have cat: "sw_buf w1 @ p1 = sw_buf w @ p" by (simp add: w1_def p1_def)
    have ready1: "writer_ready w1" using "1.prems" by (auto simp: writer_ready_def w1_def n_def)
    show ?thesis
    proof (cases "length (sw_buf w1) = sw_segSize w1 \<and> p1 \<noteq> []")
      case flush: True
      have "sink_good (sw_dst w1)" using ready1 by (simp add: writer_ready_def)
      then obtain w2 where w2: "flushSegment X flagMore w1 = (None, w2)"
        "sink_out (sw_dst w2) = sink_out (sw_dst w1) @
            frame X (sw_aead w1) (sw_noncePrefix w1) (sw_counter w1) flagMore (sw_buf w1)"
        "sw_counter w2 = sw_counter w1 + 1" "sw_buf w2 = []" "sink_good (sw_dst w2)"
        "sw_aead w2 = sw_aead w1" "sw_noncePrefix w2 = sw_noncePrefix w1"
        "sw_segSize w2 = sw_segSize w1" "sw_closed w2 = sw_closed w1" "sw_err w2 = sw_err w1"
        by (rule flush_good)
      have step: "write_loop X w p = write_loop X w2 p1"
        unfolding write_loop.simps [of X w p] Let_def n_def [symmetric] w1_def [symmetric]
          p1_def [symmetric]
        using False guard flush w2(1) by simp
      have split: "segs (sw_segSize w) (sw_buf w @ p) = sw_buf w1 # segs (sw_segSize w) p1"
        using flush guard segs_long [of "sw_segSize w" "sw_buf w1" p1]
        by (simp add: w1_def cat [unfolded w1_def, simplified])
      obtain w' where "write_loop X w2 p1 = Some ([], None, w')" "wrote X w2 p1 w'"
        using "1.IH"(1) [OF False guard n_def w1_def p1_def flush w2(1) [symmetric] refl] w2 ready1
        by (auto simp: writer_ready_def)
      then show ?thesis
        using w2 by (auto simp: step split Let_def w1_def wrote_def algebra_simps)
    next
      case noflush: False
      have step: "write_loop X w p = write_loop X w1 p1"
        unfolding write_loop.simps [of X w p] Let_def n_def [symmetric] w1_def [symmetric]
          p1_def [symmetric]
        using False guard noflush by (simp only: if_False)
      obtain w' where "write_loop X w1 p1 = Some ([], None, w')" "wrote X w1 p1 w'"
        using "1.IH"(2) [OF False guard n_def w1_def p1_def noflush ready1] by blast
      then show ?thesis
        by (auto simp: step wrote_def cat) (simp_all add: w1_def Let_def)
    qed
  qed
qed

lemma last_segs_bound: "0 < s \<Longrightarrow> length (last (segs s q)) \<le> s"
  using segs_bound [of s "last (segs s q)" q] by simp

lemma writer_at_ready: "writer_at X key prefix s q w \<Longrightarrow> writer_ready w"
  by (auto simp: writer_at_def writer_ready_def last_segs_bound)

lemma StreamWriter_Write_at:
  assumes at: "writer_at X key prefix s q w"
  shows "\<exists>w'. StreamWriter_Write X p w = Some (length p, None, w') \<and>
    writer_at X key prefix s (q @ p) w'"
proof -
  obtain w' where w': "write_loop X w p = Some ([], None, w')" "wrote X w p w'"
    using write_loop_good writer_at_ready [OF at] by blast
  have "writer_at X key prefix s (q @ p) w'"
    using at w'(2)
    by (simp add: writer_at_def wrote_def Let_def segs_butlast_last [of s q p] butlast_append
        more_frames_append)
  with w'(1) at show ?thesis by (simp add: StreamWriter_Write_def writer_at_def)
qed

lemma write_all_at:
  "writer_at X key prefix s q w \<Longrightarrow>
     \<exists>w'. write_all X ps w = Some (Inr w') \<and> writer_at X key prefix s (q @ concat ps) w'"
proof (induction ps arbitrary: q w)
  case (Cons p ps)
  then obtain w1 where "StreamWriter_Write X p w = Some (length p, None, w1)"
    "writer_at X key prefix s (q @ p) w1"
    using StreamWriter_Write_at by blast
  with Cons.IH [of "q @ p" w1] show ?case by auto
qed simp

lemma StreamWriter_Close_at:
  assumes "writer_at X key prefix s q w"
  shows "\<exists>w'. StreamWriter_Close X w = (None, w') \<and>
    sink_out (sw_dst w') = stream_format X key prefix s q"
proof -
  let ?w = "w\<lparr>sw_closed := True\<rparr>"
  have "sink_good (sw_dst ?w)" using assms by (simp add: writer_at_def)
  then obtain w' where "flushSegment X flagFinal ?w = (None, w')"
    "sink_out (sw_dst w') = sink_out (sw_dst ?w) @
       frame X (sw_aead ?w) (sw_noncePrefix ?w) (sw_counter ?w) flagFinal (sw_buf ?w)"
    by (rule flush_good)
  with assms show ?thesis
    by (simp add: StreamWriter_Close_def writer_at_def stream_format_def stream_body_def)
qed

lemma NewStreamWriter_at:
  assumes "length key = KeySize"
  shows "\<exists>w. NewStreamWriter good_sink key z prefix = Inr w \<and>
    writer_at X key prefix (effective_segment z) [] w"
  using assms
  by (auto simp: NewStreamWriter_def newGCM_def sink_Write_def good_sink_def writer_at_def
      sink_good_def segs_short effective_segment_def DefaultSegmentSize_def)

lemma encrypt_stream_format:
  assumes "length key = KeySize"
  shows "encrypt_stream X good_sink key z prefix ps =
    Some (Inr (stream_format X key prefix (effective_segment z) (concat ps)))"
proof -
  obtain w where w: "NewStreamWriter good_sink key z prefix = Inr w"
    "writer_at X key prefix (effective_segment z) [] w"
    using NewStreamWriter_at [OF assms] by blast
  obtain w1 where w1: "write_all X ps w = Some (Inr w1)"
    "writer_at X key prefix (effective_segment z) (concat ps) w1"
    using write_all_at [OF w(2), of ps] by auto
  obtain w2 where "StreamWriter_Close X w1 = (None, w2)"
    "sink_out (sw_dst w2) = stream_format X key prefix (effective_segment z) (concat ps)"
    using StreamWriter_Close_at [OF w1(2)] by blast
  with w(1) w1(1) show ?thesis by (simp add: encrypt_stream_def)
qed

section \<open>The reader undoes the format\<close>

lemma length_frame [simp]:
  assumes "aead_ok X" and "length key = KeySize" and "length prefix = noncePrefixLen"
  shows "length (frame X key prefix c flag seg) = segHeaderLen + length seg + aead_Overhead"
  using assms
  by (simp add: frame_def Let_def aead_ok_def segment_nonce_def nonceLen_def noncePrefixLen_def
      segHeaderLen_def)

lemma unat_word_of_nat32: "n < 2 ^ 32 \<Longrightarrow> unat (word_of_nat n :: 32 word) = n"
  by (simp add: unsigned_of_nat take_bit_nat_eq_self)

lemma nextSegment_frame:
  assumes ok: "aead_ok X" "length (sr_aead r) = KeySize"
      "length (sr_noncePrefix r) = noncePrefixLen"
    and len: "length seg \<le> sr_maxSegment r" "length seg + aead_Overhead < 2 ^ 32"
    and flag: "flag = flagMore \<or> flag = flagFinal"
    and src: "sr_src r = frame X (sr_aead r) (sr_noncePrefix r) (sr_counter r) flag seg @ rest"
    and fin: "\<not> sr_sawFinal r"
  shows "nextSegment X r = (None, r\<lparr>sr_src := rest, sr_counter := sr_counter r + 1,
    sr_plain := seg, sr_sawFinal := (flag = flagFinal)\<rparr>)"
proof -
  let ?n = "segment_nonce (sr_noncePrefix r) (sr_counter r)"
  let ?ct = "X_seal X (sr_aead r) ?n seg [flag]"
  have seal: "length ?ct = length seg + aead_Overhead"
    "X_open X (sr_aead r) ?n ?ct [flag] = Some seg"
    using ok by (simp_all add: aead_ok_def segment_nonce_def nonceLen_def noncePrefixLen_def)
  have w: "unat (word_of_nat (length ?ct) :: 32 word) = length ?ct"
    by (rule unat_word_of_nat32) (use len(2) seal(1) in simp)
  show ?thesis
    using src fin flag len w seal
    by (auto simp: nextSegment_def ReadFull_def frame_def Let_def segHeaderLen_def nth_append
        flagMore_def flagFinal_def)
qed

lemma ReadAll_step:
  assumes "sr_plain r = []" "sr_err r = None" "nextSegment X r = (None, r1)"
  shows "ReadAll X n r = ReadAll X n r1"
  using assms by (simp add: ReadAll.simps [of X n r] ReadAll.simps [of X n r1]
      StreamReader_Read.simps [of X "Suc n" r])

lemma ReadAll_stop:
  assumes "sr_plain r = []" "sr_err r = None" "nextSegment X r = (Some e, r1)" "sr_plain r1 = []"
  shows "ReadAll X n r = ([], case e of EOF \<Rightarrow> None | ReadErr x \<Rightarrow> Some x)"
  using assms by (simp add: ReadAll.simps [of X n r] StreamReader_Read.simps [of X "Suc n" r]
      Let_def split: read_err.splits)

lemma ReadAll_plain:
  "ReadAll X n r = (sr_plain r @ fst (ReadAll X n (r\<lparr>sr_plain := []\<rparr>)),
     snd (ReadAll X n (r\<lparr>sr_plain := []\<rparr>)))"
proof (induction "length (sr_plain r)" arbitrary: r rule: less_induct)
  case less
  show ?case
  proof (cases "sr_plain r = []")
    case True
    then have eq: "r\<lparr>sr_plain := []\<rparr> = r" by (cases r) simp
    show ?thesis by (simp only: eq True append_Nil prod.collapse)
  next
    case False
    then have rd: "StreamReader_Read X (Suc n) r =
        (take (Suc n) (sr_plain r), None, r\<lparr>sr_plain := drop (Suc n) (sr_plain r)\<rparr>)"
      by (simp add: StreamReader_Read.simps [of X "Suc n" r])
    have "ReadAll X n (r\<lparr>sr_plain := drop (Suc n) (sr_plain r)\<rparr>) =
        (drop (Suc n) (sr_plain r) @ fst (ReadAll X n (r\<lparr>sr_plain := []\<rparr>)),
         snd (ReadAll X n (r\<lparr>sr_plain := []\<rparr>)))"
      using less [of "r\<lparr>sr_plain := drop (Suc n) (sr_plain r)\<rparr>"] False by simp
    with rd show ?thesis
      by (simp add: ReadAll.simps [of X n r] append_assoc [symmetric] del: append_assoc)
  qed
qed

text \<open>
  \<open>reader_at\<close>: a reader that has consumed everything before the segment with its counter.
\<close>

definition reader_at :: "ext \<Rightarrow> byte list \<Rightarrow> byte list \<Rightarrow> StreamReader \<Rightarrow> bool" where
  "reader_at X key prefix r \<longleftrightarrow>
     aead_ok X \<and> length key = KeySize \<and> length prefix = noncePrefixLen \<and>
     sr_aead r = key \<and> sr_noncePrefix r = prefix \<and> sr_plain r = [] \<and> sr_err r = None \<and>
     \<not> sr_sawFinal r"

definition segs_fit :: "nat \<Rightarrow> byte list list \<Rightarrow> bool" where
  "segs_fit m ss \<longleftrightarrow> (\<forall>s \<in> set ss. length s \<le> m \<and> length s + aead_Overhead < 2 ^ 32)"

lemma stream_body_Cons:
  "ss \<noteq> [] \<Longrightarrow> stream_body X key prefix c (p # ss) =
     frame X key prefix c flagMore p @ stream_body X key prefix (c + 1) ss"
  by (cases ss rule: rev_cases) (simp_all add: stream_body_def algebra_simps)

lemma stream_body_single: "stream_body X key prefix c [p] = frame X key prefix c flagFinal p"
  by (simp add: stream_body_def)

lemma ReadAll_body:
  assumes "reader_at X key prefix r" "segs_fit (sr_maxSegment r) ss" "ss \<noteq> []"
    and "sr_src r = stream_body X key prefix (sr_counter r) ss @ rest"
  shows "ReadAll X n r = (concat ss, None)"
  using assms
proof (induction ss arbitrary: r)
  case (Cons p ss)
  let ?flag = "if ss = [] then flagFinal else flagMore"
  let ?rest = "if ss = [] then rest else stream_body X key prefix (sr_counter r + 1) ss @ rest"
  let ?r1 = "r\<lparr>sr_src := ?rest, sr_counter := sr_counter r + 1, sr_plain := p,
    sr_sawFinal := (?flag = flagFinal)\<rparr>"
  have src: "sr_src r = frame X (sr_aead r) (sr_noncePrefix r) (sr_counter r) ?flag p @ ?rest"
    using Cons.prems by (simp add: reader_at_def stream_body_single stream_body_Cons)
  have next1: "nextSegment X r = (None, ?r1)"
    by (rule nextSegment_frame [OF _ _ _ _ _ _ src])
      (use Cons.prems in \<open>auto simp: reader_at_def segs_fit_def\<close>)
  have "ReadAll X n r = ReadAll X n ?r1"
    by (rule ReadAll_step [OF _ _ next1]) (use Cons.prems in \<open>simp_all add: reader_at_def\<close>)
  also have "\<dots> = (p @ fst (ReadAll X n (?r1\<lparr>sr_plain := []\<rparr>)),
      snd (ReadAll X n (?r1\<lparr>sr_plain := []\<rparr>)))"
    by (subst ReadAll_plain) simp
  finally have split: "ReadAll X n r = (p @ fst (ReadAll X n (?r1\<lparr>sr_plain := []\<rparr>)),
      snd (ReadAll X n (?r1\<lparr>sr_plain := []\<rparr>)))" .
  show ?case
  proof (cases "ss = []")
    case True
    let ?r2 = "?r1\<lparr>sr_plain := []\<rparr>"
    have "ReadAll X n ?r2 = ([], None)"
      using Cons.prems True ReadAll_stop [of ?r2 X EOF ?r2 n]
      by (simp add: nextSegment_def reader_at_def)
    with split True show ?thesis by simp
  next
    case False
    have "ReadAll X n (?r1\<lparr>sr_plain := []\<rparr>) = (concat ss, None)"
      by (rule Cons.IH) (use Cons.prems False in
          \<open>auto simp: reader_at_def segs_fit_def flagMore_def flagFinal_def\<close>)
    with split show ?thesis by simp
  qed
qed simp

lemma segs_fit_segs:
  "0 < s \<Longrightarrow> s \<le> m \<Longrightarrow> s + aead_Overhead < 2 ^ 32 \<Longrightarrow> segs_fit m (segs s p)"
  using segs_bound [of s _ p] by (fastforce simp: segs_fit_def)

lemma NewStreamReader_format:
  assumes "aead_ok X" "length key = KeySize" "length prefix = noncePrefixLen"
  shows "\<exists>r. NewStreamReader (streamMagic @ prefix @ body) key z = Inr r \<and>
    reader_at X key prefix r \<and> sr_src r = body \<and> sr_counter r = 0 \<and>
    sr_maxSegment r = effective_segment z"
  using assms
  by (simp add: NewStreamReader_def newGCM_def ReadFull_def reader_at_def magicLen_def
      streamMagic_def noncePrefixLen_def KeySize_def)

lemma decrypt_stream_format:
  assumes "aead_ok X" "length key = KeySize" "length prefix = noncePrefixLen"
    and "0 < s" "s \<le> effective_segment z" "s + aead_Overhead < 2 ^ 32"
  shows "decrypt_stream X n (stream_format X key prefix s p @ trailing) key z = Inr p"
proof -
  obtain r where r: "NewStreamReader
      (streamMagic @ prefix @ stream_body X key prefix 0 (segs s p) @ trailing) key z = Inr r"
    "reader_at X key prefix r" "sr_src r = stream_body X key prefix 0 (segs s p) @ trailing"
    "sr_counter r = 0" "sr_maxSegment r = effective_segment z"
    using NewStreamReader_format [OF assms(1-3)] by blast
  have "ReadAll X n r = (p, None)"
    using ReadAll_body [OF r(2), of "segs s p"] r assms by (simp add: segs_fit_segs)
  with r(1) show ?thesis by (simp add: decrypt_stream_def stream_format_def)
qed

section \<open>Truncation\<close>

lemma nextSegment_short:
  assumes "length (sr_src r) < segHeaderLen + aead_Overhead + length seg" "\<not> sr_sawFinal r"
    "length seg + aead_Overhead < 2 ^ 32" "aead_ok X" "length (sr_aead r) = KeySize"
      "length (sr_noncePrefix r) = noncePrefixLen"
    and "sr_src r = take (length (sr_src r))
      (frame X (sr_aead r) (sr_noncePrefix r) (sr_counter r) flag seg)"
  shows "\<exists>r1. nextSegment X r = (Some (ReadErr ErrCiphertextCorrupt), r1) \<and> sr_plain r1 = sr_plain r"
proof (cases "length (sr_src r) < segHeaderLen")
  case True
  with assms(2) show ?thesis by (simp add: nextSegment_def ReadFull_def)
next
  case False
  let ?n = "segment_nonce (sr_noncePrefix r) (sr_counter r)"
  let ?ct = "X_seal X (sr_aead r) ?n seg [flag]"
  have seal: "length ?ct = length seg + aead_Overhead"
    using assms by (simp add: aead_ok_def segment_nonce_def nonceLen_def noncePrefixLen_def)
  have w: "unat (word_of_nat (length ?ct) :: 32 word) = length ?ct"
    by (rule unat_word_of_nat32) (use assms(3) seal in simp)
  define k where "k = length (sr_src r)"
  have k: "5 \<le> k" "k < 5 + length ?ct"
    using False assms(1) seal by (simp_all add: k_def segHeaderLen_def)
  have src: "sr_src r = PutUint32 (word_of_nat (length ?ct)) @ [flag] @ take (k - 5) ?ct"
  proof -
    let ?h = "PutUint32 (word_of_nat (length ?ct)) @ [flag]"
    have "sr_src r = take k (?h @ ?ct)"
      using assms(7) by (simp add: frame_def Let_def k_def)
    also have "\<dots> = ?h @ take (k - 5) ?ct"
      using k(1) by (subst take_append) simp
    finally show ?thesis by simp
  qed
  define ct where "ct = ?ct"
  have "k - 5 < length ct" using k by (simp add: ct_def)
  then show ?thesis
    unfolding nextSegment_def src ct_def [symmetric]
    using assms(2) w [folded ct_def]
    by (auto simp: ReadFull_def segHeaderLen_def Let_def nth_append)
qed

text \<open>A strict prefix of a stream body ends in an error, wherever it is cut.\<close>

lemma ReadAll_truncated:
  assumes "reader_at X key prefix r" "segs_fit (sr_maxSegment r) ss" "ss \<noteq> []"
    and "sr_src r = take k (stream_body X key prefix (sr_counter r) ss)"
    and "k < length (stream_body X key prefix (sr_counter r) ss)"
  shows "snd (ReadAll X n r) = Some ErrCiphertextCorrupt"
  using assms
proof (induction ss arbitrary: r k)
  case (Cons p ss)
  let ?flag = "if ss = [] then flagFinal else flagMore"
  let ?rest = "if ss = [] then [] else stream_body X key prefix (sr_counter r + 1) ss"
  let ?f = "frame X key prefix (sr_counter r) ?flag p"
  have body: "stream_body X key prefix (sr_counter r) (p # ss) = ?f @ ?rest"
    by (simp add: stream_body_single stream_body_Cons)
  have ok: "aead_ok X" "length key = KeySize" "length prefix = noncePrefixLen" "sr_aead r = key"
      "sr_noncePrefix r = prefix" "sr_plain r = []" "sr_err r = None" "\<not> sr_sawFinal r"
    using Cons.prems by (simp_all add: reader_at_def)
  have fit: "length p \<le> sr_maxSegment r" "length p + aead_Overhead < 2 ^ 32"
    using Cons.prems by (simp_all add: segs_fit_def)
  show ?case
  proof (cases "k < length ?f")
    case True
    then have "sr_src r = take (length (sr_src r)) ?f" "length (sr_src r) < length ?f"
      using Cons.prems(4) by (simp_all add: body del: length_frame)
    then obtain r1 where "nextSegment X r = (Some (ReadErr ErrCiphertextCorrupt), r1)"
      "sr_plain r1 = []"
      using nextSegment_short [of r p X ?flag] ok fit by auto
    then show ?thesis using ReadAll_stop [of r X _ r1 n] ok by auto
  next
    case False
    then have ss: "ss \<noteq> []" using Cons.prems(5) body by auto
    let ?k = "k - length ?f"
    let ?r1 = "r\<lparr>sr_src := take ?k ?rest, sr_counter := sr_counter r + 1, sr_plain := p,
      sr_sawFinal := (?flag = flagFinal)\<rparr>"
    have src: "sr_src r = frame X (sr_aead r) (sr_noncePrefix r) (sr_counter r) ?flag p
        @ take ?k ?rest"
      using Cons.prems(4) False ok by (simp add: body del: length_frame)
    have "nextSegment X r = (None, ?r1)"
      by (rule nextSegment_frame [OF _ _ _ _ _ _ src]) (use ok fit in auto)
    then have "ReadAll X n r = ReadAll X n ?r1"
      by (rule ReadAll_step [rotated 2]) (use ok in simp_all)
    moreover have "snd (ReadAll X n (?r1\<lparr>sr_plain := []\<rparr>)) = Some ErrCiphertextCorrupt"
      by (rule Cons.IH [of _ ?k]) (use Cons.prems ok ss False body in
          \<open>auto simp: reader_at_def segs_fit_def flagMore_def flagFinal_def simp del: length_frame\<close>)
    ultimately show ?thesis using ReadAll_plain [of X n ?r1] by simp
  qed
qed simp

lemma decrypt_stream_truncated:
  assumes "aead_ok X" "length key = KeySize" "length prefix = noncePrefixLen"
    and "0 < s" "s \<le> effective_segment z" "s + aead_Overhead < 2 ^ 32"
    and "k < length (stream_format X key prefix s p)"
  shows "decrypt_stream X n (take k (stream_format X key prefix s p)) key z
    = Inl ErrCiphertextCorrupt"
proof (cases "k < magicLen + noncePrefixLen")
  case True
  have "length (take k (stream_format X key prefix s p)) = k" using assms(7) by simp
  then show ?thesis
    using True assms(2)
    by (auto simp: decrypt_stream_def NewStreamReader_def newGCM_def ReadFull_def)
next
  case False
  let ?b = "stream_body X key prefix 0 (segs s p)"
  have h: "length (streamMagic @ prefix) = magicLen + noncePrefixLen"
    using assms(3) by (simp add: streamMagic_def magicLen_def)
  let ?k = "k - (magicLen + noncePrefixLen)"
  have cut: "take k (stream_format X key prefix s p) = streamMagic @ prefix @ take ?k ?b"
    using False h take_append [of k "streamMagic @ prefix" ?b] by (simp add: stream_format_def)
  obtain r where r: "NewStreamReader (streamMagic @ prefix @ take ?k ?b) key z = Inr r"
    "reader_at X key prefix r" "sr_src r = take ?k ?b" "sr_counter r = 0"
    "sr_maxSegment r = effective_segment z"
    using NewStreamReader_format [OF assms(1-3)] by blast
  have "?k < length ?b" using assms(7) False h by (simp add: stream_format_def)
  then have "snd (ReadAll X n r) = Some ErrCiphertextCorrupt"
    by (intro ReadAll_truncated [OF r(2), of "segs s p" ?k])
      (use r assms in \<open>simp_all add: segs_fit_segs\<close>)
  with r(1) show ?thesis by (auto simp: decrypt_stream_def cut split: prod.splits)
qed

section \<open>Acceptance\<close>

text \<open>
  \<open>Open\<close> succeeds only on what \<open>Seal\<close> returns for the plaintext it delivers: GCM is
  deterministic, and the tag is compared against the recomputed one.
\<close>

definition aead_strict :: "ext \<Rightarrow> bool" where
  "aead_strict X \<longleftrightarrow>
     (\<forall>k n c a p. length k = KeySize \<longrightarrow> length n = nonceLen \<longrightarrow>
        X_open X k n c a = Some p \<longrightarrow> c = X_seal X k n p a)"

lemma PutUint32_Uint32: "length bs = 4 \<Longrightarrow> PutUint32 (Uint32 bs) = bs"
proof -
  assume "length bs = 4"
  then obtain a b c d where bs: "bs = [a, b, c, d]"
    by (auto simp: length_Suc_conv numeral_eq_Suc)
  have high: "\<not> bit (x :: byte) n" if "8 \<le> n" for x n
    using bit_imp_le_length [of x n] that by auto
  show ?thesis
    unfolding bs Uint32_def PutUint32_def
    by (auto simp: bit_eq_iff bit_simps high)
qed

lemma nextSegment_accepts:
  assumes "nextSegment X r = (None, r')" "aead_strict X"
    "length (sr_aead r) = KeySize" "length (sr_noncePrefix r) = noncePrefixLen"
  shows "\<exists>flag. (flag = flagMore \<or> flag = flagFinal) \<and>
    sr_src r = frame X (sr_aead r) (sr_noncePrefix r) (sr_counter r) flag (sr_plain r') @ sr_src r' \<and>
    r' = r\<lparr>sr_src := sr_src r', sr_plain := sr_plain r', sr_counter := sr_counter r + 1,
      sr_sawFinal := (flag = flagFinal)\<rparr>"
proof -
  define hdr where "hdr = take 5 (sr_src r)"
  define ct where "ct = take (unat (Uint32 (take 4 hdr))) (drop 5 (sr_src r))"
  let ?n = "segment_nonce (sr_noncePrefix r) (sr_counter r)"
  have fin: "\<not> sr_sawFinal r" and flag: "hdr ! 4 = flagMore \<or> hdr ! 4 = flagFinal"
    and len: "5 \<le> length (sr_src r)" "length ct = unat (Uint32 (take 4 hdr))"
    and opn: "X_open X (sr_aead r) ?n ct [hdr ! 4] = Some (sr_plain r')"
    and r': "r' = r\<lparr>sr_src := drop (length ct) (drop 5 (sr_src r)), sr_plain := sr_plain r',
      sr_counter := sr_counter r + 1, sr_sawFinal := (hdr ! 4 = flagFinal)\<rparr>"
    using assms(1)
    by (auto simp: nextSegment_def ReadFull_def Let_def segHeaderLen_def hdr_def ct_def
        split: if_splits option.splits)
  have ct: "ct = X_seal X (sr_aead r) ?n (sr_plain r') [hdr ! 4]"
    using opn assms(2-4)
    by (simp add: aead_strict_def segment_nonce_def nonceLen_def noncePrefixLen_def)
  have h4: "length (take 4 hdr) = 4" "hdr = take 4 hdr @ [hdr ! 4]"
    using len(1) by (simp_all add: hdr_def take_Suc_conv_app_nth [of 4, symmetric])
  have "PutUint32 (word_of_nat (length ct)) = take 4 hdr"
    using PutUint32_Uint32 [OF h4(1)] len(2) by simp
  then have "frame X (sr_aead r) (sr_noncePrefix r) (sr_counter r) (hdr ! 4) (sr_plain r') = hdr @ ct"
    using h4(2) by (simp add: frame_def Let_def flip: ct)
  moreover have "ct @ drop (length ct) (drop 5 (sr_src r)) = drop 5 (sr_src r)"
    by (simp only: len(2)) (simp only: ct_def append_take_drop_id)
  then have "sr_src r = hdr @ ct @ drop (length ct) (drop 5 (sr_src r))"
    by (simp only: hdr_def append_take_drop_id)
  moreover have "sr_src r' = drop (length ct) (drop 5 (sr_src r))"
    by (subst r') simp
  ultimately show ?thesis using flag r' by (intro exI [of _ "hdr ! 4"]) auto
qed

lemma nextSegment_err_plain: "nextSegment X r = (Some e, r1) \<Longrightarrow> sr_plain r1 = sr_plain r"
  by (auto simp: nextSegment_def Let_def split: if_splits option.splits)

lemma nextSegment_EOF: "nextSegment X r = (Some EOF, r1) \<Longrightarrow> sr_sawFinal r"
  by (auto simp: nextSegment_def Let_def split: if_splits option.splits)

lemma ReadAll_final:
  "sr_sawFinal r \<Longrightarrow> sr_plain r = [] \<Longrightarrow> sr_err r = None \<Longrightarrow> ReadAll X n r = ([], None)"
  using ReadAll_stop [of r X EOF r n] by (simp add: nextSegment_def)

lemma ReadAll_accepts:
  assumes "reader_at X key prefix r" "aead_strict X" "ReadAll X n r = (bs, None)"
  shows "\<exists>ss rest. ss \<noteq> [] \<and> concat ss = bs \<and>
    sr_src r = stream_body X key prefix (sr_counter r) ss @ rest"
  using assms
proof (induction "length (sr_src r)" arbitrary: r bs rule: less_induct)
  case less
  have ok: "length (sr_aead r) = KeySize" "length (sr_noncePrefix r) = noncePrefixLen"
      "sr_aead r = key" "sr_noncePrefix r = prefix" "sr_plain r = []" "sr_err r = None"
      "\<not> sr_sawFinal r"
    using less.prems by (simp_all add: reader_at_def)
  obtain e r1 where next1: "nextSegment X r = (e, r1)" by fastforce
  have "e = None"
  proof (rule ccontr)
    assume "e \<noteq> None"
    then obtain e' where e: "e = Some e'" by auto
    then have "ReadAll X n r = ([], case e' of EOF \<Rightarrow> None | ReadErr x \<Rightarrow> Some x)"
      using next1 ok ReadAll_stop [of r X e' r1 n] nextSegment_err_plain [of X r e' r1] by simp
    with less.prems(3) e next1 ok show False
      using nextSegment_EOF [of X r r1] by (auto split: read_err.splits)
  qed
  with next1 obtain flag where flag: "flag = flagMore \<or> flag = flagFinal"
    "sr_src r = frame X key prefix (sr_counter r) flag (sr_plain r1) @ sr_src r1"
    "r1 = r\<lparr>sr_src := sr_src r1, sr_plain := sr_plain r1, sr_counter := sr_counter r + 1,
      sr_sawFinal := (flag = flagFinal)\<rparr>"
    using nextSegment_accepts [of X r r1] less.prems(2) ok by auto
  let ?p = "sr_plain r1" and ?r2 = "r1\<lparr>sr_plain := []\<rparr>"
  have split: "ReadAll X n r = (?p @ fst (ReadAll X n ?r2), snd (ReadAll X n ?r2))"
    using ReadAll_step [of r X r1 n] ReadAll_plain [of X n r1] next1 \<open>e = None\<close> ok by simp
  show ?case
  proof (cases "flag = flagFinal")
    case True
    have "ReadAll X n ?r2 = ([], None)"
      by (rule ReadAll_final) (subst flag(3), simp add: True ok)+
    with split less.prems(3) flag(2) True show ?thesis
      by (intro exI [of _ "[?p]"] exI [of _ "sr_src r1"]) (simp add: stream_body_single)
  next
    case False
    have at2: "reader_at X key prefix ?r2"
      using less.prems(1) by (subst flag(3)) (simp add: reader_at_def False)
    have shorter: "length (sr_src ?r2) < length (sr_src r)"
      using nextSegment_src(2) [OF next1 \<open>e = None\<close>] by simp
    have run2: "ReadAll X n ?r2 = (fst (ReadAll X n ?r2), None)"
      using split less.prems(3) by (auto simp: prod_eq_iff)
    have cnt: "sr_counter ?r2 = sr_counter r + 1" by (subst flag(3)) simp
    obtain ss rest where ss: "ss \<noteq> []" "concat ss = fst (ReadAll X n ?r2)"
      "sr_src ?r2 = stream_body X key prefix (sr_counter ?r2) ss @ rest"
      using less.hyps [OF shorter at2 less.prems(2) run2] by blast
    with split less.prems(3) flag(1,2) False cnt show ?thesis
      by (intro exI [of _ "?p # ss"] exI [of _ rest]) (simp add: stream_body_Cons)
  qed
qed

lemma decrypt_stream_accepts:
  assumes "aead_ok X" "aead_strict X" "decrypt_stream X n src key z = Inr p"
  shows "\<exists>prefix ss trailing. length prefix = noncePrefixLen \<and> ss \<noteq> [] \<and> p = concat ss \<and>
    src = streamMagic @ prefix @ stream_body X key prefix 0 ss @ trailing"
proof -
  obtain r where r: "NewStreamReader src key z = Inr r" "ReadAll X n r = (p, None)"
    using assms(3) by (auto simp: decrypt_stream_def split: sum.splits prod.splits option.splits)
  let ?prefix = "sr_noncePrefix r"
  have at: "reader_at X key ?prefix r" "sr_counter r = 0"
    and parts: "streamMagic = take magicLen src"
      "?prefix = take noncePrefixLen (drop magicLen src)"
      "sr_src r = drop noncePrefixLen (drop magicLen src)"
    using r(1) assms(1)
    by (auto simp: NewStreamReader_def newGCM_def ReadFull_def reader_at_def
        split: if_splits option.splits)
  have src: "src = streamMagic @ ?prefix @ sr_src r"
    unfolding parts by (simp only: append_take_drop_id)
  obtain ss rest where ss: "ss \<noteq> []" "concat ss = p"
    "sr_src r = stream_body X key ?prefix (sr_counter r) ss @ rest"
    using ReadAll_accepts [OF at(1) assms(2) r(2)] by blast
  then show ?thesis
    using src at by (intro exI [of _ ?prefix] exI [of _ ss] exI [of _ rest])
      (auto simp: reader_at_def)
qed

section \<open>Size\<close>

lemma length_segs:
  "0 < s \<Longrightarrow> length (segs s p) = (if length p = 0 then 1 else (length p + s - 1) div s)"
proof (induction s p rule: segs.induct)
  case (1 s p)
  show ?case
  proof (cases "length p \<le> s")
    case True
    then show ?thesis using "1.prems"
      by (cases "length p") (simp_all add: segs_short div_add_self2)
  next
    case False
    then obtain d where d: "length p = s + d" "0 < d" by (metis less_imp_add_positive not_le)
    have "length (segs s p) = Suc (length (segs s (drop s p)))"
      using False "1.prems" by (subst segs.simps) simp
    also have "\<dots> = Suc ((d + s - 1) div s)"
      using 1 False d by simp
    also have "\<dots> = (s + (d + s - 1)) div s"
      using "1.prems" by (simp only: div_add_self1)
    also have "s + (d + s - 1) = length p + s - 1" using d by simp
    finally show ?thesis using d by simp
  qed
qed

lemma length_more_frames:
  assumes "aead_ok X" "length key = KeySize" "length prefix = noncePrefixLen"
  shows "length (more_frames X key prefix c ss) =
    length ss * (segHeaderLen + aead_Overhead) + length (concat ss)"
  using assms by (induction ss arbitrary: c) (simp_all add: algebra_simps)

lemma length_stream_format:
  assumes "aead_ok X" "length key = KeySize" "length prefix = noncePrefixLen"
  shows "length (stream_format X key prefix s p) =
    magicLen + noncePrefixLen + length (segs s p) * (segHeaderLen + aead_Overhead) + length p"
proof -
  have split: "segs s p = butlast (segs s p) @ [last (segs s p)]" by simp
  have "length p = length (concat (butlast (segs s p))) + length (last (segs s p))"
    by (subst concat_segs [of s p, symmetric], subst split) (simp only: concat_append length_append
        concat.simps append_Nil2)
  moreover have "length (segs s p) = Suc (length (butlast (segs s p)))"
    by (subst split) (simp only: length_append_singleton)
  ultimately show ?thesis
    using assms
    by (simp add: stream_format_def stream_body_def length_more_frames magicLen_def streamMagic_def
        algebra_simps del: length_butlast)
qed

lemma ceil_div:
  fixes s :: nat
  assumes "0 < s" "0 < l"
  shows "(l + s - 1) div s = (if 0 < l mod s \<or> l div s = 0 then l div s + 1 else l div s)"
proof (cases "l mod s")
  case 0
  then obtain q where q: "l = q * s" by (metis mod_0_imp_dvd dvd_def mult.commute)
  then have "q > 0" using assms by (cases q) auto
  have "l + s - 1 = (s - 1) + q * s" using q assms by simp
  then have "(l + s - 1) div s = q"
    using assms by (simp only: div_mult_self1) simp
  then show ?thesis using 0 q assms \<open>q > 0\<close> by simp
next
  case (Suc r)
  then have "l + s - 1 = (r + s) + (l div s) * s"
    using div_mult_mod_eq [of l s] by linarith
  moreover have "r < s" using Suc assms(1) by (metis Suc_lessD mod_less_divisor)
  ultimately show ?thesis using Suc assms by (simp add: div_add_self2)
qed

lemma EncryptedSize_wraps:
  assumes "aead_ok X" "length key = KeySize" "length prefix = noncePrefixLen"
  shows "EncryptedSize (int (length p)) z =
    int64_wrap (int (length (stream_format X key prefix (effective_segment z) p)))"
proof -
  let ?s = "effective_segment z" and ?l = "length p"
  have s: "0 < ?s" "(if z \<le> 0 then DefaultSegmentSize else z) = int ?s"
    by (auto simp: effective_segment_def DefaultSegmentSize_def)
  define k where "k = length (segs ?s p)"
  have k: "k = (if 0 < ?l mod ?s \<or> ?l div ?s = 0 then ?l div ?s + 1 else ?l div ?s)"
    using ceil_div [OF s(1), of ?l] s(1) by (cases "?l = 0") (simp_all add: k_def length_segs)
  have segs: "(if 0 < int ?l smod int ?s \<or> int ?l sdiv int ?s = 0 then int ?l sdiv int ?s + 1
      else int ?l sdiv int ?s) = int k"
    by (simp add: k flip: zdiv_int zmod_int)
  have "EncryptedSize (int ?l) z = int64_wrap (int (magicLen + noncePrefixLen) +
      int k * int segHeaderLen + int k * 16 + int ?l)"
    unfolding EncryptedSize_def s(2) Let_def segs by simp
  also have "int (magicLen + noncePrefixLen) + int k * int segHeaderLen + int k * 16 + int ?l =
      int (length (stream_format X key prefix ?s p))"
    by (simp add: length_stream_format [OF assms(1-3)] k_def aead_Overhead_def algebra_simps)
  finally show ?thesis .
qed

lemma EncryptedSize_length:
  assumes "aead_ok X" "length key = KeySize" "length prefix = noncePrefixLen"
    and "int64_ok (int (length (stream_format X key prefix (effective_segment z) p)))"
  shows "EncryptedSize (int (length p)) z =
    int (length (stream_format X key prefix (effective_segment z) p))"
  using EncryptedSize_wraps [OF assms(1-3), of p z] assms(4) by simp

text \<open>
  A stream whose length is the announced one has the announced plaintext size: no two sizes of
  an \<open>int64\<close> give the same length, and a sum out of range wraps to a negative one.
\<close>

lemma length_segs_mono: "0 < s \<Longrightarrow> length p \<le> length q \<Longrightarrow> length (segs s p) \<le> length (segs s q)"
  by (auto simp: length_segs Suc_le_eq div_greater_zero_iff intro!: div_le_mono)
    (metis Nat.add_diff_assoc2 Suc_leI le_add2 length_greater_0_conv)

lemma int64_wrap_upper:
  assumes "0 \<le> x" "x < 2 ^ 64"
  shows "int64_wrap x < 0 \<or> int64_wrap x = x"
proof (cases "x < 2 ^ 63")
  case False
  have "(x + 2 ^ 63) mod 2 ^ 64 = (x - 2 ^ 63) mod (2 ^ 64 :: int)"
    using mod_add_self2 [of "x - 2 ^ 63" "2 ^ 64 :: int"] by (simp add: add.commute)
  also have "\<dots> = x - 2 ^ 63" using False assms by simp
  finally show ?thesis using assms by (simp add: int64_wrap_def)
qed (use assms in \<open>simp add: int64_ok_def\<close>)

lemma stream_format_length_less:
  assumes "aead_ok X" "length key = KeySize" "length prefix = noncePrefixLen"
    "length key' = KeySize" "length prefix' = noncePrefixLen" "0 < s" "length p < length q"
  shows "length (stream_format X key prefix s p) < length (stream_format X key' prefix' s q)"
  using length_segs_mono [OF assms(6), of p q] assms(7)
  by (simp add: length_stream_format [OF assms(1-3)] length_stream_format [OF assms(1,4,5)]
      add_le_less_mono)

lemma EncryptedSize_inj:
  assumes aead: "aead_ok X" "length key = KeySize" "length prefix = noncePrefixLen"
    and n: "0 \<le> n" "n < 2 ^ 63"
    and sz: "EncryptedSize n DefaultSegmentSize =
      int (length (stream_format X key prefix (effective_segment DefaultSegmentSize) p))"
  shows "int (length p) = n"
proof -
  let ?s = "effective_segment DefaultSegmentSize"
  define q :: "byte list" where "q = replicate (nat n) 0"
  have q: "int (length q) = n" using n by (simp add: q_def)
  let ?L = "\<lambda>p. length (stream_format X key prefix ?s p)"
  have s: "?s = 65536" by (simp add: effective_segment_def DefaultSegmentSize_def)
  have "length (segs ?s q) \<le> length q div 65536 + 1"
    by (auto simp: length_segs s)
  then have "int (?L q) < 2 ^ 64"
    using q n by (simp add: length_stream_format [OF aead] magicLen_def noncePrefixLen_def
        segHeaderLen_def aead_Overhead_def)
  then have "int64_wrap (int (?L q)) < 0 \<or> int64_wrap (int (?L q)) = int (?L q)"
    using int64_wrap_upper [of "int (?L q)"] by simp
  then have "?L q = ?L p"
    using sz EncryptedSize_wraps [OF aead, of q DefaultSegmentSize] q by auto
  then have "length p = length q"
    using stream_format_length_less [OF aead aead(2,3), of ?s] s
    by (metis linorder_neqE_nat less_irrefl zero_less_numeral)
  then show ?thesis using q by simp
qed


section \<open>Nonces\<close>

text \<open>The nonces of the first \<open>n\<close> segments of a stream.\<close>

definition stream_nonces :: "byte list \<Rightarrow> nat \<Rightarrow> byte list list" where
  "stream_nonces prefix n = map (\<lambda>i. segment_nonce prefix (word_of_nat i)) [0..<n]"

lemma segment_nonce_inj: "segment_nonce prefix c = segment_nonce prefix c' \<longleftrightarrow> c = c'"
  by (auto simp: segment_nonce_def) (metis Uint32_PutUint32)

lemma stream_nonces_distinct:
  assumes "n \<le> 2 ^ 32"
  shows "distinct (stream_nonces prefix n)"
  unfolding stream_nonces_def distinct_map
proof (intro conjI inj_onI)
  fix i j assume "i \<in> set [0..<n]" "j \<in> set [0..<n]"
    "segment_nonce prefix (word_of_nat i) = segment_nonce prefix (word_of_nat j)"
  with assms show "i = j"
    unfolding segment_nonce_inj
    by (metis atLeastLessThan_iff less_le_trans set_upt unat_word_of_nat32)
qed simp

section \<open>Wrapped keys\<close>

lemma UnwrapKey_WrapKey:
  assumes "aead_ok X" "length kek = KeySize" "length nonce = nonceLen"
  shows "\<exists>wrapped. WrapKey X kek dek nonce = Inr wrapped \<and> UnwrapKey X kek wrapped = Inr dek"
  using assms by (simp add: WrapKey_def UnwrapKey_def newGCM_def aead_ok_def)

lemma UnwrapKey_accepts:
  assumes "aead_strict X" "UnwrapKey X kek wrapped = Inr dek"
  shows "\<exists>nonce. length nonce = nonceLen \<and> WrapKey X kek dek nonce = Inr wrapped"
proof -
  let ?n = "take nonceLen wrapped"
  have "length kek = KeySize" "nonceLen \<le> length wrapped"
    "X_open X kek ?n (drop nonceLen wrapped) [] = Some dek"
    using assms(2) by (auto simp: UnwrapKey_def newGCM_def split: if_splits option.splits)
  moreover from this have "drop nonceLen wrapped = X_seal X kek ?n dek []"
    using assms(1) by (simp add: aead_strict_def)
  ultimately show ?thesis
    by (intro exI [of _ ?n]) (simp add: WrapKey_def newGCM_def, metis append_take_drop_id)
qed

section \<open>Errors\<close>

text \<open>A failed destination write poisons the writer: nothing is ever written after it.\<close>

lemma StreamWriter_sticky:
  assumes "sw_err w = Some e"
  shows "StreamWriter_Write X p w = Some (0, Some e, w)" and "StreamWriter_Close X w = (Some e, w)"
  using assms by (simp_all add: StreamWriter_Write_def StreamWriter_Close_def)

end
