(* ===== verification/Act.thy ===== *)
theory Act
  imports Prelude
begin

text \<open>
  The state-and-error monad of the development and its reasoning rules.

  \<open>('s, 'e, 'a) act\<close> is a computation on a state \<open>'s\<close> that returns a value or an
  error and the new state. \<open>bnd m f\<close> is Go's \<open>x, err := m; if err != nil { return err }; f x\<close>;
  \<open>attempt m\<close> is \<open>x, err := m\<close> with the error kept as a value; \<open>ignore m\<close> is
  \<open>_ = m\<close>. The state survives an error: only a transaction (\<open>WithinTx\<close>, theory
  \<open>World\<close>) undoes effects.
\<close>

type_synonym ('s, 'e, 'a) act = "'s \<Rightarrow> ('e + 'a) \<times> 's"

named_theorems act_simps "execution of monadic programs"
named_theorems keeps_intros "preservation of an invariant by monadic programs"

section \<open>Combinators\<close>

definition ret :: "'a \<Rightarrow> ('s, 'e, 'a) act" where
  "ret x = (\<lambda>s. (Inr x, s))"

definition throw :: "'e \<Rightarrow> ('s, 'e, 'a) act" where
  "throw e = (\<lambda>s. (Inl e, s))"

definition bnd :: "('s, 'e, 'a) act \<Rightarrow> ('a \<Rightarrow> ('s, 'e, 'b) act) \<Rightarrow> ('s, 'e, 'b) act" where
  "bnd m f = (\<lambda>s. case m s of (Inl e, s') \<Rightarrow> (Inl e, s') | (Inr x, s') \<Rightarrow> f x s')"

definition attempt :: "('s, 'e, 'a) act \<Rightarrow> ('s, 'e, 'e + 'a) act" where
  "attempt m = (\<lambda>s. case m s of (r, s') \<Rightarrow> (Inr r, s'))"

definition ignore :: "('s, 'e, 'a) act \<Rightarrow> ('s, 'e, unit) act" where
  "ignore m = (\<lambda>s. (Inr (), snd (m s)))"

definition gets :: "('s \<Rightarrow> 'a) \<Rightarrow> ('s, 'e, 'a) act" where
  "gets g = (\<lambda>s. (Inr (g s), s))"

definition from_sum :: "'e + 'a \<Rightarrow> ('s, 'e, 'a) act" where
  "from_sum r = (\<lambda>s. (r, s))"

text \<open>\<open>defer release()\<close>: run \<open>fin\<close> after \<open>m\<close> whatever its outcome, keeping the outcome.\<close>

definition finally_do :: "('s, 'e, 'a) act \<Rightarrow> ('s \<Rightarrow> 's) \<Rightarrow> ('s, 'e, 'a) act" where
  "finally_do m fin = (\<lambda>s. case m s of (r, s') \<Rightarrow> (r, fin s'))"

text \<open>\<open>for _, x := range xs { ... }\<close> with a body that may return early with an error.\<close>

primrec for_each :: "('x \<Rightarrow> ('s, 'e, unit) act) \<Rightarrow> 'x list \<Rightarrow> ('s, 'e, unit) act" where
  "for_each f [] = ret ()"
| "for_each f (x # xs) = bnd (f x) (\<lambda>_. for_each f xs)"

section \<open>Execution\<close>

lemma ret_run [act_simps]: "ret x s = (Inr x, s)"
  by (simp add: ret_def)

lemma throw_run [act_simps]: "throw e s = (Inl e, s)"
  by (simp add: throw_def)

lemma gets_run [act_simps]: "gets g s = (Inr (g s), s)"
  by (simp add: gets_def)

lemma from_sum_run [act_simps]: "from_sum r s = (r, s)"
  by (simp add: from_sum_def)

lemma bnd_run_Inr: "m s = (Inr x, s') \<Longrightarrow> bnd m f s = f x s'"
  by (simp add: bnd_def)

lemma bnd_run_Inl: "m s = (Inl e, s') \<Longrightarrow> bnd m f s = (Inl e, s')"
  by (simp add: bnd_def)

lemma attempt_run: "m s = (r, s') \<Longrightarrow> attempt m s = (Inr r, s')"
  by (simp add: attempt_def)

lemma attempt_not_Inl [simp]: "attempt m s \<noteq> (Inl e, s')"
  by (auto simp: attempt_def split: prod.splits)

lemma attempt_Inr_iff [act_simps]: "attempt m s = (Inr r, s') \<longleftrightarrow> m s = (r, s')"
  by (auto simp: attempt_def split: prod.splits)

lemma ignore_run [act_simps]: "ignore m s = (r, s') \<longleftrightarrow> r = Inr () \<and> s' = snd (m s)"
  by (auto simp: ignore_def)

lemma snd_ignore [simp]: "snd (ignore m s) = snd (m s)"
  by (simp add: ignore_def)

lemma bnd_ret [simp]: "bnd (ret x) f = f x"
  by (simp add: bnd_def ret_def)

lemma bnd_throw [simp]: "bnd (throw e) f = throw e"
  by (simp add: bnd_def throw_def fun_eq_iff)

text \<open>Inversion: where a sequence succeeded, both parts did.\<close>

lemma bnd_InrE:
  assumes "bnd m f s = (Inr y, s')"
  obtains x s1 where "m s = (Inr x, s1)" and "f x s1 = (Inr y, s')"
  using assms by (auto simp: bnd_def split: prod.splits sum.splits)

lemma bnd_Inr_iff [act_simps]:
  "bnd m f s = (Inr y, s') \<longleftrightarrow> (\<exists>x s1. m s = (Inr x, s1) \<and> f x s1 = (Inr y, s'))"
  by (auto simp: bnd_def split: prod.splits sum.splits)

lemma bnd_InlE:
  assumes "bnd m f s = (Inl e, s')"
  obtains (first) "m s = (Inl e, s')"
  | (second) x s1 where "m s = (Inr x, s1)" and "f x s1 = (Inl e, s')"
  using assms by (auto simp: bnd_def split: prod.splits sum.splits)

lemma bnd_attempt_iff [act_simps]:
  "bnd (attempt m) (case_sum f g) s = (r, s') \<longleftrightarrow>
     (\<exists>e s1. m s = (Inl e, s1) \<and> f e s1 = (r, s')) \<or>
     (\<exists>x s1. m s = (Inr x, s1) \<and> g x s1 = (r, s'))"
  by (auto simp: bnd_def attempt_def split: prod.splits sum.splits)

text \<open>Inversion of a successful run in one go, calls with handled errors included.\<close>

lemmas run_inv = bnd_Inr_iff attempt_Inr_iff split_sum_ex

lemma bnd_case_sum_Inr:
  "bnd m (case_sum f g) s = (Inr y, s') \<longleftrightarrow>
     (\<exists>e s1. m s = (Inr (Inl e), s1) \<and> f e s1 = (Inr y, s')) \<or>
     (\<exists>x s1. m s = (Inr (Inr x), s1) \<and> g x s1 = (Inr y, s'))"
  by (auto simp: bnd_def split: prod.splits sum.splits)

lemma ret_Inr_iff [simp]: "ret x s = (Inr y, s') \<longleftrightarrow> y = x \<and> s' = s"
  by (auto simp: ret_def)

lemma ret_not_Inl [simp]: "ret x s \<noteq> (Inl e, s')"
  by (simp add: ret_def)

lemma throw_not_Inr [simp]: "throw e s \<noteq> (Inr y, s')"
  by (simp add: throw_def)

lemma throw_Inl_iff [simp]: "throw e s = (Inl e', s') \<longleftrightarrow> e' = e \<and> s' = s"
  by (auto simp: throw_def)

lemma from_sum_Inr_iff [simp]: "from_sum r s = (Inr y, s') \<longleftrightarrow> r = Inr y \<and> s' = s"
  by (auto simp: from_sum_def)

section \<open>Invariants\<close>

text \<open>
  \<open>keeps I m\<close>: \<open>m\<close> preserves \<open>I\<close>, on success and on error alike. One rule per
  combinator; a handler's preservation proof is the composition of its calls' rules.
\<close>

definition keeps :: "('s \<Rightarrow> bool) \<Rightarrow> ('s, 'e, 'a) act \<Rightarrow> bool" where
  "keeps I m \<longleftrightarrow> (\<forall>s. I s \<longrightarrow> I (snd (m s)))"

lemma keepsI: "(\<And>s. I s \<Longrightarrow> I (snd (m s))) \<Longrightarrow> keeps I m"
  by (simp add: keeps_def)

lemma keepsD: "keeps I m \<Longrightarrow> I s \<Longrightarrow> I (snd (m s))"
  by (simp add: keeps_def)

lemma keeps_run: "keeps I m \<Longrightarrow> I s \<Longrightarrow> m s = (r, s') \<Longrightarrow> I s'"
  by (metis keepsD snd_conv)

lemma keeps_ret [keeps_intros]: "keeps I (ret x)"
  by (simp add: keeps_def ret_def)

lemma keeps_throw [keeps_intros]: "keeps I (throw e)"
  by (simp add: keeps_def throw_def)

lemma keeps_gets [keeps_intros]: "keeps I (gets g)"
  by (simp add: keeps_def gets_def)

lemma keeps_from_sum [keeps_intros]: "keeps I (from_sum r)"
  by (simp add: keeps_def from_sum_def)

lemma keeps_bnd [keeps_intros]:
  "keeps I m \<Longrightarrow> (\<And>x. keeps I (f x)) \<Longrightarrow> keeps I (bnd m f)"
  by (fastforce simp: keeps_def bnd_def split: prod.splits sum.splits)

text \<open>When what follows relies on what the first step established.\<close>

lemma keeps_bnd_strong:
  assumes "keeps I m" and "\<And>s x s'. I s \<Longrightarrow> m s = (Inr x, s') \<Longrightarrow> J x s'"
    and "\<And>x. keeps (J x) (f x)" and "\<And>x s. J x s \<Longrightarrow> I s"
  shows "keeps I (bnd m f)"
proof (rule keepsI)
  fix s assume "I s"
  obtain r s1 where m: "m s = (r, s1)" by fastforce
  show "I (snd (bnd m f s))"
  proof (cases r)
    case (Inl e)
    then show ?thesis using m \<open>I s\<close> assms(1) by (auto simp: bnd_def dest: keepsD)
  next
    case (Inr x)
    then have "J x (snd (f x s1))" using m \<open>I s\<close> assms(2,3) by (blast intro: keepsD)
    then show ?thesis using m Inr assms(4) by (simp add: bnd_def)
  qed
qed

lemma keeps_bnd_result:
  assumes "keeps I m" and "\<And>s x s'. I s \<Longrightarrow> m s = (Inr x, s') \<Longrightarrow> Q x"
    and "\<And>x. Q x \<Longrightarrow> keeps I (f x)"
  shows "keeps I (bnd m f)"
proof (rule keeps_bnd_strong [where J = "\<lambda>x s. I s \<and> Q x"])
  show "keeps (\<lambda>s. I s \<and> Q x) (f x)" for x using assms(3) by (auto simp: keeps_def)
qed (use assms in \<open>auto dest: keeps_run\<close>)

lemma keeps_attempt [keeps_intros]: "keeps I m \<Longrightarrow> keeps I (attempt m)"
  by (auto simp: keeps_def attempt_def split: prod.splits)

lemma keeps_ignore [keeps_intros]: "keeps I m \<Longrightarrow> keeps I (ignore m)"
  by (simp add: keeps_def)

lemma keeps_finally [keeps_intros]:
  "keeps I m \<Longrightarrow> (\<And>s. I s \<Longrightarrow> I (fin s)) \<Longrightarrow> keeps I (finally_do m fin)"
  by (fastforce simp: keeps_def finally_do_def split: prod.splits)

lemma keeps_for_each [keeps_intros]:
  "(\<And>x. keeps I (f x)) \<Longrightarrow> keeps I (for_each f xs)"
  by (induction xs) (auto intro!: keeps_intros)

lemma keeps_if [keeps_intros]:
  "(b \<Longrightarrow> keeps I m) \<Longrightarrow> (\<not> b \<Longrightarrow> keeps I m') \<Longrightarrow> keeps I (if b then m else m')"
  by simp

lemma keeps_case_option [keeps_intros]:
  "(x = None \<Longrightarrow> keeps I m) \<Longrightarrow> (\<And>y. x = Some y \<Longrightarrow> keeps I (f y)) \<Longrightarrow>
    keeps I (case x of None \<Rightarrow> m | Some y \<Rightarrow> f y)"
  by (cases x) auto

lemma keeps_case_sum [keeps_intros]:
  "(\<And>e. x = Inl e \<Longrightarrow> keeps I (f e)) \<Longrightarrow> (\<And>y. x = Inr y \<Longrightarrow> keeps I (g y)) \<Longrightarrow>
    keeps I (case x of Inl e \<Rightarrow> f e | Inr y \<Rightarrow> g y)"
  by (cases x) auto

lemma keeps_case_prod [keeps_intros]:
  "(\<And>a b. x = (a, b) \<Longrightarrow> keeps I (f a b)) \<Longrightarrow> keeps I (case x of (a, b) \<Rightarrow> f a b)"
  by (cases x) auto

lemma keeps_Let [keeps_intros]: "(\<And>x. x = t \<Longrightarrow> keeps I (f x)) \<Longrightarrow> keeps I (let x = t in f x)"
  by simp

end
