(* ===== verification/Database.thy ===== *)
theory Database
  imports Act Entity
begin

text \<open>
  The PostgreSQL schema of \<open>migrations/\<close> and the way \<open>internal/repository/postgres/db.go\<close>
  runs statements against it.

  A database state is one list of rows per table. A statement maps a state to an outcome and
  a new state; the schema's constraints (CHECK, UNIQUE, FOREIGN KEY, column ranges) are tested
  on the state the statement would produce, and a violated constraint makes the statement fail
  with its SQLSTATE and no effect. Statements and transactions are atomic.
\<close>

section \<open>Tables\<close>

record db =
  users :: "User list"
  sessions :: "Session list"
  storage_quotas :: "Quota list"
  folders :: "Folder list"
  blobs :: "Blob list"
  files :: "File list"
  file_versions :: "Version list"
  upload_sessions :: "UploadSession list"
  upload_chunks :: "Chunk list"
  shares :: "Share list"
  audit_logs :: "AuditEntry list"

definition empty_db :: db where
  "empty_db = \<lparr>users = [], sessions = [], storage_quotas = [], folders = [], blobs = [],
     files = [], file_versions = [], upload_sessions = [], upload_chunks = [], shares = [],
     audit_logs = []\<rparr>"

section \<open>Constraints (migrations/*.up.sql)\<close>

text \<open>\<open>length(text)\<close> counts characters: the bytes that do not continue a UTF-8 sequence.\<close>

definition text_length :: "string \<Rightarrow> nat" where
  "text_length s = length (filter (\<lambda>c. of_char c div 64 \<noteq> (2::nat)) s)"

definition name_ok :: "string \<Rightarrow> bool" where
  "name_ok s \<longleftrightarrow> 1 \<le> text_length s \<and> text_length s \<le> 255"

definition bigint :: "int \<Rightarrow> bool" where
  "bigint x \<longleftrightarrow> int64_ok x"

definition integer4 :: "int \<Rightarrow> bool" where
  "integer4 x \<longleftrightarrow> - (2 ^ 31) \<le> x \<and> x < 2 ^ 31"

definition column_ranges :: "db \<Rightarrow> bool" where
  "column_ranges d \<longleftrightarrow>
     list_all (\<lambda>q. bigint (Quota_QuotaBytes q) \<and> bigint (Quota_UsedBytes q)) (storage_quotas d) \<and>
     list_all (\<lambda>b. bigint (Blob_SizeBytes b) \<and> integer4 (Blob_RefCount b)) (blobs d) \<and>
     list_all (\<lambda>v. bigint (Version_SizeBytes v) \<and> integer4 (Version_VersionNumber v))
       (file_versions d) \<and>
     list_all (\<lambda>u. bigint (Upload_SizeBytes u) \<and> bigint (Upload_ChunkSize u)
       \<and> integer4 (Upload_TotalChunks u)) (upload_sessions d) \<and>
     list_all (\<lambda>c. integer4 (Chunk_Index c) \<and> bigint (Chunk_SizeBytes c)) (upload_chunks d)"

definition check_constraints :: "db \<Rightarrow> bool" where
  "check_constraints d \<longleftrightarrow>
     list_all (\<lambda>u. User_Role u = RoleUser \<or> User_Role u = RoleAdmin) (users d) \<and>
     list_all (\<lambda>q. 0 \<le> Quota_QuotaBytes q \<and> 0 \<le> Quota_UsedBytes q) (storage_quotas d) \<and>
     list_all (\<lambda>f. name_ok (Folder_Name f)) (folders d) \<and>
     list_all (\<lambda>b. length (Blob_ChecksumSHA256 b) = 32 \<and> 0 \<le> Blob_SizeBytes b
       \<and> 0 \<le> Blob_RefCount b) (blobs d) \<and>
     list_all (\<lambda>f. name_ok (File_Name f)) (files d) \<and>
     list_all (\<lambda>v. 0 < Version_VersionNumber v \<and> 0 \<le> Version_SizeBytes v) (file_versions d) \<and>
     list_all (\<lambda>u. name_ok (Upload_Name u) \<and> 0 < Upload_SizeBytes u
       \<and> length (Upload_ChecksumSHA256 u) = 32 \<and> 0 < Upload_ChunkSize u
       \<and> 0 < Upload_TotalChunks u) (upload_sessions d) \<and>
     list_all (\<lambda>c. 0 \<le> Chunk_Index c \<and> 0 < Chunk_SizeBytes c
       \<and> length (Chunk_ChecksumSHA256 c) = 32) (upload_chunks d) \<and>
     list_all (\<lambda>s. Permission_Valid (Share_Permission s)
       \<and> (Share_GranteeID s = None) \<noteq> (Share_TokenHash s = None)) (shares d)"

text \<open>\<open>citext\<close> compares without case; ASCII letters are folded.\<close>

definition to_lower :: "char \<Rightarrow> char" where
  "to_lower c = (if 65 \<le> (of_char c :: nat) \<and> (of_char c :: nat) \<le> 90
     then char_of ((of_char c :: nat) + 32) else c)"

definition lower :: "string \<Rightarrow> string" where
  "lower s = map to_lower s"

text \<open>\<open>COALESCE(parent, '00000000-...')\<close> in the sibling-name indexes.\<close>

definition coalesce_nil :: "uuid option \<Rightarrow> uuid" where
  "coalesce_nil p = (case p of None \<Rightarrow> 0 | Some u \<Rightarrow> u)"

definition folder_sibling :: "Folder \<Rightarrow> uuid \<times> uuid \<times> string" where
  "folder_sibling f = (Folder_OwnerID f, coalesce_nil (Folder_ParentID f), Folder_Name f)"

definition file_sibling :: "File \<Rightarrow> uuid \<times> uuid \<times> string" where
  "file_sibling f = (File_OwnerID f, coalesce_nil (File_FolderID f), File_Name f)"

definition unique_constraints :: "db \<Rightarrow> bool" where
  "unique_constraints d \<longleftrightarrow>
     distinct (map User_ID (users d)) \<and> distinct (map (lower \<circ> User_Email) (users d)) \<and>
     distinct (map Session_ID (sessions d)) \<and> distinct (map Session_TokenHash (sessions d)) \<and>
     distinct (map Quota_UserID (storage_quotas d)) \<and>
     distinct (map Folder_ID (folders d)) \<and>
     distinct (map folder_sibling (filter (\<lambda>f. Folder_DeletedAt f = None) (folders d))) \<and>
     distinct (map Blob_ID (blobs d)) \<and> distinct (map Blob_ChecksumSHA256 (blobs d)) \<and>
     distinct (map File_ID (files d)) \<and>
     distinct (map file_sibling (filter (\<lambda>f. \<not> File_IsDeleted f) (files d))) \<and>
     distinct (map Version_ID (file_versions d)) \<and>
     distinct (map (\<lambda>v. (Version_FileID v, Version_VersionNumber v)) (file_versions d)) \<and>
     distinct (map Upload_ID (upload_sessions d)) \<and>
     distinct (map (\<lambda>c. (Chunk_SessionID c, Chunk_Index c)) (upload_chunks d)) \<and>
     distinct (map Share_ID (shares d)) \<and>
     distinct (map Share_TokenHash (filter (\<lambda>s. Share_TokenHash s \<noteq> None) (shares d))) \<and>
     distinct (map (\<lambda>s. (Share_FileID s, Share_GranteeID s))
       (filter (\<lambda>s. Share_RevokedAt s = None \<and> Share_GranteeID s \<noteq> None) (shares d)))"

definition ref_in :: "uuid \<Rightarrow> uuid list \<Rightarrow> bool" where
  "ref_in x ids \<longleftrightarrow> List.member ids x"

definition opt_ref_in :: "uuid option \<Rightarrow> uuid list \<Rightarrow> bool" where
  "opt_ref_in x ids = (case x of None \<Rightarrow> True | Some u \<Rightarrow> List.member ids u)"

definition foreign_keys :: "db \<Rightarrow> bool" where
  "foreign_keys d \<longleftrightarrow>
     (let us = map User_ID (users d); fos = map Folder_ID (folders d);
          fis = map File_ID (files d); vs = map Version_ID (file_versions d);
          bs = map Blob_ID (blobs d) in
      list_all (\<lambda>s. ref_in (Session_UserID s) us
        \<and> opt_ref_in (Session_ReplacedBy s) (map Session_ID (sessions d))) (sessions d) \<and>
      list_all (\<lambda>q. ref_in (Quota_UserID q) us) (storage_quotas d) \<and>
      list_all (\<lambda>f. ref_in (Folder_OwnerID f) us \<and> opt_ref_in (Folder_ParentID f) fos)
        (folders d) \<and>
      list_all (\<lambda>f. ref_in (File_OwnerID f) us \<and> opt_ref_in (File_FolderID f) fos
        \<and> opt_ref_in (File_LockedBy f) us \<and> opt_ref_in (File_CurrentVersionID f) vs) (files d) \<and>
      list_all (\<lambda>v. ref_in (Version_FileID v) fis \<and> ref_in (Version_BlobID v) bs
        \<and> ref_in (Version_CreatedBy v) us) (file_versions d) \<and>
      list_all (\<lambda>u. ref_in (Upload_UserID u) us \<and> opt_ref_in (Upload_FolderID u) fos)
        (upload_sessions d) \<and>
      list_all (\<lambda>c. ref_in (Chunk_SessionID c) (map Upload_ID (upload_sessions d)))
        (upload_chunks d) \<and>
      list_all (\<lambda>s. ref_in (Share_FileID s) fis \<and> ref_in (Share_OwnerID s) us
        \<and> opt_ref_in (Share_GranteeID s) us) (shares d))"

section \<open>Statements\<close>

text \<open>
  What \<open>pgx\<close> reports: no row for a \<open>QueryRow\<close>, a server error with its SQLSTATE, or a
  failure of the connection or of the request context.
\<close>

datatype pg_error = ErrNoRows | PgError string | CtxCanceled | CtxDeadline | DriverError

text \<open>A statement sees the server's \<open>now()\<close> and the state.\<close>

type_synonym 'a stmt = "time \<Rightarrow> db \<Rightarrow> pg_error + 'a \<times> db"

definition violation :: "db \<Rightarrow> string option" where
  "violation d =
     (if \<not> column_ranges d then Some ''22003''
      else if \<not> check_constraints d then Some ''23514''
      else if \<not> unique_constraints d then Some ''23505''
      else if \<not> foreign_keys d then Some ''23503''
      else None)"

definition schema_ok :: "db \<Rightarrow> bool" where
  "schema_ok d \<longleftrightarrow> violation d = None"

definition commit_stmt :: "'a \<Rightarrow> db \<Rightarrow> pg_error + 'a \<times> db" where
  "commit_stmt a d = (case violation d of None \<Rightarrow> Inr (a, d) | Some code \<Rightarrow> Inl (PgError code))"

definition update_where :: "('r \<Rightarrow> bool) \<Rightarrow> ('r \<Rightarrow> 'r) \<Rightarrow> 'r list \<Rightarrow> 'r list" where
  "update_where P g rows = map (\<lambda>r. if P r then g r else r) rows"

definition rows_affected :: "('r \<Rightarrow> bool) \<Rightarrow> 'r list \<Rightarrow> nat" where
  "rows_affected P rows = length (filter P rows)"

text \<open>\<open>QueryRow(...).Scan(...)\<close>: the first row of the result, or no row.\<close>

definition first_row :: "'r list \<Rightarrow> pg_error + 'r" where
  "first_row rows = (case rows of [] \<Rightarrow> Inl ErrNoRows | r # _ \<Rightarrow> Inr r)"

definition query_row :: "(time \<Rightarrow> db \<Rightarrow> 'r list) \<Rightarrow> 'r stmt" where
  "query_row q = (\<lambda>now d. case first_row (q now d) of Inl e \<Rightarrow> Inl e | Inr r \<Rightarrow> Inr (r, d))"

definition query :: "(time \<Rightarrow> db \<Rightarrow> 'r) \<Rightarrow> 'r stmt" where
  "query q = (\<lambda>now d. Inr (q now d, d))"

text \<open>\<open>mapErr\<close> (db.go).\<close>

definition mapErr :: "pg_error \<Rightarrow> error" where
  "mapErr err = (case err of
       ErrNoRows \<Rightarrow> ErrNotFound
     | PgError code \<Rightarrow>
         (if code = ''23505'' then ErrAlreadyExists
          else if code = ''23503'' then ErrNotFound
          else ErrInternal)
     | CtxCanceled \<Rightarrow> ErrCanceled
     | CtxDeadline \<Rightarrow> ErrDeadlineExceeded
     | DriverError \<Rightarrow> ErrInternal)"

section \<open>Facts about statements\<close>

named_theorems sql_simps "statement combinators"

lemma commit_stmt_Inr [sql_simps]:
  "commit_stmt a d = Inr (b, d') \<longleftrightarrow> schema_ok d \<and> b = a \<and> d' = d"
  by (auto simp: commit_stmt_def schema_ok_def split: option.splits)

lemma query_row_Inr [sql_simps]:
  "query_row q now d = Inr (r, d') \<longleftrightarrow> (\<exists>rs. q now d = r # rs) \<and> d' = d"
  by (auto simp: query_row_def first_row_def split: list.splits)

lemma query_row_Inl [sql_simps]: "query_row q now d = Inl e \<longleftrightarrow> q now d = [] \<and> e = ErrNoRows"
  by (auto simp: query_row_def first_row_def split: list.splits)

lemma query_Inr [sql_simps]: "query q now d = Inr (r, d') \<longleftrightarrow> r = q now d \<and> d' = d"
  by (auto simp: query_def)

lemma query_not_Inl [simp]: "query q now d \<noteq> Inl e"
  by (simp add: query_def)

lemma map_update_where:
  "(\<And>r. h (g r) = h r) \<Longrightarrow> map h (update_where P g rows) = map h rows"
  by (auto simp: update_where_def)

lemma set_update_where: "set (update_where P g rows) = (\<lambda>r. if P r then g r else r) ` set rows"
  by (simp add: update_where_def)

lemma rows_affected_0: "rows_affected P rows = 0 \<longleftrightarrow> (\<forall>r \<in> set rows. \<not> P r)"
  by (auto simp: rows_affected_def filter_empty_conv)

lemma schema_okD:
  assumes "schema_ok d"
  shows "column_ranges d" and "check_constraints d" and "unique_constraints d" and "foreign_keys d"
  using assms by (auto simp: schema_ok_def violation_def split: if_splits)

lemma schema_ok_iff:
  "schema_ok d \<longleftrightarrow> column_ranges d \<and> check_constraints d \<and> unique_constraints d \<and> foreign_keys d"
  by (auto simp: schema_ok_def violation_def)

lemma schema_ok_empty: "schema_ok empty_db"
  by (simp add: schema_ok_iff empty_db_def column_ranges_def check_constraints_def
      unique_constraints_def foreign_keys_def)

end
