(* ===== verification/World.thy ===== *)
theory World
  imports Database
begin

text \<open>
  The state a request runs in: the database, the object store, the Redis keyspace of the
  distributed lock, the clocks, and the environment's choices.

  The environment decides which calls to the infrastructure fail, which identifiers
  \<open>uuid.New()\<close> returns and which bytes \<open>rand.Read\<close> returns. A statement that fails has no
  effect; a commit that fails may have taken effect, its acknowledgement being lost
  (\<open>w_ack_lost\<close>). These choices are functions of
  a call counter that every such call advances, so a theorem that holds for all states holds
  for every schedule of failures and every sequence of identifiers and random bytes.
  During one request the clocks stand still; between requests they may be set to anything.
\<close>

datatype infra = InfraCanceled | InfraDeadline | InfraOther

definition infra_pg :: "infra \<Rightarrow> pg_error" where
  "infra_pg i = (case i of InfraCanceled \<Rightarrow> CtxCanceled | InfraDeadline \<Rightarrow> CtxDeadline
     | InfraOther \<Rightarrow> DriverError)"

definition infra_error :: "infra \<Rightarrow> error" where
  "infra_error i = (case i of InfraCanceled \<Rightarrow> ErrCanceled | InfraDeadline \<Rightarrow> ErrDeadlineExceeded
     | InfraOther \<Rightarrow> ErrInternal)"

text \<open>\<open>RequestMeta\<close> of \<open>internal/auth/context.go\<close>, carried by the request context.\<close>

record RequestMeta =
  Meta_IP :: string
  Meta_UserAgent :: string

record world =
  w_db :: db
  w_objects :: "string \<Rightarrow> byte list option"
  w_locks :: "string \<Rightarrow> (string \<times> time) option"
  w_clock :: time
  w_dbnow :: time
  w_meta :: RequestMeta
  w_in_tx :: bool
  w_calls :: nat
  w_faults :: "nat \<Rightarrow> infra option"
  w_uuids :: "nat \<Rightarrow> uuid"
  w_random :: "nat \<Rightarrow> nat \<Rightarrow> byte list"
  w_ack_lost :: "nat \<Rightarrow> bool"

type_synonym 'a action = "(world, error, 'a) act"

definition next_call :: "world \<Rightarrow> world" where
  "next_call w = w\<lparr>w_calls := Suc (w_calls w)\<rparr>"

section \<open>Environment\<close>

text \<open>\<open>uuid.New()\<close>\<close>

definition new_uuid :: "uuid action" where
  "new_uuid = (\<lambda>w. (Inr (w_uuids w (w_calls w)), next_call w))"

text \<open>\<open>rand.Read(b)\<close> with \<open>len(b) = n\<close>; it may fail.\<close>

definition rand_Read :: "nat \<Rightarrow> byte list action" where
  "rand_Read n = (\<lambda>w. case w_faults w (w_calls w) of
       Some i \<Rightarrow> (Inl (infra_error i), next_call w)
     | None \<Rightarrow> (Inr (take n (w_random w (w_calls w) n @ replicate n 0)), next_call w))"

text \<open>\<open>clock.Now()\<close>\<close>

definition clock_Now :: "time action" where
  "clock_Now = gets w_clock"

section \<open>Statements and transactions (db.go)\<close>

text \<open>\<open>r.db.q(ctx).Exec\<close>, \<open>.Query\<close>, \<open>.QueryRow(...).Scan\<close>: run one statement.\<close>

definition exec :: "'a stmt \<Rightarrow> (pg_error + 'a) action" where
  "exec st = (\<lambda>w. case w_faults w (w_calls w) of
       Some i \<Rightarrow> (Inr (Inl (infra_pg i)), next_call w)
     | None \<Rightarrow> (case st (w_dbnow w) (w_db w) of
           Inl e \<Rightarrow> (Inr (Inl e), next_call w)
         | Inr (a, d) \<Rightarrow> (Inr (Inr a), (next_call w)\<lparr>w_db := d\<rparr>)))"

text \<open>A statement whose error goes through \<open>mapErr\<close>.\<close>

definition sql :: "'a stmt \<Rightarrow> 'a action" where
  "sql st = bnd (exec st) (\<lambda>r. case r of Inl e \<Rightarrow> throw (mapErr e) | Inr a \<Rightarrow> ret a)"

text \<open>\<open>execOne\<close>: a data-modifying statement that must affect a row.\<close>

definition execOne :: "nat stmt \<Rightarrow> unit action" where
  "execOne st = bnd (sql st) (\<lambda>affected. if affected = 0 then throw ErrNotFound else ret ())"

text \<open>
  \<open>WithinTx\<close>: a nested call joins the outer transaction; otherwise begin, run, and commit,
  rolling back (to the state at the beginning) when the body fails. When the commit reports an
  error the transaction is rolled back too, unless the server had committed it and only the
  acknowledgement was lost: the deferred rollback then finds nothing to undo.
\<close>

definition infra_point :: "unit action" where
  "infra_point = (\<lambda>w. case w_faults w (w_calls w) of
       Some i \<Rightarrow> (Inl (infra_error i), next_call w)
     | None \<Rightarrow> (Inr (), next_call w))"

definition WithinTx :: "'a action \<Rightarrow> 'a action" where
  "WithinTx fn = (\<lambda>w.
     if w_in_tx w then fn w
     else case infra_point w of
       (Inl e, w1) \<Rightarrow> (Inl e, w1)
     | (Inr _, w1) \<Rightarrow>
         (case fn (w1\<lparr>w_in_tx := True\<rparr>) of
            (Inl e, w2) \<Rightarrow> (Inl e, w2\<lparr>w_in_tx := False, w_db := w_db w1\<rparr>)
          | (Inr a, w2) \<Rightarrow>
              (case infra_point w2 of
                 (Inl e, w3) \<Rightarrow>
                   (Inl e, w3\<lparr>w_in_tx := False,
                      w_db := if w_ack_lost w (w_calls w2) then w_db w3 else w_db w1\<rparr>)
               | (Inr _, w3) \<Rightarrow> (Inr a, w3\<lparr>w_in_tx := False\<rparr>))))"

section \<open>Rules\<close>

text \<open>Fields that no action writes.\<close>

definition same_env :: "world \<Rightarrow> world \<Rightarrow> bool" where
  "same_env w w' \<longleftrightarrow> w_clock w' = w_clock w \<and> w_dbnow w' = w_dbnow w \<and> w_meta w' = w_meta w
     \<and> w_in_tx w' = w_in_tx w \<and> w_faults w' = w_faults w \<and> w_uuids w' = w_uuids w
     \<and> w_random w' = w_random w \<and> w_ack_lost w' = w_ack_lost w"

lemma next_call_fields [simp]:
  "w_db (next_call w) = w_db w" "w_objects (next_call w) = w_objects w"
  "w_locks (next_call w) = w_locks w" "w_clock (next_call w) = w_clock w"
  "w_dbnow (next_call w) = w_dbnow w" "w_meta (next_call w) = w_meta w"
  "w_in_tx (next_call w) = w_in_tx w" "w_faults (next_call w) = w_faults w"
  "w_uuids (next_call w) = w_uuids w" "w_random (next_call w) = w_random w"
  "w_ack_lost (next_call w) = w_ack_lost w"
  "w_calls (next_call w) = Suc (w_calls w)"
  by (simp_all add: next_call_def)

lemma next_call_same_db [simp]: "(next_call w)\<lparr>w_db := w_db w\<rparr> = next_call w"
  by (simp add: next_call_def)

lemma new_uuid_run [act_simps]:
  "new_uuid w = (r, w') \<longleftrightarrow> r = Inr (w_uuids w (w_calls w)) \<and> w' = next_call w"
  by (auto simp: new_uuid_def)

lemma clock_Now_run [act_simps]: "clock_Now w = (r, w') \<longleftrightarrow> r = Inr (w_clock w) \<and> w' = w"
  by (auto simp: clock_Now_def gets_def)

lemma sql_Inr_iff:
  "sql st w = (Inr a, w') \<longleftrightarrow>
     w_faults w (w_calls w) = None \<and>
     (\<exists>d. st (w_dbnow w) (w_db w) = Inr (a, d) \<and> w' = (next_call w)\<lparr>w_db := d\<rparr>)"
  by (auto simp: sql_def exec_def bnd_def ret_def throw_def
      split: option.splits sum.splits prod.splits)

lemma sql_InlD: "sql st w = (Inl e, w') \<Longrightarrow> w' = next_call w"
  by (auto simp: sql_def exec_def bnd_def ret_def throw_def
      split: option.splits sum.splits prod.splits)

lemma execOne_Inr_iff:
  "execOne st w = (Inr u, w') \<longleftrightarrow> (\<exists>n. sql st w = (Inr n, w') \<and> 0 < n)"
  by (auto simp: execOne_def bnd_Inr_iff split: if_splits)

lemmas sql_runs = sql_Inr_iff execOne_Inr_iff

text \<open>
  A query leaves the state as it is; only the call counter moves.
\<close>

definition reads :: "'a action \<Rightarrow> bool" where
  "reads m \<longleftrightarrow> (\<forall>w r w'. m w = (r, w') \<longrightarrow> w_db w' = w_db w \<and> w_objects w' = w_objects w
     \<and> w_locks w' = w_locks w \<and> same_env w w')"

lemma same_env_refl [simp]: "same_env w w"
  by (simp add: same_env_def)

lemma same_env_next_call [simp]: "same_env w (next_call w)"
  by (simp add: same_env_def)

lemma same_env_trans: "same_env w w1 \<Longrightarrow> same_env w1 w2 \<Longrightarrow> same_env w w2"
  by (simp add: same_env_def)

text \<open>Invariants of the database between requests.\<close>

definition at_rest :: "(db \<Rightarrow> bool) \<Rightarrow> world \<Rightarrow> bool" where
  "at_rest I w \<longleftrightarrow> \<not> w_in_tx w \<and> I (w_db w)"

lemma at_rest_next_call [simp]: "at_rest I (next_call w) = at_rest I w"
  by (simp add: at_rest_def)

lemma keeps_new_uuid [keeps_intros]: "keeps (at_rest I) new_uuid"
  by (simp add: keeps_def new_uuid_def)

lemma keeps_rand_Read [keeps_intros]: "keeps (at_rest I) (rand_Read n)"
  by (auto simp: keeps_def rand_Read_def split: option.splits)

lemma keeps_clock_Now [keeps_intros]: "keeps (at_rest I) clock_Now"
  by (simp add: clock_Now_def keeps_gets)

lemma keeps_exec:
  assumes "\<And>now d a d'. I d \<Longrightarrow> st now d = Inr (a, d') \<Longrightarrow> I d'"
  shows "keeps (at_rest I) (exec st)"
  using assms
  by (fastforce simp: keeps_def exec_def at_rest_def split: option.splits sum.splits prod.splits)

lemma keeps_sql:
  assumes "\<And>now d a d'. I d \<Longrightarrow> st now d = Inr (a, d') \<Longrightarrow> I d'"
  shows "keeps (at_rest I) (sql st)"
  unfolding sql_def using keeps_exec [OF assms] by (auto intro!: keeps_intros)

lemma keeps_execOne:
  assumes "\<And>now d a d'. I d \<Longrightarrow> st now d = Inr (a, d') \<Longrightarrow> I d'"
  shows "keeps (at_rest I) (execOne st)"
  unfolding execOne_def using keeps_sql [OF assms] by (auto intro!: keeps_intros)

lemma keeps_query [keeps_intros]: "keeps (at_rest I) (sql (query q))"
  by (rule keeps_sql) (simp add: query_Inr)

lemma keeps_query_row [keeps_intros]: "keeps (at_rest I) (sql (query_row q))"
  by (rule keeps_sql) (simp add: query_row_Inr)

lemma infra_point_fields:
  "infra_point w = (r, w') \<Longrightarrow> w' = next_call w"
  by (auto simp: infra_point_def split: option.splits)

lemma keeps_infra_point [keeps_intros]: "keeps (at_rest I) infra_point"
  by (auto simp: keeps_def infra_point_def split: option.splits)

text \<open>
  A transaction keeps an invariant that its successful body re-establishes: otherwise the
  state is the one before it.
\<close>

definition tx_ok :: "(db \<Rightarrow> bool) \<Rightarrow> 'a action \<Rightarrow> bool" where
  "tx_ok I m \<longleftrightarrow> (\<forall>w x w'. I (w_db w) \<longrightarrow> m w = (Inr x, w') \<longrightarrow> I (w_db w'))"

lemma keeps_WithinTx [keeps_intros]:
  assumes "tx_ok I m"
  shows "keeps (at_rest I) (WithinTx m)"
proof (rule keepsI)
  fix w assume rest: "at_rest I w"
  obtain r1 w1 where p1: "infra_point w = (r1, w1)" by (cases "infra_point w")
  then have w1: "w1 = next_call w" by (rule infra_point_fields)
  obtain r2 w2 where p2: "m (w1\<lparr>w_in_tx := True\<rparr>) = (r2, w2)"
    by (cases "m (w1\<lparr>w_in_tx := True\<rparr>)")
  have "I (w_db (w1\<lparr>w_in_tx := True\<rparr>))"
    using rest by (simp add: at_rest_def w1)
  then have good: "I (w_db w2)" if "r2 = Inr a" for a
    using assms p2 that unfolding tx_ok_def by blast
  show "at_rest I (snd (WithinTx m w))"
    using rest p1 p2 good
    by (auto simp: WithinTx_def at_rest_def w1 dest!: infra_point_fields
        split: sum.splits prod.splits)
qed

text \<open>
  A transaction that reports an error left the database as it was, or is one whose body ended
  well and whose commit was not acknowledged.
\<close>

lemma WithinTx_Inl_db:
  assumes "WithinTx m w = (Inl e, w')" and "\<not> w_in_tx w"
  shows "w_db w' = w_db w \<or>
    (\<exists>x w2. m ((next_call w)\<lparr>w_in_tx := True\<rparr>) = (Inr x, w2) \<and> w_db w' = w_db w2 \<and>
       w_faults w2 (w_calls w2) \<noteq> None \<and> w_ack_lost w (w_calls w2))"
  using assms
  by (auto simp: WithinTx_def infra_point_def split: sum.splits prod.splits option.splits if_splits)

lemma WithinTx_InrE:
  assumes "WithinTx m w = (Inr x, w')" and "\<not> w_in_tx w"
  obtains w2 where "m ((next_call w)\<lparr>w_in_tx := True\<rparr>) = (Inr x, w2)"
    and "w' = (next_call w2)\<lparr>w_in_tx := False\<rparr>"
  using assms
  by (auto simp: WithinTx_def dest!: infra_point_fields split: sum.splits prod.splits)

end
