(* ===== verification/Codec.thy ===== *)
theory Codec
  imports Entity
begin

text \<open>
  The parts of Go's standard library that turn values into text, as far as the program uses
  them: hexadecimal (\<open>encoding/hex\<close>), decimal numbers (\<open>%d\<close>, \<open>%06d\<close>,
  \<open>strconv.ParseInt\<close>), string trimming and splitting; and the object-key layout of
  \<open>internal/storage/keys.go\<close> built on them.
\<close>

section \<open>Hexadecimal\<close>

definition hex_digit :: "nat \<Rightarrow> char" where
  "hex_digit n = (if n < 10 then char_of (48 + n) else char_of (87 + n))"

definition hex_value :: "char \<Rightarrow> nat option" where
  "hex_value c = (let n = of_char c :: nat in
     if 48 \<le> n \<and> n \<le> 57 then Some (n - 48)
     else if 97 \<le> n \<and> n \<le> 102 then Some (n - 87)
     else if 65 \<le> n \<and> n \<le> 70 then Some (n - 55)
     else None)"

definition hex_byte :: "byte \<Rightarrow> string" where
  "hex_byte b = [hex_digit (unat b div 16), hex_digit (unat b mod 16)]"

text \<open>\<open>hex.EncodeToString\<close>\<close>

definition hex_EncodeToString :: "byte list \<Rightarrow> string" where
  "hex_EncodeToString bs = concat (map hex_byte bs)"

text \<open>\<open>hex.DecodeString\<close>: an odd length or a character that is no digit is an error.\<close>

fun hex_DecodeString :: "string \<Rightarrow> byte list option" where
  "hex_DecodeString [] = Some []"
| "hex_DecodeString [c] = None"
| "hex_DecodeString (c # c' # cs) =
     (case hex_value c of None \<Rightarrow> None | Some h \<Rightarrow>
      case hex_value c' of None \<Rightarrow> None | Some l \<Rightarrow>
      case hex_DecodeString cs of None \<Rightarrow> None | Some bs \<Rightarrow>
        Some (word_of_nat (16 * h + l) # bs))"

lemma hex_value_digit [simp]: "n < 16 \<Longrightarrow> hex_value (hex_digit n) = Some n"
  by (auto simp: hex_value_def hex_digit_def Let_def)

lemma hex_roundtrip: "hex_DecodeString (hex_EncodeToString bs) = Some bs"
proof (induction bs)
  case Nil
  then show ?case by (simp add: hex_EncodeToString_def)
next
  case (Cons b bs)
  have "unat b < 256" using unsigned_less [of b] by simp
  then have "unat b div 16 < 16" by (simp add: less_mult_imp_div_less)
  moreover have "word_of_nat (16 * (unat b div 16) + unat b mod 16) = b" by simp
  ultimately show ?case
    using Cons by (simp add: hex_EncodeToString_def hex_byte_def)
qed

lemma hex_EncodeToString_inj: "hex_EncodeToString bs = hex_EncodeToString bs' \<Longrightarrow> bs = bs'"
  by (metis hex_roundtrip option.inject)

lemma length_hex_EncodeToString [simp]: "length (hex_EncodeToString bs) = 2 * length bs"
  by (induction bs) (simp_all add: hex_EncodeToString_def hex_byte_def)

lemma length_hex_DecodeString: "hex_DecodeString s = Some bs \<Longrightarrow> length s = 2 * length bs"
  by (induction s arbitrary: bs rule: hex_DecodeString.induct) (auto split: option.splits)

section \<open>Decimal\<close>

fun digits :: "nat \<Rightarrow> string" where
  "digits n = (if n < 10 then [char_of (48 + n)] else digits (n div 10) @ [char_of (48 + n mod 10)])"

declare digits.simps [simp del]

text \<open>\<open>%d\<close>\<close>

definition show_int :: "int \<Rightarrow> string" where
  "show_int i = (if i < 0 then CHR ''-'' # digits (nat (- i)) else digits (nat i))"

definition digit_value :: "char \<Rightarrow> nat option" where
  "digit_value c = (let n = of_char c :: nat in if 48 \<le> n \<and> n \<le> 57 then Some (n - 48) else None)"

fun parse_digits :: "nat \<Rightarrow> string \<Rightarrow> nat option" where
  "parse_digits acc [] = Some acc"
| "parse_digits acc (c # cs) =
     (case digit_value c of None \<Rightarrow> None | Some v \<Rightarrow> parse_digits (10 * acc + v) cs)"

text \<open>\<open>strconv.ParseInt(s, 10, 64)\<close>: an optional sign and at least one digit, in range.\<close>

definition parse_nat :: "string \<Rightarrow> nat option" where
  "parse_nat s = (if s = [] then None else parse_digits 0 s)"

definition ParseInt64 :: "string \<Rightarrow> int option" where
  "ParseInt64 s =
     (let r = (case s of [] \<Rightarrow> None
        | c # cs \<Rightarrow> if c = CHR ''-'' then map_option (\<lambda>n. - int n) (parse_nat cs)
            else if c = CHR ''+'' then map_option int (parse_nat cs)
            else map_option int (parse_nat s)) in
      case r of None \<Rightarrow> None | Some i \<Rightarrow> if int64_ok i then Some i else None)"

lemma digits_nonempty [simp]: "digits n \<noteq> []"
  by (subst digits.simps) simp

lemma digit_value_char [simp]: "n < 10 \<Longrightarrow> digit_value (char_of (48 + n)) = Some n"
  by (simp add: digit_value_def Let_def)

lemma parse_digits_append:
  "parse_digits acc (xs @ ys) =
     (case parse_digits acc xs of None \<Rightarrow> None | Some a \<Rightarrow> parse_digits a ys)"
  by (induction xs arbitrary: acc) (auto split: option.splits)

lemma parse_digits_digits: "parse_digits 0 (digits n) = Some n"
proof (induction n rule: digits.induct)
  case (1 n)
  show ?case
  proof (cases "n < 10")
    case True
    then show ?thesis by (simp add: digits.simps [of n])
  next
    case False
    then have "parse_digits 0 (digits (n div 10)) = Some (n div 10)" by (rule "1.IH")
    with False show ?thesis by (simp add: digits.simps [of n] parse_digits_append)
  qed
qed

lemma digits_inj: "digits m = digits n \<Longrightarrow> m = n"
  by (metis option.inject parse_digits_digits)

lemma digits_are_digits: "c \<in> set (digits n) \<Longrightarrow> 48 \<le> (of_char c :: nat) \<and> (of_char c :: nat) \<le> 57"
proof (induction n rule: digits.induct)
  case (1 n)
  have "n mod 10 < 10" by simp
  then show ?case
    using 1 by (subst (asm) (2) digits.simps) (auto split: if_splits)
qed

lemma ParseInt64_show_int:
  assumes "int64_ok i"
  shows "ParseInt64 (show_int i) = Some i"
proof (cases "i < 0")
  case True
  then show ?thesis
    using assms by (simp add: ParseInt64_def show_int_def parse_nat_def parse_digits_digits)
next
  case False
  obtain c cs where d: "digits (nat i) = c # cs"
    by (cases "digits (nat i)") auto
  then have "48 \<le> (of_char c :: nat)"
    using digits_are_digits [of c "nat i"] by simp
  then have "c \<noteq> CHR ''-''" "c \<noteq> CHR ''+''" by auto
  moreover have "parse_nat (c # cs) = Some (nat i)"
    using parse_digits_digits [of "nat i"] by (simp add: parse_nat_def d)
  ultimately show ?thesis
    using False assms by (simp add: ParseInt64_def show_int_def d)
qed

lemma show_int_inj: "show_int i = show_int j \<Longrightarrow> i = j"
proof -
  assume eq: "show_int i = show_int j"
  have no_minus: "digits n \<noteq> CHR ''-'' # cs" for n cs
    using digits_are_digits [of "CHR ''-''" n] by auto
  have no_minus': "CHR ''-'' # cs \<noteq> digits n" for n cs
    using no_minus by metis
  show "i = j"
    using eq no_minus no_minus'
    by (auto simp: show_int_def dest!: digits_inj split: if_splits)
qed

text \<open>\<open>%06d\<close>: at least six characters, zero-padded (after the sign).\<close>

definition show_int_06 :: "int \<Rightarrow> string" where
  "show_int_06 i =
     (if i < 0 then CHR ''-'' # replicate (5 - length (digits (nat (- i)))) CHR ''0'' @ digits (nat (- i))
      else replicate (6 - length (digits (nat i))) CHR ''0'' @ digits (nat i))"

lemma parse_digits_zeros: "parse_digits 0 (replicate k CHR ''0'' @ s) = parse_digits 0 s"
  by (induction k) (simp_all add: digit_value_def)

lemma show_int_06_inj:
  assumes "0 \<le> i" and "0 \<le> j" and "show_int_06 i = show_int_06 j"
  shows "i = j"
proof -
  have "parse_digits 0 (show_int_06 k) = Some (nat k)" if "0 \<le> k" for k
    using that by (simp add: show_int_06_def parse_digits_zeros parse_digits_digits)
  with assms show ?thesis by (metis eq_nat_nat_iff option.inject)
qed

section \<open>Object keys (internal/storage/keys.go)\<close>

text \<open>
  \<open>BlobKey\<close> slices the first two bytes' hex digits; on a shorter checksum the slice
  expressions panic, which the callers exclude (a checksum has 32 bytes).
\<close>

definition BlobKey :: "byte list \<Rightarrow> string" where
  "BlobKey sha =
     (let h = hex_EncodeToString sha in
      ''blobs/'' @ take 2 h @ ''/'' @ take 2 (drop 2 h) @ ''/'' @ h)"

text \<open>\<open>ChunkKey\<close>; \<open>uuid_String\<close> is \<open>uuid.UUID.String\<close> of the uuid package.\<close>

definition ChunkKey :: "(uuid \<Rightarrow> string) \<Rightarrow> uuid \<Rightarrow> int \<Rightarrow> string" where
  "ChunkKey uuid_String sessionID index =
     ''staging/'' @ uuid_String sessionID @ ''/'' @ show_int_06 index"

lemma BlobKey_inj:
  assumes "2 \<le> length s" and "2 \<le> length t" and "BlobKey s = BlobKey t"
  shows "s = t"
proof -
  have "drop 12 (BlobKey u) = hex_EncodeToString u" if "2 \<le> length u" for u
    using that by (simp add: BlobKey_def Let_def)
  with assms show ?thesis by (metis hex_EncodeToString_inj)
qed

lemma BlobKey_not_ChunkKey: "BlobKey s \<noteq> ChunkKey us i k"
  by (simp add: BlobKey_def ChunkKey_def Let_def)

end
