(* ===== verification/Base64.thy ===== *)
theory Base64
  imports Codec
begin

text \<open>
  \<open>base64.RawURLEncoding\<close> and \<open>base64.RawStdEncoding\<close>: base 64 without padding, in the
  URL-safe alphabet (\<open>-\<close>, \<open>_\<close>) and the standard one (\<open>+\<close>, \<open>/\<close>). Decoding skips
  line breaks and does not insist on zero trailing bits, as Go's non-strict decoder.
  \<open>base64.StdEncoding\<close> fills the last group with \<open>=\<close>.
\<close>

type_synonym alphabet = "char \<times> char"

definition url_alphabet :: alphabet where "url_alphabet = (CHR ''-'', CHR ''_'')"

definition std_alphabet :: alphabet where "std_alphabet = (CHR ''+'', CHR ''/'')"

definition b64_char :: "alphabet \<Rightarrow> nat \<Rightarrow> char" where
  "b64_char a n =
     (if n < 26 then char_of (65 + n) else if n < 52 then char_of (71 + n)
      else if n < 62 then char_of (48 + (n - 52)) else if n = 62 then fst a else snd a)"

definition b64_value :: "alphabet \<Rightarrow> char \<Rightarrow> nat option" where
  "b64_value a c = (let n = of_char c :: nat in
     if 65 \<le> n \<and> n \<le> 90 then Some (n - 65)
     else if 97 \<le> n \<and> n \<le> 122 then Some (n - 71)
     else if 48 \<le> n \<and> n \<le> 57 then Some (n + 4)
     else if c = fst a then Some 62
     else if c = snd a then Some 63
     else None)"

fun b64_groups :: "nat list \<Rightarrow> nat list" where
  "b64_groups [] = []"
| "b64_groups [a] = [a div 4, a mod 4 * 16]"
| "b64_groups [a, b] = [a div 4, a mod 4 * 16 + b div 16, b mod 16 * 4]"
| "b64_groups (a # b # c # rest) =
     [a div 4, a mod 4 * 16 + b div 16, b mod 16 * 4 + c div 64, c mod 64] @ b64_groups rest"

fun b64_ungroup :: "nat list \<Rightarrow> nat list option" where
  "b64_ungroup [] = Some []"
| "b64_ungroup [w] = None"
| "b64_ungroup [w, x] = Some [w * 4 + x div 16]"
| "b64_ungroup [w, x, y] = Some [w * 4 + x div 16, x mod 16 * 16 + y div 4]"
| "b64_ungroup (w # x # y # z # rest) =
     map_option (\<lambda>bs. [w * 4 + x div 16, x mod 16 * 16 + y div 4, y mod 4 * 64 + z] @ bs)
       (b64_ungroup rest)"

definition base64_encode :: "alphabet \<Rightarrow> byte list \<Rightarrow> string" where
  "base64_encode a bs = map (b64_char a) (b64_groups (map unat bs))"

definition base64_EncodeToString :: "byte list \<Rightarrow> string" where
  "base64_EncodeToString = base64_encode url_alphabet"

definition base64_Std_EncodeToString :: "byte list \<Rightarrow> string" where
  "base64_Std_EncodeToString = base64_encode std_alphabet"

definition is_line_break :: "char \<Rightarrow> bool" where
  "is_line_break c \<longleftrightarrow> of_char c = (10::nat) \<or> of_char c = (13::nat)"

fun b64_values :: "alphabet \<Rightarrow> string \<Rightarrow> nat list option" where
  "b64_values a [] = Some []"
| "b64_values a (c # cs) =
     (if is_line_break c then b64_values a cs
      else case b64_value a c of None \<Rightarrow> None | Some v \<Rightarrow> map_option ((#) v) (b64_values a cs))"

definition base64_decode :: "alphabet \<Rightarrow> string \<Rightarrow> byte list option" where
  "base64_decode a s =
     (case b64_values a s of None \<Rightarrow> None
      | Some vs \<Rightarrow> map_option (map word_of_nat) (b64_ungroup vs))"

definition base64_DecodeString :: "string \<Rightarrow> byte list option" where
  "base64_DecodeString = base64_decode url_alphabet"

definition base64_Std_DecodeString :: "string \<Rightarrow> byte list option" where
  "base64_Std_DecodeString = base64_decode std_alphabet"

text \<open>With padding: whole groups of four, of which the last may end in one or two \<open>=\<close>.\<close>

definition base64_padded_decode :: "string \<Rightarrow> byte list option" where
  "base64_padded_decode s =
     (let t = filter (\<lambda>c. \<not> is_line_break c) s in
      if length t mod 4 \<noteq> 0 then None
      else case rev t of
        c # d # rest \<Rightarrow>
          if c \<noteq> CHR ''='' then base64_Std_DecodeString t
          else if d \<noteq> CHR ''='' then base64_Std_DecodeString (rev (d # rest))
          else base64_Std_DecodeString (rev rest)
      | _ \<Rightarrow> base64_Std_DecodeString t)"

definition alphabet_ok :: "alphabet \<Rightarrow> bool" where
  "alphabet_ok a \<longleftrightarrow> a = url_alphabet \<or> a = std_alphabet"

lemma alphabets_ok: "alphabet_ok url_alphabet" "alphabet_ok std_alphabet"
  by (simp_all add: alphabet_ok_def)

lemma b64_value_char:
  assumes "n < 64" "alphabet_ok a"
  shows "b64_value a (b64_char a n) = Some n" and "\<not> is_line_break (b64_char a n)"
proof -
  have "b64_value a (b64_char a n) = Some n \<and> \<not> is_line_break (b64_char a n)"
  proof (cases "n < 62")
    case True
    then consider "n < 26" | "26 \<le> n" "n < 52" | k where "n = 52 + k" "k < 10"
      using le_Suc_ex [of 52 n] by fastforce
    then show ?thesis
      by cases (simp_all add: b64_value_def b64_char_def is_line_break_def Let_def)
  next
    case False
    with assms(1) have "n = 62 \<or> n = 63" by linarith
    with assms(2) show ?thesis
      by (auto simp: b64_value_def b64_char_def is_line_break_def alphabet_ok_def url_alphabet_def
          std_alphabet_def)
  qed
  then show "b64_value a (b64_char a n) = Some n" "\<not> is_line_break (b64_char a n)" by auto
qed

lemma b64_values_map:
  "\<forall>n \<in> set ns. n < 64 \<Longrightarrow> alphabet_ok a \<Longrightarrow> b64_values a (map (b64_char a) ns) = Some ns"
  by (induction ns) (auto simp: b64_value_char)

lemma b64_groups_range: "\<forall>b \<in> set bs. b < 256 \<Longrightarrow> n \<in> set (b64_groups bs) \<Longrightarrow> n < 64"
proof (induction bs rule: b64_groups.induct)
  case (2 a)
  then have "a < 256" "n = a div 4 \<or> n = a mod 4 * 16" by auto
  then show ?case by (elim disjE; linarith)
next
  case (3 a b)
  then have "a < 256" "b < 256" "n = a div 4 \<or> n = a mod 4 * 16 + b div 16 \<or> n = b mod 16 * 4"
    by auto
  then show ?case by (elim disjE; linarith)
next
  case (4 a b c rest)
  then have "a < 256" "b < 256" "c < 256"
    "n = a div 4 \<or> n = a mod 4 * 16 + b div 16 \<or> n = b mod 16 * 4 + c div 64 \<or> n = c mod 64
      \<or> n < 64"
    by auto
  then show ?case by (elim disjE; linarith)
qed simp

lemma b64_ungroup_groups: "\<forall>b \<in> set bs. b < 256 \<Longrightarrow> b64_ungroup (b64_groups bs) = Some bs"
proof (induction bs rule: b64_groups.induct)
  case (2 a)
  then show ?case by simp
next
  case (3 a b)
  then have "a < 256" "b < 256" by auto
  then show ?case by simp
next
  case (4 a b c rest)
  then have r: "a < 256" "b < 256" "c < 256" by auto
  then have "b div 16 < 16" "c div 64 < 4" by linarith+
  then show ?case using 4 by simp
qed simp

lemma base64_decode_encode: "alphabet_ok a \<Longrightarrow> base64_decode a (base64_encode a bs) = Some bs"
proof -
  assume a: "alphabet_ok a"
  have r: "\<forall>b \<in> set (map unat bs). b < 256"
  proof -
    have "unat (b :: byte) < 256" for b using unsigned_less [of b] by simp
    then show ?thesis by auto
  qed
  then have "b64_values a (map (b64_char a) (b64_groups (map unat bs))) =
      Some (b64_groups (map unat bs))"
    using b64_groups_range [OF r] a by (intro b64_values_map) blast
  then show ?thesis
    by (simp add: base64_decode_def base64_encode_def b64_ungroup_groups [OF r] comp_def)
qed

lemma base64_roundtrip: "base64_DecodeString (base64_EncodeToString bs) = Some bs"
  by (simp add: base64_DecodeString_def base64_EncodeToString_def base64_decode_encode alphabets_ok)

lemma base64_Std_roundtrip: "base64_Std_DecodeString (base64_Std_EncodeToString bs) = Some bs"
  by (simp add: base64_Std_DecodeString_def base64_Std_EncodeToString_def base64_decode_encode
      alphabets_ok)

lemma base64_inj: "base64_EncodeToString a = base64_EncodeToString b \<longleftrightarrow> a = b"
  using base64_roundtrip by (metis option.inject)

section \<open>Strings as bytes\<close>

text \<open>The bytes of a Go string.\<close>

definition bytes_of :: "string \<Rightarrow> byte list" where
  "bytes_of s = map (\<lambda>c. word_of_nat (of_char c)) s"

lemma bytes_of_inj: "bytes_of s = bytes_of t \<Longrightarrow> s = t"
proof -
  have "c = c'" if "(word_of_nat (of_char c) :: byte) = word_of_nat (of_char c')" for c c'
  proof -
    have "unat (word_of_nat (of_char c) :: byte) = of_char c" for c
      by (simp add: unsigned_of_nat take_bit_nat_eq_self)
    with that show ?thesis by (metis of_char_eq_iff)
  qed
  then have "inj (\<lambda>c. word_of_nat (of_char c) :: byte)" by (rule injI)
  then show "bytes_of s = bytes_of t \<Longrightarrow> s = t" by (simp add: bytes_of_def inj_map_eq_map)
qed

end
