(* ===== verification/Store.thy ===== *)
theory Store
  imports Crypto_Stream World Base64
begin

text \<open>
  The object store (\<open>internal/storage/minio.go\<close>), the distributed lock
  (\<open>internal/repository/redis/lock.go\<close>) and opaque tokens (\<open>pkg/crypto/random.go\<close>).

  The bucket is the map \<open>w_objects\<close>. Of the S3 service the program relies on: a \<open>PutObject\<close>
  that succeeds replaces the object by the bytes sent, one that fails leaves it as it was; a
  removal of a missing object succeeds. Of Redis: \<open>SET key token NX PX ttl\<close> sets the key
  when it is absent or expired, and a script runs atomically.
\<close>

section \<open>Object store\<close>

text \<open>
  An \<open>io.Reader\<close> handed to \<open>Put\<close>: the bytes it delivers, and the error it ends with in
  place of \<open>io.EOF\<close>.
\<close>

type_synonym reader = "byte list \<times> error option"

text \<open>\<open>io.LimitReader(body, n)\<close>\<close>

definition LimitReader :: "reader \<Rightarrow> int \<Rightarrow> reader" where
  "LimitReader body n =
     (if length (fst body) < nat n then body else (take (nat n) (fst body), None))"

definition store_Put :: "string \<Rightarrow> reader \<Rightarrow> int \<Rightarrow> unit action" where
  "store_Put key body sz =
     (if sz < 0 then throw ErrInternal
      else bnd infra_point (\<lambda>_.
        case snd body of
          Some e \<Rightarrow> throw e
        | None \<Rightarrow>
            if int (length (fst body)) \<noteq> sz then throw ErrInternal
            else (\<lambda>w. (Inr (), w\<lparr>w_objects := (w_objects w)(key := Some (fst body))\<rparr>))))"

definition store_Get :: "string \<Rightarrow> byte list action" where
  "store_Get key = bnd infra_point (\<lambda>_. bnd (gets w_objects) (\<lambda>objs.
     case objs key of None \<Rightarrow> throw ErrNotFound | Some bs \<Rightarrow> ret bs))"

definition store_Delete :: "string \<Rightarrow> unit action" where
  "store_Delete key = bnd infra_point (\<lambda>_ w.
     (Inr (), w\<lparr>w_objects := (w_objects w)(key := None)\<rparr>))"

section \<open>Tokens\<close>

definition RandomToken :: "nat \<Rightarrow> string action" where
  "RandomToken n = bnd (rand_Read n) (\<lambda>b. ret (base64_EncodeToString b))"

definition HashToken :: "ext \<Rightarrow> string \<Rightarrow> byte list" where
  "HashToken X token = X_sha256 X (bytes_of token)"

definition NewDEK :: "byte list action" where
  "NewDEK = rand_Read KeySize"

section \<open>Distributed lock\<close>

definition lock_held :: "world \<Rightarrow> string \<Rightarrow> bool" where
  "lock_held w key = (case w_locks w key of None \<Rightarrow> False | Some (_, expires) \<Rightarrow> w_clock w < expires)"

definition redis_SetNX :: "string \<Rightarrow> string \<Rightarrow> duration \<Rightarrow> bool action" where
  "redis_SetNX key token ttl = bnd infra_point (\<lambda>_ w.
     if lock_held w key then (Inr False, w)
     else (Inr True, w\<lparr>w_locks := (w_locks w)(key := Some (token, w_clock w + ttl))\<rparr>))"

definition releaseScript :: "string \<Rightarrow> string \<Rightarrow> unit action" where
  "releaseScript key token = bnd infra_point (\<lambda>_ w.
     if lock_held w key \<and> map_option fst (w_locks w key) = Some token
     then (Inr (), w\<lparr>w_locks := (w_locks w)(key := None)\<rparr>)
     else (Inr (), w))"

text \<open>\<open>TryLock\<close> returns the key and token its \<open>release\<close> closure captures.\<close>

definition TryLock :: "string \<Rightarrow> duration \<Rightarrow> (string \<times> string) option action" where
  "TryLock key ttl =
     bnd (RandomToken 16) (\<lambda>token.
     bnd (redis_SetNX (''lock:'' @ key) token ttl) (\<lambda>ok.
     ret (if ok then Some (''lock:'' @ key, token) else None)))"

definition release_lock :: "string \<times> string \<Rightarrow> world \<Rightarrow> world" where
  "release_lock l w = snd (releaseScript (fst l) (snd l) w)"

section \<open>Facts\<close>

lemma infra_point_Inr_iff:
  "infra_point w = (Inr u, w') \<longleftrightarrow> w_faults w (w_calls w) = None \<and> w' = next_call w"
  by (auto simp: infra_point_def split: option.splits)

lemma store_Put_Inr_iff:
  "store_Put key body sz w = (Inr u, w') \<longleftrightarrow>
     w_faults w (w_calls w) = None \<and> snd body = None \<and> int (length (fst body)) = sz \<and>
     w' = (next_call w)\<lparr>w_objects := (w_objects w)(key := Some (fst body))\<rparr>"
  by (auto simp: store_Put_def bnd_Inr_iff infra_point_Inr_iff split: if_splits option.splits)

lemma store_Get_Inr_iff:
  "store_Get key w = (Inr bs, w') \<longleftrightarrow>
     w_faults w (w_calls w) = None \<and> w_objects w key = Some bs \<and> w' = next_call w"
  by (auto simp: store_Get_def bnd_Inr_iff infra_point_Inr_iff gets_def split: option.splits)

lemma store_Delete_Inr_iff:
  "store_Delete key w = (Inr u, w') \<longleftrightarrow>
     w_faults w (w_calls w) = None \<and>
     w' = (next_call w)\<lparr>w_objects := (w_objects w)(key := None)\<rparr>"
  by (auto simp: store_Delete_def bnd_Inr_iff infra_point_Inr_iff)

text \<open>None of these touches the database.\<close>

lemma keeps_objects: "keeps (at_rest I) (\<lambda>w. (Inr (), w\<lparr>w_objects := f w\<rparr>))"
  by (simp add: keeps_def at_rest_def)

lemma keeps_store_Put [keeps_intros]: "keeps (at_rest I) (store_Put key body sz)"
  unfolding store_Put_def by (intro keeps_intros keeps_objects)

lemma keeps_get_db [keeps_intros]: "keeps (at_rest I) (store_Get key)"
  unfolding store_Get_def by (intro keeps_intros)

lemma keeps_store_Delete [keeps_intros]: "keeps (at_rest I) (store_Delete key)"
  unfolding store_Delete_def by (intro keeps_intros keeps_objects)

lemma keeps_token_db [keeps_intros]: "keeps (at_rest I) (RandomToken n)"
  unfolding RandomToken_def by (intro keeps_intros)

lemma keeps_redis_SetNX [keeps_intros]: "keeps (at_rest I) (redis_SetNX key token ttl)"
  unfolding redis_SetNX_def by (intro keeps_bnd keeps_infra_point) (simp add: keeps_def at_rest_def)

lemma keeps_releaseScript [keeps_intros]: "keeps (at_rest I) (releaseScript key token)"
  unfolding releaseScript_def by (intro keeps_bnd keeps_infra_point) (simp add: keeps_def at_rest_def)

lemma keeps_lock_db [keeps_intros]: "keeps (at_rest I) (TryLock key ttl)"
  unfolding TryLock_def by (intro keeps_intros)

lemma release_lock_at_rest [intro]: "at_rest I w \<Longrightarrow> at_rest I (release_lock l w)"
  unfolding release_lock_def by (rule keepsD [OF keeps_releaseScript])

lemma release_lock_db [simp]:
  "w_db (release_lock l w) = w_db w" "w_objects (release_lock l w) = w_objects w"
  by (auto simp: release_lock_def releaseScript_def bnd_def infra_point_def split: option.splits)

text \<open>
  A held lock is not granted again before it expires, and only its holder's token releases it.
\<close>

lemma TryLock_excluded:
  assumes "lock_held w (''lock:'' @ key)"
  shows "\<exists>w' r. TryLock key ttl w = (r, w') \<and> (r = Inr None \<or> (\<exists>e. r = Inl e)) \<and> w_locks w' = w_locks w"
  using assms
  by (auto simp: TryLock_def RandomToken_def redis_SetNX_def rand_Read_def bnd_def ret_def
      infra_point_def lock_held_def split: option.splits)

lemma release_other_token:
  assumes "w_locks w key = Some (token', expires)" "token \<noteq> token'"
  shows "w_locks (release_lock (key, token) w) = w_locks w"
  using assms
  by (auto simp: release_lock_def releaseScript_def bnd_def infra_point_def split: option.splits)

end
