(* ===== verification/Repo_Accounts.thy ===== *)
theory Repo_Accounts
  imports World
begin

text \<open>
  The account-side repositories of \<open>internal/repository/postgres\<close>: users, refresh-token
  sessions, storage quotas and the audit log. One definition per method, each the translation
  of the method's SQL statement; column defaults (\<open>created_at\<close>, \<open>updated_at\<close>, ...) and the
  \<open>updated_at\<close> trigger are those of \<open>migrations/\<close>.
\<close>

section \<open>user_repo.go\<close>

definition UserRepo_Create :: "User \<Rightarrow> unit action" where
  "UserRepo_Create u = sql (\<lambda>now d. commit_stmt ()
     (d\<lparr>users := users d @
        [u\<lparr>User_CreatedAt := now, User_UpdatedAt := now, User_DeletedAt := None\<rparr>]\<rparr>))"

definition UserRepo_GetByID :: "uuid \<Rightarrow> User action" where
  "UserRepo_GetByID i = sql (query_row (\<lambda>_ d.
     filter (\<lambda>u. User_ID u = i \<and> User_DeletedAt u = None) (users d)))"

definition UserRepo_GetByEmail :: "string \<Rightarrow> User action" where
  "UserRepo_GetByEmail email = sql (query_row (\<lambda>_ d.
     filter (\<lambda>u. lower (User_Email u) = lower email \<and> User_DeletedAt u = None) (users d)))"

definition UserRepo_UpdatePasswordHash :: "uuid \<Rightarrow> string \<Rightarrow> unit action" where
  "UserRepo_UpdatePasswordHash i hash = execOne (\<lambda>now d.
     let P = (\<lambda>u. User_ID u = i \<and> User_DeletedAt u = None) in
     commit_stmt (rows_affected P (users d))
       (d\<lparr>users := update_where P (\<lambda>u. u\<lparr>User_PasswordHash := hash, User_UpdatedAt := now\<rparr>)
          (users d)\<rparr>))"

section \<open>session_repo.go\<close>

definition SessionRepo_Create :: "Session \<Rightarrow> unit action" where
  "SessionRepo_Create s = sql (\<lambda>now d. commit_stmt ()
     (d\<lparr>sessions := sessions d @
        [s\<lparr>Session_CreatedAt := now, Session_RevokedAt := None, Session_ReplacedBy := None\<rparr>]\<rparr>))"

definition SessionRepo_GetByTokenHash :: "byte list \<Rightarrow> Session action" where
  "SessionRepo_GetByTokenHash h = sql (query_row (\<lambda>_ d.
     filter (\<lambda>s. Session_TokenHash s = h) (sessions d)))"

definition SessionRepo_Revoke :: "uuid \<Rightarrow> uuid option \<Rightarrow> unit action" where
  "SessionRepo_Revoke i replacedBy = execOne (\<lambda>now d.
     let P = (\<lambda>s. Session_ID s = i \<and> Session_RevokedAt s = None) in
     commit_stmt (rows_affected P (sessions d))
       (d\<lparr>sessions := update_where P
          (\<lambda>s. s\<lparr>Session_RevokedAt := Some now, Session_ReplacedBy := replacedBy\<rparr>) (sessions d)\<rparr>))"

definition SessionRepo_RevokeFamily :: "uuid \<Rightarrow> unit action" where
  "SessionRepo_RevokeFamily familyID = sql (\<lambda>now d.
     commit_stmt ()
       (d\<lparr>sessions := update_where
          (\<lambda>s. Session_FamilyID s = familyID \<and> Session_RevokedAt s = None)
          (\<lambda>s. s\<lparr>Session_RevokedAt := Some now\<rparr>) (sessions d)\<rparr>))"

definition SessionRepo_DeleteExpired :: "time \<Rightarrow> nat action" where
  "SessionRepo_DeleteExpired cutoff = sql (\<lambda>now d.
     let P = (\<lambda>s. Session_ExpiresAt s < cutoff) in
     commit_stmt (rows_affected P (sessions d))
       (d\<lparr>sessions := filter (\<lambda>s. \<not> P s) (sessions d)\<rparr>))"

section \<open>quota_repo.go\<close>

definition QuotaRepo_Create :: "Quota \<Rightarrow> unit action" where
  "QuotaRepo_Create q = sql (\<lambda>now d. commit_stmt ()
     (d\<lparr>storage_quotas := storage_quotas d @ [q\<lparr>Quota_UpdatedAt := now\<rparr>]\<rparr>))"

definition QuotaRepo_Get :: "uuid \<Rightarrow> Quota action" where
  "QuotaRepo_Get userID = sql (query_row (\<lambda>_ d.
     filter (\<lambda>q. Quota_UserID q = userID) (storage_quotas d)))"

text \<open>
  \<open>UPDATE ... SET used_bytes = used_bytes + $2 WHERE user_id = $1 AND used_bytes + $2 <= quota_bytes\<close>;
  the addition is on \<open>bigint\<close> and fails when out of range.
\<close>

definition charge_quota :: "uuid \<Rightarrow> int \<Rightarrow> nat stmt" where
  "charge_quota userID delta = (\<lambda>now d.
     let P = (\<lambda>q. Quota_UserID q = userID \<and> Quota_UsedBytes q + delta \<le> Quota_QuotaBytes q) in
     if list_ex (\<lambda>q. Quota_UserID q = userID \<and> \<not> bigint (Quota_UsedBytes q + delta))
          (storage_quotas d)
     then Inl (PgError ''22003'')
     else commit_stmt (rows_affected P (storage_quotas d))
       (d\<lparr>storage_quotas := update_where P
          (\<lambda>q. q\<lparr>Quota_UsedBytes := Quota_UsedBytes q + delta, Quota_UpdatedAt := now\<rparr>)
          (storage_quotas d)\<rparr>))"

text \<open>\<open>UPDATE ... SET used_bytes = GREATEST(used_bytes + $2, 0) WHERE user_id = $1\<close>\<close>

definition release_quota :: "uuid \<Rightarrow> int \<Rightarrow> nat stmt" where
  "release_quota userID delta = (\<lambda>now d.
     let P = (\<lambda>q. Quota_UserID q = userID) in
     if list_ex (\<lambda>q. Quota_UserID q = userID \<and> \<not> bigint (Quota_UsedBytes q + delta))
          (storage_quotas d)
     then Inl (PgError ''22003'')
     else commit_stmt (rows_affected P (storage_quotas d))
       (d\<lparr>storage_quotas := update_where P
          (\<lambda>q. q\<lparr>Quota_UsedBytes := max (Quota_UsedBytes q + delta) 0, Quota_UpdatedAt := now\<rparr>)
          (storage_quotas d)\<rparr>))"

definition QuotaRepo_AddUsage :: "uuid \<Rightarrow> int \<Rightarrow> unit action" where
  "QuotaRepo_AddUsage userID delta =
     (if delta \<ge> 0 then
        bnd (exec (charge_quota userID delta)) (\<lambda>r. case r of
          Inl err \<Rightarrow> if err = PgError ''23514'' then throw ErrQuotaExceeded else throw (mapErr err)
        | Inr affected \<Rightarrow>
            if affected = 0 then
              bnd (attempt (QuotaRepo_Get userID)) (\<lambda>g. case g of
                Inl getErr \<Rightarrow> throw getErr
              | Inr _ \<Rightarrow> throw ErrQuotaExceeded)
            else ret ())
      else
        bnd (sql (release_quota userID delta)) (\<lambda>affected.
          if affected = 0 then throw ErrNotFound else ret ()))"

section \<open>audit_repo.go\<close>

definition AuditRepo_Insert :: "AuditEntry \<Rightarrow> unit action" where
  "AuditRepo_Insert e = sql (\<lambda>now d. commit_stmt ()
     (d\<lparr>audit_logs := audit_logs d @ [e\<lparr>Audit_CreatedAt := now\<rparr>]\<rparr>))"

end
