(* ===== verification/Repo_Files.thy ===== *)
theory Repo_Files
  imports World "HOL-Library.Product_Lexorder"
begin

text \<open>
  The content-side repositories of \<open>internal/repository/postgres\<close>: folders, files, versions
  and blobs. One definition per method, each the translation of the method's SQL. Listings
  take the keyset cursor of \<open>pkg/pagination\<close>; the cursor type is defined here with
  \<open>IsZero\<close>, its codec in theory \<open>Pagination\<close>.
\<close>

section \<open>Cursors and ordering\<close>

record Cursor =
  Cursor_CreatedAt :: time
  Cursor_ID :: uuid

definition Cursor_IsZero :: "Cursor \<Rightarrow> bool" where
  "Cursor_IsZero c \<longleftrightarrow> Cursor_CreatedAt c = 0 \<and> Cursor_ID c = 0"

definition cursor_key :: "Cursor \<Rightarrow> time \<times> uuid" where
  "cursor_key c = (Cursor_CreatedAt c, Cursor_ID c)"

text \<open>
  \<open>[AND (created_at, id) > ($n, $n+1)] ORDER BY created_at, id LIMIT $m\<close>, the cursor clause
  present unless the cursor is zero; and the same with \<open><\<close> and \<open>DESC\<close>.
\<close>

definition page_asc :: "('r \<Rightarrow> time \<times> uuid) \<Rightarrow> Cursor \<Rightarrow> nat \<Rightarrow> 'r list \<Rightarrow> 'r list" where
  "page_asc key cur limit rows =
     take limit (sort_key key
       (if Cursor_IsZero cur then rows else filter (\<lambda>r. cursor_key cur < key r) rows))"

definition page_desc :: "('r \<Rightarrow> time \<times> uuid) \<Rightarrow> Cursor \<Rightarrow> nat \<Rightarrow> 'r list \<Rightarrow> 'r list" where
  "page_desc key cur limit rows =
     take limit (rev (sort_key key
       (if Cursor_IsZero cur then rows else filter (\<lambda>r. key r < cursor_key cur) rows)))"

section \<open>folder_repo.go\<close>

definition FolderRepo_Create :: "Folder \<Rightarrow> unit action" where
  "FolderRepo_Create f = sql (\<lambda>now d. commit_stmt ()
     (d\<lparr>folders := folders d @
        [f\<lparr>Folder_CreatedAt := now, Folder_UpdatedAt := now, Folder_DeletedAt := None\<rparr>]\<rparr>))"

definition FolderRepo_GetByID :: "uuid \<Rightarrow> Folder action" where
  "FolderRepo_GetByID i = sql (query_row (\<lambda>_ d.
     filter (\<lambda>f. Folder_ID f = i \<and> Folder_DeletedAt f = None) (folders d)))"

definition folder_key :: "Folder \<Rightarrow> time \<times> uuid" where
  "folder_key f = (Folder_CreatedAt f, Folder_ID f)"

definition FolderRepo_ListChildren ::
    "uuid \<Rightarrow> uuid option \<Rightarrow> Cursor \<Rightarrow> nat \<Rightarrow> Folder list action" where
  "FolderRepo_ListChildren ownerID parentID cur limit = sql (query (\<lambda>_ d.
     page_asc folder_key cur limit
       (filter (\<lambda>f. Folder_OwnerID f = ownerID \<and> Folder_ParentID f = parentID
          \<and> Folder_DeletedAt f = None) (folders d))))"

definition FolderRepo_SoftDelete :: "uuid \<Rightarrow> unit action" where
  "FolderRepo_SoftDelete i = execOne (\<lambda>now d.
     let P = (\<lambda>f. Folder_ID f = i \<and> Folder_DeletedAt f = None) in
     commit_stmt (rows_affected P (folders d))
       (d\<lparr>folders := update_where P
          (\<lambda>f. f\<lparr>Folder_DeletedAt := Some now, Folder_UpdatedAt := now\<rparr>) (folders d)\<rparr>))"

definition FolderRepo_HasChildren :: "uuid \<Rightarrow> bool action" where
  "FolderRepo_HasChildren i = sql (query (\<lambda>_ d.
     list_ex (\<lambda>f. Folder_ParentID f = Some i \<and> Folder_DeletedAt f = None) (folders d) \<or>
     list_ex (\<lambda>f. File_FolderID f = Some i \<and> \<not> File_IsDeleted f) (files d)))"

section \<open>file_repo.go\<close>

text \<open>\<open>fileSelect\<close>: a file row joined with its current version and that version's blob.\<close>

definition fileSelect :: "db \<Rightarrow> File \<Rightarrow> File" where
  "fileSelect d f =
     (case File_CurrentVersionID f of
        None \<Rightarrow> f\<lparr>File_SizeBytes := 0, File_ChecksumSHA256 := [], File_VersionNumber := 0\<rparr>
      | Some vid \<Rightarrow>
          (case filter (\<lambda>v. Version_ID v = vid) (file_versions d) of
             [] \<Rightarrow> f\<lparr>File_SizeBytes := 0, File_ChecksumSHA256 := [], File_VersionNumber := 0\<rparr>
           | v # _ \<Rightarrow>
               (case filter (\<lambda>b. Blob_ID b = Version_BlobID v) (blobs d) of
                  [] \<Rightarrow> f\<lparr>File_SizeBytes := Version_SizeBytes v, File_ChecksumSHA256 := [],
                         File_VersionNumber := Version_VersionNumber v\<rparr>
                | b # _ \<Rightarrow> f\<lparr>File_SizeBytes := Version_SizeBytes v,
                         File_ChecksumSHA256 := Blob_ChecksumSHA256 b,
                         File_VersionNumber := Version_VersionNumber v\<rparr>)))"

definition FileRepo_Create :: "File \<Rightarrow> unit action" where
  "FileRepo_Create f = sql (\<lambda>now d. commit_stmt ()
     (d\<lparr>files := files d @
        [f\<lparr>File_CurrentVersionID := None, File_LockedBy := None, File_LockedAt := None,
           File_IsDeleted := False, File_DeletedAt := None,
           File_CreatedAt := now, File_UpdatedAt := now\<rparr>]\<rparr>))"

definition FileRepo_GetByID :: "uuid \<Rightarrow> File action" where
  "FileRepo_GetByID i = sql (query_row (\<lambda>_ d.
     map (fileSelect d) (filter (\<lambda>f. File_ID f = i) (files d))))"

definition FileRepo_GetByName :: "uuid \<Rightarrow> uuid option \<Rightarrow> string \<Rightarrow> File action" where
  "FileRepo_GetByName ownerID folderID name = sql (query_row (\<lambda>_ d.
     map (fileSelect d) (filter (\<lambda>f. File_OwnerID f = ownerID \<and> File_FolderID f = folderID
       \<and> File_Name f = name \<and> \<not> File_IsDeleted f) (files d))))"

definition file_key :: "File \<Rightarrow> time \<times> uuid" where
  "file_key f = (File_CreatedAt f, File_ID f)"

record FileListFilter =
  Filter_FolderID :: "uuid option"
  Filter_IncludeDeleted :: bool
  Filter_Descending :: bool

definition FileRepo_List :: "uuid \<Rightarrow> FileListFilter \<Rightarrow> Cursor \<Rightarrow> nat \<Rightarrow> File list action" where
  "FileRepo_List ownerID flt cur limit = sql (query (\<lambda>_ d.
     let rows = filter (\<lambda>f. File_OwnerID f = ownerID \<and> File_FolderID f = Filter_FolderID flt
           \<and> (Filter_IncludeDeleted flt \<or> \<not> File_IsDeleted f)) (files d) in
     map (fileSelect d)
       (if Filter_Descending flt then page_desc file_key cur limit rows
        else page_asc file_key cur limit rows)))"

text \<open>
  \<open>name ILIKE '%' || $2 || '%'\<close>: in the pattern \<open>%\<close> matches any sequence, \<open>_\<close> any one
  character and \<open>\\<close> quotes the next one; letters match without case.
\<close>

fun like_match :: "string \<Rightarrow> string \<Rightarrow> bool" where
  "like_match [] s = (s = [])"
| "like_match (p # ps) s =
     (if p = CHR ''%'' then
        (case s of [] \<Rightarrow> like_match ps [] | c # cs \<Rightarrow> like_match ps s \<or> like_match (p # ps) cs)
      else if p = CHR 0x5C \<and> ps \<noteq> [] then
        (case s of [] \<Rightarrow> False | c # cs \<Rightarrow> hd ps = c \<and> like_match (tl ps) cs)
      else (case s of [] \<Rightarrow> False
        | c # cs \<Rightarrow> (p = CHR ''_'' \<or> p = c) \<and> like_match ps cs))"

definition ilike_contains :: "string \<Rightarrow> string \<Rightarrow> bool" where
  "ilike_contains q name = like_match (CHR ''%'' # lower q @ [CHR ''%'']) (lower name)"

definition FileRepo_Search ::
    "uuid \<Rightarrow> string \<Rightarrow> string \<Rightarrow> Cursor \<Rightarrow> nat \<Rightarrow> File list action" where
  "FileRepo_Search ownerID q mimeType cur limit = sql (query (\<lambda>_ d.
     let rows = filter (\<lambda>f. File_OwnerID f = ownerID \<and> \<not> File_IsDeleted f
           \<and> ilike_contains q (File_Name f)
           \<and> (mimeType = [] \<or> File_MimeType f = mimeType)) (files d) in
     map (fileSelect d) (page_asc file_key cur limit rows)))"

text \<open>The common shape of the single-row updates; the trigger sets \<open>updated_at\<close>.\<close>

definition update_files :: "(File \<Rightarrow> bool) \<Rightarrow> (time \<Rightarrow> File \<Rightarrow> File) \<Rightarrow> nat stmt" where
  "update_files P g = (\<lambda>now d.
     commit_stmt (rows_affected P (files d))
       (d\<lparr>files := update_where P (\<lambda>f. (g now f)\<lparr>File_UpdatedAt := now\<rparr>) (files d)\<rparr>))"

definition FileRepo_Rename :: "uuid \<Rightarrow> string \<Rightarrow> unit action" where
  "FileRepo_Rename i newName = execOne (update_files
     (\<lambda>f. File_ID f = i \<and> \<not> File_IsDeleted f) (\<lambda>_ f. f\<lparr>File_Name := newName\<rparr>))"

definition FileRepo_Move :: "uuid \<Rightarrow> uuid option \<Rightarrow> unit action" where
  "FileRepo_Move i folderID = execOne (update_files
     (\<lambda>f. File_ID f = i \<and> \<not> File_IsDeleted f) (\<lambda>_ f. f\<lparr>File_FolderID := folderID\<rparr>))"

definition FileRepo_SetCurrentVersion :: "uuid \<Rightarrow> uuid \<Rightarrow> unit action" where
  "FileRepo_SetCurrentVersion fileID versionID = execOne (update_files
     (\<lambda>f. File_ID f = fileID) (\<lambda>_ f. f\<lparr>File_CurrentVersionID := Some versionID\<rparr>))"

definition FileRepo_SoftDelete :: "uuid \<Rightarrow> unit action" where
  "FileRepo_SoftDelete i = execOne (update_files
     (\<lambda>f. File_ID f = i \<and> \<not> File_IsDeleted f)
     (\<lambda>now f. f\<lparr>File_IsDeleted := True, File_DeletedAt := Some now\<rparr>))"

definition FileRepo_Restore :: "uuid \<Rightarrow> unit action" where
  "FileRepo_Restore i = execOne (update_files
     (\<lambda>f. File_ID f = i \<and> File_IsDeleted f)
     (\<lambda>_ f. f\<lparr>File_IsDeleted := False, File_DeletedAt := None\<rparr>))"

definition FileRepo_SetLock :: "uuid \<Rightarrow> uuid option \<Rightarrow> unit action" where
  "FileRepo_SetLock i userID = (case userID of
     Some u \<Rightarrow> execOne (update_files
       (\<lambda>f. File_ID f = i \<and> \<not> File_IsDeleted f)
       (\<lambda>now f. f\<lparr>File_LockedBy := Some u, File_LockedAt := Some now\<rparr>))
   | None \<Rightarrow> execOne (update_files
       (\<lambda>f. File_ID f = i) (\<lambda>_ f. f\<lparr>File_LockedBy := None, File_LockedAt := None\<rparr>)))"

definition FileRepo_ListDeletedBefore :: "time \<Rightarrow> nat \<Rightarrow> File list action" where
  "FileRepo_ListDeletedBefore olderThan limit = sql (query (\<lambda>_ d.
     map (fileSelect d) (take limit (sort_key (\<lambda>f. the (File_DeletedAt f))
       (filter (\<lambda>f. File_IsDeleted f \<and>
          (case File_DeletedAt f of None \<Rightarrow> False | Some t \<Rightarrow> t < olderThan)) (files d))))))"

text \<open>
  \<open>Purge\<close>: clear the version pointer, then delete the row; \<open>file_versions\<close> and \<open>shares\<close>
  cascade.
\<close>

definition delete_file :: "uuid \<Rightarrow> nat stmt" where
  "delete_file i = (\<lambda>now d.
     commit_stmt (rows_affected (\<lambda>f. File_ID f = i) (files d))
       (d\<lparr>files := filter (\<lambda>f. File_ID f \<noteq> i) (files d),
          file_versions := filter (\<lambda>v. Version_FileID v \<noteq> i) (file_versions d),
          shares := filter (\<lambda>s. Share_FileID s \<noteq> i) (shares d)\<rparr>))"

definition FileRepo_Purge :: "uuid \<Rightarrow> unit action" where
  "FileRepo_Purge i =
     bnd (sql (update_files (\<lambda>f. File_ID f = i) (\<lambda>_ f. f\<lparr>File_CurrentVersionID := None\<rparr>)))
       (\<lambda>_. execOne (delete_file i))"

section \<open>version_repo.go\<close>

definition next_version_number :: "uuid \<Rightarrow> db \<Rightarrow> int" where
  "next_version_number fileID d =
     foldr max (map Version_VersionNumber
       (filter (\<lambda>v. Version_FileID v = fileID) (file_versions d))) 0 + 1"

text \<open>
  \<open>Create\<close> assigns \<open>MAX(version_number) + 1\<close> inside the statement and returns the row with
  its number and creation time.
\<close>

definition VersionRepo_Create :: "Version \<Rightarrow> Version action" where
  "VersionRepo_Create v = sql (\<lambda>now d.
     let v' = v\<lparr>Version_VersionNumber := next_version_number (Version_FileID v) d,
                Version_CreatedAt := now\<rparr> in
     commit_stmt v' (d\<lparr>file_versions := file_versions d @ [v']\<rparr>))"

definition versionSelect :: "db \<Rightarrow> Version \<Rightarrow> Version list" where
  "versionSelect d v = map (\<lambda>b. v\<lparr>Version_ChecksumSHA256 := Blob_ChecksumSHA256 b\<rparr>)
     (filter (\<lambda>b. Blob_ID b = Version_BlobID v) (blobs d))"

definition VersionRepo_GetByID :: "uuid \<Rightarrow> Version action" where
  "VersionRepo_GetByID i = sql (query_row (\<lambda>_ d.
     concat (map (versionSelect d) (filter (\<lambda>v. Version_ID v = i) (file_versions d)))))"

definition version_key :: "Version \<Rightarrow> time \<times> uuid" where
  "version_key v = (Version_CreatedAt v, Version_ID v)"

definition VersionRepo_ListByFile :: "uuid \<Rightarrow> Cursor \<Rightarrow> nat \<Rightarrow> Version list action" where
  "VersionRepo_ListByFile fileID cur limit = sql (query (\<lambda>_ d.
     page_desc version_key cur limit
       (concat (map (versionSelect d) (filter (\<lambda>v. Version_FileID v = fileID) (file_versions d))))))"

definition total_bytes :: "uuid \<Rightarrow> db \<Rightarrow> int" where
  "total_bytes fileID d =
     sum_list (map Version_SizeBytes (filter (\<lambda>v. Version_FileID v = fileID) (file_versions d)))"

text \<open>The \<open>SUM\<close> is \<open>numeric\<close>; scanning it into an \<open>int64\<close> fails when it does not fit.\<close>

definition VersionRepo_TotalBytes :: "uuid \<Rightarrow> int action" where
  "VersionRepo_TotalBytes fileID = sql (\<lambda>_ d.
     if int64_ok (total_bytes fileID d) then Inr (total_bytes fileID d, d) else Inl DriverError)"

section \<open>blob_repo.go\<close>

definition BlobRepo_Create :: "Blob \<Rightarrow> unit action" where
  "BlobRepo_Create b = sql (\<lambda>now d. commit_stmt ()
     (d\<lparr>blobs := blobs d @ [b\<lparr>Blob_CreatedAt := now\<rparr>]\<rparr>))"

definition BlobRepo_GetByChecksum :: "byte list \<Rightarrow> Blob action" where
  "BlobRepo_GetByChecksum sha = sql (query_row (\<lambda>_ d.
     filter (\<lambda>b. Blob_ChecksumSHA256 b = sha) (blobs d)))"

definition BlobRepo_GetByID :: "uuid \<Rightarrow> Blob action" where
  "BlobRepo_GetByID i = sql (query_row (\<lambda>_ d. filter (\<lambda>b. Blob_ID b = i) (blobs d)))"

definition update_refs :: "(Blob \<Rightarrow> bool) \<Rightarrow> (Blob \<Rightarrow> int) \<Rightarrow> nat stmt" where
  "update_refs P g = (\<lambda>now d.
     commit_stmt (rows_affected P (blobs d))
       (d\<lparr>blobs := update_where P (\<lambda>b. b\<lparr>Blob_RefCount := g b\<rparr>) (blobs d)\<rparr>))"

definition BlobRepo_IncrementRef :: "uuid \<Rightarrow> unit action" where
  "BlobRepo_IncrementRef i = execOne (update_refs (\<lambda>b. Blob_ID b = i) (\<lambda>b. Blob_RefCount b + 1))"

definition BlobRepo_DecrementRef :: "uuid \<Rightarrow> unit action" where
  "BlobRepo_DecrementRef i =
     execOne (update_refs (\<lambda>b. Blob_ID b = i) (\<lambda>b. max (Blob_RefCount b - 1) 0))"

text \<open>\<open>SELECT blob_id, COUNT(*) AS n FROM file_versions WHERE file_id = $1 GROUP BY blob_id\<close>\<close>

definition refs_from_file :: "uuid \<Rightarrow> db \<Rightarrow> uuid \<Rightarrow> int" where
  "refs_from_file fileID d blobID = int (length
     (filter (\<lambda>v. Version_FileID v = fileID \<and> Version_BlobID v = blobID) (file_versions d)))"

definition BlobRepo_DecrementRefsForFile :: "uuid \<Rightarrow> unit action" where
  "BlobRepo_DecrementRefsForFile fileID = sql (\<lambda>now d.
     commit_stmt ()
       (d\<lparr>blobs := update_where (\<lambda>b. refs_from_file fileID d (Blob_ID b) > 0)
          (\<lambda>b. b\<lparr>Blob_RefCount := max (Blob_RefCount b - refs_from_file fileID d (Blob_ID b)) 0\<rparr>)
          (blobs d)\<rparr>))"

definition BlobRepo_ListOrphaned :: "time \<Rightarrow> nat \<Rightarrow> Blob list action" where
  "BlobRepo_ListOrphaned olderThan limit = sql (query (\<lambda>_ d.
     take limit (sort_key Blob_CreatedAt
       (filter (\<lambda>b. Blob_RefCount b = 0 \<and> Blob_CreatedAt b < olderThan) (blobs d)))))"

definition BlobRepo_Delete :: "uuid \<Rightarrow> unit action" where
  "BlobRepo_Delete i = execOne (\<lambda>now d.
     let P = (\<lambda>b. Blob_ID b = i \<and> Blob_RefCount b = 0) in
     commit_stmt (rows_affected P (blobs d)) (d\<lparr>blobs := filter (\<lambda>b. \<not> P b) (blobs d)\<rparr>))"

end
