(* ===== verification/Repo_Uploads.thy ===== *)
theory Repo_Uploads
  imports Repo_Files
begin

text \<open>
  The upload-session and share repositories of \<open>internal/repository/postgres\<close>, one
  definition per method.
\<close>

section \<open>upload_repo.go\<close>

definition UploadRepo_CreateSession :: "UploadSession \<Rightarrow> unit action" where
  "UploadRepo_CreateSession s = sql (\<lambda>now d. commit_stmt ()
     (d\<lparr>upload_sessions := upload_sessions d @ [s\<lparr>Upload_CreatedAt := now\<rparr>]\<rparr>))"

definition UploadRepo_GetSession :: "uuid \<Rightarrow> UploadSession action" where
  "UploadRepo_GetSession i = sql (query_row (\<lambda>_ d.
     filter (\<lambda>s. Upload_ID s = i) (upload_sessions d)))"

definition UploadRepo_UpdateStatus :: "uuid \<Rightarrow> UploadStatus \<Rightarrow> unit action" where
  "UploadRepo_UpdateStatus i status = execOne (\<lambda>now d.
     let P = (\<lambda>s. Upload_ID s = i) in
     commit_stmt (rows_affected P (upload_sessions d))
       (d\<lparr>upload_sessions := update_where P (\<lambda>s. s\<lparr>Upload_Status := status\<rparr>)
          (upload_sessions d)\<rparr>))"

text \<open>\<open>INSERT ... ON CONFLICT (session_id, chunk_index) DO UPDATE ...\<close>\<close>

definition same_chunk :: "Chunk \<Rightarrow> Chunk \<Rightarrow> bool" where
  "same_chunk c c' \<longleftrightarrow> Chunk_SessionID c' = Chunk_SessionID c \<and> Chunk_Index c' = Chunk_Index c"

definition upsert_chunk :: "time \<Rightarrow> Chunk \<Rightarrow> Chunk list \<Rightarrow> Chunk list" where
  "upsert_chunk now c rows =
     (if list_ex (same_chunk c) rows
      then update_where (same_chunk c)
        (\<lambda>r. r\<lparr>Chunk_SizeBytes := Chunk_SizeBytes c, Chunk_ChecksumSHA256 := Chunk_ChecksumSHA256 c,
              Chunk_StorageKey := Chunk_StorageKey c, Chunk_UploadedAt := now\<rparr>) rows
      else rows @ [c\<lparr>Chunk_UploadedAt := now\<rparr>])"

definition UploadRepo_SaveChunk :: "Chunk \<Rightarrow> unit action" where
  "UploadRepo_SaveChunk c = sql (\<lambda>now d.
     commit_stmt () (d\<lparr>upload_chunks := upsert_chunk now c (upload_chunks d)\<rparr>))"

definition chunks_of :: "uuid \<Rightarrow> db \<Rightarrow> Chunk list" where
  "chunks_of sessionID d =
     sort_key Chunk_Index (filter (\<lambda>c. Chunk_SessionID c = sessionID) (upload_chunks d))"

definition UploadRepo_ListChunks :: "uuid \<Rightarrow> Chunk list action" where
  "UploadRepo_ListChunks sessionID = sql (query (\<lambda>_ d. chunks_of sessionID d))"

definition UploadRepo_ListExpired :: "time \<Rightarrow> nat \<Rightarrow> UploadSession list action" where
  "UploadRepo_ListExpired now limit = sql (query (\<lambda>_ d.
     take limit (sort_key Upload_ExpiresAt
       (filter (\<lambda>s. Upload_Status s = UploadPending \<and> Upload_ExpiresAt s < now)
          (upload_sessions d)))))"

section \<open>share_repo.go\<close>

definition ShareRepo_Create :: "Share \<Rightarrow> unit action" where
  "ShareRepo_Create s = sql (\<lambda>now d. commit_stmt ()
     (d\<lparr>shares := shares d @ [s\<lparr>Share_CreatedAt := now, Share_RevokedAt := None\<rparr>]\<rparr>))"

definition ShareRepo_GetByID :: "uuid \<Rightarrow> Share action" where
  "ShareRepo_GetByID i = sql (query_row (\<lambda>_ d. filter (\<lambda>s. Share_ID s = i) (shares d)))"

definition ShareRepo_GetByTokenHash :: "byte list \<Rightarrow> Share action" where
  "ShareRepo_GetByTokenHash h = sql (query_row (\<lambda>_ d.
     filter (\<lambda>s. Share_TokenHash s = Some h) (shares d)))"

definition ShareRepo_FindGrant :: "uuid \<Rightarrow> uuid \<Rightarrow> Share action" where
  "ShareRepo_FindGrant fileID userID = sql (query_row (\<lambda>now d.
     filter (\<lambda>s. Share_FileID s = fileID \<and> Share_GranteeID s = Some userID
        \<and> Share_RevokedAt s = None
        \<and> (case Share_ExpiresAt s of None \<Rightarrow> True | Some e \<Rightarrow> e > now)) (shares d)))"

definition share_key :: "Share \<Rightarrow> time \<times> uuid" where
  "share_key s = (Share_CreatedAt s, Share_ID s)"

definition ShareRepo_ListByOwner ::
    "uuid \<Rightarrow> uuid option \<Rightarrow> Cursor \<Rightarrow> nat \<Rightarrow> Share list action" where
  "ShareRepo_ListByOwner ownerID fileID cur limit = sql (query (\<lambda>_ d.
     page_asc share_key cur limit
       (filter (\<lambda>s. Share_OwnerID s = ownerID \<and> Share_RevokedAt s = None
          \<and> (case fileID of None \<Rightarrow> True | Some f \<Rightarrow> Share_FileID s = f)) (shares d))))"

definition ShareRepo_Revoke :: "uuid \<Rightarrow> unit action" where
  "ShareRepo_Revoke i = execOne (\<lambda>now d.
     let P = (\<lambda>s. Share_ID s = i \<and> Share_RevokedAt s = None) in
     commit_stmt (rows_affected P (shares d))
       (d\<lparr>shares := update_where P (\<lambda>s. s\<lparr>Share_RevokedAt := Some now\<rparr>) (shares d)\<rparr>))"

end
