(* ===== verification/Access.thy ===== *)
theory Access
  imports Store Repo_Accounts Repo_Uploads
begin

text \<open>
  \<open>internal/usecase/access.go\<close> and \<open>internal/usecase/audit.go\<close>: the authorization gate of
  every file operation, the hygiene of names, and the best-effort audit record.
\<close>

section \<open>Operations\<close>

definition errIs :: "error \<Rightarrow> error list \<Rightarrow> bool" where
  "errIs err targets = list_ex (\<lambda>t. err = t) targets"

definition authorizeFile :: "Identity \<Rightarrow> uuid \<Rightarrow> Permission \<Rightarrow> time \<Rightarrow> File action" where
  "authorizeFile ident fileID need now =
     bnd (attempt (FileRepo_GetByID fileID)) (\<lambda>r. case r of
       Inl _ \<Rightarrow> throw ErrNotFound
     | Inr f \<Rightarrow>
         if File_OwnerID f = Identity_UserID ident \<or> Identity_Role ident = RoleAdmin then ret f
         else if File_IsDeleted f then throw ErrNotFound
         else
           bnd (attempt (ShareRepo_FindGrant fileID (Identity_UserID ident))) (\<lambda>g. case g of
             Inl _ \<Rightarrow> throw ErrNotFound
           | Inr grant \<Rightarrow>
               if \<not> Share_IsActive grant now then throw ErrNotFound
               else if \<not> Permission_Allows (Share_Permission grant) need
               then throw ErrPermissionDenied
               else ret f))"

text \<open>
  \<open>strings.TrimSpace\<close> removes leading and trailing runes with \<open>unicode.IsSpace\<close>; these are
  their UTF-8 encodings.
\<close>

definition space_runes :: "string list" where
  "space_runes =
     [[CHR 0x09], [CHR 0x0A], [CHR 0x0B], [CHR 0x0C], [CHR 0x0D], [CHR 0x20],
      [CHR 0xC2, CHR 0x85], [CHR 0xC2, CHR 0xA0], [CHR 0xE1, CHR 0x9A, CHR 0x80],
      [CHR 0xE2, CHR 0x80, CHR 0x80], [CHR 0xE2, CHR 0x80, CHR 0x81],
      [CHR 0xE2, CHR 0x80, CHR 0x82], [CHR 0xE2, CHR 0x80, CHR 0x83],
      [CHR 0xE2, CHR 0x80, CHR 0x84], [CHR 0xE2, CHR 0x80, CHR 0x85],
      [CHR 0xE2, CHR 0x80, CHR 0x86], [CHR 0xE2, CHR 0x80, CHR 0x87],
      [CHR 0xE2, CHR 0x80, CHR 0x88], [CHR 0xE2, CHR 0x80, CHR 0x89],
      [CHR 0xE2, CHR 0x80, CHR 0x8A], [CHR 0xE2, CHR 0x80, CHR 0xA8],
      [CHR 0xE2, CHR 0x80, CHR 0xA9], [CHR 0xE2, CHR 0x80, CHR 0xAF],
      [CHR 0xE2, CHR 0x81, CHR 0x9F], [CHR 0xE3, CHR 0x80, CHR 0x80]]"

fun trim_prefixes :: "string list \<Rightarrow> string \<Rightarrow> string" where
  "trim_prefixes ps s =
     (case filter (\<lambda>p. p \<noteq> [] \<and> take (length p) s = p) ps of
        [] \<Rightarrow> s
      | p # _ \<Rightarrow> if s = [] then s else trim_prefixes ps (drop (max 1 (length p)) s))"

declare trim_prefixes.simps [simp del]

definition TrimSpace :: "string \<Rightarrow> string" where
  "TrimSpace s = rev (trim_prefixes (map rev space_runes) (rev (trim_prefixes space_runes s)))"

definition validateName :: "string \<Rightarrow> error + string" where
  "validateName name0 =
     (let name = TrimSpace name0 in
      if name = [] \<or> length name > 255 then Inl ErrInvalidArgument
      else if name = ''.'' \<or> name = ''..'' then Inl ErrInvalidArgument
      else if list_ex (\<lambda>c. c = CHR ''/'' \<or> c = CHR 0x5C \<or> c = CHR 0x00) name
      then Inl ErrInvalidArgument
      else if list_ex (\<lambda>c. of_char c < (0x20 :: nat)) name then Inl ErrInvalidArgument
      else Inr name)"

definition parseOptionalID :: "ext \<Rightarrow> string \<Rightarrow> error + uuid option" where
  "parseOptionalID X s =
     (if s = [] then Inr None
      else case X_uuid_Parse X s of
        None \<Rightarrow> Inl ErrInvalidArgument
      | Some i \<Rightarrow> Inr (Some i))"

text \<open>\<open>Auditor.Record\<close>: a failed insert is logged, never returned.\<close>

definition Auditor_Record ::
    "uuid option \<Rightarrow> AuditAction \<Rightarrow> string \<Rightarrow> string \<Rightarrow> (string \<times> string) list \<Rightarrow> unit action" where
  "Auditor_Record userID act resourceType resourceID metadata =
     bnd (gets w_meta) (\<lambda>meta.
     ignore (AuditRepo_Insert \<lparr>Audit_UserID = userID, Audit_Action = act,
       Audit_ResourceType = resourceType, Audit_ResourceID = resourceID,
       Audit_IP = Meta_IP meta, Audit_UserAgent = Meta_UserAgent meta,
       Audit_Metadata = metadata, Audit_CreatedAt = 0\<rparr>))"

section \<open>Authorization\<close>

text \<open>
  What the caller may do with a file, read off the tables: the abstract policy.
\<close>

definition live_grant :: "db \<Rightarrow> time \<Rightarrow> uuid \<Rightarrow> uuid \<Rightarrow> Share \<Rightarrow> bool" where
  "live_grant d now userID fileID s \<longleftrightarrow>
     s \<in> set (shares d) \<and> Share_FileID s = fileID \<and> Share_GranteeID s = Some userID \<and>
     Share_RevokedAt s = None \<and> (\<forall>e. Share_ExpiresAt s = Some e \<longrightarrow> now \<le> e)"

definition may_access :: "db \<Rightarrow> time \<Rightarrow> Identity \<Rightarrow> Permission \<Rightarrow> File \<Rightarrow> bool" where
  "may_access d now ident need f \<longleftrightarrow>
     File_OwnerID f = Identity_UserID ident \<or> Identity_Role ident = RoleAdmin \<or>
     \<not> File_IsDeleted f \<and>
     (\<exists>s. live_grant d now (Identity_UserID ident) (File_ID f) s \<and> need \<le> Share_Permission s)"

lemma FileRepo_GetByID_Inr:
  assumes "FileRepo_GetByID i w = (Inr f, w')"
  shows "\<exists>g \<in> set (files (w_db w)). File_ID g = i \<and> f = fileSelect (w_db w) g"
    and "w' = next_call w"
  using assms
  by (auto simp: FileRepo_GetByID_def sql_Inr_iff query_row_Inr map_eq_Cons_conv filter_eq_Cons_iff)

lemma fileSelect_fields [simp]:
  "File_ID (fileSelect d f) = File_ID f" "File_OwnerID (fileSelect d f) = File_OwnerID f"
  "File_IsDeleted (fileSelect d f) = File_IsDeleted f" "File_Name (fileSelect d f) = File_Name f"
  "File_FolderID (fileSelect d f) = File_FolderID f"
  "File_LockedBy (fileSelect d f) = File_LockedBy f"
  "File_CurrentVersionID (fileSelect d f) = File_CurrentVersionID f"
  by (auto simp: fileSelect_def split: option.splits list.splits)

lemma FindGrant_Inr:
  assumes "ShareRepo_FindGrant i u w = (Inr s, w')"
  shows "s \<in> set (shares (w_db w)) \<and> Share_FileID s = i \<and> Share_GranteeID s = Some u
    \<and> Share_RevokedAt s = None" and "w' = next_call w"
  using assms
  by (auto simp: ShareRepo_FindGrant_def sql_Inr_iff query_row_Inr filter_eq_Cons_iff)

lemma authorizeFile_sound:
  assumes "authorizeFile ident i need now w = (Inr f, w')"
  shows "\<exists>g \<in> set (files (w_db w)). File_ID g = i \<and> f = fileSelect (w_db w) g \<and>
    may_access (w_db w) now ident need g" and "w_db w' = w_db w"
proof -
  obtain w1 where get: "FileRepo_GetByID i w = (Inr f, w1)" and
    branch: "(File_OwnerID f = Identity_UserID ident \<or> Identity_Role ident = RoleAdmin) \<and> w' = w1 \<or>
      \<not> File_IsDeleted f \<and> (\<exists>s. ShareRepo_FindGrant i (Identity_UserID ident) w1 = (Inr s, w') \<and>
        Share_IsActive s now \<and> Permission_Allows (Share_Permission s) need)"
    using assms
    by (auto simp: authorizeFile_def bnd_attempt_iff split: if_splits)
  obtain g where g: "g \<in> set (files (w_db w))" "File_ID g = i" "f = fileSelect (w_db w) g"
    and w1: "w1 = next_call w"
    using FileRepo_GetByID_Inr [OF get] by blast
  have "may_access (w_db w) now ident need g"
    using branch g w1
    by (auto simp: may_access_def live_grant_def Share_IsActive_iff less_eq_Permission_def
        dest!: FindGrant_Inr(1))
  with g show "\<exists>g \<in> set (files (w_db w)). File_ID g = i \<and> f = fileSelect (w_db w) g \<and>
    may_access (w_db w) now ident need g" by blast
  show "w_db w' = w_db w" using branch w1 by (auto dest!: FindGrant_Inr(2))
qed

text \<open>A stranger to a file cannot tell it from one that does not exist.\<close>

definition stranger :: "db \<Rightarrow> Identity \<Rightarrow> uuid \<Rightarrow> bool" where
  "stranger d ident fileID \<longleftrightarrow> Identity_Role ident \<noteq> RoleAdmin \<and>
     (\<forall>f \<in> set (files d). File_ID f = fileID \<longrightarrow> File_OwnerID f \<noteq> Identity_UserID ident) \<and>
     (\<forall>s \<in> set (shares d). Share_FileID s = fileID \<longrightarrow>
        Share_GranteeID s \<noteq> Some (Identity_UserID ident))"

lemma authorizeFile_stranger:
  assumes "stranger (w_db w) ident i"
  shows "fst (authorizeFile ident i need now w) = Inl ErrNotFound"
proof (cases "FileRepo_GetByID i w")
  case (Pair r w1)
  show ?thesis
  proof (cases r)
    case (Inl e)
    then show ?thesis using Pair by (simp add: authorizeFile_def bnd_def attempt_def throw_def)
  next
    case (Inr f)
    then have f: "File_OwnerID f \<noteq> Identity_UserID ident" and w1: "w1 = next_call w"
      using FileRepo_GetByID_Inr [of i w f w1] Pair assms by (auto simp: stranger_def)
    have "\<nexists>s w2. ShareRepo_FindGrant i (Identity_UserID ident) w1 = (Inr s, w2)"
      using FindGrant_Inr(1) [of i "Identity_UserID ident" w1] assms w1 by (auto simp: stranger_def)
    then show ?thesis
      using Pair Inr f assms
      by (auto simp: authorizeFile_def bnd_def attempt_def throw_def stranger_def
          split: sum.splits prod.splits)
  qed
qed

text \<open>\<open>ErrPermissionDenied\<close> is only told to someone who holds a grant on a live file.\<close>

lemma authorizeFile_errors:
  assumes "authorizeFile ident i need now w = (Inl e, w')"
  shows "e = ErrNotFound \<or> e = ErrPermissionDenied \<and>
    (\<exists>s. live_grant (w_db w) now (Identity_UserID ident) i s \<and> \<not> need \<le> Share_Permission s)"
proof -
  have "e = ErrNotFound \<or> e = ErrPermissionDenied \<and> (\<exists>f w1 s w2. FileRepo_GetByID i w = (Inr f, w1) \<and>
      ShareRepo_FindGrant i (Identity_UserID ident) w1 = (Inr s, w2) \<and> Share_IsActive s now \<and>
      \<not> Permission_Allows (Share_Permission s) need)"
    using assms
    by (auto simp: authorizeFile_def bnd_attempt_iff split: if_splits)
  then show ?thesis
    by (auto simp: live_grant_def Share_IsActive_iff less_eq_Permission_def
        dest!: FileRepo_GetByID_Inr(2) FindGrant_Inr(1))
qed

section \<open>Names\<close>

text \<open>The names the rest of the program and the schema can rely on.\<close>

definition safe_name :: "string \<Rightarrow> bool" where
  "safe_name s \<longleftrightarrow> s \<noteq> [] \<and> length s \<le> 255 \<and> s \<noteq> ''.'' \<and> s \<noteq> ''..'' \<and>
     (\<forall>c \<in> set s. c \<noteq> CHR ''/'' \<and> c \<noteq> CHR 0x5C \<and> 32 \<le> (of_char c :: nat))"

lemma ball_list_ex: "(\<forall>c \<in> set t. \<not> P c \<and> \<not> Q c) \<longleftrightarrow> \<not> list_ex P t \<and> \<not> list_ex Q t"
  by (induction t) auto

lemma if_chain:
  "(if A then x else if B then x else if C then x else if D then x else y) =
   (if \<not> A \<and> \<not> B \<and> \<not> C \<and> \<not> D then y else x)"
  by simp

lemma safe_name_checks:
  "safe_name t \<longleftrightarrow> \<not> (t = [] \<or> length t > 255) \<and> \<not> (t = ''.'' \<or> t = ''..'') \<and>
     \<not> list_ex (\<lambda>c. c = CHR ''/'' \<or> c = CHR 0x5C \<or> c = CHR 0x00) t \<and>
     \<not> list_ex (\<lambda>c. of_char c < (0x20 :: nat)) t"
proof -
  have one: "c \<noteq> CHR ''/'' \<and> c \<noteq> CHR 0x5C \<and> 32 \<le> (of_char c :: nat) \<longleftrightarrow>
      \<not> (c = CHR ''/'' \<or> c = CHR 0x5C \<or> c = CHR 0x00) \<and> \<not> of_char c < (0x20 :: nat)" for c
    by (cases "c = CHR 0x00") auto
  show ?thesis
    unfolding safe_name_def one ball_list_ex by (simp only: de_Morgan_disj not_less conj_assoc)
qed

lemma validateName_exact:
  "validateName s = (if safe_name (TrimSpace s) then Inr (TrimSpace s) else Inl ErrInvalidArgument)"
  unfolding validateName_def Let_def safe_name_checks by (rule if_chain)

lemma validateName_safe: "validateName s = Inr t \<Longrightarrow> safe_name t"
  by (simp add: validateName_exact split: if_splits)

lemma trim_prefixes_done:
  "\<not> (\<exists>p \<in> set ps. p \<noteq> [] \<and> take (length p) (trim_prefixes ps s) = p)"
proof (induction ps s rule: trim_prefixes.induct)
  case (1 ps s)
  show ?case
  proof (cases "filter (\<lambda>p. p \<noteq> [] \<and> take (length p) s = p) ps")
    case Nil
    then show ?thesis by (subst trim_prefixes.simps) (auto simp: filter_empty_conv)
  next
    case (Cons p qs)
    then have "p \<noteq> [] \<and> take (length p) s = p" by (auto simp: filter_eq_Cons_iff)
    then have "s \<noteq> []" by auto
    with 1 Cons show ?thesis by (subst trim_prefixes.simps) simp
  qed
qed

lemma trim_prefixes_id:
  "\<not> (\<exists>p \<in> set ps. p \<noteq> [] \<and> take (length p) s = p) \<Longrightarrow> trim_prefixes ps s = s"
  by (subst trim_prefixes.simps) (auto simp: filter_empty_conv split: list.splits)

lemma trim_prefixes_suffix: "\<exists>n. trim_prefixes ps s = drop n s"
proof (induction ps s rule: trim_prefixes.induct)
  case (1 ps s)
  then show ?case
  proof (cases "filter (\<lambda>p. p \<noteq> [] \<and> take (length p) s = p) ps = [] \<or> s = []")
    case True
    then have "trim_prefixes ps s = drop 0 s"
      by (subst trim_prefixes.simps) (auto split: list.splits)
    then show ?thesis by blast
  next
    case False
    then obtain p qs where "filter (\<lambda>p. p \<noteq> [] \<and> take (length p) s = p) ps = p # qs" "s \<noteq> []"
      by (meson neq_Nil_conv)
    with 1 show ?thesis by (subst trim_prefixes.simps) auto
  qed
qed

lemma TrimSpace_idem: "TrimSpace (TrimSpace s) = TrimSpace s"
proof -
  let ?l = "trim_prefixes space_runes s"
  let ?t = "TrimSpace s"
  obtain n where n: "trim_prefixes (map rev space_runes) (rev ?l) = drop n (rev ?l)"
    using trim_prefixes_suffix by blast
  have pre: "?t = take (length ?l - n) ?l"
    by (simp only: TrimSpace_def n rev_drop rev_rev_ident length_rev)
  have "\<not> (\<exists>p \<in> set space_runes. p \<noteq> [] \<and> take (length p) ?t = p)"
  proof
    assume "\<exists>p \<in> set space_runes. p \<noteq> [] \<and> take (length p) ?t = p"
    then obtain p where p: "p \<in> set space_runes" "p \<noteq> []" "take (length p) ?t = p" by blast
    have "length p \<le> length ?t" using arg_cong [OF p(3), of length] by simp
    then have "length p \<le> length ?l - n" using arg_cong [OF pre, of length] by simp
    then have "take (length p) ?l = p" using p(3) by (simp add: pre)
    then show False using trim_prefixes_done [of space_runes s] p by blast
  qed
  then have "trim_prefixes space_runes ?t = ?t" by (rule trim_prefixes_id)
  moreover have "trim_prefixes (map rev space_runes) (rev ?t) = rev ?t"
    using trim_prefixes_done [of "map rev space_runes" "rev ?l"]
    by (intro trim_prefixes_id) (simp add: TrimSpace_def)
  ultimately show ?thesis by (simp add: TrimSpace_def [of ?t])
qed

text \<open>Names of visible ASCII characters are left as they are.\<close>

definition visible_ascii :: "char \<Rightarrow> bool" where
  "visible_ascii c \<longleftrightarrow> 32 < (of_char c :: nat) \<and> (of_char c :: nat) < 128"

lemma space_runes_invisible:
  "list_all (\<lambda>p. list_all (\<lambda>c. \<not> visible_ascii c) p) space_runes"
  by (simp add: space_runes_def visible_ascii_def)

lemma trim_prefixes_visible:
  assumes "list_all visible_ascii s" "list_all (\<lambda>p. list_all (\<lambda>c. \<not> visible_ascii c) p) ps"
  shows "trim_prefixes ps s = s"
proof (rule trim_prefixes_id, rule notI)
  assume "\<exists>p \<in> set ps. p \<noteq> [] \<and> take (length p) s = p"
  then obtain p where p: "p \<in> set ps" "p \<noteq> []" "take (length p) s = p" by blast
  obtain c q where c: "p = c # q" using p(2) by (meson list.exhaust)
  have "c \<in> set (take (length p) s)" unfolding p(3) by (simp add: c)
  then have "c \<in> set s" by (rule in_set_takeD)
  with assms p(1) c show False by (auto simp: list_all_iff)
qed

lemma TrimSpace_visible: "list_all visible_ascii s \<Longrightarrow> TrimSpace s = s"
  using space_runes_invisible
  by (simp add: TrimSpace_def trim_prefixes_visible list_all_iff)

end
