(* ===== verification/Signer.thy ===== *)
theory Signer
  imports Base64 Crypto
begin

text \<open>
  \<open>internal/service/signer.go\<close>: application-layer signed download URLs. The signer is the
  secret and the clock reading; HMAC-SHA256 and the textual form of UUIDs are parameters.
\<close>

section \<open>Query parameters\<close>

type_synonym url_values = "(string \<times> string) list"

text \<open>\<open>url.Values.Set\<close> and \<open>url.Values.Get\<close> on keys that carry one value.\<close>

definition values_Set :: "string \<Rightarrow> string \<Rightarrow> url_values \<Rightarrow> url_values" where
  "values_Set k v vs = (k, v) # filter (\<lambda>(k', _). k' \<noteq> k) vs"

definition values_Get :: "url_values \<Rightarrow> string \<Rightarrow> string" where
  "values_Get vs k = (case map_of vs k of None \<Rightarrow> [] | Some v \<Rightarrow> v)"

section \<open>Signing\<close>

text \<open>\<open>fmt.Fprintf(mac, "%s|%s|%d", fileID, userID, exp)\<close>\<close>

definition signed_message :: "ext \<Rightarrow> uuid \<Rightarrow> uuid \<Rightarrow> int \<Rightarrow> string" where
  "signed_message X fileID userID expiry =
     X_uuid_String X fileID @ ''|'' @ X_uuid_String X userID @ ''|'' @ show_int expiry"

definition signature :: "ext \<Rightarrow> byte list \<Rightarrow> uuid \<Rightarrow> uuid \<Rightarrow> int \<Rightarrow> string" where
  "signature X secret fileID userID expiry =
     base64_EncodeToString (X_hmac_sha256 X secret (bytes_of (signed_message X fileID userID expiry)))"

definition Sign :: "ext \<Rightarrow> byte list \<Rightarrow> time \<Rightarrow> uuid \<Rightarrow> uuid \<Rightarrow> duration \<Rightarrow> url_values" where
  "Sign X secret now fileID userID ttl =
     (let expiry = time_Unix (now + ttl) in
      values_Set ''sig'' (signature X secret fileID userID expiry)
        (values_Set ''exp'' (show_int expiry)
          (values_Set ''uid'' (X_uuid_String X userID) [])))"

definition Verify :: "ext \<Rightarrow> byte list \<Rightarrow> time \<Rightarrow> uuid \<Rightarrow> url_values \<Rightarrow> error + uuid" where
  "Verify X secret now fileID query =
     (case X_uuid_Parse X (values_Get query ''uid'') of
        None \<Rightarrow> Inl ErrUnauthenticated
      | Some userID \<Rightarrow>
          (case ParseInt64 (values_Get query ''exp'') of
             None \<Rightarrow> Inl ErrUnauthenticated
           | Some expiry \<Rightarrow>
               if time_Unix now > expiry then Inl ErrUnauthenticated
               else if signature X secret fileID userID expiry \<noteq> values_Get query ''sig''
               then Inl ErrUnauthenticated
               else Inr userID))"

section \<open>Facts\<close>

text \<open>\<open>uuid.Parse\<close> reads back what \<open>String\<close> writes; the text of a UUID has no \<open>|\<close>.\<close>

definition uuid_ok :: "ext \<Rightarrow> bool" where
  "uuid_ok X \<longleftrightarrow> (\<forall>u. X_uuid_Parse X (X_uuid_String X u) = Some u \<and>
     CHR ''|'' \<notin> set (X_uuid_String X u))"

lemma uuid_String_inj: "uuid_ok X \<Longrightarrow> X_uuid_String X a = X_uuid_String X b \<longleftrightarrow> a = b"
  by (metis option.inject uuid_ok_def)

lemma values_Get_Sign:
  "values_Get (Sign X secret now fileID userID ttl) ''uid'' = X_uuid_String X userID"
  "values_Get (Sign X secret now fileID userID ttl) ''exp'' = show_int (time_Unix (now + ttl))"
  "values_Get (Sign X secret now fileID userID ttl) ''sig'' =
     signature X secret fileID userID (time_Unix (now + ttl))"
  by (simp_all add: Sign_def Let_def values_Get_def values_Set_def)

lemma Verify_Sign:
  assumes "uuid_ok X" "int64_ok (time_Unix (now + ttl))"
  shows "Verify X secret later fileID (Sign X secret now fileID userID ttl) =
    (if time_Unix later \<le> time_Unix (now + ttl) then Inr userID else Inl ErrUnauthenticated)"
  using assms by (simp add: Verify_def values_Get_Sign uuid_ok_def ParseInt64_show_int)

lemma append_bar_inj:
  "c \<notin> set a \<Longrightarrow> c \<notin> set a' \<Longrightarrow> a @ c # b = a' @ c # b' \<longleftrightarrow> a = a' \<and> b = b'"
proof (induction a arbitrary: a')
  case Nil
  then show ?case by (cases a') auto
next
  case (Cons x a)
  then show ?case by (cases a') auto
qed

text \<open>The signed message determines file, user and expiry.\<close>

lemma signed_message_inj:
  assumes "uuid_ok X" "signed_message X f u e = signed_message X f' u' e'"
  shows "f = f' \<and> u = u' \<and> e = e'"
  using assms append_bar_inj [of "CHR ''|''"]
  by (auto simp: signed_message_def uuid_ok_def uuid_String_inj [OF assms(1)] dest!: show_int_inj)

text \<open>
  A query that verifies for a file carries the HMAC of a message that names this very file,
  the user it is accepted for, and an expiry that has not passed.
\<close>

lemma Verify_accepts:
  assumes "Verify X secret now fileID query = Inr userID"
  shows "\<exists>expiry. time_Unix now \<le> expiry \<and> X_uuid_Parse X (values_Get query ''uid'') = Some userID \<and>
    ParseInt64 (values_Get query ''exp'') = Some expiry \<and>
    values_Get query ''sig'' = base64_EncodeToString
      (X_hmac_sha256 X secret (bytes_of (signed_message X fileID userID expiry)))"
  using assms
  by (auto simp: Verify_def signature_def not_less split: option.splits if_splits)

end
