(* ===== verification/File_UC.thy ===== *)
theory File_UC
  imports Access Signer
begin

text \<open>
  \<open>internal/usecase/file_uc.go\<close>: metadata operations on files and folders, version history,
  the advisory lock, and decrypting downloads.
\<close>

record FileUseCase =
  fu_ext :: ext
  fu_kek :: "byte list"
  fu_secret :: "byte list"
  fu_SignedURLTTL :: duration

section \<open>Helpers\<close>

definition mutableFile :: "Identity \<Rightarrow> uuid \<Rightarrow> Permission \<Rightarrow> File action" where
  "mutableFile ident fileID need =
     bnd clock_Now (\<lambda>now.
     bnd (authorizeFile ident fileID need now) (\<lambda>f.
     if File_IsDeleted f then throw ErrNotFound
     else if File_IsLockedByOther f (Identity_UserID ident) then throw ErrFileLocked
     else ret f))"

definition ownFolder :: "Identity \<Rightarrow> uuid \<Rightarrow> unit action" where
  "ownFolder ident folderID =
     bnd (attempt (FolderRepo_GetByID folderID)) (\<lambda>r. case r of
       Inl _ \<Rightarrow> throw ErrNotFound
     | Inr folder \<Rightarrow>
         if Folder_OwnerID folder \<noteq> Identity_UserID ident then throw ErrNotFound else ret ())"

definition ownFolder_opt :: "Identity \<Rightarrow> uuid option \<Rightarrow> unit action" where
  "ownFolder_opt ident folderID =
     (case folderID of None \<Rightarrow> ret () | Some i \<Rightarrow> ownFolder ident i)"

section \<open>Metadata\<close>

definition FileUC_Get :: "Identity \<Rightarrow> uuid \<Rightarrow> File action" where
  "FileUC_Get ident fileID =
     bnd clock_Now (\<lambda>now. authorizeFile ident fileID PermissionViewer now)"

definition FileUC_List ::
    "Identity \<Rightarrow> uuid option \<Rightarrow> bool \<Rightarrow> bool \<Rightarrow> Cursor \<Rightarrow> nat \<Rightarrow> File list action" where
  "FileUC_List ident folderID includeDeleted descending cur limit =
     bnd (ownFolder_opt ident folderID) (\<lambda>_.
     FileRepo_List (Identity_UserID ident)
       \<lparr>Filter_FolderID = folderID, Filter_IncludeDeleted = includeDeleted,
        Filter_Descending = descending\<rparr> cur limit)"

definition FileUC_Search ::
    "Identity \<Rightarrow> string \<Rightarrow> string \<Rightarrow> Cursor \<Rightarrow> nat \<Rightarrow> File list action" where
  "FileUC_Search ident q mimeType cur limit =
     (if length q < 2 \<or> length q > 100 then throw ErrInvalidArgument
      else FileRepo_Search (Identity_UserID ident) q mimeType cur limit)"

definition FileUC_Rename :: "Identity \<Rightarrow> uuid \<Rightarrow> string \<Rightarrow> File action" where
  "FileUC_Rename ident fileID newName0 =
     bnd (from_sum (validateName newName0)) (\<lambda>newName.
     bnd (mutableFile ident fileID PermissionEditor) (\<lambda>f.
     bnd (FileRepo_Rename (File_ID f) newName) (\<lambda>_.
     FileRepo_GetByID (File_ID f))))"

definition move_target_ok :: "File \<Rightarrow> uuid option \<Rightarrow> unit action" where
  "move_target_ok f targetFolderID = (case targetFolderID of
     None \<Rightarrow> ret ()
   | Some t \<Rightarrow>
       bnd (attempt (FolderRepo_GetByID t)) (\<lambda>r. case r of
         Inl _ \<Rightarrow> throw ErrNotFound
       | Inr folder \<Rightarrow>
           if Folder_OwnerID folder \<noteq> File_OwnerID f then throw ErrNotFound else ret ()))"

definition FileUC_Move :: "Identity \<Rightarrow> uuid \<Rightarrow> uuid option \<Rightarrow> File action" where
  "FileUC_Move ident fileID targetFolderID =
     bnd (mutableFile ident fileID PermissionEditor) (\<lambda>f.
     bnd (move_target_ok f targetFolderID) (\<lambda>_.
     bnd (FileRepo_Move (File_ID f) targetFolderID) (\<lambda>_.
     FileRepo_GetByID (File_ID f))))"

definition FileUC_Delete :: "FileUseCase \<Rightarrow> Identity \<Rightarrow> uuid \<Rightarrow> unit action" where
  "FileUC_Delete u ident fileID =
     bnd (mutableFile ident fileID PermissionOwner) (\<lambda>f.
     bnd (FileRepo_SoftDelete (File_ID f)) (\<lambda>_.
     Auditor_Record (Some (Identity_UserID ident)) AuditFileDeleted ''file''
       (X_uuid_String (fu_ext u) (File_ID f)) []))"

definition FileUC_Restore :: "FileUseCase \<Rightarrow> Identity \<Rightarrow> uuid \<Rightarrow> File action" where
  "FileUC_Restore u ident fileID =
     bnd clock_Now (\<lambda>now.
     bnd (authorizeFile ident fileID PermissionOwner now) (\<lambda>f.
     if \<not> File_IsDeleted f then ret f
     else
       bnd (FileRepo_Restore (File_ID f)) (\<lambda>_.
       bnd (Auditor_Record (Some (Identity_UserID ident)) AuditFileRestored ''file''
              (X_uuid_String (fu_ext u) (File_ID f)) []) (\<lambda>_.
       FileRepo_GetByID (File_ID f)))))"

section \<open>Versions\<close>

definition FileUC_ListVersions :: "Identity \<Rightarrow> uuid \<Rightarrow> Cursor \<Rightarrow> nat \<Rightarrow> Version list action" where
  "FileUC_ListVersions ident fileID cur limit =
     bnd (FileUC_Get ident fileID) (\<lambda>_. VersionRepo_ListByFile fileID cur limit)"

definition restored_version :: "Identity \<Rightarrow> File \<Rightarrow> Version \<Rightarrow> uuid \<Rightarrow> Version" where
  "restored_version ident f old i = \<lparr>Version_ID = i, Version_FileID = File_ID f,
     Version_VersionNumber = 0, Version_BlobID = Version_BlobID old,
     Version_SizeBytes = Version_SizeBytes old, Version_CreatedBy = Identity_UserID ident,
     Version_CreatedAt = 0, Version_ChecksumSHA256 = []\<rparr>"

definition restore_tx :: "File \<Rightarrow> Version \<Rightarrow> Version \<Rightarrow> unit action" where
  "restore_tx f old newVersion =
     bnd (VersionRepo_Create newVersion) (\<lambda>_.
     bnd (BlobRepo_IncrementRef (Version_BlobID old)) (\<lambda>_.
     bnd (FileRepo_SetCurrentVersion (File_ID f) (Version_ID newVersion)) (\<lambda>_.
     QuotaRepo_AddUsage (File_OwnerID f) (Version_SizeBytes old))))"

definition RestoreVersion :: "FileUseCase \<Rightarrow> Identity \<Rightarrow> uuid \<Rightarrow> uuid \<Rightarrow> File action" where
  "RestoreVersion u ident fileID versionID =
     bnd (mutableFile ident fileID PermissionEditor) (\<lambda>f.
     bnd (attempt (VersionRepo_GetByID versionID)) (\<lambda>r. case r of
       Inl _ \<Rightarrow> throw ErrNotFound
     | Inr old \<Rightarrow>
         if Version_FileID old \<noteq> File_ID f then throw ErrNotFound
         else
           bnd new_uuid (\<lambda>i.
           bnd (WithinTx (restore_tx f old (restored_version ident f old i))) (\<lambda>_.
           bnd (Auditor_Record (Some (Identity_UserID ident)) AuditVersionRestored ''file''
                  (X_uuid_String (fu_ext u) (File_ID f))
                  [(''version_id'', X_uuid_String (fu_ext u) versionID)]) (\<lambda>_.
           FileRepo_GetByID (File_ID f))))))"

section \<open>Locking\<close>

definition FileUC_Lock :: "FileUseCase \<Rightarrow> Identity \<Rightarrow> uuid \<Rightarrow> unit action" where
  "FileUC_Lock u ident fileID =
     bnd clock_Now (\<lambda>now.
     bnd (authorizeFile ident fileID PermissionEditor now) (\<lambda>f.
     case File_LockedBy f of
       Some holder \<Rightarrow> if holder = Identity_UserID ident then ret () else throw ErrFileLocked
     | None \<Rightarrow>
         bnd (FileRepo_SetLock (File_ID f) (Some (Identity_UserID ident))) (\<lambda>_.
         Auditor_Record (Some (Identity_UserID ident)) AuditFileLocked ''file''
           (X_uuid_String (fu_ext u) (File_ID f)) [])))"

definition FileUC_Unlock :: "FileUseCase \<Rightarrow> Identity \<Rightarrow> uuid \<Rightarrow> unit action" where
  "FileUC_Unlock u ident fileID =
     bnd clock_Now (\<lambda>now.
     bnd (authorizeFile ident fileID PermissionEditor now) (\<lambda>f.
     case File_LockedBy f of
       None \<Rightarrow> ret ()
     | Some by \<Rightarrow>
         let holder = (by = Identity_UserID ident);
             privileged = (File_OwnerID f = Identity_UserID ident
               \<or> Identity_Role ident = RoleAdmin) in
         if \<not> holder \<and> \<not> privileged then throw ErrFileLocked
         else
           bnd (FileRepo_SetLock (File_ID f) None) (\<lambda>_.
           Auditor_Record (Some (Identity_UserID ident)) AuditFileUnlocked ''file''
             (X_uuid_String (fu_ext u) (File_ID f)) [])))"

section \<open>Folders\<close>

definition CreateFolder :: "Identity \<Rightarrow> string \<Rightarrow> uuid option \<Rightarrow> Folder action" where
  "CreateFolder ident name0 parentID =
     bnd (from_sum (validateName name0)) (\<lambda>name.
     bnd (ownFolder_opt ident parentID) (\<lambda>_.
     bnd new_uuid (\<lambda>i.
     bnd (FolderRepo_Create \<lparr>Folder_ID = i, Folder_OwnerID = Identity_UserID ident,
            Folder_ParentID = parentID, Folder_Name = name, Folder_CreatedAt = 0,
            Folder_UpdatedAt = 0, Folder_DeletedAt = None\<rparr>) (\<lambda>_.
     FolderRepo_GetByID i))))"

definition zero_cursor :: Cursor where
  "zero_cursor = \<lparr>Cursor_CreatedAt = 0, Cursor_ID = 0\<rparr>"

definition ListFolder ::
    "Identity \<Rightarrow> uuid option \<Rightarrow> Cursor \<Rightarrow> nat \<Rightarrow> (Folder list \<times> File list) action" where
  "ListFolder ident folderID cur limit =
     bnd (ownFolder_opt ident folderID) (\<lambda>_.
     bnd (FolderRepo_ListChildren (Identity_UserID ident) folderID zero_cursor 1000) (\<lambda>fos.
     bnd (FileRepo_List (Identity_UserID ident) \<lparr>Filter_FolderID = folderID,
            Filter_IncludeDeleted = False, Filter_Descending = False\<rparr> cur limit) (\<lambda>fis.
     ret (fos, fis))))"

definition DeleteFolder :: "Identity \<Rightarrow> uuid \<Rightarrow> unit action" where
  "DeleteFolder ident folderID =
     bnd (ownFolder ident folderID) (\<lambda>_.
     bnd (FolderRepo_HasChildren folderID) (\<lambda>hasChildren.
     if hasChildren then throw ErrInvalidArgument
     else FolderRepo_SoftDelete folderID))"

section \<open>Downloads\<close>

definition OpenFileContent :: "FileUseCase \<Rightarrow> File \<Rightarrow> StreamReader action" where
  "OpenFileContent u f = (case File_CurrentVersionID f of
     None \<Rightarrow> throw ErrNotFound
   | Some vid \<Rightarrow>
       bnd (VersionRepo_GetByID vid) (\<lambda>version.
       bnd (BlobRepo_GetByID (Version_BlobID version)) (\<lambda>blob.
       bnd (from_sum (UnwrapKey (fu_ext u) (fu_kek u) (Blob_WrappedDEK blob))) (\<lambda>dek.
       bnd (store_Get (Blob_StorageKey blob)) (\<lambda>obj.
       from_sum (NewStreamReader obj dek DefaultSegmentSize))))))"

definition OpenDownload :: "FileUseCase \<Rightarrow> Identity \<Rightarrow> uuid \<Rightarrow> (StreamReader \<times> File) action" where
  "OpenDownload u ident fileID =
     bnd clock_Now (\<lambda>now.
     bnd (authorizeFile ident fileID PermissionViewer now) (\<lambda>f.
     if File_IsDeleted f then throw ErrNotFound
     else
       bnd (OpenFileContent u f) (\<lambda>rc.
       bnd (Auditor_Record (Some (Identity_UserID ident)) AuditFileDownloaded ''file''
              (X_uuid_String (fu_ext u) (File_ID f)) []) (\<lambda>_.
       ret (rc, f)))))"

definition SignedDownloadQuery ::
    "FileUseCase \<Rightarrow> Identity \<Rightarrow> uuid \<Rightarrow> (url_values \<times> duration) action" where
  "SignedDownloadQuery u ident fileID =
     bnd (FileUC_Get ident fileID) (\<lambda>_.
     bnd clock_Now (\<lambda>now.
     ret (Sign (fu_ext u) (fu_secret u) now fileID (Identity_UserID ident) (fu_SignedURLTTL u),
          fu_SignedURLTTL u)))"

text \<open>\<open>&domain.Identity{UserID: userID}\<close>: the other fields are empty.\<close>

definition signed_identity :: "uuid \<Rightarrow> Identity" where
  "signed_identity userID =
     \<lparr>Identity_UserID = userID, Identity_Email = [], Identity_Role = RoleOther []\<rparr>"

definition VerifySignedDownload ::
    "FileUseCase \<Rightarrow> uuid \<Rightarrow> url_values \<Rightarrow> (StreamReader \<times> File) action" where
  "VerifySignedDownload u fileID qry =
     bnd clock_Now (\<lambda>now.
     bnd (from_sum (Verify (fu_ext u) (fu_secret u) now fileID qry)) (\<lambda>userID.
     OpenDownload u (signed_identity userID) fileID))"

end
