(* ===== verification/Upload_UC.thy ===== *)
theory Upload_UC
  imports Access
begin

text \<open>
  \<open>internal/usecase/upload_uc.go\<close>: the resumable chunked upload. \<open>InitUpload\<close> opens a
  session, \<open>UploadChunk\<close> stages a chunk and records its receipt, \<open>Complete\<close> assembles,
  encrypts, deduplicates and attaches a version, \<open>Abort\<close> and \<open>CleanupSession\<close> discard.
\<close>

section \<open>Configuration\<close>

record UploadUseCase =
  up_ext :: ext
  up_kek :: "byte list"
  up_ChunkSize :: int
  up_MaxFileSize :: int
  up_SessionTTL :: duration

record InitResult =
  Init_Session :: UploadSession
  Init_AlreadyExists :: bool

section \<open>Sessions\<close>

definition ownedSession :: "Identity \<Rightarrow> uuid \<Rightarrow> UploadSession action" where
  "ownedSession ident sessionID =
     bnd (attempt (UploadRepo_GetSession sessionID)) (\<lambda>r. case r of
       Inl _ \<Rightarrow> throw ErrNotFound
     | Inr sess \<Rightarrow>
         if Upload_UserID sess \<noteq> Identity_UserID ident then throw ErrNotFound else ret sess)"

definition activeSession :: "Identity \<Rightarrow> uuid \<Rightarrow> UploadSession action" where
  "activeSession ident sessionID =
     bnd (ownedSession ident sessionID) (\<lambda>sess.
     if Upload_Status sess \<noteq> UploadPending then throw ErrInvalidArgument
     else bnd clock_Now (\<lambda>now.
       if \<not> Upload_IsActive sess now then throw ErrUploadExpired else ret sess))"

text \<open>\<open>cleanupStaging\<close>: best effort, every error dropped.\<close>

definition cleanupStaging :: "UploadSession \<Rightarrow> unit action" where
  "cleanupStaging sess =
     bnd (attempt (UploadRepo_ListChunks (Upload_ID sess))) (\<lambda>r. case r of
       Inl _ \<Rightarrow> ret ()
     | Inr chunks \<Rightarrow> for_each (\<lambda>c. ignore (store_Delete (Chunk_StorageKey c))) chunks)"

section \<open>InitUpload\<close>

text \<open>
  The check of the target folder, and of a lock on the file that would get the new version;
  a failed lookup of the latter is no obstacle.
\<close>

definition check_folder :: "Identity \<Rightarrow> uuid option \<Rightarrow> unit action" where
  "check_folder ident folder = (case folder of
     None \<Rightarrow> ret ()
   | Some i \<Rightarrow>
       bnd (attempt (FolderRepo_GetByID i)) (\<lambda>r. case r of
         Inl _ \<Rightarrow> throw ErrNotFound
       | Inr f \<Rightarrow> if Folder_OwnerID f \<noteq> Identity_UserID ident then throw ErrNotFound else ret ()))"

definition check_name_lock :: "Identity \<Rightarrow> uuid option \<Rightarrow> string \<Rightarrow> unit action" where
  "check_name_lock ident folder name =
     bnd (attempt (FileRepo_GetByName (Identity_UserID ident) folder name)) (\<lambda>r. case r of
       Inl _ \<Rightarrow> ret ()
     | Inr existing \<Rightarrow>
         if File_IsLockedByOther existing (Identity_UserID ident) then throw ErrFileLocked
         else ret ())"

text \<open>
  The division by a zero chunk size is a run-time panic, which the servers' recovery
  middleware turns into an internal error.
\<close>

definition InitUpload ::
    "UploadUseCase \<Rightarrow> Identity \<Rightarrow> string \<Rightarrow> string \<Rightarrow> string \<Rightarrow> int \<Rightarrow> string \<Rightarrow> InitResult action" where
  "InitUpload u ident name0 folderID mimeType sizeBytes checksumHex =
     bnd (from_sum (validateName name0)) (\<lambda>name.
     if sizeBytes \<le> 0 \<or> sizeBytes > up_MaxFileSize u then throw ErrInvalidArgument
     else case hex_DecodeString checksumHex of
       None \<Rightarrow> throw ErrInvalidArgument
     | Some checksum \<Rightarrow>
         if length checksum \<noteq> 32 then throw ErrInvalidArgument
         else
           bnd (from_sum (parseOptionalID (up_ext u) folderID)) (\<lambda>folder.
           bnd (check_folder ident folder) (\<lambda>_.
           bnd (check_name_lock ident folder name) (\<lambda>_.
           bnd (QuotaRepo_Get (Identity_UserID ident)) (\<lambda>quota.
           if \<not> Quota_CanStore quota sizeBytes then throw ErrQuotaExceeded
           else
             bnd (attempt (BlobRepo_GetByChecksum checksum)) (\<lambda>hit.
             let alreadyExists = (case hit of Inl _ \<Rightarrow> False | Inr _ \<Rightarrow> True) in
             if up_ChunkSize u = 0 then throw ErrInternal
             else
               let totalChunks = int64_wrap (sizeBytes + up_ChunkSize u - 1) sdiv up_ChunkSize u in
               bnd new_uuid (\<lambda>i.
               bnd clock_Now (\<lambda>now.
               let sess = \<lparr>Upload_ID = i, Upload_UserID = Identity_UserID ident,
                 Upload_FolderID = folder, Upload_Name = name, Upload_MimeType = mimeType,
                 Upload_SizeBytes = sizeBytes, Upload_ChecksumSHA256 = checksum,
                 Upload_ChunkSize = up_ChunkSize u, Upload_TotalChunks = totalChunks,
                 Upload_Status = UploadPending, Upload_CreatedAt = 0,
                 Upload_ExpiresAt = now + up_SessionTTL u\<rparr> in
               bnd (UploadRepo_CreateSession sess) (\<lambda>_.
               ret \<lparr>Init_Session = sess, Init_AlreadyExists = alreadyExists\<rparr>)))))))))"

section \<open>UploadChunk and Status\<close>

text \<open>
  The hasher sees what \<open>Put\<close> reads through the \<open>TeeReader\<close>; after a successful \<open>Put\<close>
  that is the whole limited body.
\<close>

definition UploadChunk ::
    "UploadUseCase \<Rightarrow> Identity \<Rightarrow> uuid \<Rightarrow> int \<Rightarrow> reader \<Rightarrow> Chunk action" where
  "UploadChunk u ident sessionID index body =
     bnd (activeSession ident sessionID) (\<lambda>sess.
     if index < 0 \<or> index \<ge> Upload_TotalChunks sess then throw ErrInvalidArgument
     else
       let expected = ExpectedChunkSize sess index;
           key = ChunkKey (X_uuid_String (up_ext u)) (Upload_ID sess) index;
           limited = LimitReader body expected in
       bnd (attempt (store_Put key limited expected)) (\<lambda>r. case r of
         Inl _ \<Rightarrow> throw ErrInvalidArgument
       | Inr _ \<Rightarrow>
           let chunk = \<lparr>Chunk_SessionID = Upload_ID sess, Chunk_Index = index,
             Chunk_SizeBytes = expected, Chunk_ChecksumSHA256 = X_sha256 (up_ext u) (fst limited),
             Chunk_StorageKey = key, Chunk_UploadedAt = 0\<rparr> in
           bnd (UploadRepo_SaveChunk chunk) (\<lambda>_. ret chunk)))"

definition Status :: "Identity \<Rightarrow> uuid \<Rightarrow> (UploadSession \<times> int list) action" where
  "Status ident sessionID =
     bnd (ownedSession ident sessionID) (\<lambda>sess.
     bnd (UploadRepo_ListChunks (Upload_ID sess)) (\<lambda>chunks.
     ret (sess, map Chunk_Index chunks)))"

section \<open>Assembly\<close>

text \<open>\<open>copyChunk\<close>: the bytes it hands to the destination.\<close>

definition copyChunk :: "string \<Rightarrow> byte list action" where
  "copyChunk key = store_Get key"

primrec copyChunks :: "Chunk list \<Rightarrow> byte list list action" where
  "copyChunks [] = ret []"
| "copyChunks (c # cs) =
     bnd (copyChunk (Chunk_StorageKey c)) (\<lambda>bs.
     bnd (copyChunks cs) (\<lambda>rest. ret (bs # rest)))"

text \<open>
  The producer goroutine: what the pipe delivers to \<open>Put\<close>, and the plaintext the hasher saw.
  A failed read of a chunk reaches \<open>Put\<close> through \<open>CloseWithError\<close>. How \<open>io.Copy\<close> divides
  a chunk into \<open>Write\<close> calls does not matter (\<open>encrypt_stream_format\<close>), so one per chunk
  is made. The encryptor writes to the pipe, whose writes fail only once \<open>Put\<close> has failed.
\<close>

definition producer :: "ext \<Rightarrow> byte list \<Rightarrow> Chunk list \<Rightarrow> (reader \<times> byte list) action" where
  "producer X dek chunks =
     bnd (attempt (rand_Read noncePrefixLen)) (\<lambda>r. case r of
       Inl e \<Rightarrow> ret (([], Some e), [])
     | Inr prefix \<Rightarrow>
         bnd (attempt (copyChunks chunks)) (\<lambda>r. case r of
           Inl e \<Rightarrow> ret (([], Some e), [])
         | Inr parts \<Rightarrow>
             (case encrypt_stream X good_sink dek DefaultSegmentSize prefix parts of
                Some (Inr ct) \<Rightarrow> ret ((ct, None), concat parts)
              | Some (Inl e) \<Rightarrow> ret (([], Some e), concat parts)
              | None \<Rightarrow> ret (([], Some ErrInternal), concat parts))))"

text \<open>\<open>for i, c := range chunks { if c.Index != i ... }\<close>\<close>

definition indexes_in_order :: "Chunk list \<Rightarrow> bool" where
  "indexes_in_order chunks = list_all (\<lambda>(i, c). Chunk_Index c = int i) (enumerate 0 chunks)"

text \<open>
  \<open>assembleBlob\<close> up to the stored object: the row it would create.
\<close>

definition assemble_store :: "UploadUseCase \<Rightarrow> UploadSession \<Rightarrow> Blob action" where
  "assemble_store u sess =
     bnd (UploadRepo_ListChunks (Upload_ID sess)) (\<lambda>chunks.
     if int (length chunks) \<noteq> Upload_TotalChunks sess then throw ErrUploadIncomplete
     else if \<not> indexes_in_order chunks then throw ErrUploadIncomplete
     else
       bnd NewDEK (\<lambda>dek.
       bnd (rand_Read nonceLen) (\<lambda>nonce.
       bnd (from_sum (WrapKey (up_ext u) (up_kek u) dek nonce)) (\<lambda>wrappedDEK.
       let blobKey = BlobKey (Upload_ChecksumSHA256 sess);
           encSize = EncryptedSize (Upload_SizeBytes sess) DefaultSegmentSize in
       bnd (producer (up_ext u) dek chunks) (\<lambda>(pipe, hashed).
       bnd (store_Put blobKey pipe encSize) (\<lambda>_.
       if X_sha256 (up_ext u) hashed \<noteq> Upload_ChecksumSHA256 sess then
         bnd (ignore (store_Delete blobKey)) (\<lambda>_. throw ErrChecksumMismatch)
       else
         bnd new_uuid (\<lambda>i.
         ret \<lparr>Blob_ID = i, Blob_ChecksumSHA256 = Upload_ChecksumSHA256 sess,
           Blob_SizeBytes = Upload_SizeBytes sess, Blob_StorageKey = blobKey,
           Blob_WrappedDEK = wrappedDEK, Blob_RefCount = 0, Blob_CreatedAt = 0\<rparr>)))))))"

text \<open>The rest of \<open>assembleBlob\<close>: register the row, or adopt the one that got there first.\<close>

definition assemble_register :: "UploadSession \<Rightarrow> Blob \<Rightarrow> Blob action" where
  "assemble_register sess blob =
     bnd (attempt (BlobRepo_Create blob)) (\<lambda>r. case r of
       Inl err \<Rightarrow>
         if errIs err [ErrAlreadyExists] then BlobRepo_GetByChecksum (Upload_ChecksumSHA256 sess)
         else throw err
     | Inr _ \<Rightarrow> ret blob)"

definition assembleBlob :: "UploadUseCase \<Rightarrow> UploadSession \<Rightarrow> Blob action" where
  "assembleBlob u sess = bnd (assemble_store u sess) (assemble_register sess)"

section \<open>Attaching a version\<close>

definition new_file :: "UploadSession \<Rightarrow> uuid \<Rightarrow> File" where
  "new_file sess i = \<lparr>File_ID = i, File_OwnerID = Upload_UserID sess,
     File_FolderID = Upload_FolderID sess, File_Name = Upload_Name sess,
     File_MimeType = Upload_MimeType sess, File_CurrentVersionID = None, File_LockedBy = None,
     File_LockedAt = None, File_IsDeleted = False, File_DeletedAt = None, File_CreatedAt = 0,
     File_UpdatedAt = 0, File_SizeBytes = 0, File_ChecksumSHA256 = [], File_VersionNumber = 0\<rparr>"

definition file_for_upload :: "UploadSession \<Rightarrow> File action" where
  "file_for_upload sess =
     bnd (attempt (FileRepo_GetByName (Upload_UserID sess) (Upload_FolderID sess) (Upload_Name sess)))
       (\<lambda>r. case r of
         Inr existing \<Rightarrow>
           if File_IsLockedByOther existing (Upload_UserID sess) then throw ErrFileLocked
           else ret existing
       | Inl err \<Rightarrow>
           if errIs err [ErrNotFound] then
             bnd new_uuid (\<lambda>i.
             bnd (FileRepo_Create (new_file sess i)) (\<lambda>_. ret (new_file sess i)))
           else throw err)"

definition new_version :: "UploadSession \<Rightarrow> Blob \<Rightarrow> uuid \<Rightarrow> uuid \<Rightarrow> Version" where
  "new_version sess blob fileID i = \<lparr>Version_ID = i, Version_FileID = fileID,
     Version_VersionNumber = 0, Version_BlobID = Blob_ID blob,
     Version_SizeBytes = Upload_SizeBytes sess, Version_CreatedBy = Upload_UserID sess,
     Version_CreatedAt = 0, Version_ChecksumSHA256 = []\<rparr>"

text \<open>The body of the transaction.\<close>

definition attach_tx :: "UploadSession \<Rightarrow> Blob \<Rightarrow> File action" where
  "attach_tx sess blob =
     bnd (file_for_upload sess) (\<lambda>file.
     bnd new_uuid (\<lambda>i.
     bnd (VersionRepo_Create (new_version sess blob (File_ID file) i)) (\<lambda>version.
     bnd (BlobRepo_IncrementRef (Blob_ID blob)) (\<lambda>_.
     bnd (FileRepo_SetCurrentVersion (File_ID file) (Version_ID version)) (\<lambda>_.
     bnd (QuotaRepo_AddUsage (Upload_UserID sess) (Upload_SizeBytes sess)) (\<lambda>_.
     ret file))))))"

definition attachVersion :: "UploadSession \<Rightarrow> Blob \<Rightarrow> File action" where
  "attachVersion sess blob = WithinTx (attach_tx sess blob)"

section \<open>Complete, Abort, CleanupSession\<close>

definition blob_for_upload :: "UploadUseCase \<Rightarrow> UploadSession \<Rightarrow> Blob action" where
  "blob_for_upload u sess =
     bnd (attempt (BlobRepo_GetByChecksum (Upload_ChecksumSHA256 sess))) (\<lambda>r. case r of
       Inr blob \<Rightarrow> ret blob
     | Inl err \<Rightarrow> if \<not> errIs err [ErrNotFound] then throw err else assembleBlob u sess)"

definition completion_lock_ttl :: duration where
  "completion_lock_ttl = 10 * 60 * nanos_per_second"

definition Complete_locked :: "UploadUseCase \<Rightarrow> Identity \<Rightarrow> UploadSession \<Rightarrow> File action" where
  "Complete_locked u ident sess =
     bnd (blob_for_upload u sess) (\<lambda>blob.
     bnd (attachVersion sess blob) (\<lambda>file.
     bnd (UploadRepo_UpdateStatus (Upload_ID sess) UploadCompleted) (\<lambda>_.
     bnd (cleanupStaging sess) (\<lambda>_.
     bnd (Auditor_Record (Some (Identity_UserID ident)) AuditFileUploaded ''file''
            (X_uuid_String (up_ext u) (File_ID file))
            [(''size_bytes'', show_int (Upload_SizeBytes sess)),
             (''session_id'', X_uuid_String (up_ext u) (Upload_ID sess))]) (\<lambda>_.
     FileRepo_GetByID (File_ID file))))))"

definition Complete :: "UploadUseCase \<Rightarrow> Identity \<Rightarrow> uuid \<Rightarrow> File action" where
  "Complete u ident sessionID =
     bnd (activeSession ident sessionID) (\<lambda>sess.
     bnd (TryLock (''upload-complete:'' @ X_uuid_String (up_ext u) (Upload_ID sess))
            completion_lock_ttl) (\<lambda>l. case l of
       None \<Rightarrow> throw ErrAlreadyExists
     | Some lock \<Rightarrow> finally_do (Complete_locked u ident sess) (release_lock lock)))"

definition Abort :: "Identity \<Rightarrow> uuid \<Rightarrow> unit action" where
  "Abort ident sessionID =
     bnd (ownedSession ident sessionID) (\<lambda>sess.
     if Upload_Status sess \<noteq> UploadPending then ret ()
     else bnd (UploadRepo_UpdateStatus (Upload_ID sess) UploadAborted) (\<lambda>_. cleanupStaging sess))"

definition CleanupSession :: "UploadSession \<Rightarrow> unit action" where
  "CleanupSession sess =
     bnd (UploadRepo_UpdateStatus (Upload_ID sess) UploadExpired) (\<lambda>_. cleanupStaging sess)"

end
