(* ===== verification/GC.thy ===== *)
theory GC
  imports Upload_UC
begin

text \<open>
  \<open>internal/service/gc.go\<close>: the four sweeps of the garbage collector. The sweep of expired
  uploads hands each session to the worker pool; here the jobs run in the order submitted,
  and a refused submission (the pool is closed) is an environment choice.
\<close>

record GCConfig =
  gc_TrashRetention :: duration
  gc_OrphanGrace :: duration
  gc_BatchSize :: int

definition gc_batch :: "GCConfig \<Rightarrow> nat" where
  "gc_batch cfg = nat (if gc_BatchSize cfg \<le> 0 then 100 else gc_BatchSize cfg)"

section \<open>Expired uploads\<close>

text \<open>\<open>pool.Submit\<close> of a cleanup job; the job logs its error.\<close>

definition submit_cleanup :: "UploadSession \<Rightarrow> unit action" where
  "submit_cleanup sess = bnd infra_point (\<lambda>_. ignore (CleanupSession sess))"

definition sweepExpiredUploads :: "GCConfig \<Rightarrow> nat action" where
  "sweepExpiredUploads cfg =
     bnd clock_Now (\<lambda>now.
     bnd (attempt (UploadRepo_ListExpired now (gc_batch cfg))) (\<lambda>r. case r of
       Inl _ \<Rightarrow> ret 0
     | Inr expired \<Rightarrow>
         bnd (ignore (for_each submit_cleanup expired)) (\<lambda>_. ret (length expired))))"

section \<open>Trash\<close>

definition purge_tx :: "File \<Rightarrow> unit action" where
  "purge_tx f =
     bnd (VersionRepo_TotalBytes (File_ID f)) (\<lambda>total.
     bnd (BlobRepo_DecrementRefsForFile (File_ID f)) (\<lambda>_.
     bnd (QuotaRepo_AddUsage (File_OwnerID f) (- total)) (\<lambda>_.
     FileRepo_Purge (File_ID f))))"

text \<open>A loop that counts the items its body handled and goes on after a failure.\<close>

primrec count_each :: "('x \<Rightarrow> unit action) \<Rightarrow> 'x list \<Rightarrow> nat action" where
  "count_each f [] = ret 0"
| "count_each f (x # xs) =
     bnd (attempt (f x)) (\<lambda>r.
     bnd (count_each f xs) (\<lambda>n. ret ((case r of Inl _ \<Rightarrow> 0 | Inr _ \<Rightarrow> 1) + n)))"

definition sweepTrash :: "GCConfig \<Rightarrow> nat action" where
  "sweepTrash cfg =
     bnd clock_Now (\<lambda>now.
     bnd (attempt (FileRepo_ListDeletedBefore (now - gc_TrashRetention cfg) (gc_batch cfg)))
       (\<lambda>r. case r of
         Inl _ \<Rightarrow> ret 0
       | Inr candidates \<Rightarrow> count_each (\<lambda>f. WithinTx (purge_tx f)) candidates))"

section \<open>Orphaned blobs\<close>

definition collect_blob :: "Blob \<Rightarrow> unit action" where
  "collect_blob b =
     bnd (store_Delete (Blob_StorageKey b)) (\<lambda>_.
     bnd (attempt (BlobRepo_Delete (Blob_ID b))) (\<lambda>r. case r of
       Inl err \<Rightarrow> if err \<noteq> ErrNotFound then throw err else ret ()
     | Inr _ \<Rightarrow> ret ()))"

definition sweepOrphanedBlobs :: "GCConfig \<Rightarrow> nat action" where
  "sweepOrphanedBlobs cfg =
     bnd clock_Now (\<lambda>now.
     bnd (attempt (BlobRepo_ListOrphaned (now - gc_OrphanGrace cfg) (gc_batch cfg)))
       (\<lambda>r. case r of
         Inl _ \<Rightarrow> ret 0
       | Inr orphans \<Rightarrow> count_each collect_blob orphans))"

section \<open>Sweep\<close>

definition Sweep :: "GCConfig \<Rightarrow> unit action" where
  "Sweep cfg =
     bnd (sweepExpiredUploads cfg) (\<lambda>_.
     bnd (sweepTrash cfg) (\<lambda>_.
     bnd (sweepOrphanedBlobs cfg) (\<lambda>_.
     bnd clock_Now (\<lambda>now.
     ignore (SessionRepo_DeleteExpired now)))))"

end
