(* ===== verification/Password.thy ===== *)
theory Password
  imports Store
begin

text \<open>
  \<open>pkg/crypto/password.go\<close>: Argon2id hashes in PHC string format. The key derivation
  \<open>argon2.IDKey\<close> is a parameter; it panics for zero rounds or lanes. In \<open>HashPassword\<close> the
  panic ends the request as an internal error; \<open>VerifyPassword\<close> takes its parameters from a hash
  that \<open>HashPassword\<close> wrote, where neither is zero.
\<close>

record Argon2Params =
  Argon2_Memory :: nat
  Argon2_Iterations :: nat
  Argon2_Parallelism :: nat
  Argon2_SaltLength :: nat
  Argon2_KeyLength :: nat

definition DefaultArgon2Params :: Argon2Params where
  "DefaultArgon2Params = \<lparr>Argon2_Memory = 64 * 1024, Argon2_Iterations = 3, Argon2_Parallelism = 2,
     Argon2_SaltLength = 16, Argon2_KeyLength = 32\<rparr>"

text \<open>The ranges of the fields' types: \<open>uint32\<close> and \<open>uint8\<close>.\<close>

definition Argon2_in_range :: "Argon2Params \<Rightarrow> bool" where
  "Argon2_in_range p \<longleftrightarrow> Argon2_Memory p < 2 ^ 32 \<and> Argon2_Iterations p < 2 ^ 32 \<and>
     Argon2_Parallelism p < 2 ^ 8"

definition argon2_Version :: nat where "argon2_Version = 19"

section \<open>Encoding\<close>

definition phc_string :: "Argon2Params \<Rightarrow> byte list \<Rightarrow> byte list \<Rightarrow> string" where
  "phc_string p salt hash =
     ''$argon2id$v='' @ digits argon2_Version @ ''$m='' @ digits (Argon2_Memory p) @
     '',t='' @ digits (Argon2_Iterations p) @ '',p='' @ digits (Argon2_Parallelism p) @ ''$'' @
     base64_Std_EncodeToString salt @ ''$'' @ base64_Std_EncodeToString hash"

text \<open>\<open>HashPassword\<close> with the salt that \<open>rand.Read\<close> returned, and as an action.\<close>

definition hash_with_salt :: "ext \<Rightarrow> string \<Rightarrow> Argon2Params \<Rightarrow> byte list \<Rightarrow> string" where
  "hash_with_salt X pw p salt =
     phc_string p salt (X_argon2_IDKey X pw salt (Argon2_Iterations p) (Argon2_Memory p)
       (Argon2_Parallelism p) (Argon2_KeyLength p))"

definition HashPassword :: "ext \<Rightarrow> string \<Rightarrow> Argon2Params \<Rightarrow> string action" where
  "HashPassword X pw p =
     bnd (rand_Read (Argon2_SaltLength p)) (\<lambda>salt.
     if Argon2_Iterations p < 1 \<or> Argon2_Parallelism p < 1 then throw ErrInternal
     else ret (hash_with_salt X pw p salt))"

section \<open>Decoding\<close>

text \<open>\<open>strings.Split(s, "$")\<close>\<close>

fun split_on :: "char \<Rightarrow> string \<Rightarrow> string list" where
  "split_on c [] = [[]]"
| "split_on c (x # xs) =
     (if x = c then [] # split_on c xs
      else case split_on c xs of [] \<Rightarrow> [[x]] | p # ps \<Rightarrow> (x # p) # ps)"

text \<open>
  \<open>fmt.Sscanf\<close>: literal characters of the format must match, \<open>%d\<close> skips blanks and reads the
  longest run of digits, which must fit the target type; input left over is no error.
\<close>

definition is_digit :: "char \<Rightarrow> bool" where
  "is_digit c \<longleftrightarrow> digit_value c \<noteq> None"

definition is_blank :: "char \<Rightarrow> bool" where
  "is_blank c \<longleftrightarrow> c = CHR '' '' \<or> c = CHR 0x09"

definition scan_uint :: "nat \<Rightarrow> string \<Rightarrow> (nat \<times> string) option" where
  "scan_uint bound s0 =
     (let s = dropWhile is_blank s0 in
      case parse_nat (takeWhile is_digit s) of
        None \<Rightarrow> None
      | Some n \<Rightarrow> if n < bound then Some (n, dropWhile is_digit s) else None)"

definition scan_lit :: "string \<Rightarrow> string \<Rightarrow> string option" where
  "scan_lit lit s = (if take (length lit) s = lit then Some (drop (length lit) s) else None)"

text \<open>\<open>%d\<close> into an \<open>int\<close> accepts a sign.\<close>

definition scan_version :: "string \<Rightarrow> int option" where
  "scan_version s0 =
     (case scan_lit ''v='' s0 of None \<Rightarrow> None
      | Some s1 \<Rightarrow>
          (case dropWhile is_blank s1 of
             [] \<Rightarrow> None
           | c # cs \<Rightarrow>
               if c = CHR ''-'' then map_option (\<lambda>(n, _). - int n) (scan_uint (2 ^ 63 + 1) cs)
               else map_option (\<lambda>(n, _). int n)
                 (scan_uint (2 ^ 63) (if c = CHR ''+'' then cs else c # cs))))"

definition scan_params :: "string \<Rightarrow> (nat \<times> nat \<times> nat) option" where
  "scan_params s0 =
     (case scan_lit ''m='' s0 of None \<Rightarrow> None | Some s1 \<Rightarrow>
      case scan_uint (2 ^ 32) s1 of None \<Rightarrow> None | Some (m, s2) \<Rightarrow>
      case scan_lit '',t='' s2 of None \<Rightarrow> None | Some s3 \<Rightarrow>
      case scan_uint (2 ^ 32) s3 of None \<Rightarrow> None | Some (t, s4) \<Rightarrow>
      case scan_lit '',p='' s4 of None \<Rightarrow> None | Some s5 \<Rightarrow>
      case scan_uint (2 ^ 8) s5 of None \<Rightarrow> None | Some (p, s6) \<Rightarrow> Some (m, t, p))"

definition decodeHash :: "string \<Rightarrow> error + Argon2Params \<times> byte list \<times> byte list" where
  "decodeHash encoded =
     (let parts = split_on (CHR ''$'') encoded in
      if length parts \<noteq> 6 \<or> parts ! 1 \<noteq> ''argon2id'' then Inl ErrInvalidHash
      else if scan_version (parts ! 2) \<noteq> Some (int argon2_Version) then Inl ErrInvalidHash
      else case scan_params (parts ! 3) of
        None \<Rightarrow> Inl ErrInvalidHash
      | Some (m, t, p) \<Rightarrow>
          (case base64_Std_DecodeString (parts ! 4) of
             None \<Rightarrow> Inl ErrInvalidHash
           | Some salt \<Rightarrow>
               (case base64_Std_DecodeString (parts ! 5) of
                  None \<Rightarrow> Inl ErrInvalidHash
                | Some hash \<Rightarrow>
                    Inr (\<lparr>Argon2_Memory = m, Argon2_Iterations = t, Argon2_Parallelism = p,
                          Argon2_SaltLength = 0, Argon2_KeyLength = 0\<rparr>, salt, hash))))"

section \<open>Verification\<close>

definition VerifyPassword :: "ext \<Rightarrow> string \<Rightarrow> string \<Rightarrow> error + bool" where
  "VerifyPassword X pw encoded =
     (case decodeHash encoded of
        Inl e \<Rightarrow> Inl e
      | Inr (p, salt, hash) \<Rightarrow>
          Inr (hash = X_argon2_IDKey X pw salt (Argon2_Iterations p) (Argon2_Memory p)
            (Argon2_Parallelism p) (length hash)))"

definition NeedsRehash :: "string \<Rightarrow> Argon2Params \<Rightarrow> bool" where
  "NeedsRehash encoded current =
     (case decodeHash encoded of
        Inl _ \<Rightarrow> True
      | Inr (p, _, _) \<Rightarrow> Argon2_Memory p < Argon2_Memory current
          \<or> Argon2_Iterations p < Argon2_Iterations current
          \<or> Argon2_Parallelism p < Argon2_Parallelism current)"

section \<open>Round trip\<close>

lemma split_on_append:
  "c \<notin> set a \<Longrightarrow> split_on c (a @ c # b) = a # split_on c b"
  by (induction a) auto

lemma split_on_last: "c \<notin> set a \<Longrightarrow> split_on c a = [a]"
  by (induction a) auto

lemma digit_is_digit: "c \<in> set (digits n) \<Longrightarrow> is_digit c"
  using digits_are_digits [of c n] by (auto simp: is_digit_def digit_value_def)

lemma digit_not_blank: "is_digit c \<Longrightarrow> \<not> is_blank c"
  by (auto simp: is_digit_def is_blank_def digit_value_def)

lemma dropWhile_blank_digits [simp]: "dropWhile is_blank (digits n @ s) = digits n @ s"
proof (cases "digits n")
  case (Cons c cs)
  then have "\<not> is_blank c" using digit_is_digit [of c n] digit_not_blank by simp
  then show ?thesis using Cons by simp
qed simp

lemma scan_uint_digits:
  assumes "n < bound" "\<not> (s \<noteq> [] \<and> is_digit (hd s))"
  shows "scan_uint bound (digits n @ s) = Some (n, s)"
proof -
  have "takeWhile is_digit (digits n @ s) = digits n" "dropWhile is_digit (digits n @ s) = s"
    using digit_is_digit [of _ n] assms(2) by (cases s; auto simp: takeWhile_append2 dropWhile_append2)+
  then show ?thesis
    using assms(1) by (simp add: scan_uint_def Let_def parse_nat_def parse_digits_digits)
qed

lemma dollar_not_in:
  "CHR ''$'' \<notin> set (digits n)" "CHR ''$'' \<notin> set (base64_Std_EncodeToString bs)"
proof -
  show "CHR ''$'' \<notin> set (digits n)" using digits_are_digits [of "CHR ''$''" n] by auto
  have "b64_char std_alphabet k \<noteq> CHR ''$''" if "k < 64" for k
    using b64_value_char(1) [OF that alphabets_ok(2)] by (auto simp: b64_value_def std_alphabet_def)
  moreover have "k < 64" if "k \<in> set (b64_groups (map unat bs))" for k
  proof (rule b64_groups_range [OF _ that])
    have "unat (b :: byte) < 256" for b using unsigned_less [of b] by simp
    then show "\<forall>b \<in> set (map unat bs). b < 256" by auto
  qed
  ultimately show "CHR ''$'' \<notin> set (base64_Std_EncodeToString bs)"
    by (force simp: base64_Std_EncodeToString_def base64_encode_def)
qed

lemma scan_params_digits:
  assumes "Argon2_in_range p"
  shows "scan_params (''m='' @ digits (Argon2_Memory p) @ '',t='' @ digits (Argon2_Iterations p) @
    '',p='' @ digits (Argon2_Parallelism p)) =
    Some (Argon2_Memory p, Argon2_Iterations p, Argon2_Parallelism p)"
  using assms scan_uint_digits [of "Argon2_Parallelism p" "2 ^ 8" "[]"]
  by (simp add: scan_params_def scan_lit_def scan_uint_digits Argon2_in_range_def is_digit_def
      digit_value_def)

lemma scan_version_19: "scan_version (''v='' @ digits argon2_Version) = Some 19"
proof -
  have "digits 19 = ''19''" by code_simp
  then show ?thesis
    by (simp add: scan_version_def scan_lit_def argon2_Version_def scan_uint_def Let_def
        is_blank_def is_digit_def digit_value_def parse_nat_def)
qed

lemma decodeHash_phc:
  assumes "Argon2_in_range p"
  shows "decodeHash (phc_string p salt hash) =
    Inr (p\<lparr>Argon2_SaltLength := 0, Argon2_KeyLength := 0\<rparr>, salt, hash)"
proof -
  let ?v = "''v='' @ digits argon2_Version"
  let ?m = "''m='' @ digits (Argon2_Memory p) @ '',t='' @ digits (Argon2_Iterations p) @
    '',p='' @ digits (Argon2_Parallelism p)"
  let ?s = "base64_Std_EncodeToString salt" and ?h = "base64_Std_EncodeToString hash"
  have "phc_string p salt hash =
      [] @ CHR ''$'' # ''argon2id'' @ CHR ''$'' # ?v @ CHR ''$'' # ?m @ CHR ''$'' # ?s @ CHR ''$'' # ?h"
    by (simp add: phc_string_def)
  moreover have sep: "CHR ''$'' \<notin> set []" "CHR ''$'' \<notin> set ''argon2id''"
    "CHR ''$'' \<notin> set ?v" "CHR ''$'' \<notin> set ?m"
    by (simp_all add: dollar_not_in)
  ultimately have "split_on (CHR ''$'') (phc_string p salt hash) = [[], ''argon2id'', ?v, ?m, ?s, ?h]"
    by (simp only: sep [THEN split_on_append] dollar_not_in(2) [THEN split_on_append]
        dollar_not_in(2) [THEN split_on_last])
  then show ?thesis
    using scan_params_digits [OF assms] scan_version_19
    by (simp add: decodeHash_def argon2_Version_def base64_Std_roundtrip)
qed

text \<open>\<open>argon2.IDKey\<close> returns a key of the length asked for.\<close>

definition argon2_ok :: "ext \<Rightarrow> bool" where
  "argon2_ok X \<longleftrightarrow> (\<forall>pw salt t m p n. length (X_argon2_IDKey X pw salt t m p n) = n)"

lemma VerifyPassword_hash:
  assumes "Argon2_in_range p" "argon2_ok X"
  shows "VerifyPassword X pw' (hash_with_salt X pw p salt) =
    Inr (X_argon2_IDKey X pw salt (Argon2_Iterations p) (Argon2_Memory p) (Argon2_Parallelism p)
           (Argon2_KeyLength p) =
         X_argon2_IDKey X pw' salt (Argon2_Iterations p) (Argon2_Memory p) (Argon2_Parallelism p)
           (Argon2_KeyLength p))"
  using assms by (simp add: VerifyPassword_def hash_with_salt_def decodeHash_phc argon2_ok_def)

lemma NeedsRehash_hash:
  assumes "Argon2_in_range p"
  shows "NeedsRehash (hash_with_salt X pw p salt) current \<longleftrightarrow>
    Argon2_Memory p < Argon2_Memory current \<or> Argon2_Iterations p < Argon2_Iterations current
      \<or> Argon2_Parallelism p < Argon2_Parallelism current"
  using assms by (simp add: NeedsRehash_def hash_with_salt_def decodeHash_phc)

end
