(* ===== verification/Share_UC.thy ===== *)
theory Share_UC
  imports Access Password
begin

text \<open>
  \<open>internal/usecase/share_uc.go\<close>: grants to named users and tokenized public links.
  \<open>strings.ToLower\<close> is taken on ASCII letters, like the \<open>citext\<close> comparison.
\<close>

definition permission_string :: "Permission \<Rightarrow> string" where
  "permission_string p = (case p of PermissionViewer \<Rightarrow> ''viewer'' | PermissionEditor \<Rightarrow> ''editor''
     | PermissionOwner \<Rightarrow> ''owner'' | PermissionOther s \<Rightarrow> s)"

definition validatePassword :: "string \<Rightarrow> error + unit" where
  "validatePassword pw =
     (if length pw < 10 then Inl ErrInvalidArgument
      else if length pw > 128 then Inl ErrInvalidArgument
      else Inr ())"

definition validateExpiry :: "time option \<Rightarrow> unit action" where
  "validateExpiry expiresAt = bnd clock_Now (\<lambda>now. case expiresAt of
     None \<Rightarrow> ret ()
   | Some e \<Rightarrow> if e < now then throw ErrInvalidArgument else ret ())"

definition grant_row ::
    "uuid \<Rightarrow> File \<Rightarrow> Identity \<Rightarrow> User \<Rightarrow> Permission \<Rightarrow> time option \<Rightarrow> Share" where
  "grant_row i f ident grantee perm expiresAt = \<lparr>Share_ID = i, Share_FileID = File_ID f,
     Share_OwnerID = Identity_UserID ident, Share_GranteeID = Some (User_ID grantee),
     Share_TokenHash = None, Share_Permission = perm, Share_PasswordHash = None,
     Share_ExpiresAt = expiresAt, Share_CreatedAt = 0, Share_RevokedAt = None\<rparr>"

definition CreateShare ::
    "ext \<Rightarrow> Identity \<Rightarrow> uuid \<Rightarrow> string \<Rightarrow> Permission \<Rightarrow> time option \<Rightarrow> Share action" where
  "CreateShare X ident fileID granteeEmail perm expiresAt =
     (if \<not> Permission_Valid perm then throw ErrInvalidArgument
      else
        bnd (validateExpiry expiresAt) (\<lambda>_.
        bnd clock_Now (\<lambda>now.
        bnd (authorizeFile ident fileID PermissionOwner now) (\<lambda>f.
        if File_IsDeleted f then throw ErrNotFound
        else
          bnd (attempt (UserRepo_GetByEmail (lower (TrimSpace granteeEmail)))) (\<lambda>r. case r of
            Inl _ \<Rightarrow> throw ErrNotFound
          | Inr grantee \<Rightarrow>
              if User_ID grantee = File_OwnerID f then throw ErrInvalidArgument
              else
                bnd new_uuid (\<lambda>i.
                let share = grant_row i f ident grantee perm expiresAt in
                bnd (ShareRepo_Create share) (\<lambda>_.
                bnd (Auditor_Record (Some (Identity_UserID ident)) AuditShareCreated ''share''
                       (X_uuid_String X i)
                       [(''file_id'', X_uuid_String X (File_ID f)),
                        (''grantee_id'', X_uuid_String X (User_ID grantee)),
                        (''permission'', permission_string perm)]) (\<lambda>_.
                ret share))))))))"

text \<open>The optional password of a link.\<close>

definition link_password :: "ext \<Rightarrow> string \<Rightarrow> string option action" where
  "link_password X password =
     (if password = [] then ret None
      else
        bnd (from_sum (validatePassword password)) (\<lambda>_.
        bnd (HashPassword X password DefaultArgon2Params) (\<lambda>h. ret (Some h))))"

definition link_row ::
    "ext \<Rightarrow> uuid \<Rightarrow> File \<Rightarrow> Identity \<Rightarrow> string \<Rightarrow> Permission \<Rightarrow> string option \<Rightarrow> time option \<Rightarrow> Share" where
  "link_row X i f ident token perm passwordHash expiresAt = \<lparr>Share_ID = i, Share_FileID = File_ID f,
     Share_OwnerID = Identity_UserID ident, Share_GranteeID = None,
     Share_TokenHash = Some (HashToken X token), Share_Permission = perm,
     Share_PasswordHash = passwordHash, Share_ExpiresAt = expiresAt, Share_CreatedAt = 0,
     Share_RevokedAt = None\<rparr>"

definition CreatePublicLink ::
    "ext \<Rightarrow> Identity \<Rightarrow> uuid \<Rightarrow> Permission \<Rightarrow> time option \<Rightarrow> string \<Rightarrow> (Share \<times> string) action" where
  "CreatePublicLink X ident fileID perm expiresAt password =
     (if perm \<noteq> PermissionViewer \<and> perm \<noteq> PermissionEditor then throw ErrInvalidArgument
      else
        bnd (validateExpiry expiresAt) (\<lambda>_.
        bnd clock_Now (\<lambda>now.
        bnd (authorizeFile ident fileID PermissionOwner now) (\<lambda>f.
        if File_IsDeleted f then throw ErrNotFound
        else
          bnd (RandomToken 32) (\<lambda>token.
          bnd (link_password X password) (\<lambda>passwordHash.
          bnd new_uuid (\<lambda>i.
          let share = link_row X i f ident token perm passwordHash expiresAt in
          bnd (ShareRepo_Create share) (\<lambda>_.
          bnd (Auditor_Record (Some (Identity_UserID ident)) AuditShareCreated ''share''
                 (X_uuid_String X i)
                 [(''file_id'', X_uuid_String X (File_ID f)), (''public'', ''true''),
                  (''permission'', permission_string perm)]) (\<lambda>_.
          ret (share, token))))))))))"

definition ShareUC_List :: "Identity \<Rightarrow> uuid option \<Rightarrow> Cursor \<Rightarrow> nat \<Rightarrow> Share list action" where
  "ShareUC_List ident fileID cur limit = ShareRepo_ListByOwner (Identity_UserID ident) fileID cur limit"

definition ShareUC_Revoke :: "ext \<Rightarrow> Identity \<Rightarrow> uuid \<Rightarrow> unit action" where
  "ShareUC_Revoke X ident shareID =
     bnd (attempt (ShareRepo_GetByID shareID)) (\<lambda>r. case r of
       Inl _ \<Rightarrow> throw ErrNotFound
     | Inr share \<Rightarrow>
         if Share_OwnerID share \<noteq> Identity_UserID ident \<and> Identity_Role ident \<noteq> RoleAdmin
         then throw ErrNotFound
         else
           bnd (attempt (ShareRepo_Revoke shareID)) (\<lambda>r. case r of
             Inl err \<Rightarrow> if errIs err [ErrNotFound] then ret () else throw err
           | Inr _ \<Rightarrow>
               Auditor_Record (Some (Identity_UserID ident)) AuditShareRevoked ''share''
                 (X_uuid_String X shareID) []))"

definition link_password_ok :: "ext \<Rightarrow> Share \<Rightarrow> string \<Rightarrow> bool" where
  "link_password_ok X share password = (case Share_PasswordHash share of
     None \<Rightarrow> True
   | Some h \<Rightarrow> (case VerifyPassword X password h of Inl _ \<Rightarrow> False | Inr ok \<Rightarrow> ok))"

definition ResolvePublicLink :: "ext \<Rightarrow> string \<Rightarrow> string \<Rightarrow> (File \<times> Share) action" where
  "ResolvePublicLink X token password =
     bnd (attempt (ShareRepo_GetByTokenHash (HashToken X token))) (\<lambda>r. case r of
       Inl _ \<Rightarrow> throw ErrNotFound
     | Inr share \<Rightarrow>
         bnd clock_Now (\<lambda>now.
         if \<not> Share_IsActive share now then throw ErrNotFound
         else if \<not> link_password_ok X share password then throw ErrPasswordRequired
         else
           bnd (attempt (FileRepo_GetByID (Share_FileID share))) (\<lambda>r. case r of
             Inl _ \<Rightarrow> throw ErrNotFound
           | Inr f \<Rightarrow>
               if File_IsDeleted f then throw ErrNotFound
               else
                 bnd (Auditor_Record None AuditShareAccessed ''share''
                        (X_uuid_String X (Share_ID share))
                        [(''file_id'', X_uuid_String X (File_ID f))]) (\<lambda>_.
                 ret (f, share)))))"

end
