(* ===== verification/Auth_UC.thy ===== *)
theory Auth_UC
  imports Share_UC
begin

text \<open>
  \<open>internal/usecase/auth_uc.go\<close>: registration, login, refresh-token rotation with reuse
  detection, logout. The token issuer is the port \<open>domain.TokenIssuer\<close>, an action the
  configuration carries.
\<close>

record AuthUseCase =
  au_ext :: ext
  au_RefreshTokenTTL :: duration
  au_DefaultQuotaBytes :: int
  au_IssueAccessToken :: "User \<Rightarrow> (string \<times> time) action"

record TokenPair =
  Pair_AccessToken :: string
  Pair_RefreshToken :: string
  Pair_AccessExpiresAt :: time

text \<open>\<open>strings.IndexByte(s, c)\<close>\<close>

definition IndexByte :: "string \<Rightarrow> char \<Rightarrow> int" where
  "IndexByte s c =
     (let pre = takeWhile (\<lambda>x. x \<noteq> c) s in
      if length pre = length s then -1 else int (length pre))"

definition validateEmail :: "string \<Rightarrow> error + unit" where
  "validateEmail email =
     (if length email < 3 \<or> length email > 254 then Inl ErrInvalidArgument
      else
        let pos = IndexByte email (CHR ''@'') in
        if pos \<le> 0 \<or> pos = int (length email) - 1 \<or> List.member email (CHR '' '')
        then Inl ErrInvalidArgument
        else Inr ())"

section \<open>Register\<close>

definition new_user :: "uuid \<Rightarrow> string \<Rightarrow> string \<Rightarrow> string \<Rightarrow> User" where
  "new_user i email hash displayName = \<lparr>User_ID = i, User_Email = email, User_PasswordHash = hash,
     User_DisplayName = TrimSpace displayName, User_Role = RoleUser, User_CreatedAt = 0,
     User_UpdatedAt = 0, User_DeletedAt = None\<rparr>"

definition new_quota :: "AuthUseCase \<Rightarrow> uuid \<Rightarrow> Quota" where
  "new_quota u i = \<lparr>Quota_UserID = i, Quota_QuotaBytes = au_DefaultQuotaBytes u,
     Quota_UsedBytes = 0, Quota_UpdatedAt = 0\<rparr>"

definition Register :: "AuthUseCase \<Rightarrow> string \<Rightarrow> string \<Rightarrow> string \<Rightarrow> User action" where
  "Register u email0 password displayName =
     (let email = lower (TrimSpace email0) in
      bnd (from_sum (validateEmail email)) (\<lambda>_.
      bnd (from_sum (validatePassword password)) (\<lambda>_.
      if length displayName > 100 then throw ErrInvalidArgument
      else
        bnd (HashPassword (au_ext u) password DefaultArgon2Params) (\<lambda>hash.
        bnd new_uuid (\<lambda>i.
        let user = new_user i email hash displayName in
        bnd (WithinTx (bnd (UserRepo_Create user) (\<lambda>_. QuotaRepo_Create (new_quota u i)))) (\<lambda>_.
        bnd (Auditor_Record (Some i) AuditUserRegistered ''user'' (X_uuid_String (au_ext u) i) [])
          (\<lambda>_. ret user)))))))"

section \<open>Token pairs\<close>

definition new_session :: "AuthUseCase \<Rightarrow> uuid \<Rightarrow> User \<Rightarrow> uuid \<Rightarrow> string \<Rightarrow> RequestMeta \<Rightarrow> time \<Rightarrow> Session"
  where
  "new_session u i user familyID refreshToken meta now = \<lparr>Session_ID = i,
     Session_UserID = User_ID user, Session_FamilyID = familyID,
     Session_TokenHash = HashToken (au_ext u) refreshToken, Session_UserAgent = Meta_UserAgent meta,
     Session_IP = Meta_IP meta, Session_ExpiresAt = now + au_RefreshTokenTTL u,
     Session_CreatedAt = 0, Session_RevokedAt = None, Session_ReplacedBy = None\<rparr>"

definition rotate_tx :: "Session \<Rightarrow> uuid option \<Rightarrow> unit action" where
  "rotate_tx sess prevSessionID = WithinTx (
     bnd (SessionRepo_Create sess) (\<lambda>_. case prevSessionID of
       Some prev \<Rightarrow> SessionRepo_Revoke prev (Some (Session_ID sess))
     | None \<Rightarrow> ret ()))"

definition mintPair :: "AuthUseCase \<Rightarrow> User \<Rightarrow> uuid \<Rightarrow> uuid option \<Rightarrow> TokenPair action" where
  "mintPair u user familyID prevSessionID =
     bnd (RandomToken 32) (\<lambda>refreshToken.
     bnd (gets w_meta) (\<lambda>meta.
     bnd new_uuid (\<lambda>i.
     bnd clock_Now (\<lambda>now.
     bnd (rotate_tx (new_session u i user familyID refreshToken meta now) prevSessionID) (\<lambda>_.
     bnd (au_IssueAccessToken u user) (\<lambda>(accessToken, expiresAt).
     ret \<lparr>Pair_AccessToken = accessToken, Pair_RefreshToken = refreshToken,
       Pair_AccessExpiresAt = expiresAt\<rparr>))))))"

section \<open>Login\<close>

definition rehash_password :: "AuthUseCase \<Rightarrow> User \<Rightarrow> string \<Rightarrow> unit action" where
  "rehash_password u user password =
     (if NeedsRehash (User_PasswordHash user) DefaultArgon2Params then
        bnd (attempt (HashPassword (au_ext u) password DefaultArgon2Params)) (\<lambda>r. case r of
          Inl _ \<Rightarrow> ret ()
        | Inr newHash \<Rightarrow> ignore (UserRepo_UpdatePasswordHash (User_ID user) newHash))
      else ret ())"

definition Login :: "AuthUseCase \<Rightarrow> string \<Rightarrow> string \<Rightarrow> TokenPair action" where
  "Login u email0 password =
     bnd (attempt (UserRepo_GetByEmail (lower (TrimSpace email0)))) (\<lambda>r. case r of
       Inl _ \<Rightarrow> throw ErrUnauthenticated
     | Inr user \<Rightarrow>
         if VerifyPassword (au_ext u) password (User_PasswordHash user) \<noteq> Inr True then
           bnd (Auditor_Record (Some (User_ID user)) AuditUserLoginFailed ''user''
                  (X_uuid_String (au_ext u) (User_ID user)) []) (\<lambda>_.
           throw ErrUnauthenticated)
         else
           bnd (rehash_password u user password) (\<lambda>_.
           bnd new_uuid (\<lambda>familyID.
           bnd (mintPair u user familyID None) (\<lambda>pair.
           bnd (Auditor_Record (Some (User_ID user)) AuditUserLogin ''user''
                  (X_uuid_String (au_ext u) (User_ID user)) []) (\<lambda>_.
           ret pair)))))"

section \<open>Refresh and logout\<close>

definition Refresh :: "AuthUseCase \<Rightarrow> string \<Rightarrow> TokenPair action" where
  "Refresh u refreshToken =
     bnd (attempt (SessionRepo_GetByTokenHash (HashToken (au_ext u) refreshToken))) (\<lambda>r. case r of
       Inl _ \<Rightarrow> throw ErrUnauthenticated
     | Inr sess \<Rightarrow>
         bnd clock_Now (\<lambda>now.
         if Session_RevokedAt sess \<noteq> None then
           (if Session_ReplacedBy sess \<noteq> None then
              bnd (ignore (SessionRepo_RevokeFamily (Session_FamilyID sess))) (\<lambda>_.
              bnd (Auditor_Record (Some (Session_UserID sess)) AuditTokenReuse ''session''
                     (X_uuid_String (au_ext u) (Session_ID sess))
                     [(''family_id'', X_uuid_String (au_ext u) (Session_FamilyID sess))]) (\<lambda>_.
              throw ErrTokenReuse))
            else throw ErrUnauthenticated)
         else if \<not> Session_IsActive sess now then throw ErrUnauthenticated
         else
           bnd (attempt (UserRepo_GetByID (Session_UserID sess))) (\<lambda>r. case r of
             Inl _ \<Rightarrow> throw ErrUnauthenticated
           | Inr user \<Rightarrow> mintPair u user (Session_FamilyID sess) (Some (Session_ID sess)))))"

definition Logout :: "AuthUseCase \<Rightarrow> string \<Rightarrow> unit action" where
  "Logout u refreshToken =
     bnd (attempt (SessionRepo_GetByTokenHash (HashToken (au_ext u) refreshToken))) (\<lambda>r. case r of
       Inl _ \<Rightarrow> ret ()
     | Inr sess \<Rightarrow>
         bnd (SessionRepo_RevokeFamily (Session_FamilyID sess)) (\<lambda>_.
         Auditor_Record (Some (Session_UserID sess)) AuditUserLogout ''session''
           (X_uuid_String (au_ext u) (Session_ID sess)) []))"

definition Profile :: "Identity \<Rightarrow> (User \<times> Quota) action" where
  "Profile ident =
     bnd (UserRepo_GetByID (Identity_UserID ident)) (\<lambda>user.
     bnd (QuotaRepo_Get (Identity_UserID ident)) (\<lambda>quota.
     ret (user, quota)))"

end
