(* ===== verification/Invariant.thy ===== *)
theory Invariant
  imports File_UC GC Auth_UC
begin

text \<open>
  Preservation of invariants by requests, once and for all.

  Most statements leave the \<^emph>\<open>accounts\<close> alone: who owns which file, which version is current,
  the versions, the blobs, the quotas and the keys of the staged chunks. The locale
  \<open>neutral_invariant\<close> states what an invariant of the world needs for such statements, and
  for the environment's moves, to keep it; every operation of the use cases that only issues
  such statements is shown in the locale to keep the invariant. The theories \<open>Accounting\<close>
  and \<open>Integrity\<close> interpret it.
\<close>

section \<open>The accounts\<close>

definition file_view :: "db \<Rightarrow> (uuid \<times> uuid) list" where
  "file_view d = map (\<lambda>f. (File_ID f, File_OwnerID f)) (files d)"

definition current_view :: "db \<Rightarrow> (uuid \<times> uuid option) list" where
  "current_view d = map (\<lambda>f. (File_ID f, File_CurrentVersionID f)) (files d)"

definition chunk_keys :: "db \<Rightarrow> string list" where
  "chunk_keys d = map Chunk_StorageKey (upload_chunks d)"

definition same_accounts :: "db \<Rightarrow> db \<Rightarrow> bool" where
  "same_accounts d d' \<longleftrightarrow> file_view d' = file_view d \<and> current_view d' = current_view d \<and>
     file_versions d' = file_versions d \<and> blobs d' = blobs d \<and>
     storage_quotas d' = storage_quotas d \<and> chunk_keys d' = chunk_keys d"

lemma same_accounts_refl [simp]: "same_accounts d d"
  by (simp add: same_accounts_def)

lemma same_accounts_trans: "same_accounts d d' \<Longrightarrow> same_accounts d' d'' \<Longrightarrow> same_accounts d d''"
  by (simp add: same_accounts_def)

text \<open>A statement that leaves the accounts alone, and the schema's constraints satisfied.\<close>

definition neutral_step :: "db \<Rightarrow> db \<Rightarrow> bool" where
  "neutral_step d d' \<longleftrightarrow> same_accounts d d' \<and> (schema_ok d' \<or> d' = d)"

definition neutral :: "'a stmt \<Rightarrow> bool" where
  "neutral st \<longleftrightarrow> (\<forall>now d a d'. st now d = Inr (a, d') \<longrightarrow> neutral_step d d')"

lemma neutral_step_refl [simp]: "neutral_step d d"
  by (simp add: neutral_step_def)

lemma neutral_step_trans: "neutral_step d d' \<Longrightarrow> neutral_step d' d'' \<Longrightarrow> neutral_step d d''"
  by (auto simp: neutral_step_def intro: same_accounts_trans)

lemma neutral_commit:
  "(\<And>now d. same_accounts d (g now d)) \<Longrightarrow> neutral (\<lambda>now d. commit_stmt (a now d) (g now d))"
  by (auto simp: neutral_def neutral_step_def commit_stmt_Inr)

lemma neutral_query: "neutral (query q)" "neutral (query_row r)"
  by (simp_all add: neutral_def query_Inr query_row_Inr)

lemma same_accounts_other [simp]:
  "same_accounts d (d\<lparr>users := x1\<rparr>)" "same_accounts d (d\<lparr>sessions := x2\<rparr>)"
  "same_accounts d (d\<lparr>folders := x3\<rparr>)" "same_accounts d (d\<lparr>upload_sessions := x4\<rparr>)"
  "same_accounts d (d\<lparr>shares := x6\<rparr>)" "same_accounts d (d\<lparr>audit_logs := x7\<rparr>)"
  by (simp_all add: same_accounts_def file_view_def current_view_def chunk_keys_def)

lemma same_accounts_files:
  "(\<And>f. File_ID (g f) = File_ID f \<and> File_OwnerID (g f) = File_OwnerID f \<and>
        File_CurrentVersionID (g f) = File_CurrentVersionID f) \<Longrightarrow>
     same_accounts d (d\<lparr>files := update_where P g (files d)\<rparr>)"
  by (simp add: same_accounts_def file_view_def current_view_def chunk_keys_def update_where_def
      comp_def if_distrib cong: if_cong)

lemma neutral_update_files:
  "(\<And>now f. File_ID (g now f) = File_ID f \<and> File_OwnerID (g now f) = File_OwnerID f \<and>
        File_CurrentVersionID (g now f) = File_CurrentVersionID f) \<Longrightarrow>
     neutral (update_files P g)"
  unfolding update_files_def by (intro neutral_commit same_accounts_files) simp

lemmas neutral_rules = neutral_commit neutral_update_files neutral_query

section \<open>Actions that only talk to the database\<close>

definition db_only :: "'a action \<Rightarrow> bool" where
  "db_only m \<longleftrightarrow> (\<forall>w. \<exists>d n. snd (m w) = w\<lparr>w_db := d, w_calls := n\<rparr>)"

lemma db_only_sql: "db_only (sql st)"
proof -
  have "\<exists>d n. next_call w = w\<lparr>w_db := d, w_calls := n\<rparr>"
    "\<exists>d n. (next_call w)\<lparr>w_db := d'\<rparr> = w\<lparr>w_db := d, w_calls := n\<rparr>" for w d'
    by (rule exI [of _ "w_db w"], rule exI [of _ "Suc (w_calls w)"], simp add: next_call_def)
      (rule exI [of _ d'], rule exI [of _ "Suc (w_calls w)"], simp add: next_call_def)
  then show ?thesis
    by (auto simp: db_only_def sql_def exec_def bnd_def ret_def throw_def
        split: option.splits sum.splits prod.splits)
qed

lemma db_only_bnd: "db_only m \<Longrightarrow> (\<And>x. db_only (f x)) \<Longrightarrow> db_only (bnd m f)"
  unfolding db_only_def
proof
  fix w assume m: "\<forall>w. \<exists>d n. snd (m w) = w\<lparr>w_db := d, w_calls := n\<rparr>"
    and f: "\<And>x. \<forall>w. \<exists>d n. snd (f x w) = w\<lparr>w_db := d, w_calls := n\<rparr>"
  obtain r w1 where mw: "m w = (r, w1)" by fastforce
  then obtain d n where w1: "w1 = w\<lparr>w_db := d, w_calls := n\<rparr>" using m by (metis snd_conv)
  show "\<exists>d n. snd (bnd m f w) = w\<lparr>w_db := d, w_calls := n\<rparr>"
  proof (cases r)
    case (Inl e)
    then show ?thesis using mw w1 by (auto simp: bnd_def)
  next
    case (Inr x)
    obtain d' n' where "snd (f x w1) = w1\<lparr>w_db := d', w_calls := n'\<rparr>" using f by blast
    then show ?thesis using mw w1 Inr
      by (intro exI [of _ d'] exI [of _ n']) (simp add: bnd_def)
  qed
qed

lemma db_only_ret: "db_only (ret x)" "db_only (throw e)"
proof -
  have "\<exists>d n. w = w\<lparr>w_db := d, w_calls := n\<rparr>" for w :: world
    by (rule exI [of _ "w_db w"], rule exI [of _ "w_calls w"]) simp
  then show "db_only (ret x)" "db_only (throw e)" by (simp_all add: db_only_def ret_def throw_def)
qed

lemma db_only_execOne: "db_only (execOne st)"
  unfolding execOne_def by (intro db_only_bnd db_only_sql) (simp add: db_only_ret)

text \<open>
  A transaction whose successful body moves the database by a step that keeps the invariant.
\<close>

lemma keeps_tx_step:
  assumes resting: "\<And>w. I w \<Longrightarrow> \<not> w_in_tx w" and calls: "\<And>w n. I w \<Longrightarrow> I (w\<lparr>w_calls := n\<rparr>)"
    and db: "\<And>w d. I w \<Longrightarrow> R (w_db w) d \<Longrightarrow> I (w\<lparr>w_db := d\<rparr>)"
    and only: "db_only m"
    and step: "\<And>w x w'. m w = (Inr x, w') \<Longrightarrow> R (w_db w) (w_db w')"
  shows "keeps I (WithinTx m)"
proof (rule keepsI)
  fix w assume I: "I w"
  obtain r1 where p1: "infra_point w = (r1, next_call w)"
    using infra_point_fields by (metis surj_pair)
  let ?w1 = "(next_call w)\<lparr>w_in_tx := True\<rparr>"
  obtain r2 w2 where p2: "m ?w1 = (r2, w2)" by fastforce
  obtain d n where w2: "w2 = ?w1\<lparr>w_db := d, w_calls := n\<rparr>"
    using only p2 unfolding db_only_def by (metis snd_conv)
  have undo: "I (w\<lparr>w_calls := k\<rparr>)" for k by (rule calls [OF I])
  have idle: "w_in_tx w = False" using resting [OF I] by simp
  have new: "I (w\<lparr>w_db := d, w_calls := k\<rparr>)" if "r2 = Inr a" for a k
    using db [OF I] step [of ?w1 a w2] p2 that calls w2 by fastforce
  obtain r3 where p3: "infra_point w2 = (r3, next_call w2)"
    using infra_point_fields by (metis surj_pair)
  have "\<exists>k. snd (WithinTx m w) = w\<lparr>w_calls := k\<rparr> \<or>
      (\<exists>a. r2 = Inr a) \<and> snd (WithinTx m w) = w\<lparr>w_db := d, w_calls := k\<rparr>"
    using idle p1 p2 p3 w2
    by (cases r1; cases r2; cases r3; cases w) (auto simp: WithinTx_def next_call_def)
  then show "I (snd (WithinTx m w))" using undo new by auto
qed

section \<open>Neutral invariants\<close>

locale neutral_invariant =
  fixes I :: "world \<Rightarrow> bool"
  assumes resting: "I w \<Longrightarrow> \<not> w_in_tx w"
    and calls: "I w \<Longrightarrow> I (w\<lparr>w_calls := n\<rparr>)"
    and locks: "I w \<Longrightarrow> I (w\<lparr>w_locks := l\<rparr>)"
    and neutral_db: "I w \<Longrightarrow> neutral_step (w_db w) d \<Longrightarrow> I (w\<lparr>w_db := d\<rparr>)"
begin

lemma next_call: "I w \<Longrightarrow> I (next_call w)"
  unfolding next_call_def by (rule calls)

text \<open>The environment.\<close>

lemma keeps_env [keeps_intros]:
  "keeps I new_uuid" "keeps I clock_Now" "keeps I infra_point" "keeps I (rand_Read n)"
  by (auto simp: keeps_def new_uuid_def clock_Now_def gets_def infra_point_def rand_Read_def
      next_call split: option.splits)

lemma keeps_RandomToken [keeps_intros]: "keeps I (RandomToken n)" "keeps I NewDEK"
  unfolding RandomToken_def NewDEK_def by (intro keeps_intros)+

lemma keeps_HashPassword [keeps_intros]: "keeps I (HashPassword X pw p)"
  unfolding HashPassword_def by (intro keeps_intros)

lemma keeps_store_Get [keeps_intros]: "keeps I (store_Get key)"
  unfolding store_Get_def by (intro keeps_intros)

lemma keeps_TryLock [keeps_intros]: "keeps I (TryLock key ttl)"
proof -
  have "keeps I (redis_SetNX k token t)" for k token t
    unfolding redis_SetNX_def by (intro keeps_bnd keeps_env) (simp add: keeps_def locks)
  then show ?thesis unfolding TryLock_def by (intro keeps_intros)
qed

lemma keeps_release: "I w \<Longrightarrow> I (release_lock l w)"
proof -
  have "keeps I (releaseScript k token)" for k token
    unfolding releaseScript_def by (intro keeps_bnd keeps_env) (simp add: keeps_def locks)
  then show "I w \<Longrightarrow> I (release_lock l w)" unfolding release_lock_def by (rule keepsD)
qed

text \<open>Neutral statements and transactions.\<close>

lemma neutral_sql: "neutral st \<Longrightarrow> keeps I (sql st)"
proof (rule keepsI)
  fix w assume n: "neutral st" and "I w"
  obtain r w' where run: "sql st w = (r, w')" by fastforce
  show "I (snd (sql st w))"
  proof (cases r)
    case (Inl e)
    then show ?thesis using run sql_InlD next_call \<open>I w\<close> by fastforce
  next
    case (Inr a)
    then obtain d where "w' = (next_call w)\<lparr>w_db := d\<rparr>" "neutral_step (w_db w) d"
      using run n by (auto simp: sql_Inr_iff neutral_def)
    then show ?thesis using run neutral_db [OF next_call [OF \<open>I w\<close>]] by simp
  qed
qed

lemma neutral_execOne: "neutral st \<Longrightarrow> keeps I (execOne st)"
  unfolding execOne_def by (intro keeps_bnd neutral_sql) (auto intro!: keeps_intros)

lemma neutral_WithinTx:
  assumes "db_only m"
    and "\<And>w x w'. m w = (Inr x, w') \<Longrightarrow> neutral_step (w_db w) (w_db w')"
  shows "keeps I (WithinTx m)"
  using resting calls neutral_db assms by (rule keeps_tx_step)

text \<open>Repositories.\<close>

lemma keeps_repo_users [keeps_intros]:
  "keeps I (UserRepo_GetByID i)" "keeps I (UserRepo_GetByEmail e)"
  "keeps I (UserRepo_UpdatePasswordHash i h)"
  "keeps I (SessionRepo_GetByTokenHash t)"
  "keeps I (SessionRepo_RevokeFamily fam)"
  "keeps I (SessionRepo_DeleteExpired before)"
  "keeps I (QuotaRepo_Get i)" "keeps I (AuditRepo_Insert entry)"
  unfolding UserRepo_GetByID_def UserRepo_GetByEmail_def UserRepo_UpdatePasswordHash_def
    SessionRepo_GetByTokenHash_def SessionRepo_RevokeFamily_def SessionRepo_DeleteExpired_def
    QuotaRepo_Get_def AuditRepo_Insert_def Let_def
  by (intro neutral_sql neutral_execOne neutral_rules; simp)+

lemma keeps_repo_files [keeps_intros]:
  "keeps I (FolderRepo_Create fo)" "keeps I (FolderRepo_GetByID i)"
  "keeps I (FolderRepo_ListChildren i p cur n)"
  "keeps I (FolderRepo_SoftDelete i)" "keeps I (FolderRepo_HasChildren i)"
  "keeps I (FileRepo_GetByID i)" "keeps I (FileRepo_GetByName i p nm)"
  "keeps I (FileRepo_List i flt cur n)"
  "keeps I (FileRepo_Search i q m cur n)" "keeps I (FileRepo_Rename i nm)"
  "keeps I (FileRepo_Move i p)"
  "keeps I (FileRepo_SoftDelete i)" "keeps I (FileRepo_Restore i)"
  "keeps I (FileRepo_ListDeletedBefore t n)"
  "keeps I (VersionRepo_GetByID i)" "keeps I (VersionRepo_ListByFile i cur n)"
  "keeps I (BlobRepo_GetByChecksum s)" "keeps I (BlobRepo_GetByID i)"
  "keeps I (BlobRepo_ListOrphaned t n)"
  unfolding FolderRepo_Create_def FolderRepo_GetByID_def FolderRepo_ListChildren_def
    FolderRepo_SoftDelete_def FolderRepo_HasChildren_def FileRepo_GetByID_def FileRepo_GetByName_def
    FileRepo_List_def FileRepo_Search_def FileRepo_Rename_def FileRepo_Move_def
    FileRepo_SoftDelete_def FileRepo_Restore_def
    FileRepo_ListDeletedBefore_def VersionRepo_GetByID_def VersionRepo_ListByFile_def
    BlobRepo_GetByChecksum_def BlobRepo_GetByID_def BlobRepo_ListOrphaned_def Let_def
  by (intro neutral_sql neutral_execOne neutral_rules; simp)+

lemma keeps_FileRepo_SetLock [keeps_intros]: "keeps I (FileRepo_SetLock i u)"
  unfolding FileRepo_SetLock_def
  by (cases u; simp; intro neutral_execOne neutral_rules; simp)

lemma keeps_repo_uploads [keeps_intros]:
  "keeps I (UploadRepo_CreateSession s)" "keeps I (UploadRepo_GetSession i)"
  "keeps I (UploadRepo_UpdateStatus i st)" 
  "keeps I (UploadRepo_ListChunks i)" "keeps I (UploadRepo_ListExpired t n)"
  "keeps I (ShareRepo_Create sh)" "keeps I (ShareRepo_GetByID i)"
  "keeps I (ShareRepo_GetByTokenHash h)" "keeps I (ShareRepo_FindGrant i u)"
  "keeps I (ShareRepo_ListByOwner i fo cur n)" "keeps I (ShareRepo_Revoke i)"
  unfolding UploadRepo_CreateSession_def UploadRepo_GetSession_def UploadRepo_UpdateStatus_def
    UploadRepo_ListChunks_def UploadRepo_ListExpired_def ShareRepo_Create_def
    ShareRepo_GetByID_def ShareRepo_GetByTokenHash_def ShareRepo_FindGrant_def ShareRepo_ListByOwner_def
    ShareRepo_Revoke_def Let_def
  by (intro neutral_sql neutral_execOne neutral_rules; simp)+

lemma keeps_Auditor_Record [keeps_intros]: "keeps I (Auditor_Record u a t i m)"
  unfolding Auditor_Record_def by (intro keeps_intros)

lemma keeps_authorizeFile [keeps_intros]: "keeps I (authorizeFile ident i need now)"
  unfolding authorizeFile_def by (intro keeps_intros)

text \<open>Files.\<close>

lemma keeps_file_helpers [keeps_intros]:
  "keeps I (mutableFile ident i need)" "keeps I (ownFolder ident i)"
  "keeps I (ownFolder_opt ident p)" "keeps I (move_target_ok f p)"
  unfolding mutableFile_def ownFolder_def ownFolder_opt_def move_target_ok_def by (intro keeps_intros)+

lemma keeps_file_uc:
  "keeps I (FileUC_Get ident i)"
  "keeps I (FileUC_List ident p del desc cur n)"
  "keeps I (FileUC_Search ident q m cur n)"
  "keeps I (FileUC_Rename ident i nm)"
  "keeps I (FileUC_Move ident i p)"
  "keeps I (FileUC_Delete u ident i)"
  "keeps I (FileUC_Restore u ident i)"
  "keeps I (FileUC_Lock u ident i)"
  "keeps I (FileUC_Unlock u ident i)"
  "keeps I (CreateFolder ident nm p)"
  "keeps I (ListFolder ident p cur n)"
  "keeps I (DeleteFolder ident j)"
  unfolding FileUC_Get_def FileUC_List_def FileUC_Search_def FileUC_Rename_def FileUC_Move_def
    FileUC_Delete_def FileUC_Restore_def FileUC_Lock_def FileUC_Unlock_def CreateFolder_def
    ListFolder_def DeleteFolder_def
  by (intro keeps_intros)+

lemma keeps_OpenFileContent [keeps_intros]: "keeps I (OpenFileContent u f)"
  unfolding OpenFileContent_def by (intro keeps_intros)

lemma keeps_OpenDownload [keeps_intros]: "keeps I (OpenDownload u ident i)"
  unfolding OpenDownload_def by (intro keeps_intros)

lemma keeps_downloads:
  "keeps I (FileUC_ListVersions ident i cur n)"
  "keeps I (SignedDownloadQuery u ident i)"
  "keeps I (VerifySignedDownload u i q)"
  unfolding FileUC_ListVersions_def SignedDownloadQuery_def VerifySignedDownload_def
  by (intro keeps_intros keeps_file_uc)+

text \<open>Uploads.\<close>

lemma keeps_upload_helpers [keeps_intros]:
  "keeps I (ownedSession ident i)"
  "keeps I (check_folder ident p)" "keeps I (check_name_lock ident p nm)"
  "keeps I (copyChunk key)"
  unfolding ownedSession_def check_folder_def check_name_lock_def copyChunk_def
  by (intro keeps_intros)+

lemma keeps_activeSession [keeps_intros]: "keeps I (activeSession ident i)"
  unfolding activeSession_def by (intro keeps_intros)

lemma keeps_copyChunks [keeps_intros]: "keeps I (copyChunks cs)"
  by (induction cs) (auto intro!: keeps_intros)

lemma keeps_producer [keeps_intros]: "keeps I (producer X dek cs)"
  unfolding producer_def by (intro keeps_intros)

lemma keeps_upload_uc:
  "keeps I (InitUpload u ident nm p mime n chk)"
  "keeps I (Status ident i)"
  unfolding InitUpload_def Status_def by (intro keeps_intros)+

text \<open>Shares.\<close>

lemma keeps_share_uc:
  "keeps I (CreateShare X ident i e p t)"
  "keeps I (CreatePublicLink X ident i p t pw)"
  "keeps I (ShareUC_List ident fo cur n)"
  "keeps I (ShareUC_Revoke X ident i)"
  "keeps I (ResolvePublicLink X token pw)"
  unfolding CreateShare_def CreatePublicLink_def ShareUC_List_def ShareUC_Revoke_def
    ResolvePublicLink_def validateExpiry_def link_password_def
  by (intro keeps_intros)+

text \<open>Accounts. The issuer of access tokens is a port; that it keeps the invariant is assumed.\<close>

lemma keeps_rotate_tx [keeps_intros]: "keeps I (rotate_tx s prev)"
  unfolding rotate_tx_def
proof (rule neutral_WithinTx)
  let ?m = "\<lambda>_. case prev of Some p \<Rightarrow> SessionRepo_Revoke p (Some (Session_ID s)) | None \<Rightarrow> ret ()"
  show "db_only (bnd (SessionRepo_Create s) ?m)"
    unfolding SessionRepo_Create_def SessionRepo_Revoke_def
    by (intro db_only_bnd db_only_sql) (auto simp: db_only_ret db_only_execOne split: option.splits)
  fix w x w' assume "bnd (SessionRepo_Create s) ?m w = (Inr x, w')"
  then obtain w1 where c: "SessionRepo_Create s w = (Inr (), w1)" and r: "?m () w1 = (Inr x, w')"
    by (auto simp: bnd_Inr_iff)
  have "neutral_step (w_db w) (w_db w1)"
    using c by (auto simp: SessionRepo_Create_def sql_Inr_iff commit_stmt_Inr neutral_step_def)
  moreover have "neutral_step (w_db w1) (w_db w')"
    using r by (auto simp: SessionRepo_Revoke_def sql_runs Let_def commit_stmt_Inr neutral_step_def
        split: option.splits)
  ultimately show "neutral_step (w_db w) (w_db w')" by (rule neutral_step_trans)
qed

lemma keeps_mintPair [keeps_intros]:
  assumes "\<And>user. keeps I (au_IssueAccessToken u user)"
  shows "keeps I (mintPair u user fam prev)"
  unfolding mintPair_def by (intro keeps_intros assms)

lemma keeps_auth_uc:
  assumes "\<And>user. keeps I (au_IssueAccessToken u user)"
  shows "keeps I (Login u e pw)"
    "keeps I (Refresh u token)"
    "keeps I (Logout u token)"
    "keeps I (Profile ident)"
  unfolding Login_def rehash_password_def Refresh_def Logout_def Profile_def Let_def
  by (intro keeps_intros assms)+

end

end
