(* ===== verification/Jwt.thy ===== *)
theory Jwt
  imports Auth_UC
begin

text \<open>
  \<open>internal/auth/jwt.go\<close> and \<open>internal/auth/context.go\<close>: access tokens. The JWT library
  (\<open>golang-jwt/jwt\<close>) is a parameter: \<open>SignedString\<close>, and \<open>ParseWithClaims\<close> with the
  key function, the expected issuer and the time source the program passes to it.
\<close>

datatype SigningMethod = SigningMethodHMAC | OtherMethod string

text \<open>Registered claims carry whole seconds (\<open>jwt.NewNumericDate\<close> truncates).\<close>

record claims =
  Claims_Issuer :: string
  Claims_Subject :: string
  Claims_IssuedAt :: int
  Claims_ExpiresAt :: int
  Claims_ID :: string
  Claims_Email :: string
  Claims_Role :: string

record JWTManager =
  jm_ext :: ext
  jm_secret :: "byte list"
  jm_issuer :: string
  jm_ttl :: duration
  jm_SignedString :: "claims \<Rightarrow> byte list \<Rightarrow> string option"
  jm_ParseWithClaims ::
    "string \<Rightarrow> (SigningMethod \<Rightarrow> byte list option) \<Rightarrow> string \<Rightarrow> time \<Rightarrow> claims option"

definition role_string :: "Role \<Rightarrow> string" where
  "role_string r = (case r of RoleUser \<Rightarrow> ''user'' | RoleAdmin \<Rightarrow> ''admin'' | RoleOther s \<Rightarrow> s)"

definition role_of_string :: "string \<Rightarrow> Role" where
  "role_of_string s = (if s = ''user'' then RoleUser else if s = ''admin'' then RoleAdmin
     else RoleOther s)"

definition user_claims :: "JWTManager \<Rightarrow> User \<Rightarrow> time \<Rightarrow> uuid \<Rightarrow> claims" where
  "user_claims m user now i = \<lparr>Claims_Issuer = jm_issuer m,
     Claims_Subject = X_uuid_String (jm_ext m) (User_ID user),
     Claims_IssuedAt = time_Unix now, Claims_ExpiresAt = time_Unix (now + jm_ttl m),
     Claims_ID = X_uuid_String (jm_ext m) i, Claims_Email = User_Email user,
     Claims_Role = role_string (User_Role user)\<rparr>"

definition IssueAccessToken :: "JWTManager \<Rightarrow> User \<Rightarrow> (string \<times> time) action" where
  "IssueAccessToken m user =
     bnd clock_Now (\<lambda>now.
     bnd new_uuid (\<lambda>i.
     case jm_SignedString m (user_claims m user now i) (jm_secret m) of
       None \<Rightarrow> throw ErrInternal
     | Some token \<Rightarrow> ret (token, now + jm_ttl m)))"

text \<open>The key function pins the algorithm.\<close>

definition key_for :: "JWTManager \<Rightarrow> SigningMethod \<Rightarrow> byte list option" where
  "key_for m t = (if t = SigningMethodHMAC then Some (jm_secret m) else None)"

definition ParseAccessToken :: "JWTManager \<Rightarrow> time \<Rightarrow> string \<Rightarrow> error + Identity" where
  "ParseAccessToken m now tokenStr =
     (case jm_ParseWithClaims m tokenStr (key_for m) (jm_issuer m) now of
        None \<Rightarrow> Inl ErrUnauthenticated
      | Some c \<Rightarrow>
          (case X_uuid_Parse (jm_ext m) (Claims_Subject c) of
             None \<Rightarrow> Inl ErrUnauthenticated
           | Some userID \<Rightarrow> Inr \<lparr>Identity_UserID = userID, Identity_Email = Claims_Email c,
               Identity_Role = role_of_string (Claims_Role c)\<rparr>))"

text \<open>\<open>IdentityFromContext\<close>\<close>

definition IdentityFromContext :: "Identity option \<Rightarrow> error + Identity" where
  "IdentityFromContext ctx = (case ctx of None \<Rightarrow> Inl ErrUnauthenticated | Some i \<Rightarrow> Inr i)"

section \<open>Round trip\<close>

text \<open>
  What the library documents: a token signed with HMAC under a key parses, under that key, to
  its claims, provided the issuer is the expected one and the expiry lies in the future.
\<close>

definition jwt_ok :: "JWTManager \<Rightarrow> bool" where
  "jwt_ok m \<longleftrightarrow> (\<forall>c key tok keyfunc iss now.
     jm_SignedString m c key = Some tok \<longrightarrow> keyfunc SigningMethodHMAC = Some key \<longrightarrow>
     jm_ParseWithClaims m tok keyfunc iss now =
       (if iss = Claims_Issuer c \<and> now < (Claims_ExpiresAt c + unix_epoch_seconds) * nanos_per_second
        then Some c else None))"

lemma role_roundtrip: "r = RoleUser \<or> r = RoleAdmin \<Longrightarrow> role_of_string (role_string r) = r"
  by (auto simp: role_of_string_def role_string_def)

lemma IssueAccessToken_Inr:
  assumes "IssueAccessToken m user w = (Inr (token, expiresAt), w')"
  shows "\<exists>i. jm_SignedString m (user_claims m user (w_clock w) i) (jm_secret m) = Some token"
    and "expiresAt = w_clock w + jm_ttl m" and "w_db w' = w_db w"
  using assms
  by (auto simp: IssueAccessToken_def bnd_Inr_iff clock_Now_run new_uuid_run split: option.splits)

lemma ParseAccessToken_issued:
  assumes "jwt_ok m" "X_uuid_Parse (jm_ext m) (X_uuid_String (jm_ext m) (User_ID user)) = Some (User_ID user)"
    and "User_Role user = RoleUser \<or> User_Role user = RoleAdmin"
    and "IssueAccessToken m user w = (Inr (token, expiresAt), w')"
  shows "ParseAccessToken m now token =
    (if now < (time_Unix expiresAt + unix_epoch_seconds) * nanos_per_second
     then Inr \<lparr>Identity_UserID = User_ID user, Identity_Email = User_Email user,
       Identity_Role = User_Role user\<rparr>
     else Inl ErrUnauthenticated)"
proof -
  obtain i where i: "jm_SignedString m (user_claims m user (w_clock w) i) (jm_secret m) = Some token"
    and e: "expiresAt = w_clock w + jm_ttl m"
    using IssueAccessToken_Inr [OF assms(4)] by blast
  have "key_for m SigningMethodHMAC = Some (jm_secret m)" by (simp add: key_for_def)
  with assms(1) i have parse: "jm_ParseWithClaims m token (key_for m) (jm_issuer m) now =
      (if now < (time_Unix expiresAt + unix_epoch_seconds) * nanos_per_second
       then Some (user_claims m user (w_clock w) i) else None)"
    unfolding jwt_ok_def by (simp add: user_claims_def e)
  show ?thesis
    unfolding ParseAccessToken_def parse
    using assms(2) role_roundtrip [OF assms(3)] by (simp add: user_claims_def)
qed

lemma keeps_IssueAccessToken: "keeps (at_rest I) (IssueAccessToken m user)"
  unfolding IssueAccessToken_def by (intro keeps_intros)

end
