(* ===== verification/System.thy ===== *)
theory System
  imports Invariant Jwt
begin

text \<open>
  The program as a whole: the wiring of \<open>internal/app/app.go\<close>, the requests a client can make
  and the sweeps the worker runs as one datatype, and the states reachable by them. Between requests the environment may advance the clocks, expire locks,
  and change which calls will fail and which identifiers and random bytes will be drawn.

  The locale \<open>request_invariant\<close> lists what is left to show of an invariant that is kept by
  neutral statements (theory \<open>Invariant\<close>): the operations that move accounts or objects.
\<close>

section \<open>Wiring\<close>

record system =
  sys_ext :: ext
  sys_kek :: "byte list"
  sys_ChunkSize :: int
  sys_MaxFileSize :: int
  sys_SessionTTL :: duration
  sys_url_secret :: "byte list"
  sys_SignedURLTTL :: duration
  sys_RefreshTokenTTL :: duration
  sys_DefaultQuotaBytes :: int
  sys_jwt :: JWTManager
  sys_gc :: GCConfig

definition upload_uc :: "system \<Rightarrow> UploadUseCase" where
  "upload_uc S = \<lparr>up_ext = sys_ext S, up_kek = sys_kek S, up_ChunkSize = sys_ChunkSize S,
     up_MaxFileSize = sys_MaxFileSize S, up_SessionTTL = sys_SessionTTL S\<rparr>"

definition file_uc :: "system \<Rightarrow> FileUseCase" where
  "file_uc S = \<lparr>fu_ext = sys_ext S, fu_kek = sys_kek S, fu_secret = sys_url_secret S,
     fu_SignedURLTTL = sys_SignedURLTTL S\<rparr>"

definition auth_uc :: "system \<Rightarrow> AuthUseCase" where
  "auth_uc S = \<lparr>au_ext = sys_ext S, au_RefreshTokenTTL = sys_RefreshTokenTTL S,
     au_DefaultQuotaBytes = sys_DefaultQuotaBytes S,
     au_IssueAccessToken = IssueAccessToken (sys_jwt S)\<rparr>"

section \<open>Requests\<close>

datatype request =
    ReqRegister string string string
  | ReqLogin string string
  | ReqRefresh string
  | ReqLogout string
  | ReqProfile Identity
  | ReqInitUpload Identity string string string int string
  | ReqUploadChunk Identity uuid int reader
  | ReqStatus Identity uuid
  | ReqComplete Identity uuid
  | ReqAbort Identity uuid
  | ReqGet Identity uuid
  | ReqList Identity "uuid option" bool bool Cursor nat
  | ReqSearch Identity string string Cursor nat
  | ReqRename Identity uuid string
  | ReqMove Identity uuid "uuid option"
  | ReqDelete Identity uuid
  | ReqRestore Identity uuid
  | ReqListVersions Identity uuid Cursor nat
  | ReqRestoreVersion Identity uuid uuid
  | ReqLock Identity uuid
  | ReqUnlock Identity uuid
  | ReqCreateFolder Identity string "uuid option"
  | ReqListFolder Identity "uuid option" Cursor nat
  | ReqDeleteFolder Identity uuid
  | ReqDownload Identity uuid
  | ReqSignedQuery Identity uuid
  | ReqSignedDownload uuid url_values
  | ReqCreateShare Identity uuid string Permission "time option"
  | ReqCreatePublicLink Identity uuid Permission "time option" string
  | ReqListShares Identity "uuid option" Cursor nat
  | ReqRevokeShare Identity uuid
  | ReqResolveLink string string
  | SweepUploads
  | SweepTrash
  | SweepBlobs
  | SweepSessions

fun run_request :: "system \<Rightarrow> request \<Rightarrow> world \<Rightarrow> world" where
  "run_request S (ReqRegister e pw nm) w = snd (Register (auth_uc S) e pw nm w)"
| "run_request S (ReqLogin e pw) w = snd (Login (auth_uc S) e pw w)"
| "run_request S (ReqRefresh t) w = snd (Refresh (auth_uc S) t w)"
| "run_request S (ReqLogout t) w = snd (Logout (auth_uc S) t w)"
| "run_request S (ReqProfile ident) w = snd (Profile ident w)"
| "run_request S (ReqInitUpload ident nm fo mime n chk) w =
     snd (InitUpload (upload_uc S) ident nm fo mime n chk w)"
| "run_request S (ReqUploadChunk ident i k body) w =
     snd (UploadChunk (upload_uc S) ident i k body w)"
| "run_request S (ReqStatus ident i) w = snd (Status ident i w)"
| "run_request S (ReqComplete ident i) w = snd (Complete (upload_uc S) ident i w)"
| "run_request S (ReqAbort ident i) w = snd (Abort ident i w)"
| "run_request S (ReqGet ident i) w = snd (FileUC_Get ident i w)"
| "run_request S (ReqList ident p del desc cur n) w = snd (FileUC_List ident p del desc cur n w)"
| "run_request S (ReqSearch ident q m cur n) w = snd (FileUC_Search ident q m cur n w)"
| "run_request S (ReqRename ident i nm) w = snd (FileUC_Rename ident i nm w)"
| "run_request S (ReqMove ident i p) w = snd (FileUC_Move ident i p w)"
| "run_request S (ReqDelete ident i) w = snd (FileUC_Delete (file_uc S) ident i w)"
| "run_request S (ReqRestore ident i) w = snd (FileUC_Restore (file_uc S) ident i w)"
| "run_request S (ReqListVersions ident i cur n) w = snd (FileUC_ListVersions ident i cur n w)"
| "run_request S (ReqRestoreVersion ident i v) w = snd (RestoreVersion (file_uc S) ident i v w)"
| "run_request S (ReqLock ident i) w = snd (FileUC_Lock (file_uc S) ident i w)"
| "run_request S (ReqUnlock ident i) w = snd (FileUC_Unlock (file_uc S) ident i w)"
| "run_request S (ReqCreateFolder ident nm p) w = snd (CreateFolder ident nm p w)"
| "run_request S (ReqListFolder ident p cur n) w = snd (ListFolder ident p cur n w)"
| "run_request S (ReqDeleteFolder ident i) w = snd (DeleteFolder ident i w)"
| "run_request S (ReqDownload ident i) w = snd (OpenDownload (file_uc S) ident i w)"
| "run_request S (ReqSignedQuery ident i) w = snd (SignedDownloadQuery (file_uc S) ident i w)"
| "run_request S (ReqSignedDownload i q) w = snd (VerifySignedDownload (file_uc S) i q w)"
| "run_request S (ReqCreateShare ident i e p t) w = snd (CreateShare (sys_ext S) ident i e p t w)"
| "run_request S (ReqCreatePublicLink ident i p t pw) w =
     snd (CreatePublicLink (sys_ext S) ident i p t pw w)"
| "run_request S (ReqListShares ident fo cur n) w = snd (ShareUC_List ident fo cur n w)"
| "run_request S (ReqRevokeShare ident i) w = snd (ShareUC_Revoke (sys_ext S) ident i w)"
| "run_request S (ReqResolveLink t pw) w = snd (ResolvePublicLink (sys_ext S) t pw w)"
| "run_request S SweepUploads w = snd (sweepExpiredUploads (sys_gc S) w)"
| "run_request S SweepTrash w = snd (sweepTrash (sys_gc S) w)"
| "run_request S SweepBlobs w = snd (sweepOrphanedBlobs (sys_gc S) w)"
| "run_request S SweepSessions w =
     snd (bnd clock_Now (\<lambda>now. ignore (SessionRepo_DeleteExpired now)) w)"

section \<open>Reachable states\<close>

definition initial :: "world \<Rightarrow> bool" where
  "initial w \<longleftrightarrow> \<not> w_in_tx w \<and> w_db w = empty_db \<and> w_objects w = (\<lambda>_. None)"

text \<open>What the environment does between requests: anything but touch data or transactions.\<close>

definition environment :: "world \<Rightarrow> world \<Rightarrow> bool" where
  "environment w w' \<longleftrightarrow> w_db w' = w_db w \<and> w_objects w' = w_objects w \<and> w_in_tx w' = w_in_tx w"

text \<open>
  The states reachable from \<open>w0\<close>. \<open>G\<close> restricts the requests considered; \<open>any_request\<close>
  does not.
\<close>

inductive reachable :: "(request \<Rightarrow> world \<Rightarrow> bool) \<Rightarrow> system \<Rightarrow> world \<Rightarrow> world \<Rightarrow> bool"
  for G :: "request \<Rightarrow> world \<Rightarrow> bool" and S :: system and w0 :: world where
  start: "reachable G S w0 w0"
| serve: "reachable G S w0 w \<Longrightarrow> G r w \<Longrightarrow> reachable G S w0 (run_request S r w)"
| moves: "reachable G S w0 w \<Longrightarrow> environment w w' \<Longrightarrow> reachable G S w0 w'"

inductive_cases reachable_cases: "reachable G S w0 w"

definition any_request :: "request \<Rightarrow> world \<Rightarrow> bool" where
  "any_request r w = True"

section \<open>Invariants of the system\<close>

context neutral_invariant
begin

lemma keeps_token_issuer: "keeps I (au_IssueAccessToken (auth_uc S) user)"
  by (simp add: auth_uc_def IssueAccessToken_def) (intro keeps_intros)

lemma keeps_sessions_sweep:
  "keeps I (bnd clock_Now (\<lambda>now. ignore (SessionRepo_DeleteExpired now)))"
  by (intro keeps_intros)

lemmas neutral_requests = keeps_auth_uc [OF keeps_token_issuer] keeps_upload_uc keeps_file_uc
  keeps_downloads keeps_OpenDownload keeps_share_uc

end

locale request_step = neutral_invariant I
  for I :: "world \<Rightarrow> bool" +
  fixes G :: "request \<Rightarrow> world \<Rightarrow> bool" and S :: system
  assumes Register: "keeps I (Register (auth_uc S) e pw nm)"
    and UploadChunk: "keeps I (UploadChunk (upload_uc S) ident i k body)"
    and Complete: "keeps I (Complete (upload_uc S) ident i)"
    and Abort: "keeps I (Abort ident i)"
    and RestoreVersion: "keeps I (RestoreVersion (file_uc S) ident i v)"
    and sweeps: "r \<in> {SweepUploads, SweepTrash, SweepBlobs} \<Longrightarrow> G r w \<Longrightarrow> I w \<Longrightarrow> I (run_request S r w)"
begin

lemma serves: "I w \<Longrightarrow> G r w \<Longrightarrow> I (run_request S r w)"
  using sweeps [of r w] keepsD [OF keeps_sessions_sweep, of w]
  by (cases r) (simp_all add: Register [THEN keepsD] UploadChunk [THEN keepsD]
      Complete [THEN keepsD] Abort [THEN keepsD] RestoreVersion [THEN keepsD]
      neutral_requests [THEN keepsD])

end

locale request_invariant = request_step I G S
  for I :: "world \<Rightarrow> bool" and G :: "request \<Rightarrow> world \<Rightarrow> bool" and S :: system +
  assumes starts: "initial w \<Longrightarrow> I w"
    and moves: "I w \<Longrightarrow> environment w w' \<Longrightarrow> I w'"
begin

theorem invariant: "reachable G S w0 w \<Longrightarrow> I w0 \<Longrightarrow> I w"
  by (induction rule: reachable.induct) (auto intro: serves moves)

theorem from_initial: "reachable G S w0 w \<Longrightarrow> initial w0 \<Longrightarrow> I w"
  using invariant starts by blast

end

end
