(* ===== verification/Threads.thy ===== *)
theory Threads
  imports System
begin

text \<open>
  Requests that run at the same time. A program is a tree of atomic calls: an atom changes
  the shared world in one go and goes on depending on what it saw. Between two atoms of a
  program any other program may move. What is atomic is one call of a repository, of the object
  store or of Redis, and one transaction.

  The locale \<open>rely_guarantee\<close> is the proof method: a relation \<open>R\<close> that every move of every
  program stays within, under which each program's knowledge of the state must be stable.
\<close>

section \<open>Programs\<close>

datatype 'a prog = Finished "error + 'a" | Atom "world \<Rightarrow> world" "world \<Rightarrow> 'a prog"

definition pcall :: "'a action \<Rightarrow> 'a prog" where
  "pcall m = Atom (\<lambda>w. snd (m w)) (\<lambda>w. Finished (fst (m w)))"

primrec and_then :: "'a prog \<Rightarrow> (error + 'a \<Rightarrow> 'b prog) \<Rightarrow> 'b prog" where
  "and_then (Finished r) g = g r"
| "and_then (Atom e k) g = Atom e (\<lambda>w. and_then (k w) g)"

definition pret :: "'a \<Rightarrow> 'a prog" where
  "pret x = Finished (Inr x)"

definition pthrow :: "error \<Rightarrow> 'a prog" where
  "pthrow e = Finished (Inl e)"

definition pbnd :: "'a prog \<Rightarrow> ('a \<Rightarrow> 'b prog) \<Rightarrow> 'b prog" where
  "pbnd p f = and_then p (case_sum pthrow f)"

definition pattempt :: "'a prog \<Rightarrow> (error + 'a) prog" where
  "pattempt p = and_then p pret"

definition pignore :: "'a prog \<Rightarrow> unit prog" where
  "pignore p = and_then p (\<lambda>_. pret ())"

definition pfinally :: "'a prog \<Rightarrow> (world \<Rightarrow> world) \<Rightarrow> 'a prog" where
  "pfinally p fin = and_then p (\<lambda>r. Atom fin (\<lambda>_. Finished r))"

primrec pfor_each :: "('x \<Rightarrow> unit prog) \<Rightarrow> 'x list \<Rightarrow> unit prog" where
  "pfor_each f [] = pret ()"
| "pfor_each f (x # xs) = pbnd (f x) (\<lambda>_. pfor_each f xs)"

section \<open>A program that runs alone\<close>

text \<open>Without interference a program is an action of the sequential model.\<close>

primrec alone :: "'a prog \<Rightarrow> 'a action" where
  "alone (Finished r) = from_sum r"
| "alone (Atom e k) = (\<lambda>w. alone (k w) (e w))"

named_theorems alone_intros "programs and the sequential actions they are"

lemma alone_and_then: "alone (and_then p g) w = (case alone p w of (r, w') \<Rightarrow> alone (g r) w')"
  by (induction p arbitrary: w) (simp_all add: from_sum_def)

lemma alone_pcall [alone_intros]: "alone (pcall m) = m"
  by (simp add: pcall_def from_sum_def)

lemma alone_pret [alone_intros]: "alone (pret x) = ret x"
  by (simp add: pret_def from_sum_def ret_def)

lemma alone_pthrow [alone_intros]: "alone (pthrow e) = throw e"
  by (simp add: pthrow_def from_sum_def throw_def)

lemma alone_pbnd [alone_intros]:
  "alone p = m \<Longrightarrow> (\<And>x. alone (f x) = g x) \<Longrightarrow> alone (pbnd p f) = bnd m g"
  by (rule ext) (auto simp: pbnd_def alone_and_then bnd_def alone_pthrow throw_def
      split: prod.splits sum.splits)

lemma alone_pattempt [alone_intros]: "alone p = m \<Longrightarrow> alone (pattempt p) = attempt m"
  by (rule ext) (auto simp: pattempt_def alone_and_then attempt_def alone_pret ret_def
      split: prod.splits)

lemma alone_pignore [alone_intros]: "alone p = m \<Longrightarrow> alone (pignore p) = ignore m"
  by (rule ext) (auto simp: pignore_def alone_and_then ignore_def alone_pret ret_def
      split: prod.splits)

lemma alone_pfinally [alone_intros]: "alone p = m \<Longrightarrow> alone (pfinally p fin) = finally_do m fin"
  by (rule ext) (auto simp: pfinally_def alone_and_then finally_do_def from_sum_def
      split: prod.splits)

lemma alone_branches [alone_intros]:
  "\<lbrakk>alone p = m; alone q = n\<rbrakk> \<Longrightarrow> alone (if c then p else q) = (if c then m else n)"
  "\<lbrakk>\<And>e. alone (f e) = f' e; \<And>x. alone (g x) = g' x\<rbrakk> \<Longrightarrow>
     alone (case_sum f g r) = case_sum f' g' r"
  "\<lbrakk>alone p = m; \<And>x. alone (h x) = h' x\<rbrakk> \<Longrightarrow> alone (case_option p h v) = case_option m h' v"
  "(\<And>x y. alone (k x y) = k' x y) \<Longrightarrow> alone (case_prod k z) = case_prod k' z"
  by (simp_all split: sum.split option.split prod.split)

lemma alone_pfor_each [alone_intros]:
  "(\<And>x. alone (f x) = g x) \<Longrightarrow> alone (pfor_each f xs) = for_each g xs"
  by (induction xs) (auto intro!: alone_intros)

section \<open>Interleavings\<close>

text \<open>
  The state the programs share: the world, and every file identifier that was ever in use.
  \<open>uuid.New()\<close> does not return an identifier of the latter.
\<close>

type_synonym shared = "world \<times> uuid set"

definition file_ids :: "world \<Rightarrow> uuid set" where
  "file_ids w = set (map File_ID (files (w_db w)))"

definition record_ids :: "uuid set \<Rightarrow> world \<Rightarrow> shared" where
  "record_ids U w = (w, U \<union> file_ids w)"

definition fresh_ids :: "uuid set \<Rightarrow> world \<Rightarrow> world \<Rightarrow> bool" where
  "fresh_ids U w w' \<longleftrightarrow> (file_ids w' - file_ids w) \<inter> U = {}"

type_synonym config = "unit prog list \<times> shared"

inductive interleave ::
    "unit prog set \<Rightarrow> (world \<Rightarrow> world \<Rightarrow> bool) \<Rightarrow> config \<Rightarrow> config \<Rightarrow> bool"
  for Ps :: "unit prog set" and env :: "world \<Rightarrow> world \<Rightarrow> bool" where
  spawn: "p \<in> Ps \<Longrightarrow> interleave Ps env (ts, s) (ts @ [p], s)"
| atom: "\<lbrakk>i < length ts; ts ! i = Atom e k; fresh_ids U w (e w)\<rbrakk> \<Longrightarrow>
    interleave Ps env (ts, (w, U)) (ts[i := k w], record_ids U (e w))"
| world: "env w w' \<Longrightarrow> interleave Ps env (ts, (w, U)) (ts, record_ids U w')"

inductive_cases interleaveE: "interleave Ps env c c'"

section \<open>Rely and guarantee\<close>

text \<open>
  \<open>safe R Q p s\<close>: from \<open>s\<close>, whatever moves within \<open>R\<close> the others make between the atoms of
  \<open>p\<close>, the atoms of \<open>p\<close> stay within \<open>R\<close>, and \<open>Q\<close> holds of its result when it ends and
  for as long as only such moves follow.
\<close>

primrec safe ::
    "(shared \<Rightarrow> shared \<Rightarrow> bool) \<Rightarrow> (error + 'a \<Rightarrow> shared \<Rightarrow> bool) \<Rightarrow> 'a prog \<Rightarrow> shared \<Rightarrow> bool" where
  "safe R Q (Finished r) = (\<lambda>s. \<forall>s'. R s s' \<longrightarrow> Q r s')"
| "safe R Q (Atom e k) = (\<lambda>s. \<forall>w U. R s (w, U) \<longrightarrow> fresh_ids U w (e w) \<longrightarrow>
     R (w, U) (record_ids U (e w)) \<and> safe R Q (k w) (record_ids U (e w)))"

definition triple ::
    "(shared \<Rightarrow> shared \<Rightarrow> bool) \<Rightarrow> (shared \<Rightarrow> bool) \<Rightarrow> 'a prog \<Rightarrow> (error + 'a \<Rightarrow> shared \<Rightarrow> bool) \<Rightarrow> bool"
  where "triple R P p Q \<longleftrightarrow> (\<forall>s. R s s \<longrightarrow> P s \<longrightarrow> safe R Q p s)"

text \<open>A fact that no move within \<open>R\<close> disturbs.\<close>

definition stable :: "(shared \<Rightarrow> shared \<Rightarrow> bool) \<Rightarrow> (shared \<Rightarrow> bool) \<Rightarrow> bool" where
  "stable R P \<longleftrightarrow> (\<forall>a b. P a \<longrightarrow> R a b \<longrightarrow> P b)"

lemma stableI: "(\<And>a b. P a \<Longrightarrow> R a b \<Longrightarrow> P b) \<Longrightarrow> stable R P"
  unfolding stable_def by blast

lemma stableD: "stable R P \<Longrightarrow> P a \<Longrightarrow> R a b \<Longrightarrow> P b"
  unfolding stable_def by blast

lemma stable_const [simp]: "stable R (\<lambda>_. B)"
  by (simp add: stable_def)

lemma stable_conj: "stable R P \<Longrightarrow> stable R Q \<Longrightarrow> stable R (\<lambda>s. P s \<and> Q s)"
  unfolding stable_def by blast

text \<open>The same for the value of a program that succeeds.\<close>

definition yields ::
    "(shared \<Rightarrow> shared \<Rightarrow> bool) \<Rightarrow> (shared \<Rightarrow> bool) \<Rightarrow> 'a prog \<Rightarrow> ('a \<Rightarrow> shared \<Rightarrow> bool) \<Rightarrow> bool" where
  "yields R P p K \<longleftrightarrow> triple R P p (\<lambda>r s. \<forall>x. r = Inr x \<longrightarrow> K x s)"

named_theorems tame_intros "programs that stay within the relation"

locale rely_guarantee =
  fixes R :: "shared \<Rightarrow> shared \<Rightarrow> bool"
  assumes trans: "R a b \<Longrightarrow> R b c \<Longrightarrow> R a c"
    and arrives: "R a b \<Longrightarrow> R b b"
begin

lemma safe_stable: "safe R Q p s \<Longrightarrow> R s s' \<Longrightarrow> safe R Q p s'"
  by (cases p) (auto intro: trans)

lemma safe_and_then:
  assumes "safe R Q p s" and "R s s" and "\<And>r s'. R s' s' \<Longrightarrow> Q r s' \<Longrightarrow> safe R T (g r) s'"
  shows "safe R T (and_then p g) s"
  using assms(1,2)
proof (induction p arbitrary: s)
  case (Finished r)
  then show ?case using assms(3) [of s r] by (simp del: split_paired_All)
next
  case (Atom e k)
  have "safe R T (and_then (k w) g) (record_ids U (e w))"
    if "R s (w, U)" "fresh_ids U w (e w)" for w U
    using Atom.IH [of "k w" "record_ids U (e w)"] Atom.prems(1) that
      arrives [of "(w, U)" "record_ids U (e w)"] by auto
  then show ?case using Atom.prems(1) by simp
qed

lemma triple_and_then:
  "triple R P p Q \<Longrightarrow> (\<And>r. triple R (Q r) (g r) T) \<Longrightarrow> triple R P (and_then p g) T"
  unfolding triple_def by (blast intro: safe_and_then)

lemma triple_pcall:
  assumes P: "stable R P"
    and move: "\<And>w U r w'. \<lbrakk>P (w, U); R (w, U) (w, U); m w = (r, w'); fresh_ids U w w'\<rbrakk> \<Longrightarrow>
      R (w, U) (record_ids U w') \<and> Q r (record_ids U w')"
    and Q: "\<And>r. stable R (Q r)"
  shows "triple R P (pcall m) Q"
  unfolding triple_def pcall_def
proof (intro allI impI)
  fix s assume "R s s" "P s"
  have "R (w, U) (record_ids U (snd (m w))) \<and> Q (fst (m w)) (record_ids U (snd (m w)))"
    if "R s (w, U)" "fresh_ids U w (snd (m w))" for w U
    using stableD [OF P \<open>P s\<close> that(1)] move [of w U "fst (m w)" "snd (m w)"] that
      arrives [OF that(1)] by simp
  then show "safe R Q (Atom (\<lambda>w. snd (m w)) (\<lambda>w. Finished (fst (m w)))) s"
    using stableD [OF Q] by (simp del: split_paired_All) blast
qed

lemma triple_mono:
  assumes "triple R P p Q" and "\<And>s. P' s \<Longrightarrow> P s" and "\<And>r s. Q r s \<Longrightarrow> Q' r s"
  shows "triple R P' p Q'"
proof -
  have "safe R Q p s \<Longrightarrow> safe R Q' p s" for s
    by (induction p arbitrary: s) (auto intro: assms(3))
  then show ?thesis using assms(1,2) by (simp add: triple_def)
qed

text \<open>What a program lets its continuation know.\<close>

lemma yields_mono: "yields R P p K \<Longrightarrow> (\<And>s. P' s \<Longrightarrow> P s) \<Longrightarrow> (\<And>x s. K x s \<Longrightarrow> K' x s) \<Longrightarrow> yields R P' p K'"
  unfolding yields_def by (erule triple_mono) auto

text \<open>A fact that moves within \<open>R\<close> do not disturb survives a program.\<close>

lemma yields_frame:
  assumes "yields R P p K" and F: "stable R F"
  shows "yields R (\<lambda>s. P s \<and> F s) p (\<lambda>x s. K x s \<and> F s)"
proof -
  have "safe R (\<lambda>r s. Q r s \<and> F s) p s" if "safe R Q p s" "F s" for s and Q :: "error + 'a \<Rightarrow> shared \<Rightarrow> bool"
    using that
  proof (induction p arbitrary: s)
    case (Finished r)
    then show ?case using stableD [OF F] by (auto simp del: split_paired_All)
  next
    case (Atom e k)
    have "F (record_ids U (e w))" if "R s (w, U)" "fresh_ids U w (e w)" for w U
      using stableD [OF F stableD [OF F Atom.prems(2) that(1)]] Atom.prems(1) that by simp
    then show ?case using Atom by simp
  qed
  then have "triple R (\<lambda>s. P s \<and> F s) p (\<lambda>r s. (\<forall>x. r = Inr x \<longrightarrow> K x s) \<and> F s)"
    using assms(1) unfolding yields_def triple_def by blast
  then show ?thesis unfolding yields_def by (rule triple_mono) auto
qed

lemma yields_keep:
  assumes "yields R (\<lambda>_. True) p (\<lambda>_ _. True)" and "stable R F"
  shows "yields R F p (\<lambda>_. F)"
  using yields_frame [OF assms] by simp

lemma yields_pure: "(B \<Longrightarrow> yields R (\<lambda>_. True) p K) \<Longrightarrow> yields R (\<lambda>_. B) p K"
  by (simp add: yields_def triple_def)

lemma yields_pbnd:
  "yields R P p K \<Longrightarrow> (\<And>x. yields R (K x) (f x) L) \<Longrightarrow> yields R P (pbnd p f) L"
  unfolding yields_def pbnd_def
  by (erule triple_and_then) (auto simp: pthrow_def triple_def split: sum.split)

lemma yields_pattempt:
  assumes "yields R P p K" and K: "\<And>x. stable R (K x)"
  shows "yields R P (pattempt p) (case_sum (\<lambda>_ _. True) K)"
  using assms(1) unfolding yields_def pattempt_def
  by (rule triple_and_then)
    (use stableD [OF K] in \<open>simp add: pret_def triple_def split: sum.split del: split_paired_All\<close>)

lemma yields_pthrow [tame_intros]: "yields R P (pthrow e) K"
  by (simp add: yields_def pthrow_def triple_def)

lemma yields_pret: "stable R (K x) \<Longrightarrow> yields R (K x) (pret x) K"
  unfolding yields_def pret_def triple_def by (simp add: stable_def)

lemma yields_pret_pure: "Q x \<Longrightarrow> yields R P (pret x) (\<lambda>y _. Q y)"
  by (simp add: yields_def pret_def triple_def)

lemma yields_branches [tame_intros]:
  "\<lbrakk>yields R P p K; yields R P q K\<rbrakk> \<Longrightarrow> yields R P (if c then p else q) K"
  "\<lbrakk>\<And>e. yields R P (f e) K; \<And>x. yields R P (g x) K\<rbrakk> \<Longrightarrow> yields R P (case_sum f g r) K"
  "\<lbrakk>yields R P p K; \<And>x. yields R P (h x) K\<rbrakk> \<Longrightarrow> yields R P (case_option p h v) K"
  "(\<And>x y. yields R P (k x y) K) \<Longrightarrow> yields R P (case_prod k z) K"
  by (simp_all split: sum.split option.split prod.split)

text \<open>Programs of which nothing is known but that they stay within \<open>R\<close>.\<close>

lemma tame_pret [tame_intros]: "yields R P (pret x) (\<lambda>_ _. True)"
  by (simp add: yields_def pret_def triple_def)

lemma tame_pbnd [tame_intros]:
  "\<lbrakk>yields R P p (\<lambda>_ _. True); \<And>x. yields R (\<lambda>_. True) (f x) K\<rbrakk> \<Longrightarrow> yields R P (pbnd p f) K"
  by (rule yields_pbnd)

lemma tame_pattempt [tame_intros]:
  "yields R P p (\<lambda>_ _. True) \<Longrightarrow> yields R P (pattempt p) (\<lambda>_ _. True)"
  by (drule yields_pattempt) (auto elim!: yields_mono)

lemma tame_pignore [tame_intros]:
  "yields R P p (\<lambda>_ _. True) \<Longrightarrow> yields R P (pignore p) (\<lambda>_ _. True)"
  unfolding yields_def pignore_def by (erule triple_and_then) (simp add: pret_def triple_def)

lemma tame_pfor_each [tame_intros]:
  "(\<And>x. yields R (\<lambda>_. True) (f x) (\<lambda>_ _. True)) \<Longrightarrow>
     yields R (\<lambda>_. True) (pfor_each f xs) (\<lambda>_ _. True)"
  by (induction xs) (auto intro!: tame_intros)

lemma tame_pfinally [tame_intros]:
  assumes "yields R P p (\<lambda>_ _. True)"
    and fin: "\<And>w U. R (w, U) (w, U) \<Longrightarrow> R (w, U) (record_ids U (fin w))"
  shows "yields R P (pfinally p fin) (\<lambda>_ _. True)"
  using assms(1) unfolding yields_def pfinally_def
  by (rule triple_and_then) (use fin arrives in \<open>fastforce simp: triple_def\<close>)

text \<open>Every thread of every reachable configuration stays within \<open>R\<close>.\<close>

lemma interleavings_safe:
  assumes steps: "(interleave Ps env)\<^sup>*\<^sup>* ([], s0) c" and "R s0 s0"
    and progs: "\<And>p. p \<in> Ps \<Longrightarrow> yields R (\<lambda>_. True) p (\<lambda>_ _. True)"
    and moves: "\<And>w w' U. R (w, U) (w, U) \<Longrightarrow> env w w' \<Longrightarrow> R (w, U) (record_ids U w')"
  shows "R s0 (snd c) \<and> (\<forall>p \<in> set (fst c). safe R (\<lambda>_ _. True) p (snd c))"
  using steps
proof (induction rule: rtranclp_induct)
  case base
  then show ?case using assms(2) by simp
next
  case (step c c')
  have here: "R (snd c) (snd c)" using step.IH arrives by blast
  show ?case using step(2)
  proof (cases rule: interleave.cases)
    case (spawn p ts s)
    then have "safe R (\<lambda>_ _. True) p s"
      using here progs [of p] by (simp add: yields_def triple_def del: split_paired_All)
    then show ?thesis using step.IH spawn by auto
  next
    case (atom i ts e k U w)
    have "ts ! i \<in> set ts" using atom(3) by simp
    then have "safe R (\<lambda>_ _. True) (Atom e k) (w, U)" using step.IH atom(1,4) by auto
    then have move: "R (w, U) (record_ids U (e w))"
      and mine: "safe R (\<lambda>_ _. True) (k w) (record_ids U (e w))"
      using here atom(1,5) by auto
    have "safe R (\<lambda>_ _. True) p (record_ids U (e w))" if "p \<in> set ts" for p
      using step.IH atom(1) that move by (auto intro: safe_stable)
    then show ?thesis
      using atom(1,2) step.IH move mine trans [of s0 "(w, U)" "record_ids U (e w)"]
      by (auto dest!: set_update_subset_insert [THEN subsetD])
  next
    case (world w w' ts U)
    then have "R (w, U) (record_ids U w')" using here moves by simp
    then show ?thesis
      using step.IH world trans [of s0 "(w, U)" "record_ids U w'"] by (auto intro: safe_stable)
  qed
qed

end

end
