(* ===== verification/Thread_UC.thy ===== *)
theory Thread_UC
  imports Threads
begin

text \<open>
  The requests and sweeps that move accounts, objects or session states, call by call, as
  programs that others may interleave with. Each, run alone, is the action of the sequential model (the lemmas
  \<open>alone_...\<close>). The remaining requests only issue neutral statements (theory \<open>Invariant\<close>).
\<close>

section \<open>Uploads (upload_uc.go)\<close>

definition activeSession_p :: "Identity \<Rightarrow> uuid \<Rightarrow> UploadSession prog" where
  "activeSession_p ident sessionID =
     pbnd (pcall (ownedSession ident sessionID)) (\<lambda>sess.
     if Upload_Status sess \<noteq> UploadPending then pthrow ErrInvalidArgument
     else pbnd (pcall clock_Now) (\<lambda>now.
       if \<not> Upload_IsActive sess now then pthrow ErrUploadExpired else pret sess))"

definition cleanupStaging_p :: "UploadSession \<Rightarrow> unit prog" where
  "cleanupStaging_p sess =
     pbnd (pattempt (pcall (UploadRepo_ListChunks (Upload_ID sess)))) (\<lambda>r. case r of
       Inl _ \<Rightarrow> pret ()
     | Inr chunks \<Rightarrow> pfor_each (\<lambda>c. pignore (pcall (store_Delete (Chunk_StorageKey c)))) chunks)"

definition UploadChunk_p ::
    "UploadUseCase \<Rightarrow> Identity \<Rightarrow> uuid \<Rightarrow> int \<Rightarrow> reader \<Rightarrow> Chunk prog" where
  "UploadChunk_p u ident sessionID index body =
     pbnd (activeSession_p ident sessionID) (\<lambda>sess.
     if index < 0 \<or> index \<ge> Upload_TotalChunks sess then pthrow ErrInvalidArgument
     else
       let expected = ExpectedChunkSize sess index;
           key = ChunkKey (X_uuid_String (up_ext u)) (Upload_ID sess) index;
           limited = LimitReader body expected in
       pbnd (pattempt (pcall (store_Put key limited expected))) (\<lambda>r. case r of
         Inl _ \<Rightarrow> pthrow ErrInvalidArgument
       | Inr _ \<Rightarrow>
           let chunk = \<lparr>Chunk_SessionID = Upload_ID sess, Chunk_Index = index,
             Chunk_SizeBytes = expected, Chunk_ChecksumSHA256 = X_sha256 (up_ext u) (fst limited),
             Chunk_StorageKey = key, Chunk_UploadedAt = 0\<rparr> in
           pbnd (pcall (UploadRepo_SaveChunk chunk)) (\<lambda>_. pret chunk)))"

primrec copyChunks_p :: "Chunk list \<Rightarrow> byte list list prog" where
  "copyChunks_p [] = pret []"
| "copyChunks_p (c # cs) =
     pbnd (pcall (copyChunk (Chunk_StorageKey c))) (\<lambda>bs.
     pbnd (copyChunks_p cs) (\<lambda>rest. pret (bs # rest)))"

definition producer_p :: "ext \<Rightarrow> byte list \<Rightarrow> Chunk list \<Rightarrow> (reader \<times> byte list) prog" where
  "producer_p X dek chunks =
     pbnd (pattempt (pcall (rand_Read noncePrefixLen))) (\<lambda>r. case r of
       Inl e \<Rightarrow> pret (([], Some e), [])
     | Inr prefix \<Rightarrow>
         pbnd (pattempt (copyChunks_p chunks)) (\<lambda>r. case r of
           Inl e \<Rightarrow> pret (([], Some e), [])
         | Inr parts \<Rightarrow>
             (case encrypt_stream X good_sink dek DefaultSegmentSize prefix parts of
                Some (Inr ct) \<Rightarrow> pret ((ct, None), concat parts)
              | Some (Inl e) \<Rightarrow> pret (([], Some e), concat parts)
              | None \<Rightarrow> pret (([], Some ErrInternal), concat parts))))"

definition assemble_store_p :: "UploadUseCase \<Rightarrow> UploadSession \<Rightarrow> Blob prog" where
  "assemble_store_p u sess =
     pbnd (pcall (UploadRepo_ListChunks (Upload_ID sess))) (\<lambda>chunks.
     if int (length chunks) \<noteq> Upload_TotalChunks sess then pthrow ErrUploadIncomplete
     else if \<not> indexes_in_order chunks then pthrow ErrUploadIncomplete
     else
       pbnd (pcall NewDEK) (\<lambda>dek.
       pbnd (pcall (rand_Read nonceLen)) (\<lambda>nonce.
       pbnd (pcall (from_sum (WrapKey (up_ext u) (up_kek u) dek nonce))) (\<lambda>wrappedDEK.
       let blobKey = BlobKey (Upload_ChecksumSHA256 sess);
           encSize = EncryptedSize (Upload_SizeBytes sess) DefaultSegmentSize in
       pbnd (producer_p (up_ext u) dek chunks) (\<lambda>(pipe, hashed).
       pbnd (pcall (store_Put blobKey pipe encSize)) (\<lambda>_.
       if X_sha256 (up_ext u) hashed \<noteq> Upload_ChecksumSHA256 sess then
         pbnd (pignore (pcall (store_Delete blobKey))) (\<lambda>_. pthrow ErrChecksumMismatch)
       else
         pbnd (pcall new_uuid) (\<lambda>i.
         pret \<lparr>Blob_ID = i, Blob_ChecksumSHA256 = Upload_ChecksumSHA256 sess,
           Blob_SizeBytes = Upload_SizeBytes sess, Blob_StorageKey = blobKey,
           Blob_WrappedDEK = wrappedDEK, Blob_RefCount = 0, Blob_CreatedAt = 0\<rparr>)))))))"

definition assemble_register_p :: "UploadSession \<Rightarrow> Blob \<Rightarrow> Blob prog" where
  "assemble_register_p sess blob =
     pbnd (pattempt (pcall (BlobRepo_Create blob))) (\<lambda>r. case r of
       Inl err \<Rightarrow>
         if errIs err [ErrAlreadyExists]
         then pcall (BlobRepo_GetByChecksum (Upload_ChecksumSHA256 sess))
         else pthrow err
     | Inr _ \<Rightarrow> pret blob)"

definition assembleBlob_p :: "UploadUseCase \<Rightarrow> UploadSession \<Rightarrow> Blob prog" where
  "assembleBlob_p u sess = pbnd (assemble_store_p u sess) (assemble_register_p sess)"

definition blob_for_upload_p :: "UploadUseCase \<Rightarrow> UploadSession \<Rightarrow> Blob prog" where
  "blob_for_upload_p u sess =
     pbnd (pattempt (pcall (BlobRepo_GetByChecksum (Upload_ChecksumSHA256 sess)))) (\<lambda>r. case r of
       Inr blob \<Rightarrow> pret blob
     | Inl err \<Rightarrow> if \<not> errIs err [ErrNotFound] then pthrow err else assembleBlob_p u sess)"

definition Complete_locked_p :: "UploadUseCase \<Rightarrow> Identity \<Rightarrow> UploadSession \<Rightarrow> File prog" where
  "Complete_locked_p u ident sess =
     pbnd (blob_for_upload_p u sess) (\<lambda>blob.
     pbnd (pcall (attachVersion sess blob)) (\<lambda>file.
     pbnd (pcall (UploadRepo_UpdateStatus (Upload_ID sess) UploadCompleted)) (\<lambda>_.
     pbnd (cleanupStaging_p sess) (\<lambda>_.
     pbnd (pcall (Auditor_Record (Some (Identity_UserID ident)) AuditFileUploaded ''file''
            (X_uuid_String (up_ext u) (File_ID file))
            [(''size_bytes'', show_int (Upload_SizeBytes sess)),
             (''session_id'', X_uuid_String (up_ext u) (Upload_ID sess))])) (\<lambda>_.
     pcall (FileRepo_GetByID (File_ID file)))))))"

definition Complete_p :: "UploadUseCase \<Rightarrow> Identity \<Rightarrow> uuid \<Rightarrow> File prog" where
  "Complete_p u ident sessionID =
     pbnd (activeSession_p ident sessionID) (\<lambda>sess.
     pbnd (pcall (TryLock (''upload-complete:'' @ X_uuid_String (up_ext u) (Upload_ID sess))
            completion_lock_ttl)) (\<lambda>l. case l of
       None \<Rightarrow> pthrow ErrAlreadyExists
     | Some lock \<Rightarrow> pfinally (Complete_locked_p u ident sess) (release_lock lock)))"

definition Abort_p :: "Identity \<Rightarrow> uuid \<Rightarrow> unit prog" where
  "Abort_p ident sessionID =
     pbnd (pcall (ownedSession ident sessionID)) (\<lambda>sess.
     if Upload_Status sess \<noteq> UploadPending then pret ()
     else pbnd (pcall (UploadRepo_UpdateStatus (Upload_ID sess) UploadAborted))
       (\<lambda>_. cleanupStaging_p sess))"

definition CleanupSession_p :: "UploadSession \<Rightarrow> unit prog" where
  "CleanupSession_p sess =
     pbnd (pcall (UploadRepo_UpdateStatus (Upload_ID sess) UploadExpired))
       (\<lambda>_. cleanupStaging_p sess)"

section \<open>Restoring a version (file_uc.go, access.go)\<close>

definition authorizeFile_p :: "Identity \<Rightarrow> uuid \<Rightarrow> Permission \<Rightarrow> time \<Rightarrow> File prog" where
  "authorizeFile_p ident fileID need now =
     pbnd (pattempt (pcall (FileRepo_GetByID fileID))) (\<lambda>r. case r of
       Inl _ \<Rightarrow> pthrow ErrNotFound
     | Inr f \<Rightarrow>
         if File_OwnerID f = Identity_UserID ident \<or> Identity_Role ident = RoleAdmin then pret f
         else if File_IsDeleted f then pthrow ErrNotFound
         else
           pbnd (pattempt (pcall (ShareRepo_FindGrant fileID (Identity_UserID ident)))) (\<lambda>g. case g of
             Inl _ \<Rightarrow> pthrow ErrNotFound
           | Inr grant \<Rightarrow>
               if \<not> Share_IsActive grant now then pthrow ErrNotFound
               else if \<not> Permission_Allows (Share_Permission grant) need
               then pthrow ErrPermissionDenied
               else pret f))"

definition mutableFile_p :: "Identity \<Rightarrow> uuid \<Rightarrow> Permission \<Rightarrow> File prog" where
  "mutableFile_p ident fileID need =
     pbnd (pcall clock_Now) (\<lambda>now.
     pbnd (authorizeFile_p ident fileID need now) (\<lambda>f.
     if File_IsDeleted f then pthrow ErrNotFound
     else if File_IsLockedByOther f (Identity_UserID ident) then pthrow ErrFileLocked
     else pret f))"

definition RestoreVersion_p :: "FileUseCase \<Rightarrow> Identity \<Rightarrow> uuid \<Rightarrow> uuid \<Rightarrow> File prog" where
  "RestoreVersion_p u ident fileID versionID =
     pbnd (mutableFile_p ident fileID PermissionEditor) (\<lambda>f.
     pbnd (pattempt (pcall (VersionRepo_GetByID versionID))) (\<lambda>r. case r of
       Inl _ \<Rightarrow> pthrow ErrNotFound
     | Inr old \<Rightarrow>
         if Version_FileID old \<noteq> File_ID f then pthrow ErrNotFound
         else
           pbnd (pcall new_uuid) (\<lambda>i.
           pbnd (pcall (WithinTx (restore_tx f old (restored_version ident f old i)))) (\<lambda>_.
           pbnd (pcall (Auditor_Record (Some (Identity_UserID ident)) AuditVersionRestored ''file''
                  (X_uuid_String (fu_ext u) (File_ID f))
                  [(''version_id'', X_uuid_String (fu_ext u) versionID)])) (\<lambda>_.
           pcall (FileRepo_GetByID (File_ID f)))))))"

section \<open>Registration (auth_uc.go)\<close>

definition Register_p :: "AuthUseCase \<Rightarrow> string \<Rightarrow> string \<Rightarrow> string \<Rightarrow> User prog" where
  "Register_p u email0 password displayName =
     (let email = lower (TrimSpace email0) in
      pbnd (pcall (from_sum (validateEmail email))) (\<lambda>_.
      pbnd (pcall (from_sum (validatePassword password))) (\<lambda>_.
      if length displayName > 100 then pthrow ErrInvalidArgument
      else
        pbnd (pcall (HashPassword (au_ext u) password DefaultArgon2Params)) (\<lambda>hash.
        pbnd (pcall new_uuid) (\<lambda>i.
        let user = new_user i email hash displayName in
        pbnd (pcall (WithinTx (bnd (UserRepo_Create user) (\<lambda>_. QuotaRepo_Create (new_quota u i)))))
          (\<lambda>_.
        pbnd (pcall (Auditor_Record (Some i) AuditUserRegistered ''user''
               (X_uuid_String (au_ext u) i) [])) (\<lambda>_. pret user)))))))"

section \<open>Sweeps (gc.go)\<close>

definition sweepExpiredUploads_p :: "GCConfig \<Rightarrow> nat prog" where
  "sweepExpiredUploads_p cfg =
     pbnd (pcall clock_Now) (\<lambda>now.
     pbnd (pattempt (pcall (UploadRepo_ListExpired now (gc_batch cfg)))) (\<lambda>r. case r of
       Inl _ \<Rightarrow> pret 0
     | Inr expired \<Rightarrow>
         pbnd (pignore (pfor_each (\<lambda>sess. pbnd (pcall infra_point) (\<lambda>_.
           pignore (CleanupSession_p sess))) expired)) (\<lambda>_. pret (length expired))))"

primrec count_each_p :: "('x \<Rightarrow> unit prog) \<Rightarrow> 'x list \<Rightarrow> nat prog" where
  "count_each_p f [] = pret 0"
| "count_each_p f (x # xs) =
     pbnd (pattempt (f x)) (\<lambda>r.
     pbnd (count_each_p f xs) (\<lambda>n. pret ((case r of Inl _ \<Rightarrow> 0 | Inr _ \<Rightarrow> 1) + n)))"

definition sweepTrash_p :: "GCConfig \<Rightarrow> nat prog" where
  "sweepTrash_p cfg =
     pbnd (pcall clock_Now) (\<lambda>now.
     pbnd (pattempt (pcall (FileRepo_ListDeletedBefore (now - gc_TrashRetention cfg) (gc_batch cfg))))
       (\<lambda>r. case r of
         Inl _ \<Rightarrow> pret 0
       | Inr candidates \<Rightarrow> count_each_p (\<lambda>f. pcall (WithinTx (purge_tx f))) candidates))"

definition collect_blob_p :: "Blob \<Rightarrow> unit prog" where
  "collect_blob_p b =
     pbnd (pcall (store_Delete (Blob_StorageKey b))) (\<lambda>_.
     pbnd (pattempt (pcall (BlobRepo_Delete (Blob_ID b)))) (\<lambda>r. case r of
       Inl err \<Rightarrow> if err \<noteq> ErrNotFound then pthrow err else pret ()
     | Inr _ \<Rightarrow> pret ()))"

definition sweepOrphanedBlobs_p :: "GCConfig \<Rightarrow> nat prog" where
  "sweepOrphanedBlobs_p cfg =
     pbnd (pcall clock_Now) (\<lambda>now.
     pbnd (pattempt (pcall (BlobRepo_ListOrphaned (now - gc_OrphanGrace cfg) (gc_batch cfg))))
       (\<lambda>r. case r of
         Inl _ \<Rightarrow> pret 0
       | Inr orphans \<Rightarrow> count_each_p collect_blob_p orphans))"

section \<open>Run alone, a program is its sequential action\<close>

lemma alone_activeSession [alone_intros]: "alone (activeSession_p ident i) = activeSession ident i"
  unfolding activeSession_p_def activeSession_def by (intro alone_intros)

lemma alone_cleanupStaging [alone_intros]: "alone (cleanupStaging_p sess) = cleanupStaging sess"
  unfolding cleanupStaging_p_def cleanupStaging_def by (intro alone_intros)

lemma alone_copyChunks [alone_intros]: "alone (copyChunks_p cs) = copyChunks cs"
  by (induction cs) (auto intro!: alone_intros)

lemma alone_producer [alone_intros]: "alone (producer_p X dek cs) = producer X dek cs"
  unfolding producer_p_def producer_def by (intro alone_intros)

lemma alone_assembleBlob [alone_intros]: "alone (assembleBlob_p u sess) = assembleBlob u sess"
  unfolding assembleBlob_p_def assemble_store_p_def assemble_register_p_def
    assembleBlob_def assemble_store_def assemble_register_def Let_def
  by (intro alone_intros)

lemma alone_Complete_locked [alone_intros]:
  "alone (Complete_locked_p u ident sess) = Complete_locked u ident sess"
  unfolding Complete_locked_p_def Complete_locked_def blob_for_upload_p_def blob_for_upload_def
  by (intro alone_intros)

lemma alone_uploads [alone_intros]:
  "alone (UploadChunk_p u ident i k body) = UploadChunk u ident i k body"
  "alone (Complete_p u ident i) = Complete u ident i"
  "alone (Abort_p ident i) = Abort ident i"
  "alone (CleanupSession_p sess) = CleanupSession sess"
  unfolding UploadChunk_p_def UploadChunk_def Complete_p_def Complete_def Abort_p_def Abort_def
    CleanupSession_p_def CleanupSession_def Let_def
  by (intro alone_intros)+

lemma alone_mutableFile [alone_intros]: "alone (mutableFile_p ident i need) = mutableFile ident i need"
  unfolding mutableFile_p_def mutableFile_def authorizeFile_p_def authorizeFile_def
  by (intro alone_intros)

lemma alone_RestoreVersion [alone_intros]:
  "alone (RestoreVersion_p u ident i v) = RestoreVersion u ident i v"
  unfolding RestoreVersion_p_def RestoreVersion_def by (intro alone_intros)

lemma alone_Register [alone_intros]: "alone (Register_p u e pw nm) = Register u e pw nm"
  unfolding Register_p_def Register_def Let_def by (intro alone_intros)

lemma alone_count_each [alone_intros]:
  "(\<And>x. alone (f x) = g x) \<Longrightarrow> alone (count_each_p f xs) = count_each g xs"
  by (induction xs) (auto intro!: alone_intros)

lemma alone_collect_blob [alone_intros]: "alone (collect_blob_p b) = collect_blob b"
  unfolding collect_blob_p_def collect_blob_def by (intro alone_intros)

lemma alone_sweeps [alone_intros]:
  "alone (sweepExpiredUploads_p cfg) = sweepExpiredUploads cfg"
  "alone (sweepTrash_p cfg) = sweepTrash cfg"
  "alone (sweepOrphanedBlobs_p cfg) = sweepOrphanedBlobs cfg"
  unfolding sweepExpiredUploads_p_def sweepExpiredUploads_def submit_cleanup_def sweepTrash_p_def
    sweepTrash_def sweepOrphanedBlobs_p_def sweepOrphanedBlobs_def
  by (intro alone_intros)+

section \<open>The threads of the system\<close>

text \<open>A request or sweep that is not neutral, as a thread; its result goes to the caller.\<close>

fun thread_of :: "system \<Rightarrow> request \<Rightarrow> unit prog option" where
  "thread_of S (ReqRegister e pw nm) = Some (pignore (Register_p (auth_uc S) e pw nm))"
| "thread_of S (ReqUploadChunk ident i k body) =
     Some (pignore (UploadChunk_p (upload_uc S) ident i k body))"
| "thread_of S (ReqComplete ident i) = Some (pignore (Complete_p (upload_uc S) ident i))"
| "thread_of S (ReqAbort ident i) = Some (pignore (Abort_p ident i))"
| "thread_of S (ReqRestoreVersion ident i v) =
     Some (pignore (RestoreVersion_p (file_uc S) ident i v))"
| "thread_of S SweepUploads = Some (pignore (sweepExpiredUploads_p (sys_gc S)))"
| "thread_of S SweepTrash = Some (pignore (sweepTrash_p (sys_gc S)))"
| "thread_of S SweepBlobs = Some (pignore (sweepOrphanedBlobs_p (sys_gc S)))"
| "thread_of S _ = None"

lemma thread_alone:
  "thread_of S r = Some p \<Longrightarrow> alone p w = (Inr (), run_request S r w)"
  by (cases r) (auto simp: alone_intros ignore_def)

end
