(* ===== verification/Accounting.thy ===== *)
theory Accounting
  imports Invariant
begin

text \<open>
  The accounting invariant of the metadata store: every blob's reference count is the number
  of versions that point to it, every user's charged usage is the total size of the versions
  of the files the user owns and is within the quota, and every file's versions are numbered
  1, 2, 3, ... with the current-version pointer at the last one. Every operation of every use
  case and every sweep of the garbage collector keeps it, whichever calls fail.
\<close>

section \<open>The invariant\<close>

definition refs :: "db \<Rightarrow> uuid \<Rightarrow> int" where
  "refs d b = int (length (filter (\<lambda>v. Version_BlobID v = b) (file_versions d)))"

definition owns :: "db \<Rightarrow> uuid \<Rightarrow> uuid \<Rightarrow> bool" where
  "owns d u i \<longleftrightarrow> list_ex (\<lambda>f. File_ID f = i \<and> File_OwnerID f = u) (files d)"

definition usage :: "db \<Rightarrow> uuid \<Rightarrow> int" where
  "usage d u = sum_list (map Version_SizeBytes
     (filter (\<lambda>v. owns d u (Version_FileID v)) (file_versions d)))"

definition refcounts_ok :: "db \<Rightarrow> bool" where
  "refcounts_ok d \<longleftrightarrow> list_all (\<lambda>b. Blob_RefCount b = refs d (Blob_ID b)) (blobs d)"

definition usage_ok :: "db \<Rightarrow> bool" where
  "usage_ok d \<longleftrightarrow> list_all (\<lambda>q. Quota_UsedBytes q = usage d (Quota_UserID q) \<and>
     Quota_UsedBytes q \<le> Quota_QuotaBytes q) (storage_quotas d)"

definition versions_of :: "db \<Rightarrow> uuid \<Rightarrow> Version list" where
  "versions_of d i = filter (\<lambda>v. Version_FileID v = i) (file_versions d)"

text \<open>The history \<open>vs\<close> of a file, oldest first, and its current-version pointer \<open>cur\<close>.\<close>

definition history_of :: "Version list \<Rightarrow> uuid option \<Rightarrow> bool" where
  "history_of vs cur \<longleftrightarrow> map Version_VersionNumber vs = map int [1 ..< Suc (length vs)] \<and>
     cur = (if vs = [] then None else Some (Version_ID (last vs)))"

definition history_ok :: "db \<Rightarrow> bool" where
  "history_ok d \<longleftrightarrow>
     list_all (\<lambda>f. history_of (versions_of d (File_ID f)) (File_CurrentVersionID f)) (files d)"

definition accounting :: "db \<Rightarrow> bool" where
  "accounting d \<longleftrightarrow> schema_ok d \<and> refcounts_ok d \<and> usage_ok d \<and> history_ok d"

section \<open>What accounting depends on\<close>

definition blob_view :: "db \<Rightarrow> (uuid \<times> int) list" where
  "blob_view d = map (\<lambda>b. (Blob_ID b, Blob_RefCount b)) (blobs d)"

definition quota_view :: "db \<Rightarrow> (uuid \<times> int \<times> int) list" where
  "quota_view d = map (\<lambda>q. (Quota_UserID q, Quota_UsedBytes q, Quota_QuotaBytes q)) (storage_quotas d)"

lemma owns_view: "owns d u i \<longleftrightarrow> (i, u) \<in> set (file_view d)"
  by (auto simp: owns_def file_view_def list_ex_iff)

lemma refcounts_ok_view:
  "refcounts_ok d \<longleftrightarrow> (\<forall>(b, n) \<in> set (blob_view d). n = refs d b)"
  by (auto simp: refcounts_ok_def blob_view_def list_all_iff)

lemma usage_ok_view:
  "usage_ok d \<longleftrightarrow> (\<forall>(u, used, quota) \<in> set (quota_view d). used = usage d u \<and> used \<le> quota)"
  by (auto simp: usage_ok_def quota_view_def list_all_iff)

lemma history_ok_view:
  "history_ok d \<longleftrightarrow> (\<forall>(i, cur) \<in> set (current_view d). history_of (versions_of d i) cur)"
  by (auto simp: history_ok_def current_view_def list_all_iff)

lemma same_accounts_ok:
  assumes "same_accounts d d'"
  shows "refcounts_ok d' = refcounts_ok d" and "usage_ok d' = usage_ok d"
    and "history_ok d' = history_ok d"
proof -
  have "refs d' = refs d" "usage d' = usage d"
    using assms by (auto simp: fun_eq_iff refs_def usage_def owns_view same_accounts_def)
  then show "refcounts_ok d' = refcounts_ok d" "usage_ok d' = usage_ok d"
    using assms by (simp_all add: refcounts_ok_def usage_ok_def same_accounts_def)
  show "history_ok d' = history_ok d"
    using assms by (simp add: history_ok_view versions_of_def same_accounts_def)
qed

lemma accounting_neutral_step: "accounting d \<Longrightarrow> neutral_step d d' \<Longrightarrow> accounting d'"
  unfolding neutral_step_def accounting_def using same_accounts_ok by metis

interpretation acc: neutral_invariant "at_rest accounting"
  by unfold_locales (auto simp: at_rest_def intro: accounting_neutral_step)

section \<open>Statements that move the accounts\<close>

text \<open>What each one does to the state when it succeeds.\<close>

lemma VersionRepo_Create_Inr:
  assumes "VersionRepo_Create v w = (Inr v', w')"
  shows "v' = v\<lparr>Version_VersionNumber := next_version_number (Version_FileID v) (w_db w),
      Version_CreatedAt := w_dbnow w\<rparr>"
    and "w_db w' = (w_db w)\<lparr>file_versions := file_versions (w_db w) @ [v']\<rparr>"
    and "schema_ok (w_db w')" and "w_dbnow w' = w_dbnow w" "w_in_tx w' = w_in_tx w"
  using assms by (auto simp: VersionRepo_Create_def sql_Inr_iff Let_def commit_stmt_Inr)

lemma IncrementRef_Inr:
  assumes "BlobRepo_IncrementRef b w = (Inr u, w')"
  shows "w_db w' = (w_db w)\<lparr>blobs := update_where (\<lambda>x. Blob_ID x = b)
      (\<lambda>x. x\<lparr>Blob_RefCount := Blob_RefCount x + 1\<rparr>) (blobs (w_db w))\<rparr>"
    and "schema_ok (w_db w')" and "w_dbnow w' = w_dbnow w" "w_in_tx w' = w_in_tx w"
  using assms by (auto simp: BlobRepo_IncrementRef_def execOne_Inr_iff sql_Inr_iff update_refs_def
      commit_stmt_Inr)

lemma SetCurrentVersion_Inr:
  assumes "FileRepo_SetCurrentVersion i v w = (Inr u, w')"
  shows "w_db w' = (w_db w)\<lparr>files := update_where (\<lambda>f. File_ID f = i)
      (\<lambda>f. f\<lparr>File_CurrentVersionID := Some v, File_UpdatedAt := w_dbnow w\<rparr>) (files (w_db w))\<rparr>"
    and "schema_ok (w_db w')" and "w_dbnow w' = w_dbnow w" "w_in_tx w' = w_in_tx w"
  using assms by (auto simp: FileRepo_SetCurrentVersion_def execOne_Inr_iff sql_Inr_iff
      update_files_def commit_stmt_Inr)

definition charged :: "uuid \<Rightarrow> int \<Rightarrow> time \<Rightarrow> Quota list \<Rightarrow> Quota list" where
  "charged u n now qs = update_where
     (\<lambda>q. Quota_UserID q = u \<and> Quota_UsedBytes q + n \<le> Quota_QuotaBytes q)
     (\<lambda>q. q\<lparr>Quota_UsedBytes := Quota_UsedBytes q + n, Quota_UpdatedAt := now\<rparr>) qs"

definition released :: "uuid \<Rightarrow> int \<Rightarrow> time \<Rightarrow> Quota list \<Rightarrow> Quota list" where
  "released u n now qs = update_where (\<lambda>q. Quota_UserID q = u)
     (\<lambda>q. q\<lparr>Quota_UsedBytes := max (Quota_UsedBytes q + n) 0, Quota_UpdatedAt := now\<rparr>) qs"

lemma exec_Inr_iff:
  "exec st w = (Inr r, w') \<longleftrightarrow>
     (\<exists>i. w_faults w (w_calls w) = Some i \<and> r = Inl (infra_pg i) \<and> w' = next_call w) \<or>
     w_faults w (w_calls w) = None \<and>
     ((\<exists>e. st (w_dbnow w) (w_db w) = Inl e \<and> r = Inl e \<and> w' = next_call w) \<or>
      (\<exists>a d. st (w_dbnow w) (w_db w) = Inr (a, d) \<and> r = Inr a \<and> w' = (next_call w)\<lparr>w_db := d\<rparr>))"
  by (auto simp: exec_def split: option.splits sum.splits)

lemma AddUsage_charge_Inr:
  assumes "QuotaRepo_AddUsage u n w = (Inr x, w')" "0 \<le> n"
  shows "w_db w' = (w_db w)\<lparr>storage_quotas := charged u n (w_dbnow w) (storage_quotas (w_db w))\<rparr>"
    and "\<exists>q \<in> set (storage_quotas (w_db w)). Quota_UserID q = u \<and>
      Quota_UsedBytes q + n \<le> Quota_QuotaBytes q"
    and "schema_ok (w_db w')"
  using assms
  by (auto simp: QuotaRepo_AddUsage_def bnd_case_sum_Inr bnd_attempt_iff exec_Inr_iff charge_quota_def
      Let_def charged_def commit_stmt_Inr rows_affected_0 split: if_splits)

lemma AddUsage_release_Inr:
  assumes "QuotaRepo_AddUsage u n w = (Inr x, w')" "n < 0"
  shows "w_db w' = (w_db w)\<lparr>storage_quotas := released u n (w_dbnow w) (storage_quotas (w_db w))\<rparr>"
    and "schema_ok (w_db w')"
  using assms
  by (auto simp: QuotaRepo_AddUsage_def act_simps sql_Inr_iff release_quota_def Let_def released_def
      commit_stmt_Inr split: if_splits)

section \<open>Balance\<close>

lemma unique_owner:
  assumes "schema_ok d" "owns d u i" "owns d u' i"
  shows "u = u'"
proof -
  have "distinct (map File_ID (files d))"
    using schema_okD(3) [OF assms(1)] by (simp add: unique_constraints_def)
  then show ?thesis
    using assms(2,3) by (auto simp: owns_def list_ex_iff distinct_map inj_on_def)
qed

lemma unique_quota:
  assumes "schema_ok d" "q \<in> set (storage_quotas d)" "q' \<in> set (storage_quotas d)"
    "Quota_UserID q = Quota_UserID q'"
  shows "q = q'"
proof -
  have "distinct (map Quota_UserID (storage_quotas d))"
    using schema_okD(3) [OF assms(1)] by (simp add: unique_constraints_def)
  then show ?thesis using assms(2-4) by (auto simp: distinct_map inj_on_def)
qed

text \<open>Numbers of a well-formed history end at its length, so the next one is the successor.\<close>

lemma foldr_max_le: "\<forall>x \<in> set xs. x \<le> (a :: int) \<Longrightarrow> foldr max xs a = a"
  by (induction xs) auto

lemma foldr_max_upt: "foldr max (map int [1 ..< Suc n]) 0 = int n"
proof (cases n)
  case (Suc m)
  then have "foldr max (map int [1 ..< Suc n]) 0 = foldr max (map int [1 ..< n]) (max (int n) 0)"
    by simp
  also have "\<dots> = int n" by (subst foldr_max_le) auto
  finally show ?thesis .
qed simp

lemma next_number:
  assumes "history_of (versions_of d i) cur"
  shows "next_version_number i d = int (Suc (length (versions_of d i)))"
  using assms foldr_max_upt
  by (simp add: next_version_number_def history_of_def versions_of_def del: upt_Suc)

lemma attach_history:
  assumes hist: "history_ok d" and own: "owns d u (Version_FileID v)"
    and vs: "file_versions d' = file_versions d @ [v]"
    and num: "Version_VersionNumber v = next_version_number (Version_FileID v) d"
    and cv: "current_view d' = map (\<lambda>(j, cur).
      (j, if j = Version_FileID v then Some (Version_ID v) else cur)) (current_view d)"
  shows "history_ok d'"
  unfolding history_ok_view cv
proof clarsimp
  fix j cur assume j: "(j, cur) \<in> set (current_view d)"
  then have h: "history_of (versions_of d j) cur" using hist by (auto simp: history_ok_view)
  show "(j = Version_FileID v \<longrightarrow> history_of (versions_of d' (Version_FileID v)) (Some (Version_ID v))) \<and>
    (j \<noteq> Version_FileID v \<longrightarrow> history_of (versions_of d' j) cur)"
  proof (cases "j = Version_FileID v")
    case True
    have "versions_of d' j = versions_of d j @ [v]" by (simp add: versions_of_def vs True)
    moreover have "Version_VersionNumber v = int (Suc (length (versions_of d j)))"
      using num next_number [OF h] True by simp
    ultimately show ?thesis using h True by (simp add: history_of_def)
  next
    case False
    then have "versions_of d' j = versions_of d j" by (simp add: versions_of_def vs)
    with False h show ?thesis by simp
  qed
qed

text \<open>Appending a version, counting its blob reference and charging its owner balances.\<close>

lemma attach_balanced:
  assumes acc: "accounting d" and own: "owns d u (Version_FileID v)"
    and vs: "file_versions d' = file_versions d @ [v]" and fs: "file_view d' = file_view d"
    and bs: "blobs d' = update_where (\<lambda>x. Blob_ID x = Version_BlobID v)
      (\<lambda>x. x\<lparr>Blob_RefCount := Blob_RefCount x + 1\<rparr>) (blobs d)"
    and qs: "storage_quotas d' = charged u (Version_SizeBytes v) now (storage_quotas d)"
    and room: "\<exists>q \<in> set (storage_quotas d). Quota_UserID q = u \<and>
      Quota_UsedBytes q + Version_SizeBytes v \<le> Quota_QuotaBytes q"
  shows "refcounts_ok d'" and "usage_ok d'"
proof -
  have sch: "schema_ok d" and rc: "refcounts_ok d" and us: "usage_ok d"
    using acc by (simp_all add: accounting_def)
  have refs': "refs d' b = refs d b + (if Version_BlobID v = b then 1 else 0)" for b
    by (simp add: refs_def vs)
  then show "refcounts_ok d'"
    using rc by (auto simp: refcounts_ok_def list_all_iff bs set_update_where)
  have owns': "owns d' u' i = owns d u' i" for u' i by (simp add: owns_view fs)
  have "owns d u' (Version_FileID v) \<longleftrightarrow> u' = u" for u'
    using unique_owner [OF sch] own by blast
  then have usage': "usage d' u' = usage d u' + (if u' = u then Version_SizeBytes v else 0)" for u'
    by (simp add: usage_def vs owns')
  have fits: "Quota_UsedBytes q + Version_SizeBytes v \<le> Quota_QuotaBytes q"
    if "q \<in> set (storage_quotas d)" "Quota_UserID q = u" for q
    using room unique_quota [OF sch] that by metis
  then show "usage_ok d'"
    using us by (auto simp: usage_ok_def list_all_iff qs charged_def set_update_where usage')
qed

text \<open>A new file has no versions, so it changes nobody's usage.\<close>

lemma versions_have_files:
  "schema_ok d \<Longrightarrow> v \<in> set (file_versions d) \<Longrightarrow> Version_FileID v \<in> set (map File_ID (files d))"
  using schema_okD(4) [of d]
  by (auto simp: foreign_keys_def Let_def list_all_iff ref_in_def)

lemma versions_have_blobs:
  "schema_ok d \<Longrightarrow> v \<in> set (file_versions d) \<Longrightarrow> Version_BlobID v \<in> set (map Blob_ID (blobs d))"
  using schema_okD(4) [of d]
  by (auto simp: foreign_keys_def Let_def list_all_iff ref_in_def)

lemma add_file_balanced:
  assumes acc: "accounting d" and d': "d' = d\<lparr>files := files d @ [f]\<rparr>" and sch: "schema_ok d'"
    and none: "File_CurrentVersionID f = None"
  shows "accounting d'"
proof -
  have "distinct (map File_ID (files d'))"
    using schema_okD(3) [OF sch] by (simp add: unique_constraints_def)
  then have fresh: "File_ID f \<notin> set (map File_ID (files d))" by (simp add: d')
  have "owns d' u (Version_FileID v) = owns d u (Version_FileID v)"
    if "v \<in> set (file_versions d)" for u v
    using versions_have_files [OF _ that] acc fresh
    by (auto simp: owns_def d' accounting_def)
  then have "filter (\<lambda>v. owns d' u (Version_FileID v)) (file_versions d) =
      filter (\<lambda>v. owns d u (Version_FileID v)) (file_versions d)" for u
    by (auto intro: filter_cong)
  then have "usage d' u = usage d u" for u by (simp add: usage_def d')
  moreover have "refs d' b = refs d b" for b by (simp add: refs_def d')
  moreover have "Version_FileID v \<noteq> File_ID f" if "v \<in> set (file_versions d)" for v
    using versions_have_files [of d v] acc fresh that by (metis accounting_def)
  then have "versions_of d (File_ID f) = []" by (simp add: versions_of_def filter_empty_conv)
  then have "history_ok d'"
    using acc none by (simp add: accounting_def history_ok_def history_of_def versions_of_def d')
  ultimately show ?thesis
    using acc sch by (simp add: accounting_def refcounts_ok_def usage_ok_def d')
qed

lemma add_blob_balanced:
  assumes acc: "accounting d" and d': "d' = d\<lparr>blobs := blobs d @ [b]\<rparr>" and sch: "schema_ok d'"
    and zero: "Blob_RefCount b = 0"
  shows "accounting d'"
proof -
  have "distinct (map Blob_ID (blobs d'))"
    using schema_okD(3) [OF sch] by (simp add: unique_constraints_def)
  then have "Blob_ID b \<notin> set (map Blob_ID (blobs d))" by (simp add: d')
  then have "Version_BlobID v \<noteq> Blob_ID b" if "v \<in> set (file_versions d)" for v
    using versions_have_blobs [of d v] acc that by (metis accounting_def)
  then have "refs d (Blob_ID b) = 0" by (simp add: refs_def)
  moreover have "refs d' = refs d" "usage d' = usage d"
    by (auto simp: fun_eq_iff refs_def usage_def owns_def d')
  ultimately show ?thesis
    using acc sch zero
    by (simp add: accounting_def refcounts_ok_def usage_ok_def history_ok_def versions_of_def d')
qed

lemma add_quota_balanced:
  assumes acc: "accounting d" and d': "d' = d\<lparr>storage_quotas := storage_quotas d @ [q]\<rparr>"
    and sch: "schema_ok d'" and zero: "Quota_UsedBytes q = 0" and none: "\<not> (\<exists>i. owns d (Quota_UserID q) i)"
  shows "accounting d'"
proof -
  have "0 \<le> Quota_QuotaBytes q"
    using schema_okD(2) [OF sch] by (simp add: check_constraints_def d')
  moreover have "usage d (Quota_UserID q) = 0" using none by (simp add: usage_def)
  moreover have "refs d' = refs d" "usage d' = usage d"
    by (auto simp: fun_eq_iff refs_def usage_def owns_def d')
  ultimately show ?thesis
    using acc sch zero
    by (simp add: accounting_def refcounts_ok_def usage_ok_def history_ok_def versions_of_def d')
qed

lemma delete_blob_balanced:
  assumes "accounting d" "d' = d\<lparr>blobs := filter P (blobs d)\<rparr>" "schema_ok d'"
  shows "accounting d'"
proof -
  have "refs d' = refs d" "usage d' = usage d"
    by (auto simp: fun_eq_iff refs_def usage_def owns_def assms(2))
  then show ?thesis
    using assms by (auto simp: accounting_def refcounts_ok_def usage_ok_def history_ok_def
        versions_of_def list_all_iff)
qed

lemma length_filter_split:
  "length (filter Q xs) = length (filter (\<lambda>x. P x \<and> Q x) xs) + length (filter (\<lambda>x. \<not> P x \<and> Q x) xs)"
  by (induction xs) auto

lemma sum_list_filter_split:
  "sum_list (map h (filter Q xs)) =
     sum_list (map h (filter (\<lambda>x. Q x \<and> P x) xs)) + (sum_list (map h (filter (\<lambda>x. Q x \<and> \<not> P x) xs)) :: int)"
  by (induction xs) auto

text \<open>The bytes of a file are its owner's; without the file they are nobody's.\<close>

lemma usage_purged:
  assumes sd: "schema_ok d" and own: "owns d u i"
    and fs: "file_view d' = filter (\<lambda>(j, _). j \<noteq> i) (file_view d)"
    and vs: "file_versions d' = filter (\<lambda>v. Version_FileID v \<noteq> i) (file_versions d)"
  shows "usage d u' = usage d' u' + (if u' = u then total_bytes i d else 0)"
proof -
  have owns': "owns d' u' j \<longleftrightarrow> owns d u' j \<and> j \<noteq> i" for j by (auto simp: owns_view fs)
  have only: "owns d u' i \<longleftrightarrow> u' = u" using unique_owner [OF sd] own by blast
  have "owns d u' (Version_FileID v) \<and> Version_FileID v = i \<longleftrightarrow> u' = u \<and> Version_FileID v = i"
    for v :: Version using only by metis
  then have *: "sum_list (map Version_SizeBytes (filter (\<lambda>v. owns d u' (Version_FileID v)
      \<and> Version_FileID v = i) (file_versions d))) = (if u' = u then total_bytes i d else 0)"
    by (simp only: total_bytes_def) simp
  have "usage d' u' = sum_list (map Version_SizeBytes (filter (\<lambda>v. owns d u' (Version_FileID v)
      \<and> \<not> Version_FileID v = i) (file_versions d)))"
    by (simp add: usage_def vs owns') (simp add: conj_commute conj_left_commute)
  with * show ?thesis
    unfolding usage_def [of d]
    using sum_list_filter_split [of Version_SizeBytes "\<lambda>v. owns d u' (Version_FileID v)"
        "file_versions d" "\<lambda>v. Version_FileID v = i"] by simp
qed

text \<open>
  Purging a file: its blob references are dropped, its bytes released, its rows deleted.
\<close>

lemma purge_balanced:
  assumes acc: "accounting d" and own: "owns d u i" and sch: "schema_ok d'"
    and fs: "file_view d' = filter (\<lambda>(j, _). j \<noteq> i) (file_view d)"
    and cv: "current_view d' = filter (\<lambda>(j, _). j \<noteq> i) (current_view d)"
    and vs: "file_versions d' = filter (\<lambda>v. Version_FileID v \<noteq> i) (file_versions d)"
    and bs: "blobs d' = update_where (\<lambda>b. refs_from_file i d (Blob_ID b) > 0)
      (\<lambda>b. b\<lparr>Blob_RefCount := max (Blob_RefCount b - refs_from_file i d (Blob_ID b)) 0\<rparr>) (blobs d)"
    and qs: "quota_view d' = map (\<lambda>(u', used, quota).
      (u', if u' = u then max (used - total_bytes i d) 0 else used, quota)) (quota_view d)"
  shows "accounting d'"
proof -
  have sd: "schema_ok d" and rc: "refcounts_ok d" and us: "usage_ok d"
    using acc by (simp_all add: accounting_def)
  have refs': "refs d' b = refs d b - refs_from_file i d b" and le: "refs_from_file i d b \<le> refs d b"
    and nn: "0 \<le> refs_from_file i d b" for b
    using length_filter_split [of "\<lambda>v. Version_BlobID v = b" "file_versions d" "\<lambda>v. Version_FileID v = i"]
    by (simp_all add: refs_def refs_from_file_def vs conj_commute)
  have "refcounts_ok d'"
    using rc le nn
    by (auto simp: refcounts_ok_def list_all_iff bs set_update_where refs' not_less max_def
        order_antisym)
  moreover have "usage_ok d'"
  proof -
    have pos: "0 \<le> Version_SizeBytes v" if "v \<in> set (file_versions d)" for v
      using schema_okD(2) [OF sd] that by (simp add: check_constraints_def list_all_iff)
    note split = usage_purged [OF sd own fs vs]
    have "0 \<le> usage d' u'" for u'
      using pos by (auto simp: usage_def vs intro!: sum_list_nonneg)
    moreover have "0 \<le> total_bytes i d"
      using pos by (auto simp: total_bytes_def intro!: sum_list_nonneg)
    ultimately show ?thesis
      using us split by (fastforce simp: usage_ok_view qs)
  qed
  moreover have "history_ok d'"
  proof -
    have "versions_of d' j = versions_of d j" if "j \<noteq> i" for j
      using that by (auto simp: versions_of_def vs intro: filter_cong)
    then show ?thesis using acc by (auto simp: accounting_def history_ok_view cv)
  qed
  ultimately show ?thesis using sch by (simp add: accounting_def)
qed

section \<open>Transactions\<close>

lemma tx_ok_bnd: "tx_ok I m \<Longrightarrow> (\<And>x. tx_ok I (f x)) \<Longrightarrow> tx_ok I (bnd m f)"
  unfolding tx_ok_def by (blast elim: bnd_InrE)

lemma tx_ok_ret: "tx_ok I (ret x)"
  by (simp add: tx_ok_def)

lemma tx_ok_sql: "(\<And>now d a d'. I d \<Longrightarrow> st now d = Inr (a, d') \<Longrightarrow> I d') \<Longrightarrow> tx_ok I (sql st)"
  by (auto simp: tx_ok_def sql_Inr_iff)

lemma tx_ok_execOne:
  "(\<And>now d a d'. I d \<Longrightarrow> st now d = Inr (a, d') \<Longrightarrow> I d') \<Longrightarrow> tx_ok I (execOne st)"
  by (auto simp: tx_ok_def sql_runs)

text \<open>The tail shared by an upload and a restored version.\<close>

lemma attach_tail:
  assumes acc: "accounting (w_db w)" and own: "owns (w_db w) u (Version_FileID v)"
    and size: "0 \<le> Version_SizeBytes v"
    and v: "VersionRepo_Create v w = (Inr v', w1)"
    and b: "BlobRepo_IncrementRef (Version_BlobID v) w1 = (Inr x1, w2)"
    and c: "FileRepo_SetCurrentVersion (Version_FileID v) (Version_ID v) w2 = (Inr x2, w3)"
    and q: "QuotaRepo_AddUsage u (Version_SizeBytes v) w3 = (Inr x3, w4)"
  shows "accounting (w_db w4)"
proof -
  note V = VersionRepo_Create_Inr [OF v] and B = IncrementRef_Inr [OF b]
    and C = SetCurrentVersion_Inr [OF c] and Q = AddUsage_charge_Inr [OF q size]
  have vf: "Version_FileID v' = Version_FileID v" "Version_BlobID v' = Version_BlobID v"
    "Version_SizeBytes v' = Version_SizeBytes v" "Version_ID v' = Version_ID v"
    by (simp_all add: V(1))
  have fv: "file_view (w_db w4) = file_view (w_db w)"
    by (simp add: Q(1) C(1) B(1) V(2) file_view_def update_where_def comp_def if_distrib cong: if_cong)
  have "refcounts_ok (w_db w4)" "usage_ok (w_db w4)"
    by (rule attach_balanced [OF acc, of u v']; use own fv Q(2) in
        \<open>simp add: vf Q(1) C(1) B(1) V(2)\<close>)+
  moreover have "history_ok (w_db w4)"
  proof (rule attach_history [of "w_db w" u v'])
    show "Version_VersionNumber v' = next_version_number (Version_FileID v') (w_db w)"
      by (simp add: V(1))
    show "current_view (w_db w4) = map (\<lambda>(j, cur).
        (j, if j = Version_FileID v' then Some (Version_ID v') else cur)) (current_view (w_db w))"
      by (simp add: Q(1) C(1) B(1) V(2) vf current_view_def update_where_def)
    show "file_versions (w_db w4) = file_versions (w_db w) @ [v']"
      by (simp add: Q(1) C(1) B(1) V(2))
  qed (use acc own vf in \<open>simp_all add: accounting_def\<close>)
  ultimately show ?thesis using Q(3) by (simp add: accounting_def)
qed

lemma FileRepo_Create_Inr:
  assumes "FileRepo_Create f w = (Inr u, w')"
  shows "\<exists>f'. w_db w' = (w_db w)\<lparr>files := files (w_db w) @ [f']\<rparr> \<and> File_ID f' = File_ID f \<and>
    File_OwnerID f' = File_OwnerID f \<and> File_CurrentVersionID f' = None" and "schema_ok (w_db w')"
  using assms by (auto simp: FileRepo_Create_def sql_Inr_iff commit_stmt_Inr)

lemma GetByName_Inr:
  assumes "FileRepo_GetByName u p nm w = (Inr f, w')"
  shows "owns (w_db w) u (File_ID f)" and "w' = next_call w"
  using assms
  by (auto simp: FileRepo_GetByName_def sql_Inr_iff query_row_Inr owns_def list_ex_iff
      map_eq_Cons_conv filter_eq_Cons_iff)

lemma GetByName_Inl: "FileRepo_GetByName u p nm w = (Inl e, w') \<Longrightarrow> w' = next_call w"
  by (auto simp: FileRepo_GetByName_def dest: sql_InlD)

lemma file_for_upload_step:
  assumes run: "file_for_upload sess w = (Inr fl, w')"
  shows "w_db w' = w_db w \<and> owns (w_db w) (Upload_UserID sess) (File_ID fl) \<or>
    (\<exists>f'. w_db w' = (w_db w)\<lparr>files := files (w_db w) @ [f']\<rparr> \<and> schema_ok (w_db w') \<and>
      File_ID f' = File_ID fl \<and> File_OwnerID f' = Upload_UserID sess \<and> File_CurrentVersionID f' = None)"
proof -
  let ?get = "FileRepo_GetByName (Upload_UserID sess) (Upload_FolderID sess) (Upload_Name sess)"
  consider (old) "?get w = (Inr fl, w')"
    | (new) e w1 i w2 where "?get w = (Inl e, w1)" "new_uuid w1 = (Inr i, w2)"
      "FileRepo_Create (new_file sess i) w2 = (Inr (), w')" "fl = new_file sess i"
    using run unfolding file_for_upload_def bnd_attempt_iff by (auto simp: bnd_Inr_iff split: if_splits)
  then show ?thesis
  proof cases
    case old
    then show ?thesis using GetByName_Inr by fastforce
  next
    case new
    then have "w_db w2 = w_db w" using GetByName_Inl by (fastforce simp: new_uuid_run)
    then show ?thesis
      using FileRepo_Create_Inr [OF new(3)] new(4) by (auto simp: new_file_def)
  qed
qed

lemma file_for_upload_Inr:
  assumes acc: "accounting (w_db w)" and run: "file_for_upload sess w = (Inr fl, w')"
  shows "accounting (w_db w') \<and> owns (w_db w') (Upload_UserID sess) (File_ID fl)"
  using file_for_upload_step [OF run] acc
  by (auto simp: owns_def intro: add_file_balanced)

lemma tx_ok_attach:
  assumes "0 \<le> Upload_SizeBytes sess"
  shows "tx_ok accounting (attach_tx sess blob)"
  unfolding tx_ok_def
proof (intro allI impI)
  fix w x w' assume acc: "accounting (w_db w)" and "attach_tx sess blob w = (Inr x, w')"
  then obtain fl w1 i w2 v' w3 w4 w5 where run: "file_for_upload sess w = (Inr fl, w1)"
    "new_uuid w1 = (Inr i, w2)"
    "VersionRepo_Create (new_version sess blob (File_ID fl) i) w2 = (Inr v', w3)"
    "BlobRepo_IncrementRef (Blob_ID blob) w3 = (Inr (), w4)"
    "FileRepo_SetCurrentVersion (File_ID fl) (Version_ID v') w4 = (Inr (), w5)"
    "QuotaRepo_AddUsage (Upload_UserID sess) (Upload_SizeBytes sess) w5 = (Inr (), w')"
    by (auto simp: bnd_Inr_iff attach_tx_def)
  let ?v = "new_version sess blob (File_ID fl) i"
  have "w_db w2 = w_db w1" using run(2) by (simp add: new_uuid_run)
  then have "accounting (w_db w2)" "owns (w_db w2) (Upload_UserID sess) (Version_FileID ?v)"
    using file_for_upload_Inr [OF acc run(1)] by (simp_all add: new_version_def)
  from attach_tail [OF this, of v' w3 "()" w4 "()" w5 "()" w'] run assms
    VersionRepo_Create_Inr(1) [OF run(3)]
  show "accounting (w_db w')" by (simp add: new_version_def)
qed

lemma keeps_attachVersion [keeps_intros]:
  "0 \<le> Upload_SizeBytes sess \<Longrightarrow> keeps (at_rest accounting) (attachVersion sess blob)"
  unfolding attachVersion_def by (rule keeps_WithinTx) (rule tx_ok_attach)

end
