(* ===== verification/Accounting_UC.thy ===== *)
theory Accounting_UC
  imports Accounting
begin

text \<open>
  The accounting invariant, continued: the transactions of \<open>RestoreVersion\<close>, of the trash
  sweep and of \<open>Register\<close>, and then every operation of every use case.
\<close>

section \<open>Transactions\<close>

text \<open>Restoring a version.\<close>

definition accounting_of :: "uuid \<Rightarrow> uuid \<Rightarrow> db \<Rightarrow> bool" where
  "accounting_of u i d \<longleftrightarrow> accounting d \<and> owns d u i"

lemma attach_tail_view:
  assumes "VersionRepo_Create v w = (Inr v', w1)" "BlobRepo_IncrementRef b w1 = (Inr x1, w2)"
    "FileRepo_SetCurrentVersion j vid w2 = (Inr x2, w3)" "QuotaRepo_AddUsage u n w3 = (Inr x3, w4)"
    "0 \<le> n"
  shows "file_view (w_db w4) = file_view (w_db w)"
  using VersionRepo_Create_Inr [OF assms(1)] IncrementRef_Inr [OF assms(2)]
    SetCurrentVersion_Inr [OF assms(3)] AddUsage_charge_Inr [OF assms(4,5)]
  by (simp add: file_view_def update_where_def comp_def if_distrib cong: if_cong)

lemma tx_ok_restore:
  assumes "0 \<le> Version_SizeBytes old"
  shows "tx_ok (accounting_of (File_OwnerID f) (File_ID f))
    (restore_tx f old (restored_version ident f old i))"
  unfolding tx_ok_def
proof (intro allI impI)
  let ?v = "restored_version ident f old i"
  fix w x w' assume acc: "accounting_of (File_OwnerID f) (File_ID f) (w_db w)"
    and "restore_tx f old ?v w = (Inr x, w')"
  then obtain v' w3 w4 w5 where run: "VersionRepo_Create ?v w = (Inr v', w3)"
    "BlobRepo_IncrementRef (Version_BlobID old) w3 = (Inr (), w4)"
    "FileRepo_SetCurrentVersion (File_ID f) (Version_ID ?v) w4 = (Inr (), w5)"
    "QuotaRepo_AddUsage (File_OwnerID f) (Version_SizeBytes old) w5 = (Inr x, w')"
    by (auto simp: bnd_Inr_iff restore_tx_def)
  have "accounting (w_db w')"
    using attach_tail [of w "File_OwnerID f" ?v v' w3 "()" w4 "()" w5 x w'] run acc assms
    by (simp add: accounting_of_def restored_version_def)
  then show "accounting_of (File_OwnerID f) (File_ID f) (w_db w')"
    using acc attach_tail_view [OF run assms] by (simp add: accounting_of_def owns_view)
qed

text \<open>Purging a trashed file.\<close>

definition owners_agree :: "File list \<Rightarrow> db \<Rightarrow> bool" where
  "owners_agree cs d \<longleftrightarrow> (\<forall>f \<in> set cs. \<forall>u. owns d u (File_ID f) \<longrightarrow> u = File_OwnerID f)"

lemma TotalBytes_Inr:
  "VersionRepo_TotalBytes i w = (Inr n, w') \<Longrightarrow> n = total_bytes i (w_db w) \<and> w_db w' = w_db w"
  by (auto simp: VersionRepo_TotalBytes_def sql_Inr_iff split: if_splits)

lemma DecrementRefsForFile_Inr:
  assumes "BlobRepo_DecrementRefsForFile i w = (Inr u, w')"
  shows "w_db w' = (w_db w)\<lparr>blobs := update_where (\<lambda>b. refs_from_file i (w_db w) (Blob_ID b) > 0)
    (\<lambda>b. b\<lparr>Blob_RefCount := max (Blob_RefCount b - refs_from_file i (w_db w) (Blob_ID b)) 0\<rparr>)
    (blobs (w_db w))\<rparr>"
  using assms by (auto simp: BlobRepo_DecrementRefsForFile_def sql_Inr_iff commit_stmt_Inr)

lemma filter_update_where:
  "(\<And>r. P (g r) = P r) \<Longrightarrow> filter (\<lambda>r. \<not> P r) (update_where P g rows) = filter (\<lambda>r. \<not> P r) rows"
  by (induction rows) (auto simp: update_where_def)

lemma Purge_Inr:
  assumes "FileRepo_Purge i w = (Inr u, w')"
  shows "schema_ok (w_db w')" and "\<exists>u. owns (w_db w) u i"
    and "w_db w' = (w_db w)\<lparr>files := filter (\<lambda>f. File_ID f \<noteq> i) (files (w_db w)),
      file_versions := filter (\<lambda>v. Version_FileID v \<noteq> i) (file_versions (w_db w)),
      shares := filter (\<lambda>s. Share_FileID s \<noteq> i) (shares (w_db w))\<rparr>"
proof -
  let ?P = "\<lambda>f. File_ID f = i"
  let ?g = "\<lambda>f. f\<lparr>File_CurrentVersionID := None, File_UpdatedAt := w_dbnow w\<rparr>"
  have same: "filter (\<lambda>f. File_ID f \<noteq> i) (update_where ?P ?g (files (w_db w))) =
      filter (\<lambda>f. File_ID f \<noteq> i) (files (w_db w))"
    by (rule filter_update_where) simp
  show "schema_ok (w_db w')" "w_db w' = (w_db w)\<lparr>files := filter (\<lambda>f. File_ID f \<noteq> i) (files (w_db w)),
      file_versions := filter (\<lambda>v. Version_FileID v \<noteq> i) (file_versions (w_db w)),
      shares := filter (\<lambda>s. Share_FileID s \<noteq> i) (shares (w_db w))\<rparr>"
    using assms same
    by (auto simp: FileRepo_Purge_def bnd_Inr_iff sql_runs update_files_def delete_file_def
        commit_stmt_Inr)
  have "\<exists>f \<in> set (update_where ?P ?g (files (w_db w))). File_ID f = i"
    using assms rows_affected_0 [of ?P "update_where ?P ?g (files (w_db w))"]
    by (auto simp: FileRepo_Purge_def bnd_Inr_iff sql_runs update_files_def delete_file_def
        commit_stmt_Inr)
  then show "\<exists>u. owns (w_db w) u i"
    by (auto simp: set_update_where owns_def list_ex_iff split: if_splits)
qed

lemma Purge_views:
  assumes "FileRepo_Purge i w = (Inr u, w')"
  shows "file_view (w_db w') = filter (\<lambda>(j, _). j \<noteq> i) (file_view (w_db w))"
    and "current_view (w_db w') = filter (\<lambda>(j, _). j \<noteq> i) (current_view (w_db w))"
  by (simp_all add: Purge_Inr(3) [OF assms] file_view_def current_view_def filter_map comp_def)

text \<open>Releasing the bytes of a file from its owner, on either branch of \<open>AddUsage\<close>.\<close>

lemma AddUsage_purge_view:
  assumes run: "QuotaRepo_AddUsage u (- n) w = (Inr x, w')" and "0 \<le> n"
    and pos: "\<forall>q \<in> set (storage_quotas (w_db w)). 0 \<le> Quota_UsedBytes q"
  shows "quota_view (w_db w') = map (\<lambda>(u', used, quota).
      (u', if u' = u then max (used - n) 0 else used, quota)) (quota_view (w_db w))"
    and "w_db w' = (w_db w)\<lparr>storage_quotas := storage_quotas (w_db w')\<rparr>"
proof -
  consider "n = 0" | "- n < 0" using assms(2) by linarith
  then have "quota_view (w_db w') = map (\<lambda>(u', used, quota).
      (u', if u' = u then max (used - n) 0 else used, quota)) (quota_view (w_db w)) \<and>
    w_db w' = (w_db w)\<lparr>storage_quotas := storage_quotas (w_db w')\<rparr>"
  proof cases
    case 1
    then show ?thesis
      using AddUsage_charge_Inr(1) [OF run] pos
      by (auto simp: quota_view_def charged_def update_where_def)
  next
    case 2
    then show ?thesis
      using AddUsage_release_Inr(1) [OF run]
      by (auto simp: quota_view_def released_def update_where_def)
  qed
  then show "quota_view (w_db w') = map (\<lambda>(u', used, quota).
      (u', if u' = u then max (used - n) 0 else used, quota)) (quota_view (w_db w))"
    "w_db w' = (w_db w)\<lparr>storage_quotas := storage_quotas (w_db w')\<rparr>" by auto
qed

lemma tx_ok_purge:
  assumes "f \<in> set cs"
  shows "tx_ok (\<lambda>d. accounting d \<and> owners_agree cs d) (purge_tx f)"
  unfolding tx_ok_def
proof (intro allI impI)
  fix w x w' assume acc: "accounting (w_db w) \<and> owners_agree cs (w_db w)"
    and "purge_tx f w = (Inr x, w')"
  then obtain n w1 w2 w3 where run: "VersionRepo_TotalBytes (File_ID f) w = (Inr n, w1)"
    "BlobRepo_DecrementRefsForFile (File_ID f) w1 = (Inr (), w2)"
    "QuotaRepo_AddUsage (File_OwnerID f) (- n) w2 = (Inr (), w3)"
    "FileRepo_Purge (File_ID f) w3 = (Inr x, w')"
    by (auto simp: bnd_Inr_iff purge_tx_def)
  note T = TotalBytes_Inr [OF run(1)] and D = DecrementRefsForFile_Inr [OF run(2)]
    and P = Purge_Inr [OF run(4)] and PV = Purge_views [OF run(4)]
  have sch: "schema_ok (w_db w)" using acc by (simp add: accounting_def)
  have nn: "0 \<le> n" and pos: "\<forall>q \<in> set (storage_quotas (w_db w2)). 0 \<le> Quota_UsedBytes q"
    using schema_okD(2) [OF sch] T D
    by (auto simp: check_constraints_def list_all_iff total_bytes_def intro!: sum_list_nonneg)
  note Q = AddUsage_purge_view [OF run(3) nn pos]
  have fv3: "file_view (w_db w3) = file_view (w_db w)"
    by (subst Q(2)) (simp add: D T file_view_def)
  have cv3: "current_view (w_db w3) = current_view (w_db w)"
    by (subst Q(2)) (simp add: D T current_view_def)
  have own: "owns (w_db w) (File_OwnerID f) (File_ID f)"
    using P(2) acc assms fv3 by (auto simp: owners_agree_def owns_view)
  have "accounting (w_db w')"
  proof (rule purge_balanced [of "w_db w" "File_OwnerID f" "File_ID f"])
    have "file_versions (w_db w3) = file_versions (w_db w)" "blobs (w_db w3) = blobs (w_db w2)"
      by (subst Q(2), simp add: D T)+
    then show "file_versions (w_db w') =
        filter (\<lambda>v. Version_FileID v \<noteq> File_ID f) (file_versions (w_db w))"
      "blobs (w_db w') = update_where (\<lambda>b. refs_from_file (File_ID f) (w_db w) (Blob_ID b) > 0)
        (\<lambda>b. b\<lparr>Blob_RefCount := max (Blob_RefCount b - refs_from_file (File_ID f) (w_db w) (Blob_ID b)) 0\<rparr>)
        (blobs (w_db w))"
      using P(3) T D by simp_all
    have "quota_view (w_db w') = quota_view (w_db w3)" "quota_view (w_db w2) = quota_view (w_db w)"
      by (simp_all add: quota_view_def P(3) D T)
    moreover have n: "total_bytes (File_ID f) (w_db w) = n" using T by simp
    ultimately show "quota_view (w_db w') = map (\<lambda>(u', used, quota). (u', if u' = File_OwnerID f
        then max (used - total_bytes (File_ID f) (w_db w)) 0 else used, quota)) (quota_view (w_db w))"
      unfolding n using Q(1) by simp
  qed (use acc own P(1) PV fv3 cv3 in simp_all)
  moreover have "owners_agree cs (w_db w')"
    using acc PV fv3 by (auto simp: owners_agree_def owns_view)
  ultimately show "accounting (w_db w') \<and> owners_agree cs (w_db w')" by simp
qed

section \<open>The remaining statements\<close>

lemma keeps_BlobRepo_Create [keeps_intros]:
  "Blob_RefCount b = 0 \<Longrightarrow> keeps (at_rest accounting) (BlobRepo_Create b)"
  unfolding BlobRepo_Create_def
  by (rule keeps_sql) (auto simp: commit_stmt_Inr intro: add_blob_balanced)

lemma keeps_BlobRepo_Delete [keeps_intros]: "keeps (at_rest accounting) (BlobRepo_Delete i)"
  unfolding BlobRepo_Delete_def Let_def
  by (rule keeps_execOne) (auto simp: commit_stmt_Inr intro: delete_blob_balanced)

lemma tx_ok_register: "tx_ok accounting (bnd (UserRepo_Create (new_user i email hash nm))
    (\<lambda>_. QuotaRepo_Create (new_quota u i)))"
  unfolding tx_ok_def
proof (intro allI impI)
  fix w x w' assume acc: "accounting (w_db w)" and "bnd (UserRepo_Create (new_user i email hash nm))
    (\<lambda>_. QuotaRepo_Create (new_quota u i)) w = (Inr x, w')"
  then obtain w1 where u: "UserRepo_Create (new_user i email hash nm) w = (Inr (), w1)"
    and q: "QuotaRepo_Create (new_quota u i) w1 = (Inr x, w')"
    by (auto simp: bnd_Inr_iff)
  have d1: "schema_ok (w_db w1)" "\<exists>r. w_db w1 = (w_db w)\<lparr>users := users (w_db w) @ [r]\<rparr> \<and> User_ID r = i"
    using u by (auto simp: UserRepo_Create_def sql_Inr_iff commit_stmt_Inr new_user_def)
  then have acc1: "accounting (w_db w1)" using acc same_accounts_ok [of "w_db w" "w_db w1"]
    by (auto simp: accounting_def)
  have "distinct (map User_ID (users (w_db w1)))"
    using schema_okD(3) [OF d1(1)] by (simp add: unique_constraints_def)
  then have "i \<notin> set (map User_ID (users (w_db w)))" using d1(2) by auto
  moreover have "File_OwnerID f \<in> set (map User_ID (users (w_db w)))"
    if "f \<in> set (files (w_db w))" for f
    using schema_okD(4) [of "w_db w"] acc that
    by (auto simp: accounting_def foreign_keys_def Let_def list_all_iff ref_in_def)
  ultimately have "File_OwnerID f \<noteq> i" if "f \<in> set (files (w_db w))" for f using that by metis
  then have none: "\<not> (\<exists>j. owns (w_db w1) i j)"
    using d1(2) by (auto simp: owns_def list_ex_iff)
  let ?q = "(new_quota u i)\<lparr>Quota_UpdatedAt := w_dbnow w1\<rparr>"
  have "w_db w' = (w_db w1)\<lparr>storage_quotas := storage_quotas (w_db w1) @ [?q]\<rparr>" "schema_ok (w_db w')"
    using q by (auto simp: QuotaRepo_Create_def sql_Inr_iff commit_stmt_Inr)
  then show "accounting (w_db w')"
    by (rule add_quota_balanced [OF acc1]) (use none in \<open>simp_all add: new_quota_def\<close>)
qed

section \<open>Use cases\<close>

text \<open>A restored version is charged to the file's owner, whoever restores it.\<close>

lemma mutableFile_Inr:
  assumes "mutableFile ident i need w = (Inr f, w')"
  shows "owns (w_db w) (File_OwnerID f) (File_ID f)" and "w_db w' = w_db w"
    and "w_in_tx w' = w_in_tx w" and "File_ID f = i"
proof -
  obtain w1 where a: "authorizeFile ident i need (w_clock w) w = (Inr f, w1)" "w' = w1"
    using assms by (auto simp: mutableFile_def bnd_Inr_iff clock_Now_run split: if_splits)
  then show "owns (w_db w) (File_OwnerID f) (File_ID f)" "w_db w' = w_db w" "File_ID f = i"
    using authorizeFile_sound [OF a(1)] by (auto simp: owns_def list_ex_iff)
  show "w_in_tx w' = w_in_tx w"
    using a by (auto simp: authorizeFile_def bnd_attempt_iff
        dest!: FileRepo_GetByID_Inr(2) FindGrant_Inr(2) split: if_splits)
qed

lemma keeps_Auditor_Record_of:
  "keeps (at_rest (accounting_of u i)) (Auditor_Record uid a t r m)"
proof -
  have "accounting_of u i d'" if "accounting_of u i d"
    "commit_stmt () (d\<lparr>audit_logs := audit_logs d @ [x]\<rparr>) = Inr (b, d')" for d d' b x
    using that accounting_neutral_step [of d d']
    by (auto simp: commit_stmt_Inr accounting_of_def neutral_step_def owns_def)
  then have "keeps (at_rest (accounting_of u i)) (AuditRepo_Insert e)" for e
    unfolding AuditRepo_Insert_def by (intro keeps_sql) blast
  then show ?thesis unfolding Auditor_Record_def by (intro keeps_intros)
qed

lemma VersionRepo_GetByID_size:
  assumes "VersionRepo_GetByID i w = (r, w')" "schema_ok (w_db w)"
  shows "\<forall>v. r = Inr v \<longrightarrow> 0 \<le> Version_SizeBytes v"
proof (intro allI impI)
  fix v assume "r = Inr v"
  then obtain rs where rs: "concat (map (versionSelect (w_db w))
      (filter (\<lambda>v. Version_ID v = i) (file_versions (w_db w)))) = v # rs"
    using assms(1) by (auto simp: VersionRepo_GetByID_def sql_Inr_iff query_row_Inr)
  have "v \<in> set (v # rs)" by simp
  then obtain v0 where "v0 \<in> set (file_versions (w_db w))" "Version_SizeBytes v = Version_SizeBytes v0"
    unfolding rs [symmetric] by (auto simp: versionSelect_def)
  then show "0 \<le> Version_SizeBytes v"
    using schema_okD(2) [OF assms(2)] by (simp add: check_constraints_def list_all_iff)
qed

lemma keeps_RestoreVersion: "keeps (at_rest accounting) (RestoreVersion u ident i vid)"
  unfolding RestoreVersion_def
proof (rule keeps_bnd_strong [where J = "\<lambda>f. at_rest (accounting_of (File_OwnerID f) (File_ID f))"])
  fix f :: File
  let ?I = "at_rest (accounting_of (File_OwnerID f) (File_ID f))"
  have reads: "keeps ?I (VersionRepo_GetByID vid)" "keeps ?I (FileRepo_GetByID (File_ID f))"
    unfolding VersionRepo_GetByID_def FileRepo_GetByID_def by (rule keeps_query_row)+
  show "keeps ?I (bnd (attempt (VersionRepo_GetByID vid)) (\<lambda>r. case r of
       Inl _ \<Rightarrow> throw ErrNotFound
     | Inr old \<Rightarrow>
         if Version_FileID old \<noteq> File_ID f then throw ErrNotFound
         else
           bnd new_uuid (\<lambda>i.
           bnd (WithinTx (restore_tx f old (restored_version ident f old i))) (\<lambda>_.
           bnd (Auditor_Record (Some (Identity_UserID ident)) AuditVersionRestored ''file''
                  (X_uuid_String (fu_ext u) (File_ID f))
                  [(''version_id'', X_uuid_String (fu_ext u) vid)]) (\<lambda>_.
           FileRepo_GetByID (File_ID f))))))"
    by (rule keeps_bnd_result [where Q = "\<lambda>r. \<forall>v. r = Inr v \<longrightarrow> 0 \<le> Version_SizeBytes v"])
      (auto intro!: keeps_intros reads keeps_Auditor_Record_of tx_ok_restore split: sum.splits
        simp: attempt_Inr_iff at_rest_def accounting_of_def accounting_def
        dest!: VersionRepo_GetByID_size)
qed (auto intro!: keeps_intros simp: at_rest_def accounting_of_def mutableFile_Inr(2)
    dest: mutableFile_Inr(1,3))

text \<open>Uploads.\<close>

lemma keeps_cleanupStaging [keeps_intros]: "keeps (at_rest accounting) (cleanupStaging sess)"
  unfolding cleanupStaging_def by (intro keeps_intros)

lemma accounting_chunks:
  "accounting d \<Longrightarrow> schema_ok (d\<lparr>upload_chunks := x\<rparr>) \<Longrightarrow> accounting (d\<lparr>upload_chunks := x\<rparr>)"
  by (simp add: accounting_def refcounts_ok_def usage_ok_def history_ok_def refs_def usage_def
      owns_def versions_of_def)

lemma keeps_SaveChunk [keeps_intros]: "keeps (at_rest accounting) (UploadRepo_SaveChunk c)"
  unfolding UploadRepo_SaveChunk_def
  by (intro keeps_sql) (auto simp: commit_stmt_Inr intro: accounting_chunks)

lemma keeps_assemble_store [keeps_intros]: "keeps (at_rest accounting) (assemble_store u sess)"
  unfolding assemble_store_def by (intro keeps_intros)

lemma assemble_store_RefCount:
  "assemble_store u sess w = (Inr b, w') \<Longrightarrow> Blob_RefCount b = 0"
  by (auto simp: assemble_store_def bnd_Inr_iff Let_def split: if_splits)

lemma keeps_assembleBlob [keeps_intros]: "keeps (at_rest accounting) (assembleBlob u sess)"
  unfolding assembleBlob_def
  by (rule keeps_bnd_result [where Q = "\<lambda>b. Blob_RefCount b = 0"])
    (auto simp: assemble_register_def intro!: keeps_intros dest: assemble_store_RefCount)

lemma keeps_blob_for_upload [keeps_intros]: "keeps (at_rest accounting) (blob_for_upload u sess)"
  unfolding blob_for_upload_def by (intro keeps_intros)

lemma keeps_Complete_locked [keeps_intros]:
  "0 \<le> Upload_SizeBytes sess \<Longrightarrow> keeps (at_rest accounting) (Complete_locked u ident sess)"
  unfolding Complete_locked_def by (intro keeps_intros)

lemma ownedSession_Inr:
  assumes "ownedSession ident i w = (Inr sess, w')"
  shows "sess \<in> set (upload_sessions (w_db w)) \<and> Upload_ID sess = i \<and>
    Upload_UserID sess = Identity_UserID ident \<and> w' = next_call w"
  using assms unfolding ownedSession_def bnd_attempt_iff
  by (auto simp: UploadRepo_GetSession_def sql_Inr_iff query_row_Inr filter_eq_Cons_iff
      split: if_splits)

lemma activeSession_Inr:
  assumes "activeSession ident i w = (Inr sess, w')"
  shows "sess \<in> set (upload_sessions (w_db w))" and "Upload_ID sess = i"
    and "Upload_UserID sess = Identity_UserID ident" and "Upload_IsActive sess (w_clock w)"
    and "w' = next_call w"
  using assms
  by (auto simp: activeSession_def bnd_Inr_iff clock_Now_run split: if_splits dest!: ownedSession_Inr)

lemma session_size:
  "schema_ok d \<Longrightarrow> sess \<in> set (upload_sessions d) \<Longrightarrow> 0 < Upload_SizeBytes sess"
  using schema_okD(2) [of d] by (simp add: check_constraints_def list_all_iff)

lemma keeps_Complete: "keeps (at_rest accounting) (Complete u ident i)"
  unfolding Complete_def
  by (rule keeps_bnd_result [where Q = "\<lambda>sess. 0 < Upload_SizeBytes sess"])
    (auto intro!: keeps_intros intro: session_size dest!: activeSession_Inr(1)
      simp: at_rest_def accounting_def)

lemma keeps_chunk_uc:
  "keeps (at_rest accounting) (UploadChunk u ident i k body)"
  "keeps (at_rest accounting) (Abort ident i)"
  unfolding UploadChunk_def Abort_def
  by (intro keeps_intros)+

lemma keeps_CleanupSession [keeps_intros]: "keeps (at_rest accounting) (CleanupSession sess)"
  unfolding CleanupSession_def by (intro keeps_intros)

text \<open>Garbage collection.\<close>

lemma keeps_count_each: "(\<And>x. x \<in> set xs \<Longrightarrow> keeps I (f x)) \<Longrightarrow> keeps I (count_each f xs)"
  by (induction xs) (auto intro!: keeps_intros)

lemma ListDeletedBefore_owned:
  assumes "FileRepo_ListDeletedBefore t n w = (Inr cs, w')" "f \<in> set cs"
  shows "owns (w_db w) (File_OwnerID f) (File_ID f)"
proof -
  have "\<exists>g \<in> set (files (w_db w)). File_ID f = File_ID g \<and> File_OwnerID f = File_OwnerID g"
    using assms
    by (auto simp: FileRepo_ListDeletedBefore_def sql_Inr_iff query_Inr dest!: in_set_takeD)
  then show ?thesis by (force simp: owns_def list_ex_iff)
qed

lemma ListDeletedBefore_agree:
  assumes "FileRepo_ListDeletedBefore t n w = (Inr cs, w')" "schema_ok (w_db w)"
  shows "owners_agree cs (w_db w)" and "w' = next_call w"
proof -
  show "owners_agree cs (w_db w)"
    using ListDeletedBefore_owned [OF assms(1)] unique_owner [OF assms(2)]
    by (auto simp: owners_agree_def)
  show "w' = next_call w"
    using assms(1) by (auto simp: FileRepo_ListDeletedBefore_def sql_Inr_iff query_Inr)
qed

lemma keeps_sweepTrash [keeps_intros]: "keeps (at_rest accounting) (sweepTrash cfg)"
  unfolding sweepTrash_def
proof (rule keeps_bnd, rule keeps_clock_Now)
  fix now
  let ?J = "\<lambda>r. case r of Inl _ \<Rightarrow> at_rest accounting
    | Inr cs \<Rightarrow> at_rest (\<lambda>d. accounting d \<and> owners_agree cs d)"
  let ?list = "FileRepo_ListDeletedBefore (now - gc_TrashRetention cfg) (gc_batch cfg)"
  show "keeps (at_rest accounting) (bnd (attempt ?list) (\<lambda>r. case r of Inl _ \<Rightarrow> ret 0
      | Inr cs \<Rightarrow> count_each (\<lambda>f. WithinTx (purge_tx f)) cs))"
  proof (rule keeps_bnd_strong [where J = ?J])
    show "keeps (at_rest accounting) (attempt ?list)" by (intro keeps_intros)
  next
    fix w r w' assume I: "at_rest accounting w" and run: "attempt ?list w = (Inr r, w')"
    show "?J r w'"
    proof (cases r)
      case (Inl e)
      then have "w' = next_call w"
        using run sql_InlD by (auto simp: attempt_Inr_iff FileRepo_ListDeletedBefore_def)
      then show ?thesis using Inl I by simp
    next
      case (Inr cs)
      then have "?list w = (Inr cs, w')" using run by (simp add: attempt_Inr_iff)
      from ListDeletedBefore_agree [OF this] Inr I show ?thesis
        by (simp add: at_rest_def accounting_def)
    qed
  next
    show "keeps (?J r) (case r of Inl _ \<Rightarrow> ret 0
        | Inr cs \<Rightarrow> count_each (\<lambda>f. WithinTx (purge_tx f)) cs)" for r
      by (cases r) (auto intro!: keeps_intros keeps_count_each tx_ok_purge)
  next
    show "?J r s \<Longrightarrow> at_rest accounting s" for r s
      by (cases r) (auto simp: at_rest_def)
  qed
qed

lemma keeps_other_sweeps [keeps_intros]:
  "keeps (at_rest accounting) (sweepExpiredUploads cfg)"
  "keeps (at_rest accounting) (sweepOrphanedBlobs cfg)"
  unfolding sweepExpiredUploads_def submit_cleanup_def sweepOrphanedBlobs_def
  by (intro keeps_intros keeps_count_each, (unfold collect_blob_def)?, (intro keeps_intros)?)+

lemma keeps_Sweep: "keeps (at_rest accounting) (Sweep cfg)"
  unfolding Sweep_def by (intro keeps_intros)

text \<open>Registration.\<close>

lemma keeps_Register: "keeps (at_rest accounting) (Register u e pw nm)"
  unfolding Register_def Let_def by (intro keeps_intros tx_ok_register)

end
