(* ===== verification/Accounting_System.thy ===== *)
theory Accounting_System
  imports Accounting_UC System
begin

text \<open>
  The accounting invariant holds in every reachable state of the system.
\<close>

lemma accounting_empty: "accounting empty_db"
  by (simp add: accounting_def schema_ok_empty refcounts_ok_def usage_ok_def history_ok_def)
    (simp add: empty_db_def)

interpretation acc_sys: request_invariant "at_rest accounting" any_request S for S
proof unfold_locales
  show "at_rest accounting w" if "initial w" for w
    using that accounting_empty by (simp add: initial_def at_rest_def)
  show "at_rest accounting w'" if "at_rest accounting w" "environment w w'" for w w'
    using that by (simp add: environment_def at_rest_def)
  show "at_rest accounting (run_request S r w)"
    if "r \<in> {SweepUploads, SweepTrash, SweepBlobs}" "at_rest accounting w" for r w
    using that keepsD [OF keeps_sweepTrash] keepsD [OF keeps_other_sweeps(1)]
      keepsD [OF keeps_other_sweeps(2)] by auto
qed (rule keeps_Register keeps_chunk_uc keeps_Complete keeps_RestoreVersion)+

end
