(* ===== verification/Concurrent.thy ===== *)
theory Concurrent
  imports Thread_UC Accounting_System
begin

text \<open>
  The accounts balance under every interleaving of requests and sweeps, whichever calls fail:
  the decisions a program takes on data it read earlier are either checked again by the
  transaction that acts on them, or about facts that never change (the owner of a file, the
  size of a version).
\<close>

section \<open>The relation every move stays within\<close>

text \<open>
  The accounts balance afterwards, and of the identifiers known before no file appears with
  another owner.
\<close>

fun balanced_move :: "shared \<Rightarrow> shared \<Rightarrow> bool" where
  "balanced_move (w, U) (w', U') \<longleftrightarrow> at_rest accounting w' \<and> U \<subseteq> U' \<and> file_ids w' \<subseteq> U' \<and>
     (\<forall>i \<in> U. \<forall>u. owns (w_db w') u i \<longrightarrow> owns (w_db w) u i)"

interpretation bal: rely_guarantee balanced_move
  by unfold_locales (auto 0 4)

definition agrees :: "File \<Rightarrow> shared \<Rightarrow> bool" where
  "agrees f s \<longleftrightarrow> File_ID f \<in> snd s \<and> owners_agree [f] (w_db (fst s))"

lemma agrees_stable: "stable balanced_move (agrees f)"
  by (rule stableI) (auto simp: agrees_def owners_agree_def)

lemma file_ids_view: "file_ids w = fst ` set (file_view (w_db w))"
  by (force simp: file_ids_def file_view_def)

lemma balanced_views:
  assumes "balanced_move (w, U) (w, U)" "at_rest accounting w'"
    and "set (file_view (w_db w')) \<subseteq> set (file_view (w_db w))"
  shows "balanced_move (w, U) (record_ids U w')"
  using assms by (auto simp: record_ids_def file_ids_view owns_view)

section \<open>Quiet calls\<close>

text \<open>A call that keeps the accounts balanced and the files' identifiers and owners as they are.\<close>

definition quiet_db :: "(uuid \<times> uuid) list \<Rightarrow> db \<Rightarrow> bool" where
  "quiet_db F d \<longleftrightarrow> accounting d \<and> file_view d = F"

definition quiet :: "'a action \<Rightarrow> bool" where
  "quiet m \<longleftrightarrow> (\<forall>F. keeps (at_rest (quiet_db F)) m)"

interpretation quiet_inv: neutral_invariant "at_rest (quiet_db F)" for F
  by unfold_locales
    (auto simp: at_rest_def quiet_db_def neutral_step_def same_accounts_def
      intro: accounting_neutral_step)

lemma quiet_run:
  assumes "quiet m" "at_rest accounting w" "m w = (r, w')"
  shows "at_rest accounting w'" and "file_view (w_db w') = file_view (w_db w)"
proof -
  have "at_rest (quiet_db (file_view (w_db w))) w" using assms(2) by (simp add: at_rest_def quiet_db_def)
  then have "at_rest (quiet_db (file_view (w_db w))) w'"
    using assms(1,3) keepsD unfolding quiet_def by (metis snd_conv)
  then show "at_rest accounting w'" "file_view (w_db w') = file_view (w_db w)"
    by (simp_all add: at_rest_def quiet_db_def)
qed

lemma quiet_move:
  "\<lbrakk>quiet m; balanced_move (w, U) (w, U); m w = (r, w')\<rbrakk> \<Longrightarrow> balanced_move (w, U) (record_ids U w')"
  using quiet_run [of m w r w'] by (intro balanced_views) auto

lemma yields_quiet:
  assumes "quiet m" and "stable balanced_move P"
    and "\<And>w U r w'. \<lbrakk>P (w, U); at_rest accounting w; file_ids w \<subseteq> U; m w = (Inr r, w')\<rbrakk> \<Longrightarrow>
      K r (record_ids U w')"
    and "\<And>r. stable balanced_move (K r)"
  shows "yields balanced_move P (pcall m) K"
  unfolding yields_def
proof (rule bal.triple_pcall [OF assms(2)])
  show "stable balanced_move (\<lambda>s. \<forall>x. r = Inr x \<longrightarrow> K x s)" for r
    using stableD [OF assms(4)] by (intro stableI) blast
qed (use assms(3) quiet_move [OF assms(1)] in fastforce)

lemma tame_quiet [tame_intros]:
  "quiet m \<Longrightarrow> yields balanced_move (\<lambda>_. True) (pcall m) (\<lambda>_ _. True)"
  by (rule yields_quiet) auto

lemma quiet_intros:
  "quiet (UploadRepo_ListChunks i)" "quiet (UploadRepo_UpdateStatus i st)"
  "quiet clock_Now" "quiet new_uuid" "quiet infra_point" "quiet (rand_Read n)" "quiet NewDEK"
  "quiet (from_sum x)" "quiet (TryLock key ttl)" "quiet (copyChunk key)"
  "quiet (store_Put key body sz)" "quiet (store_Delete key)"
  "quiet (ownedSession ident i)" "quiet (Auditor_Record u a t i' m)"
  "quiet (FileRepo_GetByID i)" "quiet (ShareRepo_FindGrant i u')" "quiet (VersionRepo_GetByID i)"
  "quiet (BlobRepo_GetByChecksum s)" "quiet (UploadRepo_ListExpired now k)"
  "quiet (BlobRepo_ListOrphaned now k)" "quiet (FileRepo_ListDeletedBefore now k)"
  "quiet (HashPassword X pw params)"
  unfolding quiet_def by (intro allI keeps_intros quiet_inv.keeps_env quiet_inv.keeps_HashPassword)+

text \<open>Statements that move accounts but no file.\<close>

lemma quiet_blobs:
  "Blob_RefCount b = 0 \<Longrightarrow> quiet (BlobRepo_Create b)" "quiet (UploadRepo_SaveChunk c)"
  "quiet (BlobRepo_Delete i)"
  unfolding quiet_def quiet_db_def BlobRepo_Create_def UploadRepo_SaveChunk_def
    BlobRepo_Delete_def Let_def
  by (intro allI keeps_sql keeps_execOne; auto simp: commit_stmt_Inr file_view_def
      intro: add_blob_balanced accounting_chunks delete_blob_balanced)+

section \<open>Transactions\<close>

text \<open>No file changes hands.\<close>

definition owners_kept :: "db \<Rightarrow> db \<Rightarrow> bool" where
  "owners_kept d d' \<longleftrightarrow> (\<forall>i u u'. owns d u i \<longrightarrow> owns d' u' i \<longrightarrow> owns d u' i)"

lemma tx_cases:
  assumes "WithinTx m w = (r, w')" "\<not> w_in_tx w"
  shows "\<not> w_in_tx w'" and "w_db w' = w_db w \<or>
    (\<exists>v x v'. w_db v = w_db w \<and> m v = (Inr x, v') \<and> w_db w' = w_db v')"
proof -
  show "w_db w' = w_db w \<or> (\<exists>v x v'. w_db v = w_db w \<and> m v = (Inr x, v') \<and> w_db w' = w_db v')"
  proof (cases r)
    case (Inl e)
    then consider "w_db w' = w_db w"
      | x v' where "m ((next_call w)\<lparr>w_in_tx := True\<rparr>) = (Inr x, v')" "w_db w' = w_db v'"
      using assms WithinTx_Inl_db by blast
    then show ?thesis
    proof cases
      case (2 x v')
      then show ?thesis
        by (intro disjI2 exI [of _ "(next_call w)\<lparr>w_in_tx := True\<rparr>"] exI [of _ x] exI [of _ v']) simp
    qed simp
  next
    case (Inr x)
    obtain v' where "m ((next_call w)\<lparr>w_in_tx := True\<rparr>) = (Inr x, v')" "w_db w' = w_db v'"
      using WithinTx_InrE [of m w x w' thesis] assms Inr by fastforce
    then show ?thesis
      by (intro disjI2 exI [of _ "(next_call w)\<lparr>w_in_tx := True\<rparr>"] exI [of _ x] exI [of _ v']) simp
  qed
  show "\<not> w_in_tx w'"
    using assms by (auto simp: WithinTx_def dest!: infra_point_fields split: sum.splits prod.splits)
qed

lemma owns_ids: "owns (w_db w) u i \<Longrightarrow> i \<in> file_ids w"
  by (force simp: owns_view file_ids_view)

lemma ids_owned: "i \<in> file_ids w \<Longrightarrow> \<exists>u. owns (w_db w) u i"
  by (force simp: owns_view file_ids_view)

lemma yields_tx:
  assumes body: "\<And>w x w'. \<lbrakk>D (w_db w); accounting (w_db w); m w = (Inr x, w')\<rbrakk> \<Longrightarrow>
      accounting (w_db w') \<and> owners_kept (w_db w) (w_db w')"
    and known: "\<And>w U. P (w, U) \<Longrightarrow> D (w_db w)"
    and stable: "stable balanced_move P"
  shows "yields balanced_move P (pcall (WithinTx m)) (\<lambda>_ _. True)"
  unfolding yields_def
proof (rule bal.triple_pcall [OF stable])
  fix w U r w'
  assume P: "P (w, U)" and here: "balanced_move (w, U) (w, U)" and run: "WithinTx m w = (r, w')"
    and fresh: "fresh_ids U w w'"
  have rest: "\<not> w_in_tx w" "accounting (w_db w)" using here by (simp_all add: at_rest_def)
  have moved: "accounting (w_db w') \<and> owners_kept (w_db w) (w_db w')"
    using tx_cases(2) [OF run rest(1)]
  proof (elim disjE exE conjE)
    fix v x v' assume v: "w_db v = w_db w" "m v = (Inr x, v')" "w_db w' = w_db v'"
    then show ?thesis using body [of v x v'] known [OF P] rest(2) by simp
  qed (use rest(2) in \<open>simp add: owners_kept_def\<close>)
  have "owns (w_db w) u i" if "i \<in> U" "owns (w_db w') u i" for i u
  proof -
    have "i \<in> file_ids w" using that fresh owns_ids by (auto simp: fresh_ids_def)
    then show ?thesis using that moved ids_owned by (metis owners_kept_def)
  qed
  then show "balanced_move (w, U) (record_ids U w') \<and> (\<forall>x. r = Inr x \<longrightarrow> True)"
    using moved tx_cases(1) [OF run rest(1)] by (simp add: record_ids_def at_rest_def)
qed auto

lemma owners_kept_view: "file_view d' = file_view d \<Longrightarrow> owners_kept d d'"
  by (simp add: owners_kept_def owns_view)

lemma file_for_upload_owners:
  assumes "file_for_upload sess w = (Inr fl, w')"
  shows "owners_kept (w_db w) (w_db w')"
proof (cases "w_db w' = w_db w")
  case False
  then obtain f' where f': "w_db w' = (w_db w)\<lparr>files := files (w_db w) @ [f']\<rparr>" "schema_ok (w_db w')"
    using file_for_upload_step [OF assms] by blast
  have "distinct (map File_ID (files (w_db w')))"
    using schema_okD(3) [OF f'(2)] by (simp add: unique_constraints_def)
  then show ?thesis
    by (auto simp: f'(1) owners_kept_def owns_def list_ex_iff) (metis image_eqI)
qed (simp add: owners_kept_def)

lemma owners_kept_trans:
  "owners_kept d d' \<Longrightarrow> file_view d'' = file_view d' \<Longrightarrow> owners_kept d d''"
  by (simp add: owners_kept_def owns_view)

lemma tame_attach [tame_intros]:
  assumes "0 \<le> Upload_SizeBytes sess"
  shows "yields balanced_move (\<lambda>_. True) (pcall (attachVersion sess blob)) (\<lambda>_ _. True)"
  unfolding attachVersion_def
proof (rule yields_tx [where D = "\<lambda>_. True"])
  fix w x w' assume acc: "accounting (w_db w)" and run: "attach_tx sess blob w = (Inr x, w')"
  then obtain w1 i w2 v' w3 w4 w5 where r: "file_for_upload sess w = (Inr x, w1)"
    "new_uuid w1 = (Inr i, w2)"
    "VersionRepo_Create (new_version sess blob (File_ID x) i) w2 = (Inr v', w3)"
    "BlobRepo_IncrementRef (Blob_ID blob) w3 = (Inr (), w4)"
    "FileRepo_SetCurrentVersion (File_ID x) (Version_ID v') w4 = (Inr (), w5)"
    "QuotaRepo_AddUsage (Upload_UserID sess) (Upload_SizeBytes sess) w5 = (Inr (), w')"
    by (auto simp: bnd_Inr_iff attach_tx_def)
  have "file_view (w_db w') = file_view (w_db w1)"
    using attach_tail_view [OF r(3-6) assms] r(2) by (simp add: new_uuid_run)
  then show "accounting (w_db w') \<and> owners_kept (w_db w) (w_db w')"
    using tx_ok_attach [OF assms] acc run owners_kept_trans [OF file_for_upload_owners [OF r(1)]]
    unfolding tx_ok_def by blast
qed auto

text \<open>
  A restored version is charged to the owner the file had when it was read; if the file has
  been purged since, the foreign key of the version refuses it.
\<close>

lemma yields_restore:
  assumes "0 \<le> Version_SizeBytes old"
  shows "yields balanced_move (agrees f)
    (pcall (WithinTx (restore_tx f old (restored_version ident f old i)))) (\<lambda>_ _. True)"
proof (rule yields_tx [where D = "owners_agree [f]"])
  let ?v = "restored_version ident f old i"
  fix w x w' assume agree: "owners_agree [f] (w_db w)" and acc: "accounting (w_db w)"
    and run: "restore_tx f old ?v w = (Inr x, w')"
  then obtain v' w3 w4 w5 where r: "VersionRepo_Create ?v w = (Inr v', w3)"
    "BlobRepo_IncrementRef (Version_BlobID old) w3 = (Inr (), w4)"
    "FileRepo_SetCurrentVersion (File_ID f) (Version_ID ?v) w4 = (Inr (), w5)"
    "QuotaRepo_AddUsage (File_OwnerID f) (Version_SizeBytes old) w5 = (Inr x, w')"
    by (auto simp: bnd_Inr_iff restore_tx_def)
  note V = VersionRepo_Create_Inr [OF r(1)]
  have "File_ID f \<in> file_ids w"
    using versions_have_files [OF V(3), of v'] V(1,2)
    by (simp add: file_ids_def restored_version_def)
  then have "owns (w_db w) (File_OwnerID f) (File_ID f)"
    using ids_owned agree by (auto simp: owners_agree_def)
  then have "accounting_of (File_OwnerID f) (File_ID f) (w_db w')"
    using tx_ok_restore [OF assms] acc run unfolding tx_ok_def accounting_of_def by blast
  then show "accounting (w_db w') \<and> owners_kept (w_db w) (w_db w')"
    using attach_tail_view [OF r assms] by (simp add: accounting_of_def owners_kept_view)
qed (simp_all add: agrees_def agrees_stable)

lemma AddUsage_files:
  assumes "QuotaRepo_AddUsage u n w = (Inr x, w')"
  shows "files (w_db w') = files (w_db w)"
  using AddUsage_charge_Inr(1) [OF assms] AddUsage_release_Inr(1) [OF assms]
  by (cases "0 \<le> n") simp_all

lemma yields_purge: "yields balanced_move (agrees f) (pcall (WithinTx (purge_tx f))) (\<lambda>_ _. True)"
proof (rule yields_tx [where D = "owners_agree [f]"])
  fix w x w' assume agree: "owners_agree [f] (w_db w)" and acc: "accounting (w_db w)"
    and run: "purge_tx f w = (Inr x, w')"
  then obtain n w1 w2 w3 where r: "VersionRepo_TotalBytes (File_ID f) w = (Inr n, w1)"
    "BlobRepo_DecrementRefsForFile (File_ID f) w1 = (Inr (), w2)"
    "QuotaRepo_AddUsage (File_OwnerID f) (- n) w2 = (Inr (), w3)"
    "FileRepo_Purge (File_ID f) w3 = (Inr x, w')"
    by (auto simp: bnd_Inr_iff purge_tx_def)
  have "file_view (w_db w3) = file_view (w_db w)"
    by (simp add: file_view_def AddUsage_files [OF r(3)] DecrementRefsForFile_Inr [OF r(2)]
        TotalBytes_Inr [OF r(1)])
  then have "owners_kept (w_db w) (w_db w')"
    using Purge_views(1) [OF r(4)] by (auto simp: owners_kept_def owns_view)
  moreover have "accounting (w_db w') \<and> owners_agree [f] (w_db w')"
    using tx_ok_purge [of f "[f]", unfolded tx_ok_def, rule_format, of w x w'] acc agree run by simp
  ultimately show "accounting (w_db w') \<and> owners_kept (w_db w) (w_db w')" by simp
qed (simp_all add: agrees_def agrees_stable)

lemma tame_register [tame_intros]:
  "yields balanced_move (\<lambda>_. True) (pcall (WithinTx (bnd (UserRepo_Create (new_user i email hash nm))
     (\<lambda>_. QuotaRepo_Create (new_quota u i))))) (\<lambda>_ _. True)"
proof (rule yields_tx [where D = "\<lambda>_. True"])
  fix w x w' assume "accounting (w_db w)" and run: "bnd (UserRepo_Create (new_user i email hash nm))
    (\<lambda>_. QuotaRepo_Create (new_quota u i)) w = (Inr x, w')"
  moreover have "file_view (w_db w') = file_view (w_db w)"
    using run by (auto simp: bnd_Inr_iff UserRepo_Create_def QuotaRepo_Create_def sql_Inr_iff
        commit_stmt_Inr file_view_def)
  ultimately show "accounting (w_db w') \<and> owners_kept (w_db w) (w_db w')"
    using tx_ok_register unfolding tx_ok_def by (blast intro: owners_kept_view)
qed auto

section \<open>What a program knows\<close>

lemma record_agrees:
  assumes "schema_ok (w_db w)" "owns (w_db w) (File_OwnerID f) (File_ID f)" "w_db w' = w_db w"
  shows "agrees f (record_ids U w')"
  using assms unique_owner [OF assms(1)] owns_ids [of w' "File_OwnerID f" "File_ID f"]
  by (auto simp: agrees_def record_ids_def owners_agree_def)

lemma yields_GetByID: "yields balanced_move (\<lambda>_. True) (pcall (FileRepo_GetByID i)) agrees"
proof (rule yields_quiet [OF quiet_intros(15)])
  fix w U f w' assume "at_rest accounting w" and run: "FileRepo_GetByID i w = (Inr f, w')"
  then show "agrees f (record_ids U w')"
    using FileRepo_GetByID_Inr [OF run]
    by (intro record_agrees [of w]) (auto simp: at_rest_def accounting_def owns_def list_ex_iff)
qed (simp_all add: agrees_stable)

lemma yields_ListDeleted:
  "yields balanced_move (\<lambda>_. True) (pcall (FileRepo_ListDeletedBefore t n))
     (\<lambda>cs s. \<forall>f \<in> set cs. agrees f s)"
proof (rule yields_quiet [OF quiet_intros(21)])
  fix w U cs w' assume "at_rest accounting w" "file_ids w \<subseteq> U"
    and run: "FileRepo_ListDeletedBefore t n w = (Inr cs, w')"
  then show "\<forall>f \<in> set cs. agrees f (record_ids U w')"
    using ListDeletedBefore_owned [OF run] ListDeletedBefore_agree(2) [OF run]
    by (auto intro!: record_agrees [of w] simp: at_rest_def accounting_def)
qed (use stableD [OF agrees_stable] in \<open>auto simp del: balanced_move.simps intro!: stableI\<close>)

section \<open>The threads\<close>

declare quiet_intros [tame_intros] quiet_blobs(2,3) [tame_intros]

lemma tame_release: "balanced_move (w, U) (w, U) \<Longrightarrow> balanced_move (w, U) (record_ids U (release_lock l w))"
  by (rule balanced_views) (auto intro: release_lock_at_rest)

lemma tame_uploads [tame_intros]:
  "yields balanced_move (\<lambda>_. True) (cleanupStaging_p sess) (\<lambda>_ _. True)"
  "yields balanced_move (\<lambda>_. True) (activeSession_p ident i) (\<lambda>_ _. True)"
  unfolding cleanupStaging_p_def activeSession_p_def by (intro tame_intros)+

lemma tame_copyChunks [tame_intros]:
  "yields balanced_move (\<lambda>_. True) (copyChunks_p cs) (\<lambda>_ _. True)"
  by (induction cs) (auto intro!: tame_intros)

lemma tame_producer [tame_intros]:
  "yields balanced_move (\<lambda>_. True) (producer_p X dek cs) (\<lambda>_ _. True)"
  unfolding producer_p_def by (intro tame_intros)

lemma tame_chunk_uc [tame_intros]:
  "yields balanced_move (\<lambda>_. True) (UploadChunk_p u ident i k body) (\<lambda>_ _. True)"
  "yields balanced_move (\<lambda>_. True) (Abort_p ident i) (\<lambda>_ _. True)"
  "yields balanced_move (\<lambda>_. True) (CleanupSession_p sess) (\<lambda>_ _. True)"
  unfolding UploadChunk_p_def Abort_p_def CleanupSession_p_def Let_def by (intro tame_intros)+

lemma tame_register_uc [tame_intros]:
  "yields balanced_move (\<lambda>_. True) (Register_p u e pw nm) (\<lambda>_ _. True)"
  unfolding Register_p_def Let_def by (intro tame_intros)

lemma yields_assemble:
  "yields balanced_move (\<lambda>_. True) (assemble_store_p u sess) (\<lambda>b _. Blob_RefCount b = 0)"
  unfolding assemble_store_p_def Let_def
  by (intro tame_intros bal.yields_pret_pure) simp


lemma tame_Complete_locked [tame_intros]:
  assumes "0 \<le> Upload_SizeBytes sess"
  shows "yields balanced_move (\<lambda>_. True) (Complete_locked_p u ident sess) (\<lambda>_ _. True)"
proof -
  have "yields balanced_move (\<lambda>_. True) (assembleBlob_p u sess) (\<lambda>_ _. True)"
    unfolding assembleBlob_p_def
  proof (rule bal.yields_pbnd [OF yields_assemble])
    fix b
    show "yields balanced_move (\<lambda>_. Blob_RefCount b = 0) (assemble_register_p sess b) (\<lambda>_ _. True)"
      unfolding assemble_register_p_def
      by (rule bal.yields_pure) (intro tame_intros quiet_blobs)
  qed
  then show ?thesis
    unfolding Complete_locked_p_def blob_for_upload_p_def by (intro tame_intros assms)
qed

lemma tame_Complete [tame_intros]:
  "yields balanced_move (\<lambda>_. True) (Complete_p u ident i) (\<lambda>_ _. True)"
  unfolding Complete_p_def
proof (rule bal.yields_pbnd [where K = "\<lambda>sess _. 0 \<le> Upload_SizeBytes sess"])
  have "yields balanced_move (\<lambda>_. True) (pcall (ownedSession ident i)) (\<lambda>sess _. 0 \<le> Upload_SizeBytes sess)"
    by (rule yields_quiet [OF quiet_intros(13)])
      (auto dest!: ownedSession_Inr intro!: less_imp_le session_size simp: at_rest_def accounting_def)
  then show "yields balanced_move (\<lambda>_. True) (activeSession_p ident i) (\<lambda>sess _. 0 \<le> Upload_SizeBytes sess)"
    unfolding activeSession_p_def
    by (rule bal.yields_pbnd)
      (rule bal.yields_pure, intro tame_intros bal.yields_pret_pure)
qed (rule bal.yields_pure, intro tame_intros tame_release)

lemma agrees_keep:
  "yields balanced_move (\<lambda>_. True) p (\<lambda>_ _. True) \<Longrightarrow> yields balanced_move (agrees f) p (\<lambda>_. agrees f)"
  by (rule bal.yields_keep) (simp_all add: agrees_stable)

text \<open>An attempt whose success is worth knowing.\<close>

lemma yields_attempt_case:
  assumes "yields balanced_move P (pcall m) K" and "\<And>x. stable balanced_move (K x)"
    and "\<And>e. yields balanced_move (\<lambda>_. True) (f e) L" and "\<And>x. yields balanced_move (K x) (g x) L"
  shows "yields balanced_move P (pbnd (pattempt (pcall m)) (case_sum f g)) L"
  by (rule bal.yields_pbnd [OF bal.yields_pattempt [OF assms(1,2)]])
    (simp add: assms(3,4) split: sum.split)

lemma yields_mutableFile: "yields balanced_move (\<lambda>_. True) (mutableFile_p ident i need) agrees"
proof -
  note found = bal.yields_pret [where K = agrees, OF agrees_stable]
  have "yields balanced_move (\<lambda>_. True) (authorizeFile_p ident i need now) agrees" for now
    unfolding authorizeFile_p_def
    by (rule yields_attempt_case [OF yields_GetByID agrees_stable])
      (intro bal.yields_branches bal.yields_pthrow found bal.yields_pbnd [OF agrees_keep]
        bal.tame_pattempt tame_quiet quiet_intros)+
  then show ?thesis
    unfolding mutableFile_p_def
    by (intro bal.tame_pbnd [OF tame_quiet [OF quiet_intros(3)]])
      (rule bal.yields_pbnd, assumption, intro bal.yields_branches bal.yields_pthrow found)
qed

lemma tame_RestoreVersion [tame_intros]:
  "yields balanced_move (\<lambda>_. True) (RestoreVersion_p u ident i v) (\<lambda>_ _. True)"
proof -
  let ?K = "\<lambda>f old s. 0 \<le> Version_SizeBytes old \<and> agrees f s"
  have "yields balanced_move (\<lambda>_. True) (pcall (VersionRepo_GetByID v)) (\<lambda>old _. 0 \<le> Version_SizeBytes old)"
    by (rule yields_quiet [OF quiet_intros(17)])
      (auto simp: at_rest_def accounting_def dest!: VersionRepo_GetByID_size)
  from bal.yields_frame [OF this agrees_stable]
  have get: "yields balanced_move (agrees f) (pcall (VersionRepo_GetByID v)) (?K f)" for f by simp
  have stable: "stable balanced_move (?K f old)" for f and old :: Version
    by (intro stable_conj stable_const agrees_stable)
  have restore: "yields balanced_move (?K f old)
      (pcall (WithinTx (restore_tx f old (restored_version ident f old j)))) (\<lambda>_ _. True)" for f old j
    by (cases "0 \<le> Version_SizeBytes old")
      (simp_all add: yields_restore bal.yields_pure [of False, simplified])
  show ?thesis
    unfolding RestoreVersion_p_def
    by (rule bal.yields_pbnd [OF yields_mutableFile], rule yields_attempt_case [OF get stable])
      (intro bal.yields_branches bal.yields_pthrow bal.yields_pbnd [OF bal.yields_keep [OF _ stable]]
        bal.tame_pbnd [OF restore] tame_quiet quiet_intros bal.tame_pbnd)+
qed

lemma agree_stable: "stable balanced_move (\<lambda>s. \<forall>f \<in> set cs. agrees f s)"
  by (rule stableI) (use stableD [OF agrees_stable] in blast)

lemma tame_count_each:
  "(\<And>x. x \<in> set xs \<Longrightarrow> yields balanced_move (\<lambda>_. True) (f x) (\<lambda>_ _. True)) \<Longrightarrow>
     yields balanced_move (\<lambda>_. True) (count_each_p f xs) (\<lambda>_ _. True)"
  by (induction xs) (auto intro!: tame_intros)

lemma yields_purge_each:
  "yields balanced_move (\<lambda>s. \<forall>f \<in> set cs. agrees f s)
     (count_each_p (\<lambda>f. pcall (WithinTx (purge_tx f))) cs) (\<lambda>_ _. True)"
proof (induction cs)
  case (Cons f cs)
  from bal.yields_frame [OF bal.tame_pattempt [OF yields_purge] agree_stable]
  have "yields balanced_move (\<lambda>s. \<forall>g \<in> set (f # cs). agrees g s)
      (pattempt (pcall (WithinTx (purge_tx f)))) (\<lambda>_ s. \<forall>g \<in> set cs. agrees g s)" by simp
  then show ?case
    unfolding count_each_p.simps
    by (rule bal.yields_pbnd) (intro bal.tame_pbnd [OF Cons.IH] tame_intros)
qed (simp add: bal.tame_pret)

lemma tame_sweeps [tame_intros]:
  "yields balanced_move (\<lambda>_. True) (sweepExpiredUploads_p cfg) (\<lambda>_ _. True)"
  "yields balanced_move (\<lambda>_. True) (sweepOrphanedBlobs_p cfg) (\<lambda>_ _. True)"
  unfolding sweepExpiredUploads_p_def sweepOrphanedBlobs_p_def collect_blob_p_def
  by (intro tame_intros tame_count_each)+

lemma tame_sweepTrash [tame_intros]:
  "yields balanced_move (\<lambda>_. True) (sweepTrash_p cfg) (\<lambda>_ _. True)"
  unfolding sweepTrash_p_def
  by (intro bal.tame_pbnd [OF tame_quiet [OF quiet_intros(3)]] bal.tame_pret yields_purge_each
      yields_attempt_case [OF yields_ListDeleted agree_stable])

section \<open>Every interleaving\<close>

definition threads :: "system \<Rightarrow> unit prog set" where
  "threads S = {p. \<exists>r. thread_of S r = Some p}"

text \<open>
  What the rest of the system does between two atoms: the statements of the other requests,
  and any change of objects, locks, clocks, faults and random choices.
\<close>

definition neutral_move :: "world \<Rightarrow> world \<Rightarrow> bool" where
  "neutral_move w w' \<longleftrightarrow> neutral_step (w_db w) (w_db w') \<and> w_in_tx w' = w_in_tx w"

lemma threads_tame:
  assumes "p \<in> threads S"
  shows "yields balanced_move (\<lambda>_. True) p (\<lambda>_ _. True)"
proof -
  obtain r where "thread_of S r = Some p" using assms by (auto simp: threads_def)
  then show ?thesis by (cases r) (auto intro!: tame_intros)
qed

lemma neutral_balanced:
  "balanced_move (w, U) (w, U) \<Longrightarrow> neutral_move w w' \<Longrightarrow> balanced_move (w, U) (record_ids U w')"
  by (rule balanced_views)
    (auto simp: neutral_move_def neutral_step_def same_accounts_def at_rest_def
      intro: accounting_neutral_step)

text \<open>A request that is not a thread of its own consists of neutral moves.\<close>

interpretation moves: neutral_invariant "\<lambda>w. neutral_move\<^sup>*\<^sup>* w0 w \<and> \<not> w_in_tx w" for w0
  by unfold_locales
    (auto elim!: rtranclp.rtrancl_into_rtrancl simp: neutral_move_def)

lemma other_requests_are_neutral:
  assumes "thread_of S r = None" "\<not> w_in_tx w"
  shows "neutral_move\<^sup>*\<^sup>* w (run_request S r w)"
proof -
  show ?thesis
    using assms(1) moves.keeps_sessions_sweep [of w, THEN keepsD, of w] assms(2)
    by (cases r) (simp_all add: moves.neutral_requests [of w, THEN keepsD, of w])
qed

end
