(* ===== verification/History.thy ===== *)
theory History
  imports Accounting_System "HOL-Library.Sublist"
begin

text \<open>
  History is never rewritten: whatever a request does, the rows of \<open>file_versions\<close> that were
  there stay as they are, and new ones come after them. Only the trash sweep deletes versions.
\<close>

definition extends :: "Version list \<Rightarrow> db \<Rightarrow> bool" where
  "extends vs d \<longleftrightarrow> prefix vs (file_versions d)"

definition no_trash_sweep :: "request \<Rightarrow> world \<Rightarrow> bool" where
  "no_trash_sweep r w \<longleftrightarrow> r \<noteq> SweepTrash"

interpretation hist: neutral_invariant "at_rest (extends vs)" for vs
  by unfold_locales (auto simp: at_rest_def extends_def neutral_step_def same_accounts_def)

text \<open>Statements that do not touch \<open>file_versions\<close> although they move other accounts.\<close>

lemma extends_same: "extends vs d \<Longrightarrow> file_versions d' = file_versions d \<Longrightarrow> extends vs d'"
  by (simp add: extends_def)

lemma keeps_hist_repos [keeps_intros]:
  "keeps (at_rest (extends vs)) (UploadRepo_SaveChunk c)"
  "keeps (at_rest (extends vs)) (BlobRepo_Create b)"
  "keeps (at_rest (extends vs)) (BlobRepo_Delete i)"
  unfolding UploadRepo_SaveChunk_def BlobRepo_Create_def BlobRepo_Delete_def Let_def
  by (auto intro!: keeps_sql keeps_execOne simp: commit_stmt_Inr elim!: extends_same)

lemma attach_appends:
  assumes "attach_tx sess blob w = (Inr x, w')"
  shows "\<exists>v. file_versions (w_db w') = file_versions (w_db w) @ [v]"
proof -
  obtain fl w1 i w2 v' w3 w4 w5 where run: "file_for_upload sess w = (Inr fl, w1)"
    "new_uuid w1 = (Inr i, w2)"
    "VersionRepo_Create (new_version sess blob (File_ID fl) i) w2 = (Inr v', w3)"
    "BlobRepo_IncrementRef (Blob_ID blob) w3 = (Inr (), w4)"
    "FileRepo_SetCurrentVersion (File_ID fl) (Version_ID v') w4 = (Inr (), w5)"
    "QuotaRepo_AddUsage (Upload_UserID sess) (Upload_SizeBytes sess) w5 = (Inr (), w')"
    using assms by (auto simp: bnd_Inr_iff attach_tx_def)
  have "file_versions (w_db w1) = file_versions (w_db w)"
    using file_for_upload_step [OF run(1)] by auto
  then have "file_versions (w_db w3) = file_versions (w_db w) @ [v']"
    using VersionRepo_Create_Inr(2) [OF run(3)] run(2) by (simp add: new_uuid_run)
  moreover have "file_versions (w_db w') = file_versions (w_db w5)"
    by (cases "0 \<le> Upload_SizeBytes sess")
      (simp_all add: AddUsage_charge_Inr(1) [OF run(6)] AddUsage_release_Inr(1) [OF run(6)])
  ultimately show ?thesis
    using IncrementRef_Inr(1) [OF run(4)] SetCurrentVersion_Inr(1) [OF run(5)] by simp
qed

lemma tx_ok_hist_attach: "tx_ok (extends vs) (attach_tx sess blob)"
  using attach_appends by (fastforce simp: tx_ok_def extends_def)

lemma tx_ok_hist_restore: "tx_ok (extends vs) (restore_tx f old nv)"
  unfolding tx_ok_def
proof (intro allI impI)
  fix w x w' assume e: "extends vs (w_db w)" and "restore_tx f old nv w = (Inr x, w')"
  then obtain v' w3 w4 w5 where run: "VersionRepo_Create nv w = (Inr v', w3)"
    "BlobRepo_IncrementRef (Version_BlobID old) w3 = (Inr (), w4)"
    "FileRepo_SetCurrentVersion (File_ID f) (Version_ID nv) w4 = (Inr (), w5)"
    "QuotaRepo_AddUsage (File_OwnerID f) (Version_SizeBytes old) w5 = (Inr x, w')"
    by (auto simp: bnd_Inr_iff restore_tx_def)
  have "file_versions (w_db w') = file_versions (w_db w5)"
    by (cases "0 \<le> Version_SizeBytes old")
      (simp_all add: AddUsage_charge_Inr(1) [OF run(4)] AddUsage_release_Inr(1) [OF run(4)])
  then have "file_versions (w_db w') = file_versions (w_db w) @ [v']"
    using VersionRepo_Create_Inr(2) [OF run(1)] IncrementRef_Inr(1) [OF run(2)]
      SetCurrentVersion_Inr(1) [OF run(3)] by simp
  then show "extends vs (w_db w')" using e by (simp add: extends_def)
qed

lemma tx_ok_hist_register: "tx_ok (extends vs) (bnd (UserRepo_Create a) (\<lambda>_. QuotaRepo_Create b))"
  by (intro tx_ok_bnd; unfold UserRepo_Create_def QuotaRepo_Create_def; rule tx_ok_sql)
    (auto simp: commit_stmt_Inr elim!: extends_same)

lemma keeps_hist_cleanup [keeps_intros]: "keeps (at_rest (extends vs)) (cleanupStaging sess)"
  unfolding cleanupStaging_def by (intro keeps_intros)

lemma keeps_hist_attach [keeps_intros]: "keeps (at_rest (extends vs)) (attachVersion sess blob)"
  unfolding attachVersion_def by (intro keeps_WithinTx tx_ok_hist_attach)

lemma keeps_hist_blob [keeps_intros]: "keeps (at_rest (extends vs)) (blob_for_upload u sess)"
  unfolding blob_for_upload_def assembleBlob_def assemble_store_def assemble_register_def
  by (intro keeps_intros)

lemma keeps_hist_complete: "keeps (at_rest (extends vs)) (Complete u ident i)"
  unfolding Complete_def Complete_locked_def by (intro keeps_intros hist.keeps_release)

interpretation hist_sys: request_step "at_rest (extends vs)" no_trash_sweep S for vs S
proof unfold_locales
  fix e pw nm
  show "keeps (at_rest (extends vs)) (Register (auth_uc S) e pw nm)"
    unfolding Register_def Let_def by (intro keeps_intros tx_ok_hist_register)
next
  fix ident i k body v
  show "keeps (at_rest (extends vs)) (UploadChunk (upload_uc S) ident i k body)"
    "keeps (at_rest (extends vs)) (Abort ident i)"
    unfolding UploadChunk_def Abort_def by (intro keeps_intros)+
  show "keeps (at_rest (extends vs)) (RestoreVersion (file_uc S) ident i v)"
    unfolding RestoreVersion_def by (intro keeps_intros tx_ok_hist_restore)
next
  fix r w assume r: "r \<in> {SweepUploads, SweepTrash, SweepBlobs}" "no_trash_sweep r w"
    and I: "at_rest (extends vs) w"
  have "keeps (at_rest (extends vs)) (sweepExpiredUploads (sys_gc S))"
    unfolding sweepExpiredUploads_def submit_cleanup_def CleanupSession_def by (intro keeps_intros)
  moreover have "keeps (at_rest (extends vs)) (collect_blob b)" for b
    unfolding collect_blob_def by (intro keeps_intros)
  then have "keeps (at_rest (extends vs)) (sweepOrphanedBlobs (sys_gc S))"
    unfolding sweepOrphanedBlobs_def by (intro keeps_intros keeps_count_each)
  ultimately show "at_rest (extends vs) (run_request S r w)"
    using r I by (auto simp: no_trash_sweep_def dest: keepsD)
qed (rule keeps_hist_complete)

end
