(* ===== verification/Interleaved_History.thy ===== *)
theory Interleaved_History
  imports Concurrent History
begin

text \<open>
  History is not rewritten under interleavings either: as long as no trash sweep runs, every
  atomic move of every request leaves the version rows that were there as they are and adds new
  ones at the end.
\<close>

fun appending_move :: "shared \<Rightarrow> shared \<Rightarrow> bool" where
  "appending_move (w, U) (w', U') \<longleftrightarrow> \<not> w_in_tx w \<and> \<not> w_in_tx w' \<and>
     prefix (file_versions (w_db w)) (file_versions (w_db w'))"

interpretation app: rely_guarantee appending_move
  by unfold_locales (auto intro: prefix_order.trans)

lemma appends_pcall [tame_intros]:
  assumes "\<And>vs. keeps (at_rest (extends vs)) m"
  shows "yields appending_move (\<lambda>_. True) (pcall m) (\<lambda>_ _. True)"
  unfolding yields_def
proof (rule app.triple_pcall)
  fix w U r w' assume "appending_move (w, U) (w, U)" "m w = (r, w')"
  then show "appending_move (w, U) (record_ids U w') \<and> (\<forall>x. r = Inr x \<longrightarrow> True)"
    using keepsD [OF assms, of "file_versions (w_db w)" w]
    by (auto simp: at_rest_def extends_def record_ids_def)
qed simp_all

lemma appends_release:
  "appending_move (w, U) (w, U) \<Longrightarrow> appending_move (w, U) (record_ids U (release_lock l w))"
  using hist.keeps_release [of "file_versions (w_db w)" w l]
  by (auto simp: at_rest_def extends_def record_ids_def)

lemma appends_copyChunks [tame_intros]:
  "yields appending_move (\<lambda>_. True) (copyChunks_p cs) (\<lambda>_ _. True)"
  by (induction cs) (auto intro!: tame_intros keeps_intros)

lemma appends_count_each [tame_intros]:
  "(\<And>x. yields appending_move (\<lambda>_. True) (f x) (\<lambda>_ _. True)) \<Longrightarrow>
     yields appending_move (\<lambda>_. True) (count_each_p f xs) (\<lambda>_ _. True)"
  by (induction xs) (auto intro!: tame_intros)

lemma appends_threads:
  assumes "thread_of S r = Some p" "r \<noteq> SweepTrash"
  shows "yields appending_move (\<lambda>_. True) p (\<lambda>_ _. True)"
proof -
  have "yields appending_move (\<lambda>_. True) (Complete_p u ident i) (\<lambda>_ _. True)" for u ident i
    unfolding Complete_p_def Complete_locked_p_def activeSession_p_def blob_for_upload_p_def
      assembleBlob_p_def assemble_store_p_def assemble_register_p_def producer_p_def
      cleanupStaging_p_def Let_def
    by (intro tame_intros keeps_intros appends_release)
  moreover have "yields appending_move (\<lambda>_. True) (UploadChunk_p u ident i k body) (\<lambda>_ _. True)"
    "yields appending_move (\<lambda>_. True) (Abort_p ident i) (\<lambda>_ _. True)"
    "yields appending_move (\<lambda>_. True) (sweepExpiredUploads_p cfg) (\<lambda>_ _. True)"
    "yields appending_move (\<lambda>_. True) (sweepOrphanedBlobs_p cfg) (\<lambda>_ _. True)"
    for u ident i k body cfg
    unfolding UploadChunk_p_def Abort_p_def sweepExpiredUploads_p_def CleanupSession_p_def
      sweepOrphanedBlobs_p_def collect_blob_p_def activeSession_p_def cleanupStaging_p_def Let_def
    by (intro tame_intros keeps_intros)+
  moreover have "yields appending_move (\<lambda>_. True) (RestoreVersion_p u' ident i v) (\<lambda>_ _. True)"
    "yields appending_move (\<lambda>_. True) (Register_p u'' e pw nm) (\<lambda>_ _. True)" for u' u'' ident i v e pw nm
    unfolding RestoreVersion_p_def mutableFile_p_def authorizeFile_p_def Register_p_def Let_def
    by (intro tame_intros keeps_intros tx_ok_hist_restore tx_ok_hist_register)+
  ultimately show ?thesis using assms by (cases r) (auto intro!: tame_intros)
qed

definition history_threads :: "system \<Rightarrow> unit prog set" where
  "history_threads S = {p. \<exists>r. thread_of S r = Some p \<and> r \<noteq> SweepTrash}"

end
