(* ===== verification/Crypto_Props.thy ===== *)
theory Crypto_Props
  imports Crypto_Stream
begin

text \<open>
  The properties of the encrypted stream and of wrapped keys, with witnesses on a concrete
  instance \<open>demo_ext\<close> of the primitives: a keyed XOR with a checksum as tag, which meets the
  contracts the properties assume of the AEAD. It stands in for no code of the program.
\<close>

section \<open>A concrete instance of the primitives\<close>

definition demo_sum :: "byte list \<Rightarrow> byte" where
  "demo_sum bs = foldl (\<lambda>a b. 3 * a + b) 7 bs"

definition demo_digest :: "nat \<Rightarrow> byte list \<Rightarrow> byte list" where
  "demo_digest n bs = map (\<lambda>i. demo_sum (bs @ [word_of_nat i])) [0..<n]"

definition demo_mask :: "byte list \<Rightarrow> byte list \<Rightarrow> byte list \<Rightarrow> byte list" where
  "demo_mask k n p = map (\<lambda>b. b XOR demo_sum (k @ n)) p"

definition demo_seal :: "byte list \<Rightarrow> byte list \<Rightarrow> byte list \<Rightarrow> byte list \<Rightarrow> byte list" where
  "demo_seal k n p a = demo_mask k n p @ demo_digest aead_Overhead (k @ n @ a @ p)"

definition demo_open ::
    "byte list \<Rightarrow> byte list \<Rightarrow> byte list \<Rightarrow> byte list \<Rightarrow> byte list option" where
  "demo_open k n c a =
     (let p = demo_mask k n (take (length c - aead_Overhead) c) in
      if aead_Overhead \<le> length c \<and>
         drop (length c - aead_Overhead) c = demo_digest aead_Overhead (k @ n @ a @ p)
      then Some p else None)"

definition demo_ext :: ext where
  "demo_ext = \<lparr>X_sha256 = demo_digest 32, X_seal = demo_seal, X_open = demo_open,
     X_hmac_sha256 = (\<lambda>k m. demo_digest 32 (k @ 0 # m)),
     X_argon2_IDKey = (\<lambda>pw salt t m p n.
       demo_digest n (map (\<lambda>c. word_of_nat (of_char c)) pw @ salt)),
     X_uuid_String = (\<lambda>u. replicate u (CHR ''u'')),
     X_uuid_Parse = (\<lambda>s. if list_all (\<lambda>c. c = CHR ''u'') s then Some (length s) else None)\<rparr>"

lemma length_demo_digest [simp]: "length (demo_digest n bs) = n"
  by (simp add: demo_digest_def)

lemma demo_mask_mask [simp]: "demo_mask k n (demo_mask k n p) = p"
  by (simp add: demo_mask_def comp_def xor.assoc)

lemma length_demo_mask [simp]: "length (demo_mask k n p) = length p"
  by (simp add: demo_mask_def)

lemma aead_ok_demo: "aead_ok demo_ext"
  by (simp add: aead_ok_def demo_ext_def demo_seal_def demo_open_def)

lemma demo_open_Some:
  assumes "demo_open k n c a = Some p"
  shows "c = demo_seal k n p a"
proof -
  let ?l = "length c - aead_Overhead"
  have p: "p = demo_mask k n (take ?l c)" "drop ?l c = demo_digest aead_Overhead (k @ n @ a @ p)"
    using assms by (auto simp: demo_open_def Let_def split: if_splits)
  have "demo_seal k n p a = take ?l c @ drop ?l c"
    unfolding demo_seal_def p(2) by (simp add: p(1))
  then show ?thesis by simp
qed

lemma aead_strict_demo: "aead_strict demo_ext"
  by (auto simp: aead_strict_def demo_ext_def dest: demo_open_Some)

section \<open>Properties\<close>

text \<open>
  C15: What the segmented AES-GCM stream writer produces for any sequence of writes, the stream
  reader decrypts to exactly the bytes written.
\<close>

theorem stream_roundtrip:
  assumes "aead_ok X" "length key = KeySize" "length prefix = noncePrefixLen"
    and "effective_segment zw \<le> effective_segment zr"
    and "effective_segment zw + aead_Overhead < 2 ^ 32"
  shows "\<exists>ct. encrypt_stream X good_sink key zw prefix ps = Some (Inr ct) \<and>
    decrypt_stream X n ct key zr = Inr (concat ps)"
proof -
  have "0 < effective_segment zw" by (simp add: effective_segment_def DefaultSegmentSize_def)
  then show ?thesis
    using decrypt_stream_format [of X key prefix "effective_segment zw" zr n "concat ps" "[]"]
      encrypt_stream_format [of key X zw prefix ps] assms by simp
qed

theorem stream_roundtrip_witness:
  "\<exists>ct. encrypt_stream demo_ext good_sink (replicate 32 1) 2 (replicate 8 3) [[1, 2, 3], [], [4, 5]]
      = Some (Inr ct) \<and>
    decrypt_stream demo_ext 0 ct (replicate 32 1) 4 = Inr [1, 2, 3, 4, 5]"
  using stream_roundtrip [of demo_ext "replicate 32 1" "replicate 8 3" 2 4
      "[[1, 2, 3], [], [4, 5]]" 0] aead_ok_demo
  by (simp add: KeySize_def noncePrefixLen_def effective_segment_def aead_Overhead_def)

text \<open>
  C16: Every proper prefix of an encrypted stream is rejected with ErrCiphertextCorrupt:
  truncation at any byte is detected.
\<close>

theorem stream_truncation_detected:
  assumes "aead_ok X" "length key = KeySize" "length prefix = noncePrefixLen"
    and "effective_segment zw \<le> effective_segment zr"
    and "effective_segment zw + aead_Overhead < 2 ^ 32"
    and "encrypt_stream X good_sink key zw prefix ps = Some (Inr ct)"
    and "k < length ct"
  shows "decrypt_stream X n (take k ct) key zr = Inl ErrCiphertextCorrupt"
proof -
  have "0 < effective_segment zw" by (simp add: effective_segment_def DefaultSegmentSize_def)
  moreover have "ct = stream_format X key prefix (effective_segment zw) (concat ps)"
    using encrypt_stream_format [OF assms(2), of X zw prefix ps] assms(6) by simp
  ultimately show ?thesis
    using decrypt_stream_truncated [of X key prefix "effective_segment zw" zr k "concat ps" n] assms
    by simp
qed

theorem stream_truncation_detected_witness:
  "decrypt_stream demo_ext 9
     (take 60 (stream_format demo_ext (replicate 32 1) (replicate 8 3) 2 [1, 2, 3, 4, 5]))
     (replicate 32 1) 4 = Inl ErrCiphertextCorrupt"
proof -
  have "encrypt_stream demo_ext good_sink (replicate 32 1) 2 (replicate 8 3) [[1, 2, 3], [4, 5]] =
      Some (Inr (stream_format demo_ext (replicate 32 1) (replicate 8 3) 2 [1, 2, 3, 4, 5]))"
    using encrypt_stream_format [of "replicate 32 1" demo_ext 2 "replicate 8 3" "[[1, 2, 3], [4, 5]]"]
    by (simp add: KeySize_def effective_segment_def)
  from stream_truncation_detected [OF aead_ok_demo _ _ _ _ this, of 4 60 9]
  show ?thesis
    by (simp add: KeySize_def noncePrefixLen_def effective_segment_def aead_Overhead_def
        length_stream_format [OF aead_ok_demo] length_segs segHeaderLen_def magicLen_def)
qed

text \<open>
  C17: Of a stream the reader accepts to its end, the bytes up to and including the segment with
  the final flag are the magic, a nonce prefix and segments sealed under the key with the counter
  nonces in order, of which only the last carries the final flag; what is returned is the
  plaintext of these segments. Bytes after the final segment are not read, and not authenticated.
\<close>

theorem stream_accepts_only_sealed:
  assumes "aead_ok X" "aead_strict X" "decrypt_stream X n src key z = Inr p"
  shows "\<exists>prefix ss trailing. length prefix = noncePrefixLen \<and> ss \<noteq> [] \<and> p = concat ss \<and>
    src = streamMagic @ prefix @ stream_body X key prefix 0 ss @ trailing"
  using decrypt_stream_accepts [OF assms] .

theorem stream_accepts_only_sealed_witness:
  "\<exists>prefix ss trailing. length prefix = noncePrefixLen \<and> ss \<noteq> [] \<and> [1, 2, 3] = concat ss \<and>
    stream_format demo_ext (replicate 32 1) (replicate 8 3) 2 [1, 2, 3] =
      streamMagic @ prefix @ stream_body demo_ext (replicate 32 1) prefix 0 ss @ trailing"
proof (rule stream_accepts_only_sealed [OF aead_ok_demo aead_strict_demo, of 0 _ _ 2])
  show "decrypt_stream demo_ext 0 (stream_format demo_ext (replicate 32 1) (replicate 8 3) 2
      [1, 2, 3]) (replicate 32 1) 2 = Inr [1, 2, 3]"
    using decrypt_stream_format [of demo_ext "replicate 32 1" "replicate 8 3" 2 2 0 "[1, 2, 3]" "[]"]
      aead_ok_demo
    by (simp add: KeySize_def noncePrefixLen_def effective_segment_def aead_Overhead_def)
qed

text \<open>
  EncryptedSize predicts the exact length of the stream the writer produces, so the Content-
  Length announced to the object store is right.
\<close>

theorem EncryptedSize_exact:
  assumes "aead_ok X" "length key = KeySize" "length prefix = noncePrefixLen"
    and "encrypt_stream X good_sink key z prefix ps = Some (Inr ct)"
    and "int64_ok (int (length ct))"
  shows "EncryptedSize (int (length (concat ps))) z = int (length ct)"
proof -
  have "ct = stream_format X key prefix (effective_segment z) (concat ps)"
    using encrypt_stream_format [OF assms(2), of X z prefix ps] assms(4) by simp
  then show ?thesis using EncryptedSize_length assms by blast
qed

theorem EncryptedSize_exact_witness:
  "EncryptedSize 5 2 =
     int (length (stream_format demo_ext (replicate 32 1) (replicate 8 3) 2 [1, 2, 3, 4, 5]))"
proof -
  have "encrypt_stream demo_ext good_sink (replicate 32 1) 2 (replicate 8 3) [[1, 2, 3], [4, 5]] =
      Some (Inr (stream_format demo_ext (replicate 32 1) (replicate 8 3) 2 [1, 2, 3, 4, 5]))"
    using encrypt_stream_format [of "replicate 32 1" demo_ext 2 "replicate 8 3" "[[1, 2, 3], [4, 5]]"]
    by (simp add: KeySize_def effective_segment_def)
  from EncryptedSize_exact [OF aead_ok_demo _ _ this]
  show ?thesis
    by (simp add: KeySize_def noncePrefixLen_def aead_Overhead_def int64_ok_def
        length_stream_format [OF aead_ok_demo] length_segs segHeaderLen_def magicLen_def)
qed

text \<open>
  Up to 2^32 segments of one stream use pairwise different nonces.
\<close>

theorem nonces_distinct:
  assumes "n \<le> 2 ^ 32"
  shows "distinct (stream_nonces prefix n)"
  using stream_nonces_distinct [OF assms] .

theorem nonces_distinct_witness: "distinct (stream_nonces [1, 2, 3, 4, 5, 6, 7, 8] 1000)"
  by (rule nonces_distinct) simp

text \<open>
  C26: UnwrapKey returns a key exactly for the byte strings WrapKey produces from it under the
  same master key.
\<close>

theorem wrapped_key_roundtrip:
  assumes "aead_ok X" "aead_strict X" "length kek = KeySize"
  shows "UnwrapKey X kek wrapped = Inr dek \<longleftrightarrow>
    (\<exists>nonce. length nonce = nonceLen \<and> WrapKey X kek dek nonce = Inr wrapped)"
proof
  assume "UnwrapKey X kek wrapped = Inr dek"
  then show "\<exists>nonce. length nonce = nonceLen \<and> WrapKey X kek dek nonce = Inr wrapped"
    by (rule UnwrapKey_accepts [OF assms(2)])
next
  assume "\<exists>nonce. length nonce = nonceLen \<and> WrapKey X kek dek nonce = Inr wrapped"
  then show "UnwrapKey X kek wrapped = Inr dek"
    using UnwrapKey_WrapKey [OF assms(1,3)] by (metis sum.inject(2))
qed

theorem wrapped_key_roundtrip_witness:
  "UnwrapKey demo_ext (replicate 32 2)
     (replicate 12 9 @ demo_seal (replicate 32 2) (replicate 12 9) [1, 2, 3] []) = Inr [1, 2, 3]"
proof -
  have "\<exists>nonce. length nonce = nonceLen \<and> WrapKey demo_ext (replicate 32 2) [1, 2, 3] nonce =
      Inr (replicate 12 9 @ demo_seal (replicate 32 2) (replicate 12 9) [1, 2, 3] [])"
    by (intro exI [of _ "replicate 12 9"])
      (simp add: WrapKey_def newGCM_def KeySize_def nonceLen_def demo_ext_def)
  moreover have "length (replicate 32 (2 :: byte)) = KeySize" by (simp add: KeySize_def)
  ultimately show ?thesis
    using wrapped_key_roundtrip [OF aead_ok_demo aead_strict_demo] by blast
qed

end
