(* ===== verification/Demo.thy ===== *)
theory Demo
  imports Crypto_Props Accounting_System
begin

text \<open>
  A small concrete installation, used to instantiate the properties: user 1 owns file 10 (one
  version, 3 bytes) and shares it with user 2 as a viewer; user 3 is a stranger to it.
\<close>

definition demo_checksum :: "byte list" where
  "demo_checksum = demo_digest 32 [1, 2, 3]"

definition demo_user :: "uuid \<Rightarrow> string \<Rightarrow> User" where
  "demo_user i email = \<lparr>User_ID = i, User_Email = email, User_PasswordHash = [],
     User_DisplayName = [], User_Role = RoleUser, User_CreatedAt = 1, User_UpdatedAt = 1,
     User_DeletedAt = None\<rparr>"

definition demo_quota :: "uuid \<Rightarrow> int \<Rightarrow> Quota" where
  "demo_quota i used = \<lparr>Quota_UserID = i, Quota_QuotaBytes = 1000, Quota_UsedBytes = used,
     Quota_UpdatedAt = 1\<rparr>"

definition demo_wrapped :: "byte list" where
  "demo_wrapped = replicate 12 9 @ demo_seal (replicate 32 5) (replicate 12 9) (replicate 32 6) []"

definition demo_blob :: Blob where
  "demo_blob = \<lparr>Blob_ID = 30, Blob_ChecksumSHA256 = demo_checksum, Blob_SizeBytes = 3,
     Blob_StorageKey = BlobKey demo_checksum, Blob_WrappedDEK = demo_wrapped, Blob_RefCount = 1,
     Blob_CreatedAt = 1\<rparr>"

definition demo_file :: File where
  "demo_file = \<lparr>File_ID = 10, File_OwnerID = 1, File_FolderID = None, File_Name = ''a.txt'',
     File_MimeType = [], File_CurrentVersionID = Some 20, File_LockedBy = None,
     File_LockedAt = None, File_IsDeleted = False, File_DeletedAt = None, File_CreatedAt = 1,
     File_UpdatedAt = 1, File_SizeBytes = 0, File_ChecksumSHA256 = [], File_VersionNumber = 0\<rparr>"

definition demo_version :: Version where
  "demo_version = \<lparr>Version_ID = 20, Version_FileID = 10, Version_VersionNumber = 1,
     Version_BlobID = 30, Version_SizeBytes = 3, Version_CreatedBy = 1, Version_CreatedAt = 1,
     Version_ChecksumSHA256 = []\<rparr>"

definition demo_share :: Share where
  "demo_share = \<lparr>Share_ID = 40, Share_FileID = 10, Share_OwnerID = 1, Share_GranteeID = Some 2,
     Share_TokenHash = None, Share_Permission = PermissionViewer, Share_PasswordHash = None,
     Share_ExpiresAt = None, Share_CreatedAt = 1, Share_RevokedAt = None\<rparr>"

definition demo_session :: Session where
  "demo_session = \<lparr>Session_ID = 60, Session_UserID = 1, Session_FamilyID = 61,
     Session_TokenHash = HashToken demo_ext ''token'', Session_UserAgent = [], Session_IP = [],
     Session_ExpiresAt = 1000, Session_CreatedAt = 1, Session_RevokedAt = None,
     Session_ReplacedBy = None\<rparr>"

definition demo_upload :: UploadSession where
  "demo_upload = \<lparr>Upload_ID = 50, Upload_UserID = 1, Upload_FolderID = None,
     Upload_Name = ''a.txt'', Upload_MimeType = [], Upload_SizeBytes = 3,
     Upload_ChecksumSHA256 = demo_checksum, Upload_ChunkSize = 2, Upload_TotalChunks = 2,
     Upload_Status = UploadPending, Upload_CreatedAt = 1, Upload_ExpiresAt = 1000\<rparr>"

definition demo_db :: db where
  "demo_db = empty_db\<lparr>
     users := [demo_user 1 ''a@x'', demo_user 2 ''b@x'', demo_user 3 ''c@x''],
     sessions := [demo_session],
     storage_quotas := [demo_quota 1 3, demo_quota 2 0, demo_quota 3 0],
     blobs := [demo_blob], files := [demo_file], file_versions := [demo_version],
     upload_sessions := [demo_upload], shares := [demo_share]\<rparr>"

definition demo_world :: "db \<Rightarrow> world" where
  "demo_world d = \<lparr>w_db = d, w_objects = (\<lambda>_. None), w_locks = (\<lambda>_. None), w_clock = 100,
     w_dbnow = 100, w_meta = \<lparr>Meta_IP = [], Meta_UserAgent = []\<rparr>, w_in_tx = False, w_calls = 0,
     w_faults = (\<lambda>_. None), w_uuids = (\<lambda>n. 1000 + n), w_random = (\<lambda>n k. replicate k 7),
     w_ack_lost = (\<lambda>_. False)\<rparr>"

definition demo_ident :: "uuid \<Rightarrow> Identity" where
  "demo_ident i = \<lparr>Identity_UserID = i, Identity_Email = [], Identity_Role = RoleUser\<rparr>"

text \<open>
  Two stand-ins for the JWT library: one that signs and recognises a single set of claims, and
  one that signs everything and recognises nothing.
\<close>

definition demo_claims :: claims where
  "demo_claims = \<lparr>Claims_Issuer = ''strato'', Claims_Subject = ''u'', Claims_IssuedAt = time_Unix 100,
     Claims_ExpiresAt = time_Unix (100 + 60 * nanos_per_second), Claims_ID = replicate 1000 (CHR ''u''),
     Claims_Email = ''a@x'', Claims_Role = ''user''\<rparr>"

definition demo_jwt :: JWTManager where
  "demo_jwt = \<lparr>jm_ext = demo_ext, jm_secret = [9], jm_issuer = ''strato'', jm_ttl = 60 * nanos_per_second,
     jm_SignedString = (\<lambda>c key. if c = demo_claims \<and> key = [9] then Some ''token'' else None),
     jm_ParseWithClaims = (\<lambda>tok keyfunc iss now.
       if tok = ''token'' \<and> keyfunc SigningMethodHMAC = Some [9] \<and> iss = Claims_Issuer demo_claims \<and>
         now < (Claims_ExpiresAt demo_claims + unix_epoch_seconds) * nanos_per_second
       then Some demo_claims else None)\<rparr>"

definition demo_issuer :: JWTManager where
  "demo_issuer = demo_jwt\<lparr>jm_SignedString := (\<lambda>c key. Some ''token''),
     jm_ParseWithClaims := (\<lambda>tok keyfunc iss now. None)\<rparr>"

definition demo_system :: system where
  "demo_system = \<lparr>sys_ext = demo_ext, sys_kek = replicate 32 5, sys_ChunkSize = 2,
     sys_MaxFileSize = 100, sys_SessionTTL = 900, sys_url_secret = [8], sys_SignedURLTTL = 900,
     sys_RefreshTokenTTL = 900, sys_DefaultQuotaBytes = 1000, sys_jwt = demo_issuer,
     sys_gc = \<lparr>gc_TrashRetention = 10, gc_OrphanGrace = 10, gc_BatchSize = 0\<rparr>\<rparr>"

lemmas demo_defs = demo_db_def demo_user_def demo_quota_def demo_blob_def demo_file_def
  demo_version_def demo_share_def demo_session_def demo_upload_def demo_world_def demo_ident_def
  empty_db_def

lemma uuid_ok_demo: "uuid_ok demo_ext"
  by (simp add: uuid_ok_def demo_ext_def list_all_iff)

lemma initial_demo: "initial (demo_world empty_db)"
  by (simp add: initial_def demo_world_def)

lemma length_demo_checksum [simp]: "length demo_checksum = 32"
  by (simp add: demo_checksum_def)

lemma schema_ok_demo: "schema_ok demo_db"
proof -
  have "name_ok ''a.txt''" by (simp add: name_ok_def text_length_def)
  then have "column_ranges demo_db" "check_constraints demo_db" "unique_constraints demo_db"
    "foreign_keys demo_db"
    by (simp_all add: demo_defs column_ranges_def check_constraints_def unique_constraints_def
        foreign_keys_def bigint_def int64_ok_def integer4_def lower_def to_lower_def
        ref_in_def opt_ref_in_def Let_def)
  then show ?thesis by (simp add: schema_ok_iff)
qed

lemma accounting_demo: "accounting demo_db"
  using schema_ok_demo
  by (simp add: accounting_def refcounts_ok_def usage_ok_def history_ok_def history_of_def
      versions_of_def refs_def usage_def owns_def demo_defs)

section \<open>Running the installation\<close>

lemma demo_world_fields [simp]:
  "w_db (demo_world d) = d" "w_clock (demo_world d) = 100" "w_dbnow (demo_world d) = 100"
  "w_objects (demo_world d) = (\<lambda>_. None)" "w_in_tx (demo_world d) = False"
  "w_locks (demo_world d) = (\<lambda>_. None)" "w_faults (demo_world d) n = None"
  "w_calls (demo_world d) = 0"
  by (simp_all add: demo_world_def)

lemmas run_simps = bnd_def attempt_def ret_def throw_def gets_def from_sum_def ignore_def
  sql_def exec_def execOne_def query_row_def query_def first_row_def clock_Now_def new_uuid_def

lemmas schema_simps = commit_stmt_def violation_def column_ranges_def check_constraints_def
  unique_constraints_def foreign_keys_def bigint_def int64_ok_def integer4_def lower_def to_lower_def
  ref_in_def opt_ref_in_def file_sibling_def folder_sibling_def coalesce_nil_def name_ok_def
  text_length_def mapErr_def int64_wrap_def rows_affected_def update_where_def Let_def

lemma no_result: "(\<And>r w'. m w \<noteq> (Inr r, w')) \<Longrightarrow> \<exists>e. fst (m w) = Inl e"
  by (cases "m w"; cases "fst (m w)") auto

end
