(* ===== verification/Interleaving_Props.thy ===== *)
theory Interleaving_Props
  imports Interleaved_History Demo
begin

text \<open>
  What holds under every interleaving of requests and sweeps, and what does not: the races
  between a completion and another completion of the same session, between the trash sweep
  and a restore, and between a purge and a new version where transactions are not isolated.
\<close>

section \<open>The accounts\<close>

text \<open>
  C99: However requests, sweeps and the moves of the environment interleave, call by call and
  whichever calls fail, the accounts balance at every moment outside a transaction, provided
  they did at the start, transactions are isolated and \<open>uuid.New()\<close> never returns the
  identifier of a file that exists or existed.
\<close>

text \<open>
  C2: However requests, sweeps and the moves of the environment interleave, call by call and
  whichever calls fail, the accounts balance at every moment outside a transaction, provided they
  did at the start, transactions are isolated, and no new file gets the identifier of one that
  exists or existed.
\<close>

theorem interleavings_keep_accounting:
  assumes "(interleave (threads S) neutral_move)\<^sup>*\<^sup>* ([], record_ids {} w0) (ts, w, U)"
    and "at_rest accounting w0"
  shows "at_rest accounting w"
proof -
  have "balanced_move (record_ids {} w0) (record_ids {} w0)"
    using assms(2) by (simp add: record_ids_def)
  from bal.interleavings_safe [OF assms(1) this threads_tame neutral_balanced]
  show ?thesis by (simp add: record_ids_def)
qed

text \<open>Two completions of one upload that have both read the session as pending.\<close>

lemma same_files_fresh: "w_db w' = w_db w \<Longrightarrow> fresh_ids U w w'"
  by (simp add: fresh_ids_def file_ids_def)

lemma demo_interleaving:
  assumes "pignore (Complete_p (upload_uc demo_system) (demo_ident 1) 50) \<in> Ps"
  shows "\<exists>ts w U. (interleave Ps neutral_move)\<^sup>*\<^sup>* ([], record_ids {} (demo_world demo_db)) (ts, w, U) \<and>
    length ts = 2 \<and> w_calls w = 2"
proof -
  let ?p = "pignore (Complete_p (upload_uc demo_system) (demo_ident 1) 50)"
  let ?i = "(interleave Ps neutral_move)\<^sup>*\<^sup>*"
  let ?U = "{10 :: uuid}"
  let ?w = "\<lambda>n. (demo_world demo_db)\<lparr>w_calls := n\<rparr>"
  obtain k where k: "?p = Atom (\<lambda>w. snd (ownedSession (demo_ident 1) 50 w)) k"
    by (simp add: pignore_def Complete_p_def activeSession_p_def pbnd_def pcall_def)
  have run: "snd (ownedSession (demo_ident 1) 50 (?w n)) = ?w (Suc n)" for n
    by (simp add: ownedSession_def UploadRepo_GetSession_def run_simps demo_defs next_call_def)
  have ids: "record_ids ?U (?w n) = (?w n, ?U)" for n
    by (simp add: record_ids_def file_ids_def demo_db_def demo_file_def)
  have step: "?i (ts, ?w n, ?U) (ts[j := k (?w n)], ?w (Suc n), ?U)"
    if "j < length ts" "ts ! j = ?p" for j ts n
    using interleave.atom [of j ts _ k ?U "?w n" Ps neutral_move] that
      same_files_fresh [of "?w (Suc n)" "?w n" ?U]
    unfolding k by (intro r_into_rtranclp) (simp add: run ids del: One_nat_def)
  have "?i ([], ?w 0, ?U) ([?p, ?p], ?w 0, ?U)"
    using interleave.spawn [OF assms, of neutral_move "[]" "(?w 0, ?U)"]
      interleave.spawn [OF assms, of neutral_move "[?p]" "(?w 0, ?U)"] by simp
  also have "?i ([?p, ?p], ?w 0, ?U) ([k (?w 0), ?p], ?w 1, ?U)"
    using step [of 0 "[?p, ?p]" 0] by simp
  also have "?i ([k (?w 0), ?p], ?w 1, ?U) ([k (?w 0), k (?w 1)], ?w 2, ?U)"
    using step [of 1 "[k (?w 0), ?p]" 1] by (simp add: numeral_2_eq_2)
  finally have "?i ([], record_ids {} (demo_world demo_db)) ([k (?w 0), k (?w 1)], ?w 2, ?U)"
    by (simp add: record_ids_def file_ids_def demo_defs)
  then show ?thesis by (intro exI conjI) auto
qed

lemma demo_thread:
  "thread_of demo_system (ReqComplete (demo_ident 1) 50) =
     Some (pignore (Complete_p (upload_uc demo_system) (demo_ident 1) 50))"
  by simp

theorem interleavings_keep_accounting_witness:
  "\<exists>ts w U. (interleave (threads demo_system) neutral_move)\<^sup>*\<^sup>*
     ([], record_ids {} (demo_world demo_db)) (ts, w, U) \<and> length ts = 2 \<and> w_calls w = 2 \<and>
     at_rest accounting w"
proof -
  obtain ts w U where run: "(interleave (threads demo_system) neutral_move)\<^sup>*\<^sup>*
      ([], record_ids {} (demo_world demo_db)) (ts, w, U)" "length ts = 2" "w_calls w = 2"
    using demo_interleaving [of "threads demo_system"] demo_thread unfolding threads_def by blast
  moreover have "at_rest accounting (demo_world demo_db)" using accounting_demo by (simp add: at_rest_def)
  ultimately show ?thesis using interleavings_keep_accounting by blast
qed

section \<open>History\<close>

text \<open>
  C11: However the calls of requests and of the sweeps other than the trash sweep interleave,
  whichever fail, an existing version row is neither changed nor removed: the version table only
  grows at its end.
\<close>

theorem interleavings_append_only:
  assumes "(interleave (history_threads S) neutral_move)\<^sup>*\<^sup>* ([], record_ids {} w0) (ts, w, U)"
    and "\<not> w_in_tx w0"
  shows "prefix (file_versions (w_db w0)) (file_versions (w_db w))"
proof -
  have "appending_move (record_ids {} w0) (record_ids {} w0)" using assms(2) by (simp add: record_ids_def)
  moreover have "yields appending_move (\<lambda>_. True) p (\<lambda>_ _. True)" if "p \<in> history_threads S" for p
    using that appends_threads by (auto simp: history_threads_def)
  moreover have "appending_move (v, U) (record_ids U v')"
    if "appending_move (v, U) (v, U)" "neutral_move v v'" for v v' U
    using that by (auto simp: neutral_move_def neutral_step_def same_accounts_def record_ids_def)
  ultimately have "appending_move (record_ids {} w0) (snd (ts, w, U))"
    using app.interleavings_safe [OF assms(1)] by blast
  then show ?thesis by (simp add: record_ids_def)
qed

theorem interleavings_append_only_witness:
  "\<exists>ts w U. (interleave (history_threads demo_system) neutral_move)\<^sup>*\<^sup>*
     ([], record_ids {} (demo_world demo_db)) (ts, w, U) \<and> length ts = 2 \<and> w_calls w = 2 \<and>
     prefix [demo_version] (file_versions (w_db w))"
proof -
  obtain ts w U where run: "(interleave (history_threads demo_system) neutral_move)\<^sup>*\<^sup>*
      ([], record_ids {} (demo_world demo_db)) (ts, w, U)" "length ts = 2" "w_calls w = 2"
    using demo_interleaving [of "history_threads demo_system"] demo_thread
    unfolding history_threads_def by blast
  moreover have "file_versions demo_db = [demo_version]" by (simp add: demo_db_def)
  ultimately show ?thesis using interleavings_append_only [OF run(1)] by auto
qed

section \<open>Races\<close>

text \<open>
  Completing a session attaches a version whatever the state of the session by then: the
  session was read before the lock was taken and is not read again.
\<close>

lemma hist_run:
  assumes "\<And>vs. keeps (at_rest (extends vs)) m" "m w = (r, w')" "\<not> w_in_tx w"
  shows "\<not> w_in_tx w'" and "prefix (file_versions (w_db w)) (file_versions (w_db w'))"
  using keepsD [OF assms(1), of "file_versions (w_db w)" w] assms(2,3)
  by (simp_all add: at_rest_def extends_def)

lemma stale_completion_attaches:
  assumes run: "Complete_locked u ident sess w = (Inr f, w')" and rest: "\<not> w_in_tx w"
  shows "length (file_versions (w_db w)) < length (file_versions (w_db w'))"
proof -
  let ?tail = "\<lambda>fl. bnd (UploadRepo_UpdateStatus (Upload_ID sess) UploadCompleted) (\<lambda>_.
    bnd (cleanupStaging sess) (\<lambda>_.
    bnd (Auditor_Record (Some (Identity_UserID ident)) AuditFileUploaded ''file''
          (X_uuid_String (up_ext u) (File_ID fl))
          [(''size_bytes'', show_int (Upload_SizeBytes sess)),
           (''session_id'', X_uuid_String (up_ext u) (Upload_ID sess))]) (\<lambda>_.
    FileRepo_GetByID (File_ID fl))))"
  obtain blob w1 where b: "blob_for_upload u sess w = (Inr blob, w1)"
    and r: "bnd (attachVersion sess blob) ?tail w1 = (Inr f, w')"
    using run unfolding Complete_locked_def by (rule bnd_InrE)
  obtain fl w2 where a: "attachVersion sess blob w1 = (Inr fl, w2)" and t: "?tail fl w2 = (Inr f, w')"
    using r by (rule bnd_InrE)
  note B = hist_run [OF keeps_hist_blob b rest]
  obtain w3 where w3: "attach_tx sess blob ((next_call w1)\<lparr>w_in_tx := True\<rparr>) = (Inr fl, w3)"
    and w2: "w2 = (next_call w3)\<lparr>w_in_tx := False\<rparr>"
    using a [unfolded attachVersion_def] B(1) by (rule WithinTx_InrE)
  have "\<exists>v. file_versions (w_db w2) = file_versions (w_db w1) @ [v]"
    using attach_appends [OF w3] w2 by simp
  moreover have "keeps (at_rest (extends vs)) (?tail fl)" for vs by (intro keeps_intros)
  from hist_run(2) [OF this t] w2 have "prefix (file_versions (w_db w2)) (file_versions (w_db w'))" by simp
  ultimately show ?thesis using B(2) by (auto dest!: prefix_length_le)
qed

text \<open>
  A purge deletes the file whether or not it is still in the trash: a file restored after the
  sweep listed it is lost.
\<close>

lemma purge_deletes_live_file:
  assumes "purge_tx f w = (Inr x, w')"
  shows "File_ID f \<notin> set (map File_ID (files (w_db w')))"
  using assms Purge_Inr(3) [of "File_ID f" _ x w'] by (auto simp: purge_tx_def bnd_Inr_iff)

text \<open>
  The purge relies on the isolation of its transaction. Where statements of other transactions
  take effect between its own (the isolation level is the default of the server, read committed),
  a version added to the file after its bytes were summed stays charged to the owner for good.
\<close>

lemma unisolated_purge_overcharges:
  assumes read: "VersionRepo_TotalBytes (File_ID f) w0 = (Inr n, w1)" "schema_ok (w_db w0)"
    and later: "accounting (w_db w)" "owns (w_db w) (File_OwnerID f) (File_ID f)"
      "n < total_bytes (File_ID f) (w_db w)"
    and rest: "BlobRepo_DecrementRefsForFile (File_ID f) w = (Inr (), w2)"
      "QuotaRepo_AddUsage (File_OwnerID f) (- n) w2 = (Inr (), w3)"
      "FileRepo_Purge (File_ID f) w3 = (Inr (), w')"
    and q: "q \<in> set (storage_quotas (w_db w'))" "Quota_UserID q = File_OwnerID f"
  shows "usage (w_db w') (File_OwnerID f) < Quota_UsedBytes q"
proof -
  note D = DecrementRefsForFile_Inr [OF rest(1)] and P = Purge_Inr(3) [OF rest(3)]
  have sch: "schema_ok (w_db w)" using later(1) by (simp add: accounting_def)
  have n: "0 \<le> n"
    using TotalBytes_Inr [OF read(1)] schema_okD(2) [OF read(2)]
    by (auto simp: check_constraints_def list_all_iff total_bytes_def intro!: sum_list_nonneg)
  have "\<forall>q \<in> set (storage_quotas (w_db w2)). 0 \<le> Quota_UsedBytes q"
    using schema_okD(2) [OF sch] by (simp add: D check_constraints_def list_all_iff)
  note Q = AddUsage_purge_view [OF rest(2) n this]
  have views: "file_view (w_db w3) = file_view (w_db w)" "file_versions (w_db w3) = file_versions (w_db w)"
    "quota_view (w_db w') = quota_view (w_db w3)" "quota_view (w_db w2) = quota_view (w_db w)"
    by (subst Q(2), simp add: D file_view_def) (subst Q(2), simp add: D, simp_all add: P D quota_view_def)
  have "usage (w_db w) (File_OwnerID f) =
      usage (w_db w') (File_OwnerID f) + total_bytes (File_ID f) (w_db w)"
    using usage_purged [OF sch later(2), of "w_db w'" "File_OwnerID f"] Purge_views(1) [OF rest(3)]
    by (simp add: views P)
  moreover have "(Quota_UserID q, Quota_UsedBytes q, Quota_QuotaBytes q) \<in> set (quota_view (w_db w'))"
    using q(1) by (auto simp: quota_view_def)
  then obtain used where "(File_OwnerID f, used, Quota_QuotaBytes q) \<in> set (quota_view (w_db w))"
    "Quota_UsedBytes q = max (used - n) 0"
    using q(2) by (auto simp: views Q(1))
  moreover have "used = usage (w_db w) (File_OwnerID f)"
    if "(File_OwnerID f, used, k) \<in> set (quota_view (w_db w))" for used k
    using later(1) that by (auto simp: accounting_def usage_ok_view)
  ultimately show ?thesis using later(3) by fastforce
qed

end
