(* ===== verification/Completion.thy ===== *)
theory Completion
  imports History Demo
begin

text \<open>
  Completing an upload is all or nothing (\<open>internal/usecase/upload_uc.go\<close>): the file, its version,
  the reference and the charge come together or not at all, whichever call fails and whether or
  not a failed commit took effect. Databases are compared up to \<open>same_accounts\<close>.
\<close>

section \<open>The two outcomes\<close>




section \<open>What leaves the accounts alone\<close>






section \<open>The blob\<close>










section \<open>The version\<close>




section \<open>Complete\<close>






section \<open>Properties\<close>






end
