(* ===== verification/Access_Props.thy ===== *)
theory Access_Props
  imports Demo
begin

text \<open>
  Properties of authorization, locking and names, with witnesses on the concrete installation
  of theory \<open>Demo\<close>.
\<close>

section \<open>Authorization\<close>

lemma GetByID_runs:
  assumes "schema_ok (w_db w)" "g \<in> set (files (w_db w))" "w_faults w (w_calls w) = None"
  shows "FileRepo_GetByID (File_ID g) w = (Inr (fileSelect (w_db w) g), next_call w)"
proof -
  have "distinct (map File_ID (files (w_db w)))"
    using schema_okD(3) [OF assms(1)] by (simp add: unique_constraints_def)
  from distinct_filter_single [OF this assms(2)]
  show ?thesis using assms(3) by (simp add: FileRepo_GetByID_def run_simps next_call_def)
qed

lemma live_grant_unique:
  assumes "schema_ok d" "s \<in> set (shares d)" "Share_RevokedAt s = None" "Share_GranteeID s = Some u"
    and P: "P s" "\<And>x. P x \<Longrightarrow> Share_FileID x = Share_FileID s \<and> Share_GranteeID x = Some u \<and>
      Share_RevokedAt x = None"
  shows "filter P (shares d) = [s]"
proof -
  let ?live = "filter (\<lambda>s. Share_RevokedAt s = None \<and> Share_GranteeID s \<noteq> None) (shares d)"
  have "distinct (map (\<lambda>s. (Share_FileID s, Share_GranteeID s)) ?live)"
    using schema_okD(3) [OF assms(1)] by (simp add: unique_constraints_def)
  from distinct_filter_single [OF this, of s]
  have "filter (\<lambda>y. (Share_FileID y, Share_GranteeID y) = (Share_FileID s, Share_GranteeID s)) ?live = [s]"
    using assms(2-4) by simp
  moreover have "filter P (filter (\<lambda>y. (Share_FileID y, Share_GranteeID y) =
      (Share_FileID s, Share_GranteeID s)) ?live) = filter P (shares d)"
    unfolding filter_filter
  proof (rule filter_cong)
    fix x
    show "((Share_RevokedAt x = None \<and> Share_GranteeID x \<noteq> None) \<and>
        (Share_FileID x, Share_GranteeID x) = (Share_FileID s, Share_GranteeID s)) \<and> P x \<longleftrightarrow> P x"
    proof (cases "P x")
      case True
      then show ?thesis using P(2) [OF True] assms(4) by simp
    qed simp
  qed simp
  ultimately show ?thesis using P(1) by simp
qed

text \<open>
  C9: authorizeFile admits a caller only if the policy read off the tables allows it: the owner,
  an administrator, or the holder of an unrevoked, unexpired grant of sufficient level on a file
  not in the trash; and it returns that file.
\<close>

theorem authorizeFile_policy:
  assumes "authorizeFile ident i need now w = (Inr f, w')"
  shows "\<exists>g \<in> set (files (w_db w)). File_ID g = i \<and> f = fileSelect (w_db w) g \<and>
    may_access (w_db w) now ident need g"
  using authorizeFile_sound(1) [OF assms] .

lemma demo_authorizes:
  "fst (authorizeFile (demo_ident 2) 10 PermissionViewer 100 (demo_world demo_db)) =
     Inr (fileSelect demo_db demo_file)"
  by (simp add: authorizeFile_def run_simps FileRepo_GetByID_def ShareRepo_FindGrant_def
      Share_IsActive_def Permission_Allows_def demo_defs)

theorem authorizeFile_policy_witness:
  "\<exists>g \<in> set (files demo_db). File_ID g = 10 \<and> may_access demo_db 100 (demo_ident 2) PermissionViewer g"
  using authorizeFile_policy [of "demo_ident 2" 10 PermissionViewer 100 "demo_world demo_db"
      "fileSelect demo_db demo_file"
      "snd (authorizeFile (demo_ident 2) 10 PermissionViewer 100 (demo_world demo_db))"]
    demo_authorizes by (auto simp: prod_eq_iff)

text \<open>
  C22: When the database answers, authorizeFile admits every caller the policy allows (grants
  being unexpired on the database clock too) and returns the stored file.
\<close>

theorem authorizeFile_admits:
  assumes "schema_ok (w_db w)" "\<And>n. w_faults w n = None" "g \<in> set (files (w_db w))"
    and "may_access (w_db w) now ident need g"
    and "\<And>s. live_grant (w_db w) now (Identity_UserID ident) (File_ID g) s \<Longrightarrow>
      Share_ExpiresAt s = None \<or> w_dbnow w < the (Share_ExpiresAt s)"
  shows "fst (authorizeFile ident (File_ID g) need now w) = Inr (fileSelect (w_db w) g)"
proof (cases "File_OwnerID g = Identity_UserID ident \<or> Identity_Role ident = RoleAdmin")
  case True
  then show ?thesis
    using GetByID_runs [OF assms(1,3)] assms(2) by (auto simp: authorizeFile_def run_simps)
next
  case False
  with assms(4) obtain s where live: "\<not> File_IsDeleted g"
    and s: "live_grant (w_db w) now (Identity_UserID ident) (File_ID g) s" "need \<le> Share_Permission s"
    by (auto simp: may_access_def)
  have "filter (\<lambda>s. Share_FileID s = File_ID g \<and> Share_GranteeID s = Some (Identity_UserID ident)
        \<and> Share_RevokedAt s = None
        \<and> (case Share_ExpiresAt s of None \<Rightarrow> True | Some e \<Rightarrow> e > w_dbnow w)) (shares (w_db w)) = [s]"
    using s assms(5) [OF s(1)]
    by (intro live_grant_unique [OF assms(1), of s "Identity_UserID ident"])
      (auto simp: live_grant_def split: option.splits)
  then have "ShareRepo_FindGrant (File_ID g) (Identity_UserID ident) (next_call w) =
      (Inr s, next_call (next_call w))"
    using assms(2) by (simp add: ShareRepo_FindGrant_def sql_Inr_iff query_row_Inr)
  then show ?thesis
    using GetByID_runs [OF assms(1,3)] assms(2) False live s
    by (auto simp: authorizeFile_def run_simps live_grant_def Share_IsActive_iff
        less_eq_Permission_def)
qed

theorem authorizeFile_admits_witness:
  "fst (authorizeFile (demo_ident 2) 10 PermissionViewer 100 (demo_world demo_db)) =
     Inr (fileSelect demo_db demo_file)"
proof -
  have "demo_file \<in> set (files demo_db)" "File_ID demo_file = 10"
    and "may_access demo_db 100 (demo_ident 2) PermissionViewer demo_file"
    by (auto simp: may_access_def live_grant_def less_eq_Permission_def Permission_Allows_def
        demo_defs)
  then show ?thesis
    using authorizeFile_admits [of "demo_world demo_db" demo_file 100 "demo_ident 2" PermissionViewer]
      schema_ok_demo by (auto simp: live_grant_def demo_defs)
qed

text \<open>
  C23: To a caller who neither owns a file, nor is an administrator, nor was ever granted it,
  authorizeFile answers ErrNotFound, as for a file that does not exist.
\<close>

theorem stranger_sees_nothing:
  assumes "stranger (w_db w) ident i"
  shows "fst (authorizeFile ident i need now w) = Inl ErrNotFound"
  using authorizeFile_stranger [OF assms] .

theorem stranger_sees_nothing_witness:
  "fst (authorizeFile (demo_ident 3) 10 PermissionViewer 100 (demo_world demo_db)) = Inl ErrNotFound"
  by (rule stranger_sees_nothing) (simp add: stranger_def demo_defs)

text \<open>
  authorizeFile fails only with ErrNotFound or ErrPermissionDenied, and with the latter only
  for a caller who holds a live grant of a lower level.
\<close>

theorem denial_only_to_grantees:
  assumes "authorizeFile ident i need now w = (Inl e, w')"
  shows "e = ErrNotFound \<or> e = ErrPermissionDenied \<and>
    (\<exists>s. live_grant (w_db w) now (Identity_UserID ident) i s \<and> \<not> need \<le> Share_Permission s)"
  using authorizeFile_errors [OF assms] .

theorem denial_only_to_grantees_witness:
  "\<exists>s. live_grant demo_db 100 2 10 s \<and> \<not> PermissionEditor \<le> Share_Permission s"
proof -
  let ?run = "authorizeFile (demo_ident 2) 10 PermissionEditor 100 (demo_world demo_db)"
  have "fst ?run = Inl ErrPermissionDenied"
    by (simp add: authorizeFile_def run_simps FileRepo_GetByID_def ShareRepo_FindGrant_def
        Share_IsActive_def Permission_Allows_def demo_defs)
  then have "?run = (Inl ErrPermissionDenied, snd ?run)" by (simp add: prod_eq_iff)
  from denial_only_to_grantees [OF this] show ?thesis by (simp add: demo_ident_def)
qed

section \<open>Locks on files\<close>

text \<open>Every operation that changes a file goes through \<open>mutableFile\<close>.\<close>

lemma mutableFile_guard:
  assumes "mutableFile ident i need w = (Inr f, w')"
  shows "\<exists>g \<in> set (files (w_db w)). File_ID g = i \<and> f = fileSelect (w_db w) g \<and>
    may_access (w_db w) (w_clock w) ident need g \<and> \<not> File_IsDeleted g \<and>
    (File_LockedBy g = None \<or> File_LockedBy g = Some (Identity_UserID ident))"
proof -
  have a: "authorizeFile ident i need (w_clock w) w = (Inr f, w')"
    "\<not> File_IsDeleted f" "\<not> File_IsLockedByOther f (Identity_UserID ident)"
    using assms by (auto simp: mutableFile_def bnd_Inr_iff clock_Now_run split: if_splits)
  from authorizeFile_sound(1) [OF a(1)] a(2,3) show ?thesis
    by (auto simp: File_IsLockedByOther_def split: option.splits)
qed

lemma FileUC_writers_guarded:
  "FileUC_Rename ident i nm w = (Inr r, w1) \<Longrightarrow> \<exists>f w'. mutableFile ident i PermissionEditor w = (Inr f, w')"
  "FileUC_Move ident i p w = (Inr r, w1) \<Longrightarrow> \<exists>f w'. mutableFile ident i PermissionEditor w = (Inr f, w')"
  "FileUC_Delete u ident i w = (Inr u', w1) \<Longrightarrow> \<exists>f w'. mutableFile ident i PermissionOwner w = (Inr f, w')"
  "RestoreVersion u ident i v w = (Inr r, w1) \<Longrightarrow> \<exists>f w'. mutableFile ident i PermissionEditor w = (Inr f, w')"
  by (auto simp: FileUC_Rename_def FileUC_Move_def FileUC_Delete_def RestoreVersion_def bnd_Inr_iff)

lemma mutableFile_locked:
  assumes "schema_ok (w_db w)" "g \<in> set (files (w_db w))"
    and "File_LockedBy g = Some holder" "holder \<noteq> Identity_UserID ident"
  shows "mutableFile ident (File_ID g) need w \<noteq> (Inr f, w')"
proof
  assume "mutableFile ident (File_ID g) need w = (Inr f, w')"
  from mutableFile_guard [OF this] obtain h where h: "h \<in> set (files (w_db w))"
    "File_ID h = File_ID g" "File_LockedBy h = None \<or> File_LockedBy h = Some (Identity_UserID ident)"
    by blast
  have "distinct (map File_ID (files (w_db w)))"
    using schema_okD(3) [OF assms(1)] by (simp add: unique_constraints_def)
  with h assms(2) have "h = g" by (auto simp: distinct_map dest: inj_onD)
  with h assms(3,4) show False by simp
qed

text \<open>
  C24: While another user holds the advisory lock on a file, renaming, moving, deleting it and
  restoring one of its versions all fail.
\<close>

theorem locked_file_is_frozen:
  assumes "schema_ok (w_db w)" "g \<in> set (files (w_db w))"
    and "File_LockedBy g = Some holder" "holder \<noteq> Identity_UserID ident"
  shows "(\<exists>e. fst (FileUC_Rename ident (File_ID g) nm w) = Inl e) \<and>
    (\<exists>e. fst (FileUC_Move ident (File_ID g) p w) = Inl e) \<and>
    (\<exists>e. fst (FileUC_Delete u ident (File_ID g) w) = Inl e) \<and>
    (\<exists>e. fst (RestoreVersion u ident (File_ID g) v w) = Inl e)"
  using mutableFile_locked [OF assms] FileUC_writers_guarded
  by (intro conjI no_result) metis+

definition demo_locked_db :: db where
  "demo_locked_db = demo_db\<lparr>files := [demo_file\<lparr>File_LockedBy := Some 1\<rparr>]\<rparr>"

lemma schema_ok_demo_locked: "schema_ok demo_locked_db"
  using schema_ok_demo
  by (simp add: demo_locked_db_def schema_ok_iff demo_defs column_ranges_def check_constraints_def
      unique_constraints_def foreign_keys_def Let_def ref_in_def opt_ref_in_def file_sibling_def)

theorem locked_file_is_frozen_witness:
  "\<exists>e. fst (FileUC_Rename (demo_ident 2) 10 ''b.txt'' (demo_world demo_locked_db)) = Inl e"
  using locked_file_is_frozen [of "demo_world demo_locked_db" "demo_file\<lparr>File_LockedBy := Some 1\<rparr>" 1
      "demo_ident 2" "''b.txt''"] schema_ok_demo_locked
  by (simp add: demo_locked_db_def demo_ident_def demo_file_def)

section \<open>Names\<close>

text \<open>
  C25: validateName trims a name and returns the rest exactly when it is non-empty, at most 255
  bytes, neither . nor .., and free of slashes, backslashes and bytes below 0x20; otherwise it
  answers ErrInvalidArgument. Trimming first changes nothing, so a name it returned is returned
  unchanged.
\<close>

theorem names_are_safe:
  "validateName s = (if safe_name (TrimSpace s) then Inr (TrimSpace s) else Inl ErrInvalidArgument) \<and>
   validateName (TrimSpace s) = validateName s"
  using validateName_exact [of s] by (simp add: validateName_def TrimSpace_idem)

text \<open>
  The comment promises more: bytes from 0x20 on are let through, DEL and the encodings of the
  controls from U+0080 on among them.
\<close>

lemma control_characters_accepted:
  "validateName [CHR ''a'', CHR 0x7F, CHR ''b''] = Inr [CHR ''a'', CHR 0x7F, CHR ''b'']"
  "validateName [CHR ''a'', CHR 0xC2, CHR 0x9B, CHR ''b''] = Inr [CHR ''a'', CHR 0xC2, CHR 0x9B, CHR ''b'']"
  by code_simp+

end
