(* ===== verification/Upload_Props.thy ===== *)
theory Upload_Props
  imports Demo
begin

text \<open>
  Properties of upload sessions and chunks, with witnesses on the concrete installation of
  theory \<open>Demo\<close>.
\<close>

section \<open>Opening a session\<close>

definition session_plan :: "UploadUseCase \<Rightarrow> Identity \<Rightarrow> int \<Rightarrow> UploadSession \<Rightarrow> bool" where
  "session_plan u ident n sess \<longleftrightarrow> 0 < n \<and> n \<le> up_MaxFileSize u \<and> Upload_SizeBytes sess = n \<and>
     Upload_ChunkSize sess = up_ChunkSize u \<and> up_ChunkSize u \<noteq> 0 \<and>
     Upload_TotalChunks sess = int64_wrap (n + up_ChunkSize u - 1) sdiv up_ChunkSize u \<and>
     Upload_Status sess = UploadPending \<and> Upload_UserID sess = Identity_UserID ident \<and>
     safe_name (Upload_Name sess)"

lemma InitUpload_Inr:
  assumes "InitUpload u ident nm fo mime n chk w = (Inr res, w')"
  shows "session_plan u ident n (Init_Session res)"
    and "\<exists>t. (Init_Session res)\<lparr>Upload_CreatedAt := t\<rparr> \<in> set (upload_sessions (w_db w'))"
  using assms unfolding InitUpload_def
  by (auto simp: bnd_Inr_iff Let_def session_plan_def UploadRepo_CreateSession_def sql_Inr_iff
      commit_stmt_Inr dest: validateName_safe split: if_splits option.splits)

lemma ExpectedChunkSize_bounds:
  assumes "0 < Upload_ChunkSize s" "0 < Upload_SizeBytes s"
  shows "0 < ExpectedChunkSize s i \<and> ExpectedChunkSize s i \<le> Upload_ChunkSize s"
  using assms pos_mod_bound [of "Upload_ChunkSize s" "Upload_SizeBytes s"]
  by (auto simp: ExpectedChunkSize_def Let_def order_less_le)

text \<open>
  C27: The chunk sizes a session opened by InitUpload expects are each positive and at most the
  configured chunk size, and add up to exactly the declared file size.
\<close>

theorem chunks_cover_the_file:
  assumes "InitUpload u ident nm fo mime n chk w = (Inr res, w')"
    and "0 < up_ChunkSize u" "int64_ok (up_MaxFileSize u + up_ChunkSize u)"
  shows "sum_list (expected_sizes (Init_Session res)) = n \<and>
    (\<forall>k \<in> set (expected_sizes (Init_Session res)). 0 < k \<and> k \<le> up_ChunkSize u)"
proof -
  let ?s = "Init_Session res"
  have s: "0 < n" "n \<le> up_MaxFileSize u" "Upload_SizeBytes ?s = n" "Upload_ChunkSize ?s = up_ChunkSize u"
    "Upload_TotalChunks ?s = int64_wrap (n + up_ChunkSize u - 1) sdiv up_ChunkSize u"
    using InitUpload_Inr(1) [OF assms(1)] by (simp_all add: session_plan_def)
  have "int64_ok (n + up_ChunkSize u - 1)" using assms(2,3) s(1,2) by (auto simp: int64_ok_def)
  then have "chunk_plan ?s" using s assms(2) by (simp add: chunk_plan_def)
  moreover have "0 < k \<and> k \<le> up_ChunkSize u" if "k \<in> set (expected_sizes ?s)" for k
    using that ExpectedChunkSize_bounds [of ?s] s assms(2) by (auto simp: expected_sizes_def)
  ultimately show ?thesis using expected_sizes_sum_aux [of ?s] s(3) by simp
qed

lemma demo_InitUpload:
  "\<exists>res w'. InitUpload (upload_uc demo_system) (demo_ident 1) ''b.txt'' [] [] 3
     (hex_EncodeToString demo_checksum) (demo_world demo_db) = (Inr res, w')"
  by (simp add: InitUpload_def run_simps schema_simps validateName_def TrimSpace_visible
      visible_ascii_def upload_uc_def demo_system_def hex_roundtrip parseOptionalID_def
      check_folder_def check_name_lock_def FileRepo_GetByName_def QuotaRepo_Get_def
      BlobRepo_GetByChecksum_def UploadRepo_CreateSession_def Quota_CanStore_def demo_defs)

theorem chunks_cover_the_file_witness:
  "\<exists>res :: InitResult. sum_list (expected_sizes (Init_Session res)) = 3"
proof -
  obtain res w' where "InitUpload (upload_uc demo_system) (demo_ident 1) ''b.txt'' [] [] 3
      (hex_EncodeToString demo_checksum) (demo_world demo_db) = (Inr res, w')"
    using demo_InitUpload by blast
  from chunks_cover_the_file [OF this] show ?thesis
    by (auto simp: upload_uc_def demo_system_def int64_ok_def)
qed

section \<open>Receiving chunks\<close>

lemma upsert_chunk_has: "\<exists>r \<in> set (upsert_chunk now c rows). same_chunk c r \<and>
    Chunk_SizeBytes r = Chunk_SizeBytes c \<and> Chunk_ChecksumSHA256 r = Chunk_ChecksumSHA256 c \<and>
    Chunk_StorageKey r = Chunk_StorageKey c"
proof (cases "list_ex (same_chunk c) rows")
  case True
  then obtain r where r: "r \<in> set rows" "same_chunk c r" by (auto simp: list_ex_iff)
  let ?r = "r\<lparr>Chunk_SizeBytes := Chunk_SizeBytes c, Chunk_ChecksumSHA256 := Chunk_ChecksumSHA256 c,
    Chunk_StorageKey := Chunk_StorageKey c, Chunk_UploadedAt := now\<rparr>"
  have "?r \<in> set (upsert_chunk now c rows)"
    using True r by (auto simp: upsert_chunk_def set_update_where intro!: image_eqI [of _ _ r])
  then show ?thesis using r(2) by (intro bexI [of _ ?r]) (auto simp: same_chunk_def)
next
  case False
  then show ?thesis by (simp add: upsert_chunk_def same_chunk_def)
qed

text \<open>What a successful \<open>UploadChunk\<close> leaves behind: the staged object and its receipt.\<close>

definition staged :: "ext \<Rightarrow> world \<Rightarrow> uuid \<Rightarrow> int \<Rightarrow> byte list \<Rightarrow> bool" where
  "staged X w sess k data \<longleftrightarrow>
     w_objects w (ChunkKey (X_uuid_String X) sess k) = Some data \<and>
     (\<exists>c \<in> set (upload_chunks (w_db w)). Chunk_SessionID c = sess \<and> Chunk_Index c = k \<and>
        Chunk_SizeBytes c = int (length data) \<and> Chunk_ChecksumSHA256 c = X_sha256 X data \<and>
        Chunk_StorageKey c = ChunkKey (X_uuid_String X) sess k)"

text \<open>
  C28: A successful UploadChunk belongs to a pending, unexpired session of the caller and a valid
  index; it leaves the object holding exactly the expected number of body bytes and a receipt with
  their size, SHA-256 and key.
\<close>

theorem chunk_is_staged:
  assumes "UploadChunk u ident i k body w = (Inr chunk, w')"
  shows "\<exists>sess \<in> set (upload_sessions (w_db w)). Upload_ID sess = i \<and>
    Upload_UserID sess = Identity_UserID ident \<and> Upload_Status sess = UploadPending \<and>
    w_clock w < Upload_ExpiresAt sess \<and> 0 \<le> k \<and> k < Upload_TotalChunks sess \<and>
    staged (up_ext u) w' i k (take (nat (ExpectedChunkSize sess k)) (fst body)) \<and>
    int (length (take (nat (ExpectedChunkSize sess k)) (fst body))) = ExpectedChunkSize sess k"
proof -
  obtain sess w1 w2 where a: "activeSession ident i w = (Inr sess, w1)"
    and k: "0 \<le> k" "k < Upload_TotalChunks sess"
    and put: "store_Put (ChunkKey (X_uuid_String (up_ext u)) (Upload_ID sess) k)
      (LimitReader body (ExpectedChunkSize sess k)) (ExpectedChunkSize sess k) w1 = (Inr (), w2)"
    and save: "UploadRepo_SaveChunk chunk w2 = (Inr (), w')"
    and chunk: "chunk = \<lparr>Chunk_SessionID = Upload_ID sess, Chunk_Index = k,
       Chunk_SizeBytes = ExpectedChunkSize sess k,
       Chunk_ChecksumSHA256 = X_sha256 (up_ext u) (fst (LimitReader body (ExpectedChunkSize sess k))),
       Chunk_StorageKey = ChunkKey (X_uuid_String (up_ext u)) (Upload_ID sess) k, Chunk_UploadedAt = 0\<rparr>"
    using assms
    by (auto simp: UploadChunk_def bnd_Inr_iff attempt_Inr_iff Let_def split: if_splits sum.splits)
      (metis sumE old.unit.exhaust)
  note s = activeSession_Inr [OF a]
  let ?n = "ExpectedChunkSize sess k"
  have len: "int (length (fst (LimitReader body ?n))) = ?n"
    and w2: "w2 = (next_call w1)\<lparr>w_objects := (w_objects w1)(ChunkKey (X_uuid_String (up_ext u)) i k :=
      Some (fst (LimitReader body ?n)))\<rparr>"
    using put s(2) by (auto simp: store_Put_Inr_iff)
  then have data: "fst (LimitReader body ?n) = take (nat ?n) (fst body)"
    by (auto simp: LimitReader_def split: if_splits)
  have w': "w_objects w' = w_objects w2"
    "upload_chunks (w_db w') = upsert_chunk (w_dbnow w2) chunk (upload_chunks (w_db w2))"
    using save by (auto simp: UploadRepo_SaveChunk_def sql_Inr_iff commit_stmt_Inr)
  have "staged (up_ext u) w' i k (take (nat ?n) (fst body))"
    using upsert_chunk_has [of "w_dbnow w2" chunk "upload_chunks (w_db w2)"] len s(2)
    by (auto simp: staged_def w' w2 data chunk same_chunk_def)
  then show ?thesis using s k len data by (auto simp: Upload_IsActive_def)
qed

lemma demo_UploadChunk:
  "\<exists>c w'. UploadChunk (upload_uc demo_system) (demo_ident 1) 50 1 ([9], None) (demo_world demo_db)
     = (Inr c, w')"
  by (simp add: UploadChunk_def activeSession_def ownedSession_def UploadRepo_GetSession_def run_simps
      schema_simps upload_uc_def demo_system_def Upload_IsActive_def ExpectedChunkSize_def
      LimitReader_def store_Put_def infra_point_def UploadRepo_SaveChunk_def upsert_chunk_def
      demo_ext_def demo_defs)

theorem chunk_is_staged_witness:
  "\<exists>w'. staged demo_ext w' 50 1 [9]"
proof -
  obtain c w' where run: "UploadChunk (upload_uc demo_system) (demo_ident 1) 50 1 ([9], None)
      (demo_world demo_db) = (Inr c, w')"
    using demo_UploadChunk by blast
  have "ExpectedChunkSize demo_upload 1 = 1"
    by (simp add: ExpectedChunkSize_def demo_upload_def)
  with chunk_is_staged [OF run] show ?thesis
    by (auto simp: demo_db_def upload_uc_def demo_system_def)
qed

end
