(* ===== verification/Session_Props.thy ===== *)
theory Session_Props
  imports Demo
begin

text \<open>
  Properties of refresh-token sessions, passwords, access tokens, signed URLs, public links and
  the distributed lock, with witnesses on the concrete installation of theory \<open>Demo\<close>.
\<close>

section \<open>Rotation\<close>

lemma GetByTokenHash_Inr:
  assumes "SessionRepo_GetByTokenHash h w = (Inr s, w')"
  shows "s \<in> set (sessions (w_db w)) \<and> Session_TokenHash s = h \<and> w' = next_call w"
  using assms
  by (auto simp: SessionRepo_GetByTokenHash_def sql_Inr_iff query_row_Inr filter_eq_Cons_iff)

lemma RandomToken_db: "RandomToken n w = (Inr t, w') \<Longrightarrow> w' = next_call w"
  by (auto simp: RandomToken_def bnd_Inr_iff rand_Read_def split: option.splits)

lemma rotate_tx_Inr:
  assumes "rotate_tx new (Some prev) w = (Inr u, w')" "\<not> w_in_tx w"
  shows "sessions (w_db w') = update_where (\<lambda>s. Session_ID s = prev \<and> Session_RevokedAt s = None)
      (\<lambda>s. s\<lparr>Session_RevokedAt := Some (w_dbnow w), Session_ReplacedBy := Some (Session_ID new)\<rparr>)
      (sessions (w_db w) @ [new\<lparr>Session_CreatedAt := w_dbnow w, Session_RevokedAt := None,
         Session_ReplacedBy := None\<rparr>])"
    and "Session_ID new \<notin> Session_ID ` set (sessions (w_db w))"
proof -
  from assms obtain w2 where run: "bnd (SessionRepo_Create new) (\<lambda>_. SessionRepo_Revoke prev
      (Some (Session_ID new))) ((next_call w)\<lparr>w_in_tx := True\<rparr>) = (Inr u, w2)"
    and w': "w' = (next_call w2)\<lparr>w_in_tx := False\<rparr>"
    by (auto simp: rotate_tx_def elim!: WithinTx_InrE)
  from run obtain w1 where
    c: "SessionRepo_Create new ((next_call w)\<lparr>w_in_tx := True\<rparr>) = (Inr (), w1)" and
    r: "SessionRepo_Revoke prev (Some (Session_ID new)) w1 = (Inr u, w2)"
    by (auto simp: bnd_Inr_iff)
  from c have w1: "sessions (w_db w1) = sessions (w_db w) @ [new\<lparr>Session_CreatedAt := w_dbnow w,
      Session_RevokedAt := None, Session_ReplacedBy := None\<rparr>]" "w_dbnow w1 = w_dbnow w"
    "schema_ok (w_db w1)"
    by (auto simp: SessionRepo_Create_def sql_Inr_iff commit_stmt_Inr)
  from r show "sessions (w_db w') = update_where (\<lambda>s. Session_ID s = prev \<and> Session_RevokedAt s = None)
      (\<lambda>s. s\<lparr>Session_RevokedAt := Some (w_dbnow w), Session_ReplacedBy := Some (Session_ID new)\<rparr>)
      (sessions (w_db w) @ [new\<lparr>Session_CreatedAt := w_dbnow w, Session_RevokedAt := None,
         Session_ReplacedBy := None\<rparr>])"
    by (auto simp: w' SessionRepo_Revoke_def execOne_Inr_iff sql_Inr_iff Let_def commit_stmt_Inr w1)
  have "distinct (map Session_ID (sessions (w_db w1)))"
    using schema_okD(3) [OF w1(3)] by (simp add: unique_constraints_def)
  then show "Session_ID new \<notin> Session_ID ` set (sessions (w_db w))" by (simp add: w1)
qed

lemma mintPair_Inr:
  assumes "mintPair (auth_uc S) user fam prev w = (Inr pair, w')"
  obtains i w1 w2 where "rotate_tx (new_session (auth_uc S) i user fam (Pair_RefreshToken pair)
      (w_meta w) (w_clock w)) prev w1 = (Inr (), w2)"
    and "w_db w' = w_db w2" "w_db w1 = w_db w" "w_in_tx w1 = w_in_tx w" "w_dbnow w1 = w_dbnow w"
proof -
  from assms obtain tok w1 i w2 w3 a e where
    t: "RandomToken 32 w = (Inr tok, w1)" and
    i: "new_uuid w1 = (Inr i, w2)" and
    r: "rotate_tx (new_session (auth_uc S) i user fam tok (w_meta w1) (w_clock w2)) prev w2 = (Inr (), w3)"
    and "au_IssueAccessToken (auth_uc S) user w3 = (Inr (a, e), w')"
    and pair: "pair = \<lparr>Pair_AccessToken = a, Pair_RefreshToken = tok, Pair_AccessExpiresAt = e\<rparr>"
    by (auto simp: mintPair_def bnd_Inr_iff gets_run clock_Now_run)
  then have "w_db w' = w_db w3"
    using IssueAccessToken_Inr(3) by (fastforce simp: auth_uc_def)
  with r show thesis
    using that [of i w2 w3] RandomToken_db [OF t] i pair by (simp add: new_uuid_run)
qed

text \<open>
  C20: A successful Refresh consumes an active session: that session is revoked with a pointer to
  its successor, and the successor, holding the hash of the token handed out, is a new unrevoked
  session of the same user and family.
\<close>

theorem refresh_rotates:
  assumes "Refresh (auth_uc S) tok w = (Inr pair, w')" "\<not> w_in_tx w"
  shows "\<exists>old new. old \<in> set (sessions (w_db w)) \<and>
    Session_TokenHash old = HashToken (sys_ext S) tok \<and> Session_IsActive old (w_clock w) \<and>
    old\<lparr>Session_RevokedAt := Some (w_dbnow w), Session_ReplacedBy := Some (Session_ID new)\<rparr>
      \<in> set (sessions (w_db w')) \<and>
    new \<in> set (sessions (w_db w')) \<and> Session_FamilyID new = Session_FamilyID old \<and>
    Session_UserID new = Session_UserID old \<and> Session_RevokedAt new = None \<and>
    Session_TokenHash new = HashToken (sys_ext S) (Pair_RefreshToken pair)"
proof -
  from assms(1) obtain old w1 user w2 where
    g: "SessionRepo_GetByTokenHash (HashToken (sys_ext S) tok) w = (Inr old, w1)" and
    act: "Session_RevokedAt old = None" "Session_IsActive old (w_clock w1)" and
    us: "UserRepo_GetByID (Session_UserID old) w1 = (Inr user, w2)" and
    mint: "mintPair (auth_uc S) user (Session_FamilyID old) (Some (Session_ID old)) w2 = (Inr pair, w')"
    by (auto simp: Refresh_def run_inv clock_Now_run auth_uc_def split: if_splits)
  have old: "old \<in> set (sessions (w_db w))" "Session_TokenHash old = HashToken (sys_ext S) tok"
    "w1 = next_call w"
    using GetByTokenHash_Inr [OF g] by auto
  have user: "User_ID user = Session_UserID old" "w2 = next_call w1"
    using us by (auto simp: UserRepo_GetByID_def sql_Inr_iff query_row_Inr filter_eq_Cons_iff)
  from mint obtain i w3 w4 where
    rot: "rotate_tx (new_session (auth_uc S) i user (Session_FamilyID old) (Pair_RefreshToken pair)
        (w_meta w2) (w_clock w2)) (Some (Session_ID old)) w3 = (Inr (), w4)"
    and db: "w_db w' = w_db w4" "w_db w3 = w_db w2" "w_in_tx w3 = w_in_tx w2" "w_dbnow w3 = w_dbnow w2"
    by (rule mintPair_Inr)
  let ?new = "(new_session (auth_uc S) i user (Session_FamilyID old) (Pair_RefreshToken pair)
      (w_meta w2) (w_clock w2))\<lparr>Session_CreatedAt := w_dbnow w, Session_RevokedAt := None,
      Session_ReplacedBy := None\<rparr>"
  have ntx: "\<not> w_in_tx w3" using assms(2) db old user by simp
  note ss = rotate_tx_Inr [OF rot ntx]
  have fresh: "i \<noteq> Session_ID old" using ss(2) old db user by (auto simp: new_session_def)
  have "old\<lparr>Session_RevokedAt := Some (w_dbnow w), Session_ReplacedBy := Some i\<rparr> \<in> set (sessions (w_db w'))"
    "?new \<in> set (sessions (w_db w'))"
    using ss(1) old act(1) db user fresh
    by (auto simp: set_update_where new_session_def intro!: image_eqI [of _ _ old])
  then show ?thesis
    using old act user by (intro exI [of _ old] exI [of _ ?new]) (auto simp: new_session_def auth_uc_def)
qed

lemma demo_hash_fresh:
  "HashToken demo_ext ''token'' \<noteq> HashToken demo_ext (base64_EncodeToString (replicate 32 7))"
  by code_simp

lemma demo_Refresh:
  "\<exists>pair w'. Refresh (auth_uc demo_system) ''token'' (demo_world demo_db) = (Inr pair, w')"
  by (simp add: Refresh_def mintPair_def rotate_tx_def WithinTx_def infra_point_def RandomToken_def
      rand_Read_def SessionRepo_GetByTokenHash_def UserRepo_GetByID_def SessionRepo_Create_def
      SessionRepo_Revoke_def new_session_def IssueAccessToken_def Session_IsActive_def run_simps schema_simps auth_uc_def
      demo_system_def demo_issuer_def demo_hash_fresh demo_defs)

section \<open>Reuse\<close>

text \<open>Revoking sessions violates no constraint.\<close>

lemma schema_ok_revoke:
  assumes "schema_ok d" "\<And>s. Session_ID (g s) = Session_ID s \<and> Session_TokenHash (g s) = Session_TokenHash s \<and>
      Session_UserID (g s) = Session_UserID s \<and> Session_ReplacedBy (g s) = Session_ReplacedBy s"
  shows "schema_ok (d\<lparr>sessions := update_where P g (sessions d)\<rparr>)"
proof -
  have m: "map Session_ID (update_where P g (sessions d)) = map Session_ID (sessions d)"
    "map Session_TokenHash (update_where P g (sessions d)) = map Session_TokenHash (sessions d)"
    using assms(2) by (simp_all add: map_update_where)
  have "column_ranges (d\<lparr>sessions := update_where P g (sessions d)\<rparr>)"
    "check_constraints (d\<lparr>sessions := update_where P g (sessions d)\<rparr>)"
    "unique_constraints (d\<lparr>sessions := update_where P g (sessions d)\<rparr>)"
    using schema_okD [OF assms(1)] m
    by (simp_all add: column_ranges_def check_constraints_def unique_constraints_def)
  moreover have "foreign_keys (d\<lparr>sessions := update_where P g (sessions d)\<rparr>)"
    using schema_okD(4) [OF assms(1)] assms(2) m
    by (auto simp: foreign_keys_def Let_def list_all_iff set_update_where)
  ultimately show ?thesis by (simp add: schema_ok_iff)
qed

lemma RevokeFamily_runs:
  assumes "schema_ok (w_db w)" "w_faults w (w_calls w) = None"
  shows "SessionRepo_RevokeFamily fam w = (Inr (), (next_call w)\<lparr>w_db := (w_db w)\<lparr>sessions := update_where
      (\<lambda>s. Session_FamilyID s = fam \<and> Session_RevokedAt s = None)
      (\<lambda>s. s\<lparr>Session_RevokedAt := Some (w_dbnow w)\<rparr>) (sessions (w_db w))\<rparr>\<rparr>)"
  using schema_ok_revoke [OF assms(1), of "\<lambda>s. s\<lparr>Session_RevokedAt := Some (w_dbnow w)\<rparr>"] assms(2)
  by (simp add: SessionRepo_RevokeFamily_def sql_Inr_iff commit_stmt_Inr)

lemma Auditor_Record_sessions: "sessions (w_db (snd (Auditor_Record u a t i m w))) = sessions (w_db w)"
  by (auto simp: Auditor_Record_def bnd_def gets_def ignore_def AuditRepo_Insert_def sql_def exec_def
      ret_def throw_def commit_stmt_def split: option.splits sum.splits)

lemma Auditor_Record_run:
  "case_prod h (Auditor_Record u a t i m w) = h (Inr ()) (snd (Auditor_Record u a t i m w))"
  "fst (Auditor_Record u a t i m w) = Inr ()"
  by (simp_all add: Auditor_Record_def bnd_def gets_def ignore_def fun_eq_iff)

lemma TokenHash_runs:
  assumes "schema_ok (w_db w)" "s \<in> set (sessions (w_db w))" "w_faults w (w_calls w) = None"
  shows "SessionRepo_GetByTokenHash (Session_TokenHash s) w = (Inr s, next_call w)"
proof -
  have "distinct (map Session_TokenHash (sessions (w_db w)))"
    using schema_okD(3) [OF assms(1)] by (simp add: unique_constraints_def)
  from distinct_filter_single [OF this assms(2)] show ?thesis
    using assms(3) by (simp add: SessionRepo_GetByTokenHash_def sql_Inr_iff query_row_Inr)
qed

definition family_revoked :: "uuid \<Rightarrow> db \<Rightarrow> bool" where
  "family_revoked fam d \<longleftrightarrow>
     list_all (\<lambda>s. Session_FamilyID s = fam \<longrightarrow> Session_RevokedAt s \<noteq> None) (sessions d)"

lemma family_revoked_update:
  "list_all (\<lambda>s. Session_FamilyID s = fam \<longrightarrow> Session_RevokedAt s \<noteq> None)
     (update_where (\<lambda>s. Session_FamilyID s = fam \<and> Session_RevokedAt s = None)
        (\<lambda>s. s\<lparr>Session_RevokedAt := Some t\<rparr>) ss)"
  by (induction ss) (simp_all add: update_where_def)

text \<open>
  C21: When the database answers, presenting a refresh token that was already rotated is answered
  with ErrTokenReuse and leaves every session of its family revoked.
\<close>

theorem reuse_revokes_family:
  assumes "schema_ok (w_db w)" "\<And>n. w_faults w n = None"
    and "s \<in> set (sessions (w_db w))" "Session_TokenHash s = HashToken (au_ext u) tok"
    and "Session_RevokedAt s \<noteq> None" "Session_ReplacedBy s \<noteq> None"
  shows "fst (Refresh u tok w) = Inl ErrTokenReuse \<and>
    family_revoked (Session_FamilyID s) (w_db (snd (Refresh u tok w)))"
proof -
  have "SessionRepo_GetByTokenHash (HashToken (au_ext u) tok) w = (Inr s, next_call w)"
    using TokenHash_runs [OF assms(1,3)] assms(2,4) by simp
  moreover have "SessionRepo_RevokeFamily (Session_FamilyID s) (next_call w) =
      (Inr (), (next_call (next_call w))\<lparr>w_db := (w_db w)\<lparr>sessions := update_where
        (\<lambda>x. Session_FamilyID x = Session_FamilyID s \<and> Session_RevokedAt x = None)
        (\<lambda>x. x\<lparr>Session_RevokedAt := Some (w_dbnow w)\<rparr>) (sessions (w_db w))\<rparr>\<rparr>)"
    using RevokeFamily_runs [of "next_call w" "Session_FamilyID s"] assms(1,2) by simp
  ultimately show ?thesis
    using assms(5,6) family_revoked_update
    by (simp add: Refresh_def bnd_def attempt_def clock_Now_def gets_def ignore_def throw_def
        Auditor_Record_run Auditor_Record_sessions family_revoked_def)
qed

text \<open>
  When the database answers, Logout succeeds and leaves every session of the family of the
  presented token revoked.
\<close>

theorem logout_ends_family:
  assumes "schema_ok (w_db w)" "\<And>n. w_faults w n = None"
    and "s \<in> set (sessions (w_db w))" "Session_TokenHash s = HashToken (au_ext u) tok"
  shows "fst (Logout u tok w) = Inr () \<and>
    family_revoked (Session_FamilyID s) (w_db (snd (Logout u tok w)))"
proof -
  have "SessionRepo_GetByTokenHash (HashToken (au_ext u) tok) w = (Inr s, next_call w)"
    using TokenHash_runs [OF assms(1,3)] assms(2,4) by simp
  moreover have "SessionRepo_RevokeFamily (Session_FamilyID s) (next_call w) =
      (Inr (), (next_call (next_call w))\<lparr>w_db := (w_db w)\<lparr>sessions := update_where
        (\<lambda>x. Session_FamilyID x = Session_FamilyID s \<and> Session_RevokedAt x = None)
        (\<lambda>x. x\<lparr>Session_RevokedAt := Some (w_dbnow w)\<rparr>) (sessions (w_db w))\<rparr>\<rparr>)"
    using RevokeFamily_runs [of "next_call w" "Session_FamilyID s"] assms(1,2) by simp
  ultimately show ?thesis
    using family_revoked_update
    by (simp add: Logout_def bnd_def attempt_def Auditor_Record_run Auditor_Record_sessions
        family_revoked_def)
qed


theorem refresh_rotates_witness:
  "\<exists>new \<in> set (sessions (w_db (snd (Refresh (auth_uc demo_system) ''token'' (demo_world demo_db))))).
     Session_FamilyID new = 61 \<and> Session_RevokedAt new = None"
proof -
  obtain pair w' where run: "Refresh (auth_uc demo_system) ''token'' (demo_world demo_db) = (Inr pair, w')"
    using demo_Refresh by blast
  have "sessions demo_db = [demo_session]" "Session_FamilyID demo_session = 61"
    by (simp_all add: demo_db_def demo_session_def)
  with refresh_rotates [OF run] show ?thesis by (auto simp: run)
qed

definition demo_stolen :: Session where
  "demo_stolen = demo_session\<lparr>Session_RevokedAt := Some 50, Session_ReplacedBy := Some 62\<rparr>"

definition demo_heir :: Session where
  "demo_heir = demo_session\<lparr>Session_ID := 62, Session_TokenHash := [1]\<rparr>"

definition demo_stolen_db :: db where
  "demo_stolen_db = demo_db\<lparr>sessions := [demo_stolen, demo_heir]\<rparr>"

lemma schema_ok_stolen: "schema_ok demo_stolen_db"
proof -
  have "length (HashToken demo_ext ''token'') = 32" by (simp add: HashToken_def demo_ext_def)
  then have "HashToken demo_ext ''token'' \<noteq> [1]" by auto
  then show ?thesis
    using schema_ok_demo
    by (simp add: demo_stolen_db_def demo_stolen_def demo_heir_def schema_ok_iff column_ranges_def
        check_constraints_def unique_constraints_def foreign_keys_def ref_in_def opt_ref_in_def
        Let_def demo_defs)
qed

theorem reuse_revokes_family_witness:
  "fst (Refresh (auth_uc demo_system) ''token'' (demo_world demo_stolen_db)) = Inl ErrTokenReuse \<and>
   family_revoked 61 (w_db (snd (Refresh (auth_uc demo_system) ''token'' (demo_world demo_stolen_db))))"
  using reuse_revokes_family [of "demo_world demo_stolen_db" demo_stolen "auth_uc demo_system" "''token''"]
    schema_ok_stolen
  by (simp add: demo_stolen_db_def demo_stolen_def demo_session_def auth_uc_def demo_system_def)

theorem logout_ends_family_witness:
  "family_revoked 61 (w_db (snd (Logout (auth_uc demo_system) ''token'' (demo_world demo_db))))"
  using logout_ends_family [of "demo_world demo_db" demo_session "auth_uc demo_system" "''token''"]
    schema_ok_demo
  by (simp add: demo_db_def demo_session_def auth_uc_def demo_system_def)

section \<open>The distributed lock\<close>

text \<open>At most one holder: a held key is not granted, and a release by anyone else has no effect.\<close>

text \<open>
  C29: A distributed lock that is held and unexpired is not granted again, TryLock does not
  disturb it, and a release with any other token leaves it in place.
\<close>

theorem lock_is_exclusive:
  assumes "w_locks w (''lock:'' @ key) = Some (holder, expires)" "w_clock w < expires"
  shows "(\<forall>l. fst (TryLock key ttl w) \<noteq> Inr (Some l)) \<and>
    w_locks (snd (TryLock key ttl w)) = w_locks w \<and>
    (token \<noteq> holder \<longrightarrow> w_locks (release_lock (''lock:'' @ key, token) w) = w_locks w)"
proof -
  have "lock_held w (''lock:'' @ key)" using assms by (simp add: lock_held_def)
  from TryLock_excluded [OF this, of ttl] show ?thesis
    using release_other_token [OF assms(1)] by auto
qed

definition demo_locked_world :: world where
  "demo_locked_world = (demo_world demo_db)\<lparr>w_locks := [''lock:k'' \<mapsto> (''holder'', 200)]\<rparr>"

theorem lock_is_exclusive_witness:
  "w_locks (snd (TryLock ''k'' 10 demo_locked_world)) = w_locks demo_locked_world"
  using lock_is_exclusive [of demo_locked_world "''k''" "''holder''" 200 10]
  by (simp add: demo_locked_world_def)

lemma lock_held_next_call: "lock_held (next_call w) key = lock_held w key"
  by (simp add: lock_held_def split: option.splits)

text \<open>
  When Redis answers, TryLock acquires a lock that is not held, and its own release frees it.
\<close>

theorem lock_is_granted:
  assumes "\<And>n. w_faults w n = None" "\<not> lock_held w (''lock:'' @ key)" "0 < ttl"
  shows "\<exists>token w'. TryLock key ttl w = (Inr (Some (''lock:'' @ key, token)), w') \<and>
    lock_held w' (''lock:'' @ key) \<and> \<not> lock_held (release_lock (''lock:'' @ key, token) w') (''lock:'' @ key)"
  using assms
  by (simp add: TryLock_def RandomToken_def rand_Read_def redis_SetNX_def run_simps infra_point_def
      release_lock_def releaseScript_def lock_held_next_call)
    (simp add: lock_held_def)

theorem lock_is_granted_witness:
  "\<exists>token w'. TryLock ''k'' 10 (demo_world demo_db) = (Inr (Some (''lock:k'', token)), w')"
  using lock_is_granted [of "demo_world demo_db" "''k''" 10] by (auto simp: lock_held_def)

section \<open>Signed URLs\<close>

text \<open>
  C30: A URL signed for a file and user verifies for that file as that user until its expiry
  second has passed, and is rejected afterwards.
\<close>

theorem signed_url_roundtrip:
  assumes "uuid_ok X" "int64_ok (time_Unix (now + ttl))"
  shows "Verify X secret later fileID (Sign X secret now fileID userID ttl) =
    (if time_Unix later \<le> time_Unix (now + ttl) then Inr userID else Inl ErrUnauthenticated)"
  using Verify_Sign [OF assms] .

theorem signed_url_roundtrip_witness:
  "Verify demo_ext [8] 200 10 (Sign demo_ext [8] 100 10 1 900) = Inr 1"
  using signed_url_roundtrip [OF uuid_ok_demo, of 100 900 "[8]" 200 10 1]
  by (simp add: time_Unix_def nanos_per_second_def unix_epoch_seconds_def int64_ok_def)

text \<open>
  What is needed of HMAC for the signature to bind its fields: under the secret, different
  messages have different codes.
\<close>

definition hmac_binds :: "ext \<Rightarrow> byte list \<Rightarrow> byte list set \<Rightarrow> bool" where
  "hmac_binds X secret M \<longleftrightarrow> inj_on (X_hmac_sha256 X secret) M"

text \<open>
  C31: If the HMAC tells the two messages apart, a query carrying the signature of an issued URL
  verifies only for the same file, user and expiry, and not after that expiry.
\<close>

theorem signed_url_binds_fields:
  assumes "uuid_ok X" "int64_ok (time_Unix (now + ttl))"
    and "hmac_binds X secret (bytes_of ` {signed_message X fileID userID (time_Unix (now + ttl)),
      signed_message X fileID' userID' expiry'})"
    and "Verify X secret later fileID' qry = Inr userID'"
    and "values_Get qry ''exp'' = show_int expiry'" "int64_ok expiry'"
    and "values_Get qry ''sig'' = values_Get (Sign X secret now fileID userID ttl) ''sig''"
  shows "fileID' = fileID \<and> userID' = userID \<and> expiry' = time_Unix (now + ttl) \<and>
    time_Unix later \<le> time_Unix (now + ttl)"
proof -
  let ?e = "time_Unix (now + ttl)"
  obtain e where e: "time_Unix later \<le> e" "ParseInt64 (values_Get qry ''exp'') = Some e"
    "values_Get qry ''sig'' = base64_EncodeToString
      (X_hmac_sha256 X secret (bytes_of (signed_message X fileID' userID' e)))"
    using Verify_accepts [OF assms(4)] by blast
  have "e = expiry'" using e(2) assms(5,6) by (simp add: ParseInt64_show_int)
  moreover have "X_hmac_sha256 X secret (bytes_of (signed_message X fileID' userID' e)) =
      X_hmac_sha256 X secret (bytes_of (signed_message X fileID userID ?e))"
    using e(3) assms(7) by (simp add: values_Get_Sign signature_def base64_inj)
  ultimately have "signed_message X fileID' userID' expiry' = signed_message X fileID userID ?e"
    using assms(3) by (auto simp: hmac_binds_def dest: bytes_of_inj)
  from signed_message_inj [OF assms(1) this] show ?thesis using e(1) \<open>e = expiry'\<close> by simp
qed


theorem signed_url_binds_fields_witness:
  "time_Unix 200 \<le> time_Unix (100 + 900)"
proof -
  let ?q = "Sign demo_ext [8] 100 10 1 900"
  have ok: "int64_ok (time_Unix (100 + 900))"
    by (simp add: time_Unix_def nanos_per_second_def unix_epoch_seconds_def int64_ok_def)
  have "Verify demo_ext [8] 200 10 ?q = Inr 1"
    using Verify_Sign [OF uuid_ok_demo ok, of "[8]" 200 10 1]
    by (simp add: time_Unix_def nanos_per_second_def unix_epoch_seconds_def)
  from signed_url_binds_fields [OF uuid_ok_demo ok _ this, of 10 1 "time_Unix (100 + 900)"] ok
  show ?thesis by (simp add: values_Get_Sign hmac_binds_def)
qed

section \<open>Passwords\<close>

lemma argon2_ok_demo: "argon2_ok demo_ext"
  by (simp add: argon2_ok_def demo_ext_def)

text \<open>
  C32: VerifyPassword accepts the password that HashPassword encoded, after the PHC string has
  been written and parsed, and NeedsRehash does not ask to rehash it under the same parameters.
\<close>

theorem password_roundtrip:
  assumes "Argon2_in_range p" "argon2_ok X" "HashPassword X pw p w = (Inr encoded, w')"
  shows "VerifyPassword X pw encoded = Inr True \<and> \<not> NeedsRehash encoded p"
proof -
  obtain salt where "encoded = hash_with_salt X pw p salt"
    using assms(3) by (auto simp: HashPassword_def bnd_Inr_iff split: if_splits)
  then show ?thesis using VerifyPassword_hash [OF assms(1,2)] NeedsRehash_hash [OF assms(1)] by simp
qed

theorem password_roundtrip_witness:
  "\<exists>encoded. VerifyPassword demo_ext ''secret pass'' encoded = Inr True"
proof -
  obtain e w' where "HashPassword demo_ext ''secret pass'' DefaultArgon2Params (demo_world demo_db) = (Inr e, w')"
    by (simp add: HashPassword_def run_simps rand_Read_def DefaultArgon2Params_def)
  from password_roundtrip [OF _ argon2_ok_demo this] show ?thesis
    by (auto simp: Argon2_in_range_def DefaultArgon2Params_def)
qed

section \<open>Access tokens\<close>

lemma jwt_ok_demo: "jwt_ok demo_jwt"
  by (auto simp: jwt_ok_def demo_jwt_def)

text \<open>
  C33: A token issued for a user parses, until its expiry, to that user identity (id, e-mail and
  role), and to ErrUnauthenticated afterwards.
\<close>

theorem access_token_roundtrip:
  assumes "jwt_ok m" "uuid_ok (jm_ext m)" "User_Role user = RoleUser \<or> User_Role user = RoleAdmin"
    and "IssueAccessToken m user w = (Inr (token, expiresAt), w')"
  shows "ParseAccessToken m now token =
    (if now < (time_Unix expiresAt + unix_epoch_seconds) * nanos_per_second
     then Inr \<lparr>Identity_UserID = User_ID user, Identity_Email = User_Email user,
       Identity_Role = User_Role user\<rparr>
     else Inl ErrUnauthenticated)"
  using ParseAccessToken_issued [OF assms(1) _ assms(3,4)] assms(2) by (simp add: uuid_ok_def)

theorem access_token_roundtrip_witness:
  "ParseAccessToken demo_jwt 200 ''token'' =
     Inr \<lparr>Identity_UserID = 1, Identity_Email = ''a@x'', Identity_Role = RoleUser\<rparr>"
proof -
  have "user_claims demo_jwt (demo_user 1 ''a@x'') 100 1000 = demo_claims"
    by (simp add: user_claims_def demo_claims_def demo_jwt_def demo_user_def demo_ext_def role_string_def)
  then have "IssueAccessToken demo_jwt (demo_user 1 ''a@x'') (demo_world demo_db) =
      (Inr (''token'', 100 + jm_ttl demo_jwt), next_call (demo_world demo_db))"
    by (simp add: IssueAccessToken_def run_simps) (simp add: demo_jwt_def demo_world_def ret_def)
  from access_token_roundtrip [OF jwt_ok_demo _ _ this, of 200] uuid_ok_demo show ?thesis
    by (simp add: demo_user_def demo_jwt_def time_Unix_def nanos_per_second_def unix_epoch_seconds_def)
qed

section \<open>Public links\<close>

lemma ResolvePublicLink_sound:
  assumes "ResolvePublicLink X tok pw w = (Inr (f, share), w')"
  shows "share \<in> set (shares (w_db w)) \<and> Share_TokenHash share = Some (HashToken X tok) \<and>
    Share_RevokedAt share = None \<and> (\<forall>e. Share_ExpiresAt share = Some e \<longrightarrow> w_clock w \<le> e) \<and>
    (\<forall>h. Share_PasswordHash share = Some h \<longrightarrow> VerifyPassword X pw h = Inr True) \<and>
    (\<exists>g \<in> set (files (w_db w)). File_ID g = Share_FileID share \<and> \<not> File_IsDeleted g \<and>
      f = fileSelect (w_db w) g)"
proof -
  from assms obtain w1 w2 where
    s: "ShareRepo_GetByTokenHash (HashToken X tok) w = (Inr share, w1)" and
    a: "Share_IsActive share (w_clock w1)" "link_password_ok X share pw" and
    g: "FileRepo_GetByID (Share_FileID share) w1 = (Inr f, w2)" "\<not> File_IsDeleted f"
    by (auto simp: ResolvePublicLink_def run_inv clock_Now_run split: if_splits)
  have sh: "share \<in> set (shares (w_db w))" "Share_TokenHash share = Some (HashToken X tok)"
    "w1 = next_call w"
    using s by (auto simp: ShareRepo_GetByTokenHash_def sql_Inr_iff query_row_Inr filter_eq_Cons_iff)
  have "VerifyPassword X pw h = Inr True" if "Share_PasswordHash share = Some h" for h
    using a(2) that by (auto simp: link_password_ok_def split: sum.splits)
  then show ?thesis
    using sh a(1) FileRepo_GetByID_Inr [OF g(1)] g(2) by (auto simp: Share_IsActive_iff)
qed

text \<open>
  C34: ResolvePublicLink serves a file only through a stored, unrevoked, unexpired link with that
  token, with the password if one is set, and only if the file is not in the trash.
\<close>

theorem public_link_guards:
  assumes "ResolvePublicLink X tok pw w = (Inr (f, share), w')"
  shows "share \<in> set (shares (w_db w)) \<and> Share_TokenHash share = Some (HashToken X tok) \<and>
    Share_RevokedAt share = None \<and> (\<forall>e. Share_ExpiresAt share = Some e \<longrightarrow> w_clock w \<le> e) \<and>
    (\<forall>h. Share_PasswordHash share = Some h \<longrightarrow> VerifyPassword X pw h = Inr True) \<and>
    (\<exists>g \<in> set (files (w_db w)). File_ID g = Share_FileID share \<and> \<not> File_IsDeleted g \<and>
      f = fileSelect (w_db w) g)"
  using ResolvePublicLink_sound [OF assms] .

definition demo_link :: Share where
  "demo_link = demo_share\<lparr>Share_ID := 41, Share_GranteeID := None,
     Share_TokenHash := Some (HashToken demo_ext ''link'')\<rparr>"

definition demo_link_db :: db where
  "demo_link_db = demo_db\<lparr>shares := [demo_share, demo_link]\<rparr>"

theorem public_link_guards_witness:
  "demo_link \<in> set (shares demo_link_db) \<and> Share_RevokedAt demo_link = None"
proof -
  have "\<exists>f w'. ResolvePublicLink demo_ext ''link'' [] (demo_world demo_link_db) = (Inr (f, demo_link), w')"
    by (simp add: ResolvePublicLink_def ShareRepo_GetByTokenHash_def FileRepo_GetByID_def
        Share_IsActive_def link_password_ok_def Auditor_Record_def run_simps demo_link_db_def
        demo_link_def demo_defs)
  then show ?thesis using public_link_guards [of demo_ext "''link''" "[]" "demo_world demo_link_db"] by auto
qed

end
