(* ===== verification/Integrity.thy ===== *)
theory Integrity
  imports Accounting_System
begin

text \<open>
  Integrity of stored content: every blob row has its object, stored under the key its checksum
  determines, encrypted under the data key the row wraps, whose plaintext has the row's checksum
  and size. Every request keeps this, whichever calls fail, except that the sweep of orphaned
  blobs is only covered when its calls succeed (the object is deleted before the row).
\<close>

section \<open>The invariant\<close>

definition blob_stored :: "ext \<Rightarrow> byte list \<Rightarrow> (string \<Rightarrow> byte list option) \<Rightarrow> Blob \<Rightarrow> bool" where
  "blob_stored X kek objs b \<longleftrightarrow> (\<exists>plain dek prefix. length dek = KeySize \<and>
     length prefix = noncePrefixLen \<and> UnwrapKey X kek (Blob_WrappedDEK b) = Inr dek \<and>
     objs (Blob_StorageKey b) =
       Some (stream_format X dek prefix (effective_segment DefaultSegmentSize) plain) \<and>
     X_sha256 X plain = Blob_ChecksumSHA256 b \<and> int (length plain) = Blob_SizeBytes b)"

definition is_staging :: "string \<Rightarrow> bool" where
  "is_staging key \<longleftrightarrow> take 8 key = ''staging/''"

definition content :: "ext \<Rightarrow> byte list \<Rightarrow> world \<Rightarrow> bool" where
  "content X kek w \<longleftrightarrow> \<not> w_in_tx w \<and> schema_ok (w_db w) \<and>
     (\<forall>key \<in> set (chunk_keys (w_db w)). is_staging key) \<and>
     (\<forall>b \<in> set (blobs (w_db w)). Blob_StorageKey b = BlobKey (Blob_ChecksumSHA256 b) \<and>
        (aead_ok X \<longrightarrow> blob_stored X kek (w_objects w) b))"

text \<open>The invariant while content with checksum \<open>c\<close> is not registered.\<close>

definition unregistered :: "ext \<Rightarrow> byte list \<Rightarrow> byte list \<Rightarrow> world \<Rightarrow> bool" where
  "unregistered X kek c w \<longleftrightarrow> content X kek w \<and> length c = 32 \<and>
     (\<forall>b \<in> set (blobs (w_db w)). Blob_ChecksumSHA256 b \<noteq> c)"

text \<open>What the invariant depends on: reference counts do not matter.\<close>

definition blob_core :: "db \<Rightarrow> Blob list" where
  "blob_core d = map (\<lambda>b. b\<lparr>Blob_RefCount := 0\<rparr>) (blobs d)"

definition content_step :: "db \<Rightarrow> db \<Rightarrow> bool" where
  "content_step d d' \<longleftrightarrow> (schema_ok d' \<or> d' = d) \<and> blob_core d' = blob_core d \<and> chunk_keys d' = chunk_keys d"

lemma blob_stored_RefCount [simp]:
  "blob_stored X kek objs (b\<lparr>Blob_RefCount := n\<rparr>) = blob_stored X kek objs b"
  "blob_stored X kek objs (b\<lparr>Blob_CreatedAt := t\<rparr>) = blob_stored X kek objs b"
  by (simp_all add: blob_stored_def)

lemma content_core:
  "content X kek w \<longleftrightarrow> \<not> w_in_tx w \<and> schema_ok (w_db w) \<and>
     (\<forall>key \<in> set (chunk_keys (w_db w)). is_staging key) \<and>
     (\<forall>b \<in> set (blob_core (w_db w)). Blob_StorageKey b = BlobKey (Blob_ChecksumSHA256 b) \<and>
        (aead_ok X \<longrightarrow> blob_stored X kek (w_objects w) b))"
  by (simp add: content_def blob_core_def)

lemma content_db:
  "content X kek w \<Longrightarrow> content_step (w_db w) d \<Longrightarrow> content X kek (w\<lparr>w_db := d\<rparr>)"
  unfolding content_core content_step_def by auto

lemma content_calls: "content X kek (w\<lparr>w_calls := n\<rparr>) = content X kek w"
  "content X kek (w\<lparr>w_locks := l\<rparr>) = content X kek w"
  by (simp_all add: content_def)

lemma content_resting: "content X kek w \<Longrightarrow> \<not> w_in_tx w"
  by (simp add: content_def)

lemma neutral_content_step: "neutral_step d d' \<Longrightarrow> content_step d d'"
  by (auto simp: neutral_step_def same_accounts_def content_step_def blob_core_def)

interpretation cont: neutral_invariant "content X kek" for X kek
  by unfold_locales (auto simp: content_calls content_resting intro: content_db neutral_content_step)

interpretation unreg: neutral_invariant "unregistered X kek c" for X kek c
proof unfold_locales
  fix w d assume "unregistered X kek c w" "neutral_step (w_db w) d"
  then show "unregistered X kek c (w\<lparr>w_db := d\<rparr>)"
    using cont.neutral_db [of X kek w d]
    by (auto simp: unregistered_def neutral_step_def same_accounts_def)
qed (auto simp: unregistered_def content_calls content_resting)

section \<open>Object keys\<close>

lemma staging_ChunkKey: "is_staging (ChunkKey us i k)"
  by (simp add: is_staging_def ChunkKey_def)

lemma staging_not_BlobKey: "is_staging key \<Longrightarrow> key \<noteq> BlobKey c"
  by (auto simp: is_staging_def BlobKey_def Let_def)

text \<open>Writing or deleting an object that is no registered blob's.\<close>

lemma blob_stored_other:
  "Blob_StorageKey b \<noteq> key \<Longrightarrow> blob_stored X kek (objs(key := v)) b = blob_stored X kek objs b"
  by (simp add: blob_stored_def)

lemma content_object:
  assumes "content X kek w" "\<And>b. b \<in> set (blobs (w_db w)) \<Longrightarrow> Blob_StorageKey b \<noteq> key"
  shows "content X kek (w\<lparr>w_objects := (w_objects w)(key := v)\<rparr>)"
  using assms blob_stored_other [of _ key X kek "w_objects w" v] by (auto simp: content_def)

lemma content_staging:
  "content X kek w \<Longrightarrow> is_staging key \<Longrightarrow> content X kek (w\<lparr>w_objects := (w_objects w)(key := v)\<rparr>)"
  by (rule content_object) (auto simp: content_def dest: staging_not_BlobKey)

lemma unregistered_object:
  assumes "unregistered X kek c w"
  shows "unregistered X kek c (w\<lparr>w_objects := (w_objects w)(BlobKey c := v)\<rparr>)"
proof -
  have "Blob_StorageKey b \<noteq> BlobKey c" if "b \<in> set (blobs (w_db w))" for b
  proof -
    have "length (Blob_ChecksumSHA256 b) = 32"
      using schema_okD(2) [of "w_db w"] assms that
      by (auto simp: unregistered_def content_def check_constraints_def list_all_iff)
    then show ?thesis
      using assms that BlobKey_inj [of "Blob_ChecksumSHA256 b" c]
      by (auto simp: unregistered_def content_def)
  qed
  with content_object [of X kek w "BlobKey c" v] assms show ?thesis by (auto simp: unregistered_def)
qed

lemma keeps_Put:
  assumes "\<And>w v. I w \<Longrightarrow> I (w\<lparr>w_objects := (w_objects w)(key := v)\<rparr>)" "\<And>w. I w \<Longrightarrow> I (next_call w)"
  shows "keeps I (store_Put key body sz)" and "keeps I (store_Delete key)"
proof -
  have "I (next_call w\<lparr>w_objects := (w_objects w)(key := v)\<rparr>)" if "I w" for w v
    using assms(1) [OF assms(2) [OF that], of v] by simp
  then show "keeps I (store_Put key body sz)" "keeps I (store_Delete key)"
    using assms(2)
    by (auto simp: keeps_def store_Put_def store_Delete_def throw_def bnd_def infra_point_def
        split: option.splits)
qed

lemmas keeps_staging = keeps_Put [of "content X kek", OF content_staging cont.next_call] for X kek
lemmas keeps_blob_object = keeps_Put [of "unregistered X kek c", OF unregistered_object unreg.next_call]
  for X kek c

section \<open>Staging\<close>

lemma ListChunks_keys:
  assumes "UploadRepo_ListChunks i w = (Inr cs, w')" "content X kek w"
  shows "\<forall>c \<in> set cs. is_staging (Chunk_StorageKey c)"
  using assms
  by (auto simp: UploadRepo_ListChunks_def sql_Inr_iff query_Inr chunks_of_def content_def chunk_keys_def)

lemma keeps_for_each_in: "(\<And>x. x \<in> set xs \<Longrightarrow> keeps I (f x)) \<Longrightarrow> keeps I (for_each f xs)"
  by (induction xs) (auto intro!: keeps_intros)

lemma keeps_content_cleanup [keeps_intros]: "keeps (content X kek) (cleanupStaging sess)"
  unfolding cleanupStaging_def
  by (rule keeps_bnd_result [where
        Q = "\<lambda>r. \<forall>cs. r = Inr cs \<longrightarrow> (\<forall>c \<in> set cs. is_staging (Chunk_StorageKey c))"])
    (auto intro!: keeps_intros keeps_for_each_in keeps_staging simp: attempt_Inr_iff
      dest: ListChunks_keys split: sum.splits)

lemma keeps_content_SaveChunk:
  assumes "is_staging (Chunk_StorageKey c)"
  shows "keeps (content X kek) (UploadRepo_SaveChunk c)"
proof (rule keepsI)
  fix w assume I: "content X kek w"
  obtain r w' where run: "UploadRepo_SaveChunk c w = (r, w')" by fastforce
  have keys: "set (map Chunk_StorageKey (upsert_chunk now c rows)) \<subseteq>
      insert (Chunk_StorageKey c) (set (map Chunk_StorageKey rows))" for now rows
    by (auto simp: upsert_chunk_def set_update_where)
  have "content X kek ((next_call w)\<lparr>w_db := (w_db w)\<lparr>upload_chunks :=
      upsert_chunk (w_dbnow w) c (upload_chunks (w_db w))\<rparr>\<rparr>)"
    if "schema_ok ((w_db w)\<lparr>upload_chunks := upsert_chunk (w_dbnow w) c (upload_chunks (w_db w))\<rparr>)"
    using I that keys [of "w_dbnow w" "upload_chunks (w_db w)"] assms
    by (auto simp: content_def chunk_keys_def)
  with run cont.next_call [OF I] have "content X kek w'"
    by (cases r) (auto simp: UploadRepo_SaveChunk_def sql_Inr_iff commit_stmt_Inr dest!: sql_InlD)
  with run show "content X kek (snd (UploadRepo_SaveChunk c w))" by simp
qed

lemma keeps_content_chunk_uc:
  "keeps (content X kek) (UploadChunk u ident i k body)" "keeps (content X kek) (Abort ident i)"
  unfolding UploadChunk_def Abort_def Let_def
  by (intro keeps_intros keeps_staging keeps_content_SaveChunk; simp add: staging_ChunkKey)+

section \<open>Transactions\<close>

text \<open>
  \<open>moves m\<close>: whatever its outcome, \<open>m\<close> only issues statements that leave the blob rows
  (but for their reference counts) and the staged keys alone.
\<close>

definition moves :: "'a action \<Rightarrow> bool" where
  "moves m \<longleftrightarrow> (\<forall>w. \<exists>d n. snd (m w) = w\<lparr>w_db := d, w_calls := n\<rparr> \<and> content_step (w_db w) d)"

named_theorems moves_intros "statements that leave the blob rows alone"

lemma content_step_refl [simp]: "content_step d d"
  by (simp add: content_step_def)

lemma content_step_trans: "content_step d d' \<Longrightarrow> content_step d' d'' \<Longrightarrow> content_step d d''"
  by (auto simp: content_step_def)

lemma movesI:
  assumes "\<And>w. w_objects (snd (m w)) = w_objects w \<and> w_locks (snd (m w)) = w_locks w
      \<and> same_env w (snd (m w)) \<and> content_step (w_db w) (w_db (snd (m w)))"
  shows "moves m"
  unfolding moves_def
proof
  fix w
  show "\<exists>d n. snd (m w) = w\<lparr>w_db := d, w_calls := n\<rparr> \<and> content_step (w_db w) d"
    using assms [of w]
    by (intro exI [of _ "w_db (snd (m w))"] exI [of _ "w_calls (snd (m w))"])
      (simp add: same_env_def world.equality)
qed

lemma movesD:
  assumes "moves m" "m w = (r, w')"
  shows "w_objects w' = w_objects w \<and> w_locks w' = w_locks w \<and> same_env w w'
    \<and> content_step (w_db w) (w_db w')"
proof -
  obtain d n where "snd (m w) = w\<lparr>w_db := d, w_calls := n\<rparr>" "content_step (w_db w) d"
    using assms(1) unfolding moves_def by blast
  then show ?thesis using assms(2) by (simp add: same_env_def)
qed

lemma moves_ret [moves_intros]: "moves (ret x)" "moves (throw e)" "moves (from_sum r)"
  by (rule movesI; simp add: ret_def throw_def from_sum_def)+

lemma moves_new_uuid [moves_intros]: "moves new_uuid" "moves clock_Now"
  by (rule movesI; simp add: new_uuid_def clock_Now_def gets_def)+

lemma moves_attempt [moves_intros]: "moves m \<Longrightarrow> moves (attempt m)"
  by (simp add: moves_def attempt_def split_beta)

lemma moves_bnd [moves_intros]:
  assumes "moves m" "\<And>x. moves (f x)"
  shows "moves (bnd m f)"
proof (rule movesI)
  fix w
  obtain r w1 where m: "m w = (r, w1)" by fastforce
  note one = movesD [OF assms(1) m]
  show "w_objects (snd (bnd m f w)) = w_objects w \<and> w_locks (snd (bnd m f w)) = w_locks w
    \<and> same_env w (snd (bnd m f w)) \<and> content_step (w_db w) (w_db (snd (bnd m f w)))"
  proof (cases r)
    case (Inr x)
    obtain r2 w2 where f: "f x w1 = (r2, w2)" by fastforce
    from movesD [OF assms(2) f] one show ?thesis
      using m f Inr by (auto simp: bnd_def intro: content_step_trans same_env_trans)
  qed (use m one in \<open>simp add: bnd_def\<close>)
qed

lemma moves_cases [moves_intros]:
  "(b \<Longrightarrow> moves m1) \<Longrightarrow> (\<not> b \<Longrightarrow> moves m2) \<Longrightarrow> moves (if b then m1 else m2)"
  "(\<And>e. moves (g e)) \<Longrightarrow> (\<And>x. moves (h x)) \<Longrightarrow> moves (case s of Inl e \<Rightarrow> g e | Inr x \<Rightarrow> h x)"
  by (auto split: sum.splits)

lemma moves_exec:
  assumes "\<And>now d a d'. st now d = Inr (a, d') \<Longrightarrow> content_step d d'"
  shows "moves (exec st)"
  using assms
  by (intro movesI) (auto simp: exec_def same_env_def split: option.splits sum.splits prod.splits)

lemma moves_sql:
  "(\<And>now d a d'. st now d = Inr (a, d') \<Longrightarrow> content_step d d') \<Longrightarrow> moves (sql st)"
  unfolding sql_def by (intro moves_intros moves_exec) auto

lemma moves_execOne:
  "(\<And>now d a d'. st now d = Inr (a, d') \<Longrightarrow> content_step d d') \<Longrightarrow> moves (execOne st)"
  unfolding execOne_def by (intro moves_intros moves_sql) auto

lemma blob_core_refs:
  "map (\<lambda>b. b\<lparr>Blob_RefCount := 0\<rparr>) (update_where P (\<lambda>b. b\<lparr>Blob_RefCount := g b\<rparr>) bs) =
     map (\<lambda>b. b\<lparr>Blob_RefCount := 0\<rparr>) bs"
  by (simp add: update_where_def)

lemmas content_stmt = commit_stmt_Inr content_step_def blob_core_def blob_core_refs chunk_keys_def
  query_Inr query_row_Inr

lemma moves_repo [moves_intros]:
  "moves (FileRepo_GetByName o' p nm)" "moves (FileRepo_Create f)"
  "moves (VersionRepo_Create v)" "moves (BlobRepo_IncrementRef i)"
  "moves (FileRepo_SetCurrentVersion i j)" "moves (VersionRepo_TotalBytes i)"
  "moves (BlobRepo_DecrementRefsForFile i)" "moves (FileRepo_Purge i)"
  "moves (UserRepo_Create u)" "moves (QuotaRepo_Create q)" "moves (QuotaRepo_Get i)"
  unfolding FileRepo_GetByName_def FileRepo_Create_def VersionRepo_Create_def
    BlobRepo_IncrementRef_def FileRepo_SetCurrentVersion_def VersionRepo_TotalBytes_def
    BlobRepo_DecrementRefsForFile_def FileRepo_Purge_def UserRepo_Create_def QuotaRepo_Create_def
    QuotaRepo_Get_def update_refs_def update_files_def delete_file_def Let_def
  by (intro moves_bnd moves_sql moves_execOne; auto simp: content_stmt split: if_splits)+

lemma moves_AddUsage [moves_intros]: "moves (QuotaRepo_AddUsage i n)"
  unfolding QuotaRepo_AddUsage_def charge_quota_def release_quota_def
  by (intro moves_intros moves_exec moves_sql; auto simp: content_stmt Let_def split: if_splits)

lemma moves_db_only: "moves m \<Longrightarrow> db_only m"
  unfolding moves_def db_only_def by blast

lemma keeps_moves_tx: "moves m \<Longrightarrow> keeps (content X kek) (WithinTx m)"
  by (rule keeps_tx_step [where R = content_step])
    (auto simp: content_calls content_resting intro: content_db moves_db_only dest: movesD)

lemma keeps_content_tx [keeps_intros]:
  "keeps (content X kek) (attachVersion sess b)"
  "keeps (content X kek) (WithinTx (restore_tx f v v'))"
  "keeps (content X kek) (WithinTx (purge_tx f))"
  "keeps (content X kek) (WithinTx (bnd (UserRepo_Create user) (\<lambda>_. QuotaRepo_Create q)))"
  unfolding attachVersion_def attach_tx_def file_for_upload_def restore_tx_def purge_tx_def
  by (intro keeps_moves_tx moves_intros)+

lemma keeps_content_accounts:
  "keeps (content X kek) (Register u e pw nm)"
  "keeps (content X kek) (RestoreVersion fu ident i vid)"
  unfolding Register_def RestoreVersion_def Let_def by (intro keeps_intros)+

section \<open>Assembly\<close>

lemma bnd_post:
  assumes "\<And>e s'. m s = (Inl e, s') \<Longrightarrow> Q s'" "\<And>x s'. m s = (Inr x, s') \<Longrightarrow> Q (snd (f x s'))"
  shows "Q (snd (bnd m f s))"
  using assms by (auto simp: bnd_def split: prod.splits sum.splits)

lemma GetByChecksum_missing:
  assumes "BlobRepo_GetByChecksum c w = (Inl ErrNotFound, w')"
  shows "\<forall>b \<in> set (blobs (w_db w)). Blob_ChecksumSHA256 b \<noteq> c" and "w' = next_call w"
  using assms
  by (auto simp: BlobRepo_GetByChecksum_def sql_def exec_def bnd_def ret_def throw_def mapErr_def
      infra_pg_def query_row_def first_row_def filter_empty_conv
      split: option.splits sum.splits prod.splits list.splits if_splits infra.splits)

lemma rand_Read_length: "rand_Read n w = (Inr bs, w') \<Longrightarrow> length bs = n"
  by (auto simp: rand_Read_def split: option.splits)

lemma producer_Inr:
  assumes "producer X dek cs w = (Inr ((ct, None), hashed), w')" "length dek = KeySize"
  shows "\<exists>prefix. length prefix = noncePrefixLen \<and>
    ct = stream_format X dek prefix (effective_segment DefaultSegmentSize) hashed"
  using assms encrypt_stream_format [OF assms(2), of X DefaultSegmentSize]
  by (auto simp: producer_def run_inv dest: rand_Read_length)

lemma WrapKey_Inr:
  assumes "WrapKey X kek dek nonce = Inr wrapped" "length nonce = nonceLen" "aead_ok X"
  shows "UnwrapKey X kek wrapped = Inr dek"
proof -
  have "length kek = KeySize"
    using assms(1) by (auto simp: WrapKey_def newGCM_def split: if_splits)
  then show ?thesis using UnwrapKey_WrapKey [of X kek nonce dek] assms by auto
qed

lemma keeps_unreg_store:
  "keeps (unregistered X kek (Upload_ChecksumSHA256 sess)) (assemble_store u sess)"
  unfolding assemble_store_def Let_def by (intro keeps_intros keeps_blob_object)

lemma assemble_store_Inr:
  assumes "assemble_store u sess w = (Inr b, w')" "aead_ok (up_ext u)"
    and "0 \<le> Upload_SizeBytes sess" "Upload_SizeBytes sess < 2 ^ 63"
  shows "blob_stored (up_ext u) (up_kek u) (w_objects w') b"
proof -
  from assms(1) obtain dek nonce wrapped cs ct hashed w1 w2 w3 w4 w5 where
    dek: "NewDEK w1 = (Inr dek, w2)" and nonce: "rand_Read nonceLen w2 = (Inr nonce, w3)"
    and wrap: "WrapKey (up_ext u) (up_kek u) dek nonce = Inr wrapped"
    and prod: "producer (up_ext u) dek cs w3 = (Inr ((ct, None), hashed), w4)"
    and put: "int (length ct) = EncryptedSize (Upload_SizeBytes sess) DefaultSegmentSize"
      "w_objects w' (BlobKey (Upload_ChecksumSHA256 sess)) = Some ct"
    and sum: "X_sha256 (up_ext u) hashed = Upload_ChecksumSHA256 sess"
    and b: "Blob_ChecksumSHA256 b = Upload_ChecksumSHA256 sess"
      "Blob_SizeBytes b = Upload_SizeBytes sess" "Blob_WrappedDEK b = wrapped"
      "Blob_StorageKey b = BlobKey (Upload_ChecksumSHA256 sess)"
    by (auto simp: assemble_store_def run_inv Let_def store_Put_Inr_iff new_uuid_run
        split: if_splits prod.splits)
  have len: "length dek = KeySize" using dek by (auto simp: NewDEK_def dest: rand_Read_length)
  obtain prefix where p: "length prefix = noncePrefixLen"
    "ct = stream_format (up_ext u) dek prefix (effective_segment DefaultSegmentSize) hashed"
    using producer_Inr [OF prod len] by blast
  have "int (length hashed) = Upload_SizeBytes sess"
    using EncryptedSize_inj [OF assms(2) len p(1) assms(3,4), of hashed] put(1) p(2) by simp
  moreover have "UnwrapKey (up_ext u) (up_kek u) wrapped = Inr dek"
    using WrapKey_Inr [OF wrap _ assms(2)] nonce rand_Read_length by blast
  ultimately show ?thesis unfolding blob_stored_def using len p put(2) sum b by auto
qed

lemma content_register:
  assumes "unregistered X kek c w" "Blob_StorageKey b = BlobKey c" "Blob_ChecksumSHA256 b = c"
    and "aead_ok X \<Longrightarrow> blob_stored X kek (w_objects w) b"
  shows "content X kek (snd (BlobRepo_Create b w))"
proof -
  obtain r w' where run: "BlobRepo_Create b w = (r, w')" by fastforce
  have "content X kek (next_call w)" using unreg.next_call [OF assms(1)] by (simp add: unregistered_def)
  then have "content X kek w'"
    using run assms
    by (cases r) (auto simp: BlobRepo_Create_def sql_Inr_iff commit_stmt_Inr unregistered_def
        content_def chunk_keys_def dest!: sql_InlD)
  then show ?thesis using run by simp
qed

lemma assembled_row:
  "assemble_store u sess w = (Inr b, w') \<Longrightarrow>
    Blob_StorageKey b = BlobKey (Upload_ChecksumSHA256 sess) \<and>
    Blob_ChecksumSHA256 b = Upload_ChecksumSHA256 sess"
  by (auto simp: assemble_store_def run_inv Let_def split: if_splits prod.splits)

lemma content_assembleBlob:
  assumes "unregistered (up_ext u) (up_kek u) (Upload_ChecksumSHA256 sess) w"
    and "0 \<le> Upload_SizeBytes sess" "Upload_SizeBytes sess < 2 ^ 63"
  shows "content (up_ext u) (up_kek u) (snd (assembleBlob u sess w))"
  unfolding assembleBlob_def
proof (rule bnd_post)
  fix e s' assume "assemble_store u sess w = (Inl e, s')"
  then show "content (up_ext u) (up_kek u) s'"
    using keeps_run [OF keeps_unreg_store assms(1)] by (simp add: unregistered_def)
next
  fix b s' assume run: "assemble_store u sess w = (Inr b, s')"
  have "content (up_ext u) (up_kek u) (snd (BlobRepo_Create b s'))"
    using keeps_run [OF keeps_unreg_store assms(1) run] assembled_row [OF run]
      assemble_store_Inr [OF run _ assms(2,3)] by (auto intro: content_register)
  then have "content (up_ext u) (up_kek u) s2" if "attempt (BlobRepo_Create b) s' = (Inr r, s2)" for r s2
    using that by (auto simp: attempt_Inr_iff)
  then show "content (up_ext u) (up_kek u) (snd (assemble_register sess b s'))"
    unfolding assemble_register_def
    by (intro bnd_post [where Q = "content (up_ext u) (up_kek u)"]; (simp; fail)?)
      (rule keepsD, intro keeps_intros, blast)
qed

lemma keeps_content_blob_for_upload:
  assumes "length (Upload_ChecksumSHA256 sess) = 32" "0 < Upload_SizeBytes sess"
    "Upload_SizeBytes sess < 2 ^ 63"
  shows "keeps (content (up_ext u) (up_kek u)) (blob_for_upload u sess)"
  unfolding blob_for_upload_def
proof (intro keepsI, rule bnd_post [where Q = "content (up_ext u) (up_kek u)"]; (simp; fail)?)
  let ?c = "Upload_ChecksumSHA256 sess" and ?I = "content (up_ext u) (up_kek u)"
  fix w r w' assume I: "?I w" and run: "attempt (BlobRepo_GetByChecksum ?c) w = (Inr r, w')"
  have "keeps ?I (attempt (BlobRepo_GetByChecksum ?c))" by (intro keeps_intros)
  from keepsD [OF this I] run have I': "?I w'" by simp
  show "?I (snd ((case r of Inr blob \<Rightarrow> ret blob
      | Inl err \<Rightarrow> if \<not> errIs err [ErrNotFound] then throw err else assembleBlob u sess) w'))"
  proof (cases "r = Inl ErrNotFound")
    case True
    then have "unregistered (up_ext u) (up_kek u) ?c w'"
      using run GetByChecksum_missing [of ?c w w'] I I' assms(1)
      by (auto simp: unregistered_def attempt_Inr_iff)
    with content_assembleBlob [OF this] assms True show ?thesis by (simp add: errIs_def)
  qed (use I' in \<open>auto simp: errIs_def ret_def throw_def split: sum.splits\<close>)
qed

definition session_fits :: "UploadSession \<Rightarrow> bool" where
  "session_fits sess \<longleftrightarrow> length (Upload_ChecksumSHA256 sess) = 32 \<and> 0 < Upload_SizeBytes sess \<and>
     Upload_SizeBytes sess < 2 ^ 63"

lemma session_constraints:
  assumes "content X kek w" "sess \<in> set (upload_sessions (w_db w))"
  shows "session_fits sess"
  using schema_okD(1,2) [of "w_db w"] assms
  by (auto simp: content_def session_fits_def check_constraints_def column_ranges_def list_all_iff
      bigint_def int64_ok_def)

lemma keeps_content_Complete: "keeps (content (up_ext u) (up_kek u)) (Complete u ident i)"
  unfolding Complete_def
proof (rule keeps_bnd_result [where Q = session_fits])
  show "keeps (content (up_ext u) (up_kek u)) (activeSession ident i)" by (intro keeps_intros)
next
  fix sess assume "session_fits sess"
  then have "keeps (content (up_ext u) (up_kek u)) (blob_for_upload u sess)"
    by (intro keeps_content_blob_for_upload) (simp_all add: session_fits_def)
  then show "keeps (content (up_ext u) (up_kek u))
      (bnd (TryLock (''upload-complete:'' @ X_uuid_String (up_ext u) (Upload_ID sess))
        completion_lock_ttl) (\<lambda>l. case l of None \<Rightarrow> throw ErrAlreadyExists
      | Some lock \<Rightarrow> finally_do (Complete_locked u ident sess) (release_lock lock)))"
    unfolding Complete_locked_def by (intro keeps_intros cont.keeps_release)
qed (auto dest!: activeSession_Inr(1) intro: session_constraints)

section \<open>Sweeps\<close>

lemma keeps_content_sweeps:
  "keeps (content X kek) (sweepExpiredUploads cfg)" "keeps (content X kek) (sweepTrash cfg)"
  unfolding sweepExpiredUploads_def submit_cleanup_def CleanupSession_def sweepTrash_def
  by (intro keeps_intros keeps_count_each)+

text \<open>
  The sweep of orphaned blobs deletes the object first and then the row. When no call fails,
  both go, and an unreferenced row can always go.
\<close>

definition fault_free :: "world \<Rightarrow> bool" where
  "fault_free w \<longleftrightarrow> (\<forall>n. w_faults w n = None)"

lemma delete_blob_schema:
  assumes "accounting d"
  shows "schema_ok (d\<lparr>blobs := filter (\<lambda>b. \<not> (Blob_ID b = i \<and> Blob_RefCount b = 0)) (blobs d)\<rparr>)"
proof -
  let ?P = "\<lambda>b. \<not> (Blob_ID b = i \<and> Blob_RefCount b = 0)"
  note ok = schema_okD [of d]
  have sch: "schema_ok d" using assms by (simp add: accounting_def)
  have "Version_BlobID v \<in> Blob_ID ` set (filter ?P (blobs d))"
    if v: "v \<in> set (file_versions d)" for v
  proof -
    obtain b where b: "b \<in> set (blobs d)" "Blob_ID b = Version_BlobID v"
      using ok(4) [OF sch] v by (auto simp: foreign_keys_def Let_def list_all_iff ref_in_def)
    then have "Blob_RefCount b = refs d (Version_BlobID v)"
      using assms by (auto simp: accounting_def refcounts_ok_def list_all_iff)
    then have "Blob_RefCount b \<noteq> 0" using v by (auto simp: refs_def filter_empty_conv)
    then have "b \<in> set (filter ?P (blobs d))" using b by simp
    then show ?thesis using b(2) by (metis imageI)
  qed
  then have "foreign_keys (d\<lparr>blobs := filter ?P (blobs d)\<rparr>)"
    using ok(4) [OF sch] by (simp add: foreign_keys_def Let_def list_all_iff ref_in_def del: set_filter)
  then show ?thesis
    using ok(1-3) [OF sch]
    by (simp add: schema_ok_iff column_ranges_def check_constraints_def unique_constraints_def
        list_all_iff distinct_map_filter)
qed

lemma collect_blob_run:
  assumes "fault_free w" "accounting (w_db w)" "b \<in> set (blobs (w_db w))" "Blob_RefCount b = 0"
  shows "collect_blob b w = (Inr (), (next_call (next_call w))
    \<lparr>w_objects := (w_objects w)(Blob_StorageKey b := None),
     w_db := (w_db w)\<lparr>blobs := filter (\<lambda>b'. \<not> (Blob_ID b' = Blob_ID b \<and> Blob_RefCount b' = 0))
       (blobs (w_db w))\<rparr>\<rparr>)"
proof -
  have "schema_ok ((w_db w)\<lparr>blobs := filter (\<lambda>b'. \<not> (Blob_ID b' = Blob_ID b \<and> Blob_RefCount b' = 0))
       (blobs (w_db w))\<rparr>)"
    using delete_blob_schema [OF assms(2)] .
  then have "violation ((w_db w)\<lparr>blobs := filter (\<lambda>b'. Blob_ID b' = Blob_ID b \<longrightarrow> Blob_RefCount b' \<noteq> 0)
       (blobs (w_db w))\<rparr>) = None"
    by (simp add: schema_ok_def)
  moreover have "rows_affected (\<lambda>b'. Blob_ID b' = Blob_ID b \<and> Blob_RefCount b' = 0) (blobs (w_db w)) \<noteq> 0"
    using assms by (auto simp: rows_affected_def filter_empty_conv)
  ultimately show ?thesis
    using assms(1)
    by (simp add: collect_blob_def store_Delete_def BlobRepo_Delete_def execOne_def sql_def exec_def
        bnd_def attempt_def ret_def throw_def infra_point_def fault_free_def commit_stmt_def Let_def
        next_call_def)
qed

lemma collect_blob_content:
  assumes "fault_free w" "accounting (w_db w)" "content X kek w" "b \<in> set (blobs (w_db w))"
    "Blob_RefCount b = 0"
  shows "content X kek (snd (collect_blob b w))"
proof -
  let ?d = "(w_db w)\<lparr>blobs := filter (\<lambda>b'. \<not> (Blob_ID b' = Blob_ID b \<and> Blob_RefCount b' = 0))
       (blobs (w_db w))\<rparr>"
  have sch: "schema_ok (w_db w)" using assms(2) by (simp add: accounting_def)
  have other: "Blob_StorageKey b' \<noteq> Blob_StorageKey b"
    if "b' \<in> set (blobs (w_db w))" "Blob_ID b' \<noteq> Blob_ID b" for b'
  proof -
    have "Blob_ChecksumSHA256 b' \<noteq> Blob_ChecksumSHA256 b"
      using schema_okD(3) [OF sch] that assms(4)
      by (auto simp: unique_constraints_def distinct_map inj_on_def)
    moreover have "length (Blob_ChecksumSHA256 b) = 32" "length (Blob_ChecksumSHA256 b') = 32"
      using schema_okD(2) [OF sch] that assms(4) by (auto simp: check_constraints_def list_all_iff)
    ultimately show ?thesis
      using assms(3,4) that BlobKey_inj by (fastforce simp: content_def)
  qed
  have same: "b' = b" if "b' \<in> set (blobs (w_db w))" "Blob_ID b' = Blob_ID b" for b'
    using schema_okD(3) [OF sch] that assms(4)
    by (auto simp: unique_constraints_def distinct_map inj_on_def)
  have "b' \<in> set (blobs (w_db w)) \<and> Blob_StorageKey b' \<noteq> Blob_StorageKey b"
    if "b' \<in> set (blobs ?d)" for b'
    using that same [of b'] other [of b'] assms(5) by auto
  then show ?thesis
    unfolding collect_blob_run [OF assms(1,2,4,5)]
    using delete_blob_schema [OF assms(2)] assms(3)
    by (auto simp: content_def chunk_keys_def blob_stored_other)
qed

lemma keeps_accounting_collect: "keeps (at_rest accounting) (collect_blob b)"
  unfolding collect_blob_def by (intro keeps_intros)

lemma collect_all_content:
  assumes "fault_free w" "at_rest accounting w" "content X kek w" "distinct (map Blob_ID bs)"
    "set bs \<subseteq> {b \<in> set (blobs (w_db w)). Blob_RefCount b = 0}"
  shows "content X kek (snd (count_each collect_blob bs w))"
  using assms
proof (induction bs arbitrary: w)
  case (Cons b bs)
  have b: "accounting (w_db w)" "b \<in> set (blobs (w_db w))" "Blob_RefCount b = 0"
    using Cons.prems by (auto simp: at_rest_def)
  note run = collect_blob_run [OF Cons.prems(1) b]
  have "content X kek (snd (count_each collect_blob bs (snd (collect_blob b w))))"
  proof (rule Cons.IH)
    show "fault_free (snd (collect_blob b w))"
      using Cons.prems(1) unfolding run by (simp add: fault_free_def)
    show "set bs \<subseteq> {b' \<in> set (blobs (w_db (snd (collect_blob b w)))). Blob_RefCount b' = 0}"
      using Cons.prems(4,5) unfolding run by (force simp: image_iff)
    show "at_rest accounting (snd (collect_blob b w))"
      by (rule keepsD [OF keeps_accounting_collect Cons.prems(2)])
  qed (use Cons.prems collect_blob_content b in auto)
  then show ?case
    by (auto simp: bnd_def attempt_def ret_def split: prod.splits sum.splits)
qed (simp add: ret_def)

lemma sweepOrphanedBlobs_content:
  assumes "fault_free w" "at_rest accounting w" "content X kek w"
  shows "content X kek (snd (sweepOrphanedBlobs cfg w))"
proof -
  let ?bs = "\<lambda>now. take (gc_batch cfg) (sort_key Blob_CreatedAt (filter (\<lambda>b. Blob_RefCount b = 0 \<and>
      Blob_CreatedAt b < now) (blobs (w_db w))))"
  have "distinct (map Blob_ID (blobs (w_db w)))"
    using assms(3) schema_okD(3) [of "w_db w"] by (auto simp: content_def unique_constraints_def)
  then have "distinct (map Blob_ID (?bs now))" for now
    by (auto simp: distinct_map inj_on_def dest!: in_set_takeD)
  then have "content X kek (snd (count_each collect_blob (?bs now) (next_call w)))" for now
    using assms by (intro collect_all_content)
      (auto simp: fault_free_def cont.next_call dest!: in_set_takeD)
  then show ?thesis
    using assms(1)
    by (simp add: sweepOrphanedBlobs_def clock_Now_def gets_def bnd_def attempt_def
        BlobRepo_ListOrphaned_def sql_def exec_def query_def fault_free_def ret_def
        next_call_same_db)
qed

section \<open>Reading back\<close>

lemma stored_reads:
  assumes "blob_stored X kek objs b" "aead_ok X" "UnwrapKey X kek (Blob_WrappedDEK b) = Inr dek"
    "objs (Blob_StorageKey b) = Some obj" 
  shows "\<exists>rc plain. NewStreamReader obj dek DefaultSegmentSize = Inr rc \<and> ReadAll X n rc = (plain, None) \<and>
    X_sha256 X plain = Blob_ChecksumSHA256 b \<and> int (length plain) = Blob_SizeBytes b"
proof -
  obtain plain prefix where p: "length dek = KeySize" "length prefix = noncePrefixLen"
    "obj = stream_format X dek prefix (effective_segment DefaultSegmentSize) plain"
    "X_sha256 X plain = Blob_ChecksumSHA256 b" "int (length plain) = Blob_SizeBytes b"
    using assms by (auto simp: blob_stored_def)
  have "decrypt_stream X n obj dek DefaultSegmentSize = Inr plain"
    using decrypt_stream_format [OF assms(2) p(1,2), of "effective_segment DefaultSegmentSize"
        DefaultSegmentSize n plain "[]"] p(3)
    by (simp add: effective_segment_def DefaultSegmentSize_def aead_Overhead_def)
  then show ?thesis
    using p(4,5) by (auto simp: decrypt_stream_def split: sum.splits prod.splits option.splits)
qed

text \<open>The version and the blob behind a file's current version, as the queries find them.\<close>

lemma current_rows:
  assumes "schema_ok d" "g \<in> set (files d)" "File_CurrentVersionID g = Some vid"
  shows "\<exists>v b. filter (\<lambda>v. Version_ID v = vid) (file_versions d) = [v] \<and>
    filter (\<lambda>b. Blob_ID b = Version_BlobID v) (blobs d) = [b] \<and> b \<in> set (blobs d) \<and>
    File_ChecksumSHA256 (fileSelect d g) = Blob_ChecksumSHA256 b"
proof -
  note ok = schema_okD(3,4) [OF assms(1)]
  obtain v where v: "v \<in> set (file_versions d)" "Version_ID v = vid"
    using ok(2) assms(2,3) by (force simp: foreign_keys_def Let_def list_all_iff opt_ref_in_def)
  obtain b where b: "b \<in> set (blobs d)" "Blob_ID b = Version_BlobID v"
    using ok(2) v by (force simp: foreign_keys_def Let_def list_all_iff ref_in_def)
  have "filter (\<lambda>v. Version_ID v = vid) (file_versions d) = [v]"
    "filter (\<lambda>b. Blob_ID b = Version_BlobID v) (blobs d) = [b]"
    using ok(1) v b distinct_filter_single [of Version_ID "file_versions d" v]
      distinct_filter_single [of Blob_ID "blobs d" b] by (auto simp: unique_constraints_def)
  with b assms(3) show ?thesis by (simp add: fileSelect_def)
qed

lemma OpenFileContent_reads:
  assumes "content (fu_ext u) (fu_kek u) w" "aead_ok (fu_ext u)" "g \<in> set (files (w_db w))"
    and "OpenFileContent u (fileSelect (w_db w) g) w = (Inr rc, w')"
  shows "\<exists>plain. ReadAll (fu_ext u) n rc = (plain, None) \<and>
    X_sha256 (fu_ext u) plain = File_ChecksumSHA256 (fileSelect (w_db w) g) \<and>
    (\<exists>b \<in> set (blobs (w_db w)). Blob_ChecksumSHA256 b = File_ChecksumSHA256 (fileSelect (w_db w) g) \<and>
       Blob_SizeBytes b = int (length plain))"
proof -
  obtain vid where vid: "File_CurrentVersionID g = Some vid"
    using assms(4) by (auto simp: OpenFileContent_def split: option.splits)
  have sch: "schema_ok (w_db w)" using assms(1) by (simp add: content_def)
  obtain v b where rows: "filter (\<lambda>v. Version_ID v = vid) (file_versions (w_db w)) = [v]"
    "filter (\<lambda>b. Blob_ID b = Version_BlobID v) (blobs (w_db w)) = [b]" "b \<in> set (blobs (w_db w))"
    "File_ChecksumSHA256 (fileSelect (w_db w) g) = Blob_ChecksumSHA256 b"
    using current_rows [OF sch assms(3) vid] by blast
  have stored: "blob_stored (fu_ext u) (fu_kek u) (w_objects w) b"
    using assms(1,2) rows(3) by (simp add: content_def)
  obtain dek obj where "UnwrapKey (fu_ext u) (fu_kek u) (Blob_WrappedDEK b) = Inr dek"
    "w_objects w (Blob_StorageKey b) = Some obj" "NewStreamReader obj dek DefaultSegmentSize = Inr rc"
    using assms(4) vid rows(1,2)
    by (auto simp: OpenFileContent_def run_inv VersionRepo_GetByID_def BlobRepo_GetByID_def sql_Inr_iff
        query_row_Inr versionSelect_def store_Get_Inr_iff)
  with stored_reads [OF stored assms(2), of dek obj n] rows(3,4) show ?thesis by force
qed

section \<open>Reachable states\<close>

text \<open>All requests; the sweep of orphaned blobs only while its calls succeed.\<close>

definition blob_sweep_succeeds :: "request \<Rightarrow> world \<Rightarrow> bool" where
  "blob_sweep_succeeds r w \<longleftrightarrow> (r = SweepBlobs \<longrightarrow> fault_free w)"

definition sound_storage :: "system \<Rightarrow> world \<Rightarrow> bool" where
  "sound_storage S w \<longleftrightarrow> at_rest accounting w \<and> content (sys_ext S) (sys_kek S) w"

lemma keeps_sound:
  "keeps (at_rest accounting) m \<Longrightarrow> keeps (content (sys_ext S) (sys_kek S)) m \<Longrightarrow> keeps (sound_storage S) m"
  by (simp add: keeps_def sound_storage_def)

interpretation storage: request_invariant "sound_storage S" blob_sweep_succeeds S for S
proof unfold_locales
  note acc = acc.neutral_db and con = cont.neutral_db
  show "\<not> w_in_tx w" if "sound_storage S w" for w
    using that by (simp add: sound_storage_def at_rest_def)
  show "sound_storage S (w\<lparr>w_calls := n\<rparr>)" "sound_storage S (w\<lparr>w_locks := l\<rparr>)"
    if "sound_storage S w" for w n l
    using that by (simp_all add: sound_storage_def at_rest_def content_calls)
  show "sound_storage S (w\<lparr>w_db := d\<rparr>)" if "sound_storage S w" "neutral_step (w_db w) d" for w d
    using that acc [of w d] con [of "sys_ext S" "sys_kek S" w d] by (simp add: sound_storage_def)
  show "sound_storage S w" if "initial w" for w
    using that acc_sys.starts [of w]
    by (simp add: sound_storage_def content_def initial_def schema_ok_empty)
      (simp add: empty_db_def chunk_keys_def)
  show "sound_storage S w'" if "sound_storage S w" "environment w w'" for w w'
    using that by (simp add: sound_storage_def environment_def at_rest_def content_def)
  show "sound_storage S (run_request S r w)"
    if "r \<in> {SweepUploads, SweepTrash, SweepBlobs}" "blob_sweep_succeeds r w" "sound_storage S w" for r w
    using that acc_sys.sweeps [of r w S] keepsD [OF keeps_content_sweeps(1)]
      keepsD [OF keeps_content_sweeps(2)] sweepOrphanedBlobs_content [of w]
    by (auto simp: sound_storage_def any_request_def blob_sweep_succeeds_def)
  show "keeps (sound_storage S) (Complete (upload_uc S) ident i)" for ident i
    using keeps_content_Complete [of "upload_uc S" ident i]
    by (intro keeps_sound keeps_Complete) (simp add: upload_uc_def)
qed (rule keeps_sound; rule keeps_Register keeps_chunk_uc keeps_RestoreVersion
    keeps_content_accounts keeps_content_chunk_uc)+

end
