(* ===== verification/Integrity_Props.thy ===== *)
theory Integrity_Props
  imports Demo Integrity
begin

text \<open>
  Stored content: what the reachable states promise of every blob, that a download delivers it,
  and what a failing sweep of orphaned blobs leaves behind.
\<close>

section \<open>An installation with a stored object\<close>

definition stored_world :: world where
  "stored_world = (demo_world demo_db)\<lparr>w_objects := [BlobKey demo_checksum \<mapsto>
     stream_format demo_ext (replicate 32 6) (replicate 8 3) (effective_segment DefaultSegmentSize)
       [1, 2, 3]]\<rparr>"

lemma stored_world_fields [simp]:
  "w_db stored_world = demo_db" "w_in_tx stored_world = False" "fault_free stored_world"
  by (simp_all add: stored_world_def fault_free_def)

lemma demo_system_fields [simp]: "sys_ext demo_system = demo_ext" "sys_kek demo_system = replicate 32 5"
  by (simp_all add: demo_system_def)

lemma blob_stored_demo: "blob_stored demo_ext (replicate 32 5) (w_objects stored_world) demo_blob"
  unfolding blob_stored_def
proof (intro exI conjI)
  show "UnwrapKey demo_ext (replicate 32 5) (Blob_WrappedDEK demo_blob) = Inr (replicate 32 6)"
    using UnwrapKey_WrapKey [OF aead_ok_demo, of "replicate 32 5" "replicate 12 9" "replicate 32 6"]
    by (auto simp: KeySize_def nonceLen_def WrapKey_def newGCM_def demo_blob_def demo_wrapped_def
        demo_ext_def)
qed (auto simp: stored_world_def demo_blob_def KeySize_def noncePrefixLen_def demo_ext_def demo_checksum_def)

lemma sound_stored_world: "sound_storage demo_system stored_world"
  using blob_stored_demo schema_ok_demo accounting_demo
  by (simp add: sound_storage_def at_rest_def content_def)
    (simp add: demo_db_def empty_db_def chunk_keys_def demo_blob_def)

section \<open>Downloads\<close>

lemma sound_reachable:
  "initial w0 \<or> sound_storage S w0 \<Longrightarrow> reachable blob_sweep_succeeds S w0 w \<Longrightarrow> sound_storage S w"
  using storage.invariant storage.from_initial by blast

lemma download_reads:
  assumes sound: "sound_storage S w" and aead: "aead_ok (sys_ext S)"
    and run: "OpenDownload (file_uc S) ident i w = (Inr (rc, f), w')"
  shows "\<exists>plain. ReadAll (sys_ext S) n rc = (plain, None) \<and>
    X_sha256 (sys_ext S) plain = File_ChecksumSHA256 f \<and>
    (\<exists>b \<in> set (blobs (w_db w)). Blob_ChecksumSHA256 b = File_ChecksumSHA256 f \<and>
       Blob_SizeBytes b = int (length plain))"
proof -
  obtain w1 w2 where auth: "authorizeFile ident i PermissionViewer (w_clock w) w = (Inr f, w1)"
    and opened: "OpenFileContent (file_uc S) f w1 = (Inr rc, w2)"
    using run by (auto simp: OpenDownload_def run_inv clock_Now_run split: if_splits)
  obtain g where g: "g \<in> set (files (w_db w))" "f = fileSelect (w_db w) g"
    using authorizeFile_sound(1) [OF auth] by blast
  have db: "w_db w1 = w_db w" by (rule authorizeFile_sound(2) [OF auth])
  have "keeps (sound_storage S) (authorizeFile ident i PermissionViewer (w_clock w))"
    by (rule storage.keeps_authorizeFile)
  from keepsD [OF this sound] auth
  have "content (fu_ext (file_uc S)) (fu_kek (file_uc S)) w1"
    by (simp add: sound_storage_def file_uc_def)
  from OpenFileContent_reads [OF this, of g rc w2 n] aead g opened db show ?thesis
    by (simp add: file_uc_def)
qed

lemma OpenFileContent_succeeds:
  assumes "content (fu_ext u) (fu_kek u) w" "aead_ok (fu_ext u)" "g \<in> set (files (w_db w))"
    and "File_CurrentVersionID g \<noteq> None" "fault_free w"
  shows "\<exists>rc w'. OpenFileContent u (fileSelect (w_db w) g) w = (Inr rc, w')"
proof -
  obtain vid where vid: "File_CurrentVersionID g = Some vid" using assms(4) by blast
  have sch: "schema_ok (w_db w)" using assms(1) by (simp add: content_def)
  obtain v b where rows: "filter (\<lambda>v. Version_ID v = vid) (file_versions (w_db w)) = [v]"
    "filter (\<lambda>b. Blob_ID b = Version_BlobID v) (blobs (w_db w)) = [b]" "b \<in> set (blobs (w_db w))"
    using current_rows [OF sch assms(3) vid] by blast
  have stored: "blob_stored (fu_ext u) (fu_kek u) (w_objects w) b"
    using assms(1,2) rows(3) by (simp add: content_def)
  then obtain dek obj where d: "UnwrapKey (fu_ext u) (fu_kek u) (Blob_WrappedDEK b) = Inr dek"
    "w_objects w (Blob_StorageKey b) = Some obj" by (auto simp: blob_stored_def)
  obtain rc where "NewStreamReader obj dek DefaultSegmentSize = Inr rc"
    using stored_reads [OF stored assms(2) d] by blast
  moreover have "File_CurrentVersionID (fileSelect (w_db w) g) = Some vid"
    using vid by (simp add: fileSelect_def split: list.splits)
  ultimately show ?thesis
    using assms(5) rows(1,2) d
    by (simp add: OpenFileContent_def VersionRepo_GetByID_def BlobRepo_GetByID_def versionSelect_def
        run_simps store_Get_def infra_point_def fault_free_def)
qed

lemma owner_download_opens:
  assumes sound: "sound_storage S w" and aead: "aead_ok (sys_ext S)" and ff: "fault_free w"
    and g: "g \<in> set (files (w_db w))" "File_OwnerID g = Identity_UserID ident"
    "\<not> File_IsDeleted g" "File_CurrentVersionID g \<noteq> None"
  shows "\<exists>rc f w'. OpenDownload (file_uc S) ident (File_ID g) w = (Inr (rc, f), w') \<and>
    File_ID f = File_ID g"
proof -
  let ?u = "file_uc S" and ?f = "fileSelect (w_db w) g"
  have con: "content (fu_ext ?u) (fu_kek ?u) (next_call w)" and sch: "schema_ok (w_db w)"
    using sound cont.next_call by (simp_all add: sound_storage_def file_uc_def content_def)
  have f: "File_OwnerID ?f = File_OwnerID g" "File_IsDeleted ?f = File_IsDeleted g"
    "File_ID ?f = File_ID g"
    by (simp_all add: fileSelect_def split: option.splits list.splits)
  have "filter (\<lambda>f. File_ID f = File_ID g) (files (w_db w)) = [g]"
    using schema_okD(3) [OF sch] g by (auto simp: unique_constraints_def intro!: distinct_filter_single)
  then have auth: "authorizeFile ident (File_ID g) PermissionViewer (w_clock w) w = (Inr ?f, next_call w)"
    using g f ff by (simp add: authorizeFile_def FileRepo_GetByID_def run_simps fault_free_def)
  obtain rc w1 where rc: "OpenFileContent ?u ?f (next_call w) = (Inr rc, w1)"
    using OpenFileContent_succeeds [OF con, of g] aead ff g by (auto simp: fault_free_def file_uc_def)
  have "\<exists>w'. OpenDownload ?u ident (File_ID g) w = (Inr (rc, ?f), w')"
    using auth rc f g
    by (simp add: OpenDownload_def clock_Now_def gets_def Auditor_Record_def bnd_def ret_def ignore_def)
  with f show ?thesis by blast
qed

section \<open>Properties\<close>

text \<open>
  C5: In every reachable state (from an empty installation, with blob sweeps that complete) every
  blob row has its object, which decrypts under the row's wrapped key, completely and without
  error, to exactly the recorded number of bytes with the recorded checksum.
\<close>

theorem stored_content_intact:
  assumes "initial w0 \<or> sound_storage S w0" "reachable blob_sweep_succeeds S w0 w"
    and "aead_ok (sys_ext S)" "b \<in> set (blobs (w_db w))"
  shows "\<exists>dek obj plain. UnwrapKey (sys_ext S) (sys_kek S) (Blob_WrappedDEK b) = Inr dek \<and>
    w_objects w (BlobKey (Blob_ChecksumSHA256 b)) = Some obj \<and>
    decrypt_stream (sys_ext S) n obj dek DefaultSegmentSize = Inr plain \<and>
    X_sha256 (sys_ext S) plain = Blob_ChecksumSHA256 b \<and> int (length plain) = Blob_SizeBytes b"
proof -
  have "sound_storage S w" by (rule sound_reachable [OF assms(1,2)])
  then have b: "blob_stored (sys_ext S) (sys_kek S) (w_objects w) b"
    "Blob_StorageKey b = BlobKey (Blob_ChecksumSHA256 b)"
    using assms(3,4) by (auto simp: sound_storage_def content_def)
  then obtain dek obj where d: "UnwrapKey (sys_ext S) (sys_kek S) (Blob_WrappedDEK b) = Inr dek"
    "w_objects w (Blob_StorageKey b) = Some obj" by (auto simp: blob_stored_def)
  from stored_reads [OF b(1) assms(3) d, of n] d b(2) show ?thesis
    by (auto simp: decrypt_stream_def)
qed

theorem stored_content_intact_witness:
  "\<exists>dek obj plain. UnwrapKey demo_ext (replicate 32 5) (Blob_WrappedDEK demo_blob) = Inr dek \<and>
    w_objects stored_world (BlobKey (Blob_ChecksumSHA256 demo_blob)) = Some obj \<and>
    decrypt_stream demo_ext 0 obj dek DefaultSegmentSize = Inr plain \<and>
    X_sha256 demo_ext plain = Blob_ChecksumSHA256 demo_blob \<and> int (length plain) = Blob_SizeBytes demo_blob"
  using stored_content_intact [of stored_world demo_system stored_world demo_blob 0]
    sound_stored_world aead_ok_demo reachable.start
  by (simp add: demo_db_def)

theorem download_intact:
  assumes "initial w0 \<or> sound_storage S w0" "reachable blob_sweep_succeeds S w0 w"
    and "aead_ok (sys_ext S)" "OpenDownload (file_uc S) ident i w = (Inr (rc, f), w')"
  shows "\<exists>plain. ReadAll (sys_ext S) n rc = (plain, None) \<and>
    X_sha256 (sys_ext S) plain = File_ChecksumSHA256 f"
  using download_reads [OF sound_reachable [OF assms(1,2)] assms(3,4)] by blast

theorem download_intact_witness:
  "\<exists>rc f w' plain. OpenDownload (file_uc demo_system) (demo_ident 1) 10 stored_world = (Inr (rc, f), w') \<and>
    ReadAll demo_ext 5 rc = (plain, None) \<and> X_sha256 demo_ext plain = File_ChecksumSHA256 f"
proof -
  have "demo_file \<in> set (files (w_db stored_world))" by (simp add: demo_db_def)
  then obtain rc f w' where
    "OpenDownload (file_uc demo_system) (demo_ident 1) 10 stored_world = (Inr (rc, f), w')"
    using owner_download_opens [OF sound_stored_world, of demo_file "demo_ident 1"] aead_ok_demo
    by (auto simp: demo_file_def demo_ident_def)
  with download_intact [of stored_world demo_system stored_world "demo_ident 1" 10 rc f w' 5]
  show ?thesis using sound_stored_world aead_ok_demo reachable.start by auto
qed

text \<open>
  C35: In every state reachable with blob sweeps that complete, when the backends answer, the
  owner of a live file with a current version can open it, and reading it to the end delivers the
  content whose checksum the file shows.
\<close>

theorem download_available:
  assumes "initial w0 \<or> sound_storage S w0" "reachable blob_sweep_succeeds S w0 w"
    and "aead_ok (sys_ext S)" "fault_free w"
    and "g \<in> set (files (w_db w))" "File_OwnerID g = Identity_UserID ident"
    and "\<not> File_IsDeleted g" "File_CurrentVersionID g \<noteq> None"
  shows "\<exists>rc f w' plain. OpenDownload (file_uc S) ident (File_ID g) w = (Inr (rc, f), w') \<and>
    File_ID f = File_ID g \<and> ReadAll (sys_ext S) n rc = (plain, None) \<and>
    X_sha256 (sys_ext S) plain = File_ChecksumSHA256 f"
  using owner_download_opens [OF sound_reachable [OF assms(1,2)] assms(3-8)]
    download_reads [OF sound_reachable [OF assms(1,2)] assms(3)] by metis

theorem download_available_witness:
  "\<exists>rc f w' plain. OpenDownload (file_uc demo_system) (demo_ident 1) 10 stored_world = (Inr (rc, f), w') \<and>
    File_ID f = 10 \<and> ReadAll demo_ext 0 rc = (plain, None) \<and>
    X_sha256 demo_ext plain = File_ChecksumSHA256 f"
proof -
  have "demo_file \<in> set (files (w_db stored_world))" by (simp add: demo_db_def)
  with download_available [of stored_world demo_system stored_world demo_file "demo_ident 1" 0]
  show ?thesis
    using sound_stored_world aead_ok_demo reachable.start by (simp add: demo_file_def demo_ident_def)
qed

text \<open>
  A sweep of orphaned blobs whose second call fails: the object is gone and the row is not, and
  the next upload of the same content finds the row and attaches a version without content.
\<close>

lemma failing_sweep_loses_object:
  assumes "w_faults w (w_calls w) = None" "w_faults w (Suc (w_calls w)) = Some InfraOther"
  shows "\<exists>w'. collect_blob b w = (Inl ErrInternal, w') \<and> w_db w' = w_db w \<and>
    w_objects w' (Blob_StorageKey b) = None"
  using assms
  by (simp add: collect_blob_def store_Delete_def BlobRepo_Delete_def run_simps infra_point_def
      infra_pg_def mapErr_def)

text \<open>
  A blob that is referenced again after the sweep has deleted its object and before it re-checks
  the count: the row stays, without its object.
\<close>

lemma resurrected_blob_loses_object:
  assumes "store_Delete (Blob_StorageKey b) w = (Inr (), w1)"
    and "w_objects w2 = w_objects w1" "b' \<in> set (blobs (w_db w2))" "0 < Blob_RefCount b'"
    and "BlobRepo_Delete i w2 = (r, w3)"
  shows "b' \<in> set (blobs (w_db w3)) \<and> w_objects w3 (Blob_StorageKey b) = None"
proof -
  have "w_objects w1 (Blob_StorageKey b) = None"
    using assms(1) by (auto simp: store_Delete_def bnd_Inr_iff infra_point_def split: option.splits)
  moreover have "w_objects w3 = w_objects w2 \<and> b' \<in> set (blobs (w_db w3))"
    using assms(3-5)
    by (auto simp: BlobRepo_Delete_def run_simps commit_stmt_def Let_def
        split: option.splits sum.splits prod.splits if_splits)
  ultimately show ?thesis using assms(2) by simp
qed

end
