(* ===== verification/Retry.thy ===== *)
theory Retry
  imports Prelude
begin

text \<open>
  \<open>pkg/retry/retry.go\<close>: exponential backoff with full jitter. The call retried is any step
  \<open>fn\<close> on a state that may fail. The environment chooses the jitter (\<open>rnd k n\<close> is what
  \<open>rand.Int63n(n)\<close> returns before attempt \<open>k\<close>) and whether the context ends during a
  backoff (\<open>ended k\<close>). Beside its result \<open>Do\<close> reports the outcomes of the calls it made
  and the delays it slept.
\<close>

record 'e Policy =
  MaxAttempts :: int
  BaseDelay :: duration
  MaxDelay :: duration
  RetryIf :: "('e \<Rightarrow> bool) option"

definition DefaultPolicy :: "'e Policy" where
  "DefaultPolicy = \<lparr>MaxAttempts = 4, BaseDelay = 100 * 1000000, MaxDelay = 2 * nanos_per_second,
     RetryIf = None\<rparr>"

datatype 'e retry_result =
    RetryOK
  | RetryErr 'e
  | RetryJoined 'e "'e option"
  | RetryPanic

record 'e retry_env =
  ended :: "nat \<Rightarrow> 'e option"
  rnd :: "nat \<Rightarrow> int \<Rightarrow> int"

text \<open>\<open>p.BaseDelay << (attempt - 1)\<close>, capped; the shift drops the bits above 63.\<close>

definition backoff_window :: "'e Policy \<Rightarrow> nat \<Rightarrow> duration" where
  "backoff_window p attempt =
     (let window = int64_wrap (BaseDelay p * 2 ^ (attempt - 1)) in
      if window > MaxDelay p \<or> window \<le> 0 then MaxDelay p else window)"

text \<open>\<open>RetryIf\<close>, where a nil predicate retries everything.\<close>

definition retryable :: "'e Policy \<Rightarrow> 'e \<Rightarrow> bool" where
  "retryable p e = (case RetryIf p of None \<Rightarrow> True | Some f \<Rightarrow> f e)"

primrec Do_loop :: "'e Policy \<Rightarrow> 'e retry_env \<Rightarrow> ('s \<Rightarrow> 'e option \<times> 's) \<Rightarrow> nat \<Rightarrow> nat \<Rightarrow> 'e option \<Rightarrow> 's
    \<Rightarrow> 'e retry_result \<times> 's \<times> 'e option list \<times> duration list" where
  "Do_loop p env fn 0 attempt lastErr s =
     (case lastErr of None \<Rightarrow> RetryOK | Some e \<Rightarrow> RetryErr e, s, [], [])"
| "Do_loop p env fn (Suc left) attempt lastErr s =
     (let n = int64_wrap (backoff_window p attempt + 1);
          sleep = rnd env attempt n;
          call = (\<lambda>sleeps. case fn s of
            (None, s') \<Rightarrow> (RetryOK, s', [None], sleeps)
          | (Some err, s') \<Rightarrow>
              if \<not> retryable p err then (RetryErr err, s', [Some err], sleeps)
              else (case Do_loop p env fn left (Suc attempt) (Some err) s' of
                (r, s'', cs, ds) \<Rightarrow> (r, s'', Some err # cs, sleeps @ ds))) in
      if attempt = 0 then call []
      else if n \<le> 0 then (RetryPanic, s, [], [])
      else case ended env attempt of
        Some ctxErr \<Rightarrow> (RetryJoined ctxErr lastErr, s, [], [])
      | None \<Rightarrow> call [sleep])"

definition Do :: "'e Policy \<Rightarrow> 'e retry_env \<Rightarrow> ('s \<Rightarrow> 'e option \<times> 's) \<Rightarrow> 's
    \<Rightarrow> 'e retry_result \<times> 's \<times> 'e option list \<times> duration list" where
  "Do p env fn s = Do_loop p env fn (nat (if MaxAttempts p < 1 then 1 else MaxAttempts p)) 0 None s"

section \<open>Properties\<close>

text \<open>A policy whose delays are durations one can wait, and jitter as \<open>Int63n\<close> gives it.\<close>

definition policy_ok :: "'e Policy \<Rightarrow> bool" where
  "policy_ok p \<longleftrightarrow> 0 \<le> MaxDelay p \<and> MaxDelay p < 2 ^ 63 - 1"

definition jitter_ok :: "'e retry_env \<Rightarrow> bool" where
  "jitter_ok env \<longleftrightarrow> (\<forall>k n. 0 < n \<longrightarrow> 0 \<le> rnd env k n \<and> rnd env k n < n)"

lemma backoff_window_range:
  "policy_ok p \<Longrightarrow> 0 \<le> backoff_window p k \<and> backoff_window p k \<le> MaxDelay p"
  by (auto simp: backoff_window_def policy_ok_def Let_def)

lemma backoff_bound:
  assumes "policy_ok p"
  shows "int64_wrap (backoff_window p k + 1) = backoff_window p k + 1"
  using backoff_window_range [OF assms, of k] assms by (simp add: policy_ok_def int64_ok_def)

text \<open>
  The window before attempt \<open>k\<close> doubles from the base delay up to the cap; when the shift
  overflows it is still at most the cap.
\<close>

lemma backoff_window_doubles:
  assumes "0 < BaseDelay p" "BaseDelay p * 2 ^ (k - 1) < 2 ^ 63"
  shows "backoff_window p k = min (BaseDelay p * 2 ^ (k - 1)) (MaxDelay p)"
proof -
  have "0 < BaseDelay p * 2 ^ (k - 1)" using assms(1) by simp
  then have "int64_wrap (BaseDelay p * 2 ^ (k - 1)) = BaseDelay p * 2 ^ (k - 1)"
    using assms(2) by (intro int64_wrap_id) (simp add: int64_ok_def)
  with \<open>0 < BaseDelay p * 2 ^ (k - 1)\<close> show ?thesis
    by (auto simp: backoff_window_def Let_def min_def)
qed

lemma backoff_window_le:
  assumes "policy_ok p" "0 < BaseDelay p"
  shows "backoff_window p k \<le> min (BaseDelay p * 2 ^ (k - 1)) (MaxDelay p)"
proof (cases "BaseDelay p * 2 ^ (k - 1) < 2 ^ 63")
  case True
  then show ?thesis using backoff_window_doubles [OF assms(2)] by simp
next
  case False
  with assms(1) have "MaxDelay p \<le> BaseDelay p * 2 ^ (k - 1)" by (simp add: policy_ok_def)
  with backoff_window_range [OF assms(1), of k] show ?thesis by simp
qed

text \<open>The delay drawn before attempt \<open>k\<close>.\<close>

definition drawn :: "'e Policy \<Rightarrow> 'e retry_env \<Rightarrow> nat \<Rightarrow> duration" where
  "drawn p env k = rnd env k (backoff_window p k + 1)"

lemma drawn_range:
  assumes "policy_ok p" "jitter_ok env"
  shows "0 \<le> drawn p env k \<and> drawn p env k \<le> backoff_window p k"
proof -
  have "0 < backoff_window p k + 1" using backoff_window_range [OF assms(1), of k] by simp
  then have "0 \<le> drawn p env k \<and> drawn p env k < backoff_window p k + 1"
    using assms(2) unfolding jitter_ok_def drawn_def by blast
  then show ?thesis by simp
qed

text \<open>The state after \<open>n\<close> calls from \<open>s\<close>, and the outcomes of these calls.\<close>

primrec after_calls :: "('s \<Rightarrow> 'e option \<times> 's) \<Rightarrow> nat \<Rightarrow> 's \<Rightarrow> 's" where
  "after_calls fn 0 s = s"
| "after_calls fn (Suc n) s = after_calls fn n (snd (fn s))"

primrec call_results :: "('s \<Rightarrow> 'e option \<times> 's) \<Rightarrow> nat \<Rightarrow> 's \<Rightarrow> 'e option list" where
  "call_results fn 0 s = []"
| "call_results fn (Suc n) s = fst (fn s) # call_results fn n (snd (fn s))"

text \<open>
  The contract of one run from attempt \<open>k\<close> with \<open>left\<close> attempts to go, the last error being
  \<open>lastErr\<close>.
\<close>

definition retry_contract :: "'e Policy \<Rightarrow> 'e retry_env \<Rightarrow> ('s \<Rightarrow> 'e option \<times> 's) \<Rightarrow> nat \<Rightarrow> nat \<Rightarrow>
    'e option \<Rightarrow> 's \<Rightarrow> 'e retry_result \<times> 's \<times> 'e option list \<times> duration list \<Rightarrow> bool" where
  "retry_contract p env fn left k lastErr s out = (case out of (r, s', calls, sleeps) \<Rightarrow>
     length calls \<le> left \<and>
     calls = call_results fn (length calls) s \<and> s' = after_calls fn (length calls) s \<and>
     sleeps = map (drawn p env) [max 1 k..<k + length calls] \<and>
     (\<forall>i \<in> {max 1 k..<k + length calls}. ended env i = None) \<and>
     list_all (\<lambda>c. \<exists>e. c = Some e \<and> retryable p e) (butlast calls) \<and>
     (case r of
        RetryOK \<Rightarrow> calls \<noteq> [] \<and> last calls = None \<or> calls = [] \<and> left = 0 \<and> lastErr = None
      | RetryErr e \<Rightarrow> calls \<noteq> [] \<and> last calls = Some e \<and> (\<not> retryable p e \<or> length calls = left) \<or>
          calls = [] \<and> left = 0 \<and> lastErr = Some e
      | RetryJoined c e \<Rightarrow> e = last (lastErr # calls) \<and> length calls < left \<and>
          ended env (k + length calls) = Some c \<and>
          (calls \<noteq> [] \<longrightarrow> (\<exists>e'. e = Some e' \<and> retryable p e'))
      | RetryPanic \<Rightarrow> False))"

lemma retry_contract_Cons:
  assumes "retry_contract p env fn left (Suc k) (Some e) s1 (r, s2, cs, ds)" "retryable p e"
    "fn s = (Some e, s1)" "sleeps = (if k = 0 then [] else [drawn p env k])" "k = 0 \<or> ended env k = None"
  shows "retry_contract p env fn (Suc left) k lastErr s (r, s2, Some e # cs, sleeps @ ds)"
proof -
  have split: "[max 1 k..<k + length (Some e # cs)] =
      (if k = 0 then [] else [k]) @ [max 1 (Suc k)..<Suc k + length cs]"
    by (auto simp: upt_conv_Cons simp del: upt_Suc)
  have here: "{max 1 k..<k + length (Some e # cs)} =
      (if k = 0 then {} else {k}) \<union> {max 1 (Suc k)..<Suc k + length cs}"
    by auto
  show ?thesis
    using assms unfolding retry_contract_def prod.case split here
    by (cases r; cases cs) (auto simp del: upt_Suc)
qed

lemma Do_loop_contract:
  assumes "policy_ok p" "jitter_ok env"
  shows "retry_contract p env fn left k lastErr s (Do_loop p env fn left k lastErr s)"
proof (induction left arbitrary: k lastErr s)
  case 0
  then show ?case by (simp add: retry_contract_def split: option.splits)
next
  case (Suc left)
  note w = backoff_window_range [OF assms(1), of k] backoff_bound [OF assms(1), of k]
  note sleep = drawn_def [of p env k, symmetric]
  have one: "[max 1 k..<Suc k] = (if k = 0 then [] else [k])" by auto
  have set_one: "{max 1 k..<Suc k} = (if k = 0 then {} else {k})" by auto
  show ?case
  proof (cases "fn s")
    case (Pair c s')
    show ?thesis
    proof (cases c)
      case None
      then show ?thesis using Pair w
        by (simp add: retry_contract_def Let_def one set_one sleep split: option.splits)
    next
      case (Some e)
      obtain r s2 cs ds where rest: "Do_loop p env fn left (Suc k) (Some e) s' = (r, s2, cs, ds)"
        by (metis prod_cases4)
      have ih: "retry_contract p env fn left (Suc k) (Some e) s' (r, s2, cs, ds)"
        using Suc.IH [of "Suc k" "Some e" s'] rest by simp
      have joined: "retry_contract p env fn (Suc left) k lastErr s (RetryJoined c lastErr, s, [], [])"
        if "ended env k = Some c" for c
        using that by (simp add: retry_contract_def)
      show ?thesis
      proof (cases "retryable p e")
        case True
        note go = retry_contract_Cons [OF ih True Pair [unfolded Some]]
        show ?thesis
          using go Pair Some w rest True joined
          by (cases "ended env k") (auto simp: Let_def sleep)
      next
        case False
        then show ?thesis using Pair Some w joined
          by (simp add: retry_contract_def Let_def one set_one sleep split: option.splits)
      qed
    qed
  qed
qed

lemma Do_loop_calls:
  "Do_loop p env fn (Suc left) 0 lastErr s = (r, s', calls, sleeps) \<Longrightarrow> calls \<noteq> []"
  by (auto split: prod.splits option.splits if_splits)

text \<open>
  C37: For a non-negative cap below the largest duration, Do makes between one and max(1,
  MaxAttempts) calls, each on the state the one before left, and makes another only after a
  retryable error and while the context has not ended. Before each call but the first it sleeps
  the jitter drawn for that attempt, which lies between 0 and a window that, for a positive base
  delay, doubles from it up to the cap. It returns nil exactly when its last call succeeded; the
  last error when that is permanent or the attempts are used up; and otherwise the context's
  error, which ended the backoff after the last call, joined with the last error.
\<close>

theorem retry_outcome:
  assumes "policy_ok p" "jitter_ok env" "Do p env fn s = (r, s', calls, sleeps)"
  shows "1 \<le> int (length calls) \<and> int (length calls) \<le> max 1 (MaxAttempts p) \<and>
    calls = call_results fn (length calls) s \<and> s' = after_calls fn (length calls) s \<and>
    list_all (\<lambda>c. \<exists>e. c = Some e \<and> retryable p e) (butlast calls) \<and>
    length sleeps = length calls - 1 \<and>
    (\<forall>i < length sleeps. ended env (Suc i) = None \<and>
       sleeps ! i = rnd env (Suc i) (backoff_window p (Suc i) + 1) \<and>
       0 \<le> sleeps ! i \<and> sleeps ! i \<le> backoff_window p (Suc i)) \<and>
    (0 < BaseDelay p \<longrightarrow> (\<forall>i. backoff_window p (Suc i) \<le> min (BaseDelay p * 2 ^ i) (MaxDelay p) \<and>
       (BaseDelay p * 2 ^ i < 2 ^ 63 \<longrightarrow> backoff_window p (Suc i) = min (BaseDelay p * 2 ^ i) (MaxDelay p)))) \<and>
    (case last calls of
       None \<Rightarrow> r = RetryOK
     | Some e \<Rightarrow>
         if retryable p e \<and> int (length calls) < max 1 (MaxAttempts p)
         then \<exists>ctxErr. ended env (length calls) = Some ctxErr \<and> r = RetryJoined ctxErr (Some e)
         else r = RetryErr e)"
proof -
  let ?n = "nat (if MaxAttempts p < 1 then 1 else MaxAttempts p)"
  obtain left where n: "?n = Suc left" by (cases ?n) (auto split: if_splits)
  have run: "Do_loop p env fn (Suc left) 0 None s = (r, s', calls, sleeps)"
    using assms(3) n by (simp add: Do_def)
  have c: "retry_contract p env fn (Suc left) 0 None s (r, s', calls, sleeps)"
    using Do_loop_contract [OF assms(1,2), of fn "Suc left" 0 None s] unfolding run .
  have N: "int (Suc left) = max 1 (MaxAttempts p)" using n by (auto split: if_splits)
  have ne: "calls \<noteq> []" using Do_loop_calls [OF run] .
  have counts: "1 \<le> int (length calls) \<and> int (length calls) \<le> max 1 (MaxAttempts p) \<and>
      calls = call_results fn (length calls) s \<and> s' = after_calls fn (length calls) s \<and>
      list_all (\<lambda>c. \<exists>e. c = Some e \<and> retryable p e) (butlast calls) \<and> length sleeps = length calls - 1"
    using c ne N by (cases calls) (auto simp: retry_contract_def simp del: upt_Suc)
  have delays: "ended env (Suc i) = None \<and> sleeps ! i = drawn p env (Suc i)" if "i < length sleeps" for i
    using c that by (auto simp: retry_contract_def simp del: upt_Suc)
  have outcome: "case last calls of
       None \<Rightarrow> r = RetryOK
     | Some e \<Rightarrow>
         if retryable p e \<and> int (length calls) < max 1 (MaxAttempts p)
         then \<exists>ctxErr. ended env (length calls) = Some ctxErr \<and> r = RetryJoined ctxErr (Some e)
         else r = RetryErr e"
    using c ne unfolding N [symmetric] by (cases r; cases "last calls") (auto simp: retry_contract_def)
  have windows: "backoff_window p (Suc i) \<le> min (BaseDelay p * 2 ^ i) (MaxDelay p) \<and>
      (BaseDelay p * 2 ^ i < 2 ^ 63 \<longrightarrow> backoff_window p (Suc i) = min (BaseDelay p * 2 ^ i) (MaxDelay p))"
    if "0 < BaseDelay p" for i
    using backoff_window_le [OF assms(1) that, of "Suc i"] backoff_window_doubles [OF that, of "Suc i"] by simp
  show ?thesis
    using counts delays drawn_range [OF assms(1,2)] windows by (intro conjI outcome) (auto simp: drawn_def)
qed

theorem retry_outcome_witness:
  "Do DefaultPolicy \<lparr>ended = (\<lambda>k. if k = 2 then Some ''ctx'' else None), rnd = (\<lambda>_ n. n - 1)\<rparr>
     (\<lambda>k. (Some ''down'', Suc k)) (0 :: nat) =
     (RetryJoined ''ctx'' (Some ''down''), 2, [Some ''down'', Some ''down''], [100 * 1000000]) \<and>
   backoff_window (DefaultPolicy :: string Policy) 1 = 100 * 1000000 \<and>
   backoff_window (DefaultPolicy :: string Policy) 5 = 1600 * 1000000 \<and>
   backoff_window (DefaultPolicy :: string Policy) 6 = 2 * nanos_per_second"
proof -
  let ?p = "DefaultPolicy :: string Policy"
    and ?env = "\<lparr>ended = (\<lambda>k. if k = 2 then Some ''ctx'' else None), rnd = (\<lambda>_ n. n - 1)\<rparr>"
    and ?fn = "\<lambda>k. (Some ''down'', Suc k)"
  have run: "Do ?p ?env ?fn (0 :: nat) =
      (RetryJoined ''ctx'' (Some ''down''), 2, [Some ''down'', Some ''down''], [100 * 1000000])"
    by (simp add: DefaultPolicy_def nanos_per_second_def Do_def retryable_def
        backoff_window_def int64_wrap_def eval_nat_numeral)
  have ok: "policy_ok ?p" "jitter_ok ?env"
    by (simp_all add: policy_ok_def jitter_ok_def DefaultPolicy_def nanos_per_second_def)
  have "0 < BaseDelay ?p" "MaxDelay ?p = 2 * nanos_per_second" "BaseDelay ?p = 100 * 1000000"
    by (simp_all add: DefaultPolicy_def)
  then have "\<forall>i. 100 * 1000000 * 2 ^ i < (2 :: int) ^ 63 \<longrightarrow>
      backoff_window ?p (Suc i) = min (100 * 1000000 * 2 ^ i) (2 * nanos_per_second)"
    using retry_outcome [OF ok run] by simp
  from this [rule_format, of 0] this [rule_format, of 4] this [rule_format, of 5] run
  show ?thesis by (simp add: nanos_per_second_def eval_nat_numeral)
qed

end
