(* ===== verification/Worker_Pool.thy ===== *)
theory Worker_Pool
  imports Main "HOL-Library.Multiset"
begin

text \<open>
  \<open>pkg/workerpool/pool.go\<close>: the bounded task pool as a step relation on its state. Each step
  is one atomic action of a goroutine: a client in \<open>Submit\<close>, a worker in its receive loop, or
  the caller of \<open>Shutdown\<close>. \<open>Submit\<close> reads \<open>closed\<close> under the mutex and sends after
  releasing it, so the two are separate steps.
\<close>

datatype shutdown_state = NotShutdown | Waiting | Expired | Returned | ReturnedErr

text \<open>
  \<open>pl_selecting\<close> holds the tasks whose \<open>Submit\<close> has passed the check and waits in the
  \<open>select\<close>; \<open>pl_accepted\<close> those whose \<open>Submit\<close> returned nil, \<open>pl_refused\<close> those for
  which it returned an error. \<open>pl_idle\<close> counts the workers at the receive, \<open>pl_wg\<close> is the
  counter of the wait group. One caller shuts the pool down.
\<close>

record 't pool =
  pl_depth :: nat
  pl_queue :: "'t list"
  pl_idle :: nat
  pl_running :: "'t multiset"
  pl_wg :: nat
  pl_closed :: bool
  pl_cancelled :: bool
  pl_shutdown :: shutdown_state
  pl_selecting :: "'t multiset"
  pl_accepted :: "'t multiset"
  pl_finished :: "'t multiset"
  pl_refused :: "'t multiset"
  pl_panicked :: bool

definition New :: "int \<Rightarrow> int \<Rightarrow> 't pool" where
  "New workers queueDepth =
     (let workers = (if workers < 1 then 1 else workers);
          queueDepth = (if queueDepth < 0 then 0 else queueDepth) in
      \<lparr>pl_depth = nat queueDepth, pl_queue = [], pl_idle = nat workers, pl_running = {#},
       pl_wg = nat workers, pl_closed = False, pl_cancelled = False, pl_shutdown = NotShutdown,
       pl_selecting = {#}, pl_accepted = {#}, pl_finished = {#}, pl_refused = {#},
       pl_panicked = False\<rparr>)"

text \<open>\<open>worker\<close>: receive, run to the end, receive again; leave when closed and drained.\<close>

inductive worker :: "'t pool \<Rightarrow> 't pool \<Rightarrow> bool" where
  receive: "pl_queue p = t # q \<Longrightarrow> pl_idle p = Suc n \<Longrightarrow>
    worker p (p\<lparr>pl_queue := q, pl_idle := n, pl_running := add_mset t (pl_running p)\<rparr>)"
| finish: "t \<in># pl_running p \<Longrightarrow>
    worker p (p\<lparr>pl_running := pl_running p - {#t#}, pl_finished := add_mset t (pl_finished p),
      pl_idle := Suc (pl_idle p)\<rparr>)"
| leave: "pl_queue p = [] \<Longrightarrow> pl_closed p \<Longrightarrow> pl_idle p = Suc n \<Longrightarrow>
    worker p (p\<lparr>pl_idle := n, pl_wg := pl_wg p - 1\<rparr>)"

text \<open>
  \<open>Submit\<close>. A send goes to the buffer when it has room, or straight to a waiting worker when
  the buffer is empty; a send on the closed channel panics.
\<close>

inductive Submit :: "'t pool \<Rightarrow> 't pool \<Rightarrow> bool" where
  reject: "pl_closed p \<Longrightarrow> Submit p (p\<lparr>pl_refused := add_mset t (pl_refused p)\<rparr>)"
| check: "\<not> pl_closed p \<Longrightarrow> Submit p (p\<lparr>pl_selecting := add_mset t (pl_selecting p)\<rparr>)"
| enqueue: "t \<in># pl_selecting p \<Longrightarrow> \<not> pl_closed p \<Longrightarrow> length (pl_queue p) < pl_depth p \<Longrightarrow>
    Submit p (p\<lparr>pl_selecting := pl_selecting p - {#t#}, pl_queue := pl_queue p @ [t],
      pl_accepted := add_mset t (pl_accepted p)\<rparr>)"
| hand_over: "t \<in># pl_selecting p \<Longrightarrow> \<not> pl_closed p \<Longrightarrow> pl_queue p = [] \<Longrightarrow> pl_idle p = Suc n \<Longrightarrow>
    Submit p (p\<lparr>pl_selecting := pl_selecting p - {#t#}, pl_idle := n,
      pl_running := add_mset t (pl_running p), pl_accepted := add_mset t (pl_accepted p)\<rparr>)"
| context_done: "t \<in># pl_selecting p \<Longrightarrow>
    Submit p (p\<lparr>pl_selecting := pl_selecting p - {#t#}, pl_refused := add_mset t (pl_refused p)\<rparr>)"
| cancelled: "t \<in># pl_selecting p \<Longrightarrow> pl_cancelled p \<Longrightarrow>
    Submit p (p\<lparr>pl_selecting := pl_selecting p - {#t#}, pl_refused := add_mset t (pl_refused p)\<rparr>)"
| send_on_closed: "t \<in># pl_selecting p \<Longrightarrow> pl_closed p \<Longrightarrow> Submit p (p\<lparr>pl_panicked := True\<rparr>)"

text \<open>\<open>Shutdown\<close>: close, wait for the workers; when the context ends first, cancel and wait on.\<close>

inductive Shutdown :: "'t pool \<Rightarrow> 't pool \<Rightarrow> bool" where
  begin_shutdown: "pl_shutdown p = NotShutdown \<Longrightarrow>
    Shutdown p (p\<lparr>pl_closed := True, pl_shutdown := Waiting\<rparr>)"
| done_in_time: "pl_shutdown p = Waiting \<Longrightarrow> pl_wg p = 0 \<Longrightarrow>
    Shutdown p (p\<lparr>pl_cancelled := True, pl_shutdown := Returned\<rparr>)"
| expire: "pl_shutdown p = Waiting \<Longrightarrow>
    Shutdown p (p\<lparr>pl_cancelled := True, pl_shutdown := Expired\<rparr>)"
| done_late: "pl_shutdown p = Expired \<Longrightarrow> pl_wg p = 0 \<Longrightarrow>
    Shutdown p (p\<lparr>pl_shutdown := ReturnedErr\<rparr>)"

inductive pool_reachable :: "int \<Rightarrow> int \<Rightarrow> 't pool \<Rightarrow> bool" for workers queueDepth :: int where
  new: "pool_reachable workers queueDepth (New workers queueDepth)"
| work: "pool_reachable workers queueDepth p \<Longrightarrow> worker p p' \<Longrightarrow> pool_reachable workers queueDepth p'"
| submit: "pool_reachable workers queueDepth p \<Longrightarrow> Submit p p' \<Longrightarrow> pool_reachable workers queueDepth p'"
| shutdown: "pool_reachable workers queueDepth p \<Longrightarrow> Shutdown p p' \<Longrightarrow>
    pool_reachable workers queueDepth p'"

inductive_cases workerE: "worker p p'"
inductive_cases SubmitE: "Submit p p'"
inductive_cases ShutdownE: "Shutdown p p'"

section \<open>The invariant\<close>

text \<open>Every accepted task is queued, running or finished, once; the bounds hold.\<close>

definition pool_inv :: "nat \<Rightarrow> nat \<Rightarrow> 't pool \<Rightarrow> bool" where
  "pool_inv n depth p \<longleftrightarrow>
     pl_accepted p = mset (pl_queue p) + pl_running p + pl_finished p \<and>
     length (pl_queue p) \<le> pl_depth p \<and> pl_depth p = depth \<and>
     pl_idle p + size (pl_running p) = pl_wg p \<and> pl_wg p \<le> n \<and>
     (pl_wg p < n \<longrightarrow> pl_closed p \<and> pl_queue p = []) \<and>
     (pl_shutdown p \<noteq> NotShutdown \<longrightarrow> pl_closed p) \<and>
     (pl_shutdown p \<in> {Returned, ReturnedErr} \<longrightarrow> pl_wg p = 0)"

definition worker_count :: "int \<Rightarrow> nat" where
  "worker_count workers = nat (max 1 workers)"

lemma pool_inv_worker: "worker p p' \<Longrightarrow> pool_inv n d p \<Longrightarrow> pool_inv n d p'"
  by (erule workerE) (auto simp: pool_inv_def size_Diff_singleton dest: multi_member_split)

lemma pool_inv_Submit: "Submit p p' \<Longrightarrow> pool_inv n d p \<Longrightarrow> pool_inv n d p'"
  by (erule SubmitE) (auto simp: pool_inv_def)

lemma pool_inv_Shutdown: "Shutdown p p' \<Longrightarrow> pool_inv n d p \<Longrightarrow> pool_inv n d p'"
  by (erule ShutdownE) (auto simp: pool_inv_def)

lemma pool_inv_New: "pool_inv (worker_count workers) (nat queueDepth) (New workers queueDepth)"
  by (simp add: pool_inv_def New_def worker_count_def Let_def)

lemma worker_count_pos: "0 < worker_count workers"
  by (simp add: worker_count_def)

lemma pool_inv_reachable:
  "pool_reachable workers queueDepth p \<Longrightarrow> pool_inv (worker_count workers) (nat queueDepth) p"
  by (induction rule: pool_reachable.induct)
    (blast intro: pool_inv_New pool_inv_worker pool_inv_Submit pool_inv_Shutdown)+

text \<open>What is left to do once no task can be accepted any more.\<close>

definition work_left :: "'t pool \<Rightarrow> nat" where
  "work_left p = 3 * length (pl_queue p) + 2 * size (pl_running p) + pl_idle p"

lemma worker_decreases: "worker p p' \<Longrightarrow> work_left p' < work_left p"
  by (erule workerE) (auto simp: work_left_def size_Diff_singleton dest: multi_member_split)

lemma worker_closed: "worker p p' \<Longrightarrow> pl_closed p' = pl_closed p"
  by (erule workerE) auto

lemma worker_enabled:
  assumes "pl_closed p" "pl_wg p \<noteq> 0" "pool_inv n d p"
  shows "\<exists>p'. worker p p'"
proof (cases "pl_running p = {#}")
  case True
  then have "pl_idle p \<noteq> 0" using assms by (simp add: pool_inv_def)
  then obtain k where k: "pl_idle p = Suc k" by (cases "pl_idle p") auto
  then show ?thesis
    using worker.receive [OF _ k] worker.leave [OF _ assms(1) k] by (cases "pl_queue p") blast+
next
  case False
  then show ?thesis using worker.finish by (meson multiset_nonemptyE)
qed

lemma worker_run:
  assumes "(worker ^^ k) p p'" "pool_inv n d p"
  shows "k + work_left p' \<le> work_left p \<and> pool_inv n d p' \<and> pl_closed p' = pl_closed p"
  using assms
proof (induction k arbitrary: p')
  case (Suc k)
  then obtain q where q: "(worker ^^ k) p q" "worker q p'" by auto
  from Suc.IH [OF q(1) Suc.prems(2)] worker_decreases [OF q(2)] pool_inv_worker [OF q(2)]
    worker_closed [OF q(2)]
  show ?case by fastforce
qed simp

lemma all_left_finished:
  assumes "pool_inv n d p" "0 < n" "pl_wg p = 0"
  shows "pl_finished p = pl_accepted p"
  using assms by (auto simp: pool_inv_def)

section \<open>Properties\<close>

text \<open>
  C38: In every interleaving of submitters, workers and shutdown, every accepted task is exactly
  once queued, running or finished, the queue and the number of running tasks stay within their
  bounds, and when Shutdown has returned every accepted task has finished.
\<close>

theorem pool_keeps_tasks:
  assumes "pool_reachable workers queueDepth p"
  shows "pl_accepted p = mset (pl_queue p) + pl_running p + pl_finished p \<and>
    length (pl_queue p) \<le> nat queueDepth \<and> size (pl_running p) \<le> worker_count workers \<and>
    (pl_shutdown p \<in> {Returned, ReturnedErr} \<longrightarrow> pl_finished p = pl_accepted p)"
  using pool_inv_reachable [OF assms] all_left_finished [OF pool_inv_reachable [OF assms] worker_count_pos]
  by (auto simp: pool_inv_def)

text \<open>A pool with one worker and no buffer that is handed one task and shut down.\<close>

definition handed :: "nat pool" where
  "handed = (New 1 0)\<lparr>pl_idle := 0, pl_running := {#7#}, pl_accepted := {#7#}\<rparr>"

lemma handed_reachable: "pool_reachable 1 0 handed"
proof -
  let ?p1 = "(New 1 0)\<lparr>pl_selecting := {#7 :: nat#}\<rparr>"
  have "Submit (New 1 0) ?p1"
    using Submit.check [of "New 1 0" "7 :: nat"] by (simp add: New_def)
  moreover have "Submit ?p1 handed"
    using Submit.hand_over [of 7 ?p1 0] by (simp add: New_def handed_def)
  ultimately show ?thesis by (blast intro: pool_reachable.intros)
qed

definition drained :: "nat pool" where
  "drained = (New 1 0)\<lparr>pl_idle := 0, pl_wg := 0, pl_closed := True, pl_shutdown := Returned,
     pl_cancelled := True, pl_accepted := {#7#}, pl_finished := {#7#}\<rparr>"

definition closing :: "nat pool" where
  "closing = handed\<lparr>pl_closed := True, pl_shutdown := Waiting\<rparr>"

lemma closing_reachable: "pool_reachable 1 0 closing"
  using pool_reachable.shutdown [OF handed_reachable Shutdown.begin_shutdown]
  by (simp add: closing_def handed_def New_def)

lemma drained_reachable: "pool_reachable 1 0 drained"
proof -
  let ?p1 = "closing\<lparr>pl_running := {#}, pl_finished := {#7#}, pl_idle := 1\<rparr>"
  let ?p2 = "?p1\<lparr>pl_idle := 0, pl_wg := 0\<rparr>"
  have "worker closing ?p1"
    using worker.finish [of 7 closing] by (simp add: closing_def handed_def New_def)
  moreover have "worker ?p1 ?p2"
    using worker.leave [of ?p1 0] by (simp add: closing_def handed_def New_def)
  moreover have "Shutdown ?p2 drained"
    using Shutdown.done_in_time [of ?p2] by (simp add: closing_def handed_def New_def drained_def)
  ultimately show ?thesis using closing_reachable by (blast intro: pool_reachable.intros)
qed

theorem pool_keeps_tasks_witness: "pl_finished drained = pl_accepted drained \<and> pl_accepted drained = {#7#}"
  using pool_keeps_tasks [OF drained_reachable] by (simp add: drained_def New_def)

text \<open>
  C39: Once the pool is closed, every run of the workers ends, and where it ends the queue is
  empty and every accepted task has been run.
\<close>

theorem pool_drains:
  assumes "pool_reachable workers queueDepth p" "pl_closed p" "(worker ^^ k) p p'"
  shows "k \<le> work_left p \<and> ((\<exists>p''. worker p' p'') \<or> pl_wg p' = 0 \<and> pl_finished p' = pl_accepted p')"
proof -
  note inv = pool_inv_reachable [OF assms(1)]
  note run = worker_run [OF assms(3) inv]
  have "(\<exists>p''. worker p' p'') \<or> pl_wg p' = 0"
    using worker_enabled [of p'] run assms(2) by blast
  then show ?thesis using run all_left_finished [OF _ worker_count_pos] by fastforce
qed

theorem pool_drains_witness: "pl_wg closing = 1 \<and> (\<exists>p. worker closing p)"
proof -
  have wg: "pl_wg closing = 1" and cl: "pl_closed closing"
    by (simp_all add: closing_def handed_def New_def)
  have "(worker ^^ 0) closing closing" by simp
  from conjunct2 [OF pool_drains [OF closing_reachable cl this]] wg
  show ?thesis by (metis zero_neq_one)
qed

text \<open>
  A \<open>Submit\<close> that has passed the check when \<open>Shutdown\<close> closes the channel can panic.
\<close>

lemma submit_race_panics: "\<exists>p :: nat pool. pool_reachable 1 0 p \<and> pl_panicked p"
proof -
  let ?p1 = "(New 1 0)\<lparr>pl_selecting := {#7 :: nat#}\<rparr>"
  let ?p2 = "?p1\<lparr>pl_closed := True, pl_shutdown := Waiting\<rparr>"
  have s1: "Submit (New 1 0) ?p1"
    using Submit.check [of "New 1 0" "7 :: nat"] by (simp add: New_def)
  have s2: "Shutdown ?p1 ?p2"
    using Shutdown.begin_shutdown [of ?p1] by (simp add: New_def)
  have s3: "Submit ?p2 (?p2\<lparr>pl_panicked := True\<rparr>)"
    using Submit.send_on_closed [of 7 ?p2] by (simp add: New_def)
  have "pool_reachable 1 0 (?p2\<lparr>pl_panicked := True\<rparr>)"
    by (rule pool_reachable.submit [OF pool_reachable.shutdown [OF pool_reachable.submit
            [OF pool_reachable.new s1] s2] s3])
  then show ?thesis by (intro exI [of _ "?p2\<lparr>pl_panicked := True\<rparr>"]) simp
qed

end
