(* ===== verification/Pagination.thy ===== *)
theory Pagination
  imports File_UC
begin

text \<open>
  \<open>pkg/pagination/pagination.go\<close>: page tokens and page sizes, and what the keyset queries of
  the repositories make of them. \<open>encoding/json\<close> on the cursor's two fields is a parameter:
  \<open>json.Marshal\<close> writes the instant as RFC 3339 and fails for years it cannot write.
\<close>

section \<open>Tokens\<close>

record cursor_json =
  json_Marshal :: "Cursor \<Rightarrow> byte list option"
  json_Unmarshal :: "byte list \<Rightarrow> Cursor option"

text \<open>\<open>json.Unmarshal\<close> reads back what \<open>json.Marshal\<close> wrote, which is never empty.\<close>

definition json_ok :: "cursor_json \<Rightarrow> bool" where
  "json_ok J \<longleftrightarrow> (\<forall>c raw. json_Marshal J c = Some raw \<longrightarrow> raw \<noteq> [] \<and> json_Unmarshal J raw = Some c)"

definition DefaultPageSize :: int where "DefaultPageSize = 50"
definition MaxPageSize :: int where "MaxPageSize = 200"

text \<open>The error of \<open>json.Marshal\<close> is dropped; what it returns with it is empty.\<close>

definition Cursor_Encode :: "cursor_json \<Rightarrow> Cursor \<Rightarrow> string" where
  "Cursor_Encode J c =
     (let raw = (case json_Marshal J c of None \<Rightarrow> [] | Some bs \<Rightarrow> bs) in
      base64_EncodeToString raw)"

definition Cursor_Decode :: "cursor_json \<Rightarrow> string \<Rightarrow> error + Cursor" where
  "Cursor_Decode J token =
     (if token = [] then Inr zero_cursor
      else case base64_DecodeString token of
        None \<Rightarrow> Inl ErrInvalidCursor
      | Some raw \<Rightarrow> (case json_Unmarshal J raw of None \<Rightarrow> Inl ErrInvalidCursor | Some c \<Rightarrow> Inr c))"

definition ClampPageSize :: "int \<Rightarrow> int" where
  "ClampPageSize n =
     (if n \<le> 0 then DefaultPageSize else if n > MaxPageSize then MaxPageSize else n)"

lemma ClampPageSize_range: "1 \<le> ClampPageSize n \<and> ClampPageSize n \<le> MaxPageSize"
  by (simp add: ClampPageSize_def DefaultPageSize_def MaxPageSize_def)

lemma Cursor_roundtrip:
  assumes "json_ok J" "json_Marshal J c = Some raw"
  shows "Cursor_Encode J c \<noteq> [] \<and> Cursor_Decode J (Cursor_Encode J c) = Inr c"
proof -
  have raw: "raw \<noteq> []" "json_Unmarshal J raw = Some c" using assms by (auto simp: json_ok_def)
  have "base64_DecodeString (base64_EncodeToString raw) = Some raw" by (rule base64_roundtrip)
  moreover have "base64_EncodeToString raw \<noteq> []"
    using raw(1) base64_inj [of raw "[]"] by (simp add: base64_EncodeToString_def base64_encode_def)
  ultimately show ?thesis using raw assms(2) by (simp add: Cursor_Encode_def Cursor_Decode_def)
qed

section \<open>Walking a listing\<close>

text \<open>
  A listing as the repositories offer it: of the rows \<open>s\<close>, \<open>page s cur n\<close> is the page of up
  to \<open>n\<close> rows after the position \<open>cur\<close> of the listing \<open>all s\<close>.
\<close>

locale keyset_listing =
  fixes page :: "'s \<Rightarrow> Cursor \<Rightarrow> nat \<Rightarrow> 'r list" and all :: "'s \<Rightarrow> 'r list"
    and position :: "'r \<Rightarrow> Cursor" and ok :: "'s \<Rightarrow> bool"
  assumes first_page: "ok s \<Longrightarrow> page s zero_cursor n = take n (all s)"
    and next_page: "ok s \<Longrightarrow> all s = xs @ x # ys \<Longrightarrow> page s (position x) n = take n ys"
begin

text \<open>The page after the rows already seen, and the rows seen after it.\<close>

lemma page_after:
  assumes "ok s" "all s = seen @ rest"
  shows "page s (if seen = [] then zero_cursor else position (last seen)) n = take n rest"
proof (cases seen rule: rev_cases)
  case (snoc ds x)
  then show ?thesis using assms next_page [of s ds x rest n] by simp
qed (use assms first_page in simp)

end

lemma sort_key_split:
  fixes key :: "'r \<Rightarrow> 'k::linorder"
  assumes "sorted (map key xs)" "distinct (map key xs)" "xs = as @ x # bs"
  shows "filter (\<lambda>r. key x < key r) xs = bs" "filter (\<lambda>r. key r < key x) xs = as"
proof -
  have "\<forall>r \<in> set as. key r < key x" "\<forall>r \<in> set bs. key x < key r"
    using assms by (auto simp: sorted_append order.strict_iff_order image_iff)
  then show "filter (\<lambda>r. key x < key r) xs = bs" "filter (\<lambda>r. key r < key x) xs = as"
    using assms(3) by (auto simp: filter_empty_conv filter_id_conv dest: order.asym)
qed

lemma filter_sort_key: "filter P (sort_key key xs) = sort_key key (filter P xs)"
  by (simp add: filter_sort)

text \<open>The position a row stands at: its creation time and identifier.\<close>

definition row_cursor :: "('r \<Rightarrow> time \<times> uuid) \<Rightarrow> 'r \<Rightarrow> Cursor" where
  "row_cursor key r = \<lparr>Cursor_CreatedAt = fst (key r), Cursor_ID = snd (key r)\<rparr>"

lemma row_cursor_key [simp]: "cursor_key (row_cursor key r) = key r"
  by (simp add: row_cursor_def cursor_key_def)

lemma row_cursor_nonzero: "snd (key r) \<noteq> 0 \<Longrightarrow> \<not> Cursor_IsZero (row_cursor key r)"
  by (simp add: row_cursor_def Cursor_IsZero_def)

definition listable :: "('r \<Rightarrow> time \<times> uuid) \<Rightarrow> 'r list \<Rightarrow> bool" where
  "listable key rows \<longleftrightarrow> distinct (map key rows) \<and> (\<forall>r \<in> set rows. snd (key r) \<noteq> 0)"

interpretation asc: keyset_listing "\<lambda>rows cur n. page_asc key cur n rows" "sort_key key"
  "row_cursor key" "listable key" for key
proof
  show "page_asc key zero_cursor n rows = take n (sort_key key rows)" for n rows
    by (simp add: page_asc_def zero_cursor_def Cursor_IsZero_def)
  fix xs x ys n rows assume ok: "listable key rows" and split: "sort_key key rows = xs @ x # ys"
  have "x \<in> set rows" using arg_cong [OF split, of set] by simp
  then have "page_asc key (row_cursor key x) n rows = take n (filter (\<lambda>r. key x < key r) (sort_key key rows))"
    using ok by (simp add: page_asc_def row_cursor_nonzero filter_sort_key listable_def)
  also have "filter (\<lambda>r. key x < key r) (sort_key key rows) = ys"
    using ok by (intro sort_key_split(1) [OF _ _ split]) (auto simp: distinct_map listable_def)
  finally show "page_asc key (row_cursor key x) n rows = take n ys" .
qed

interpretation desc: keyset_listing "\<lambda>rows cur n. page_desc key cur n rows"
  "\<lambda>rows. rev (sort_key key rows)" "row_cursor key" "listable key" for key
proof
  show "page_desc key zero_cursor n rows = take n (rev (sort_key key rows))" for n rows
    by (simp add: page_desc_def zero_cursor_def Cursor_IsZero_def)
  fix xs x ys n rows assume ok: "listable key rows" and "rev (sort_key key rows) = xs @ x # ys"
  then have split: "sort_key key rows = rev ys @ x # rev xs" by (simp add: rev_swap)
  have "x \<in> set rows" using arg_cong [OF split, of set] by simp
  then have "page_desc key (row_cursor key x) n rows =
      take n (rev (filter (\<lambda>r. key r < key x) (sort_key key rows)))"
    using ok by (simp add: page_desc_def row_cursor_nonzero filter_sort_key listable_def)
  also have "filter (\<lambda>r. key r < key x) (sort_key key rows) = rev ys"
    using ok by (intro sort_key_split(2) [OF _ _ split]) (auto simp: distinct_map listable_def)
  finally show "page_desc key (row_cursor key x) n rows = take n ys" by simp
qed

end
