(* ===== verification/Wire.thy ===== *)
theory Wire
  imports Jwt Pagination
begin

text \<open>
  \<open>internal/transport/grpc/errors.go\<close> and \<open>mappers.go\<close>: status codes, wire messages and the
  conversions between them and the domain's values. A wire timestamp is represented by the
  instant it denotes, an unset message by \<open>None\<close>, an unset string by the empty one.
\<close>

section \<open>Status\<close>

datatype code = NotFound | AlreadyExists | InvalidArgument | Unauthenticated | PermissionDenied
  | ResourceExhausted | FailedPrecondition | Canceled | DeadlineExceeded | Internal

text \<open>The text of a status: a literal, or the text of the error itself (\<open>err.Error()\<close>).\<close>

datatype status_text = Literal string | ErrorText error

record RpcStatus =
  Status_code :: code
  Status_text :: status_text

definition status_Error :: "code \<Rightarrow> status_text \<Rightarrow> RpcStatus" where
  "status_Error c t = \<lparr>Status_code = c, Status_text = t\<rparr>"

fun toStatus :: "error \<Rightarrow> RpcStatus" where
  "toStatus ErrNotFound = status_Error NotFound (Literal ''resource not found'')"
| "toStatus ErrAlreadyExists = status_Error AlreadyExists (ErrorText ErrAlreadyExists)"
| "toStatus ErrInvalidArgument = status_Error InvalidArgument (ErrorText ErrInvalidArgument)"
| "toStatus ErrInvalidCursor = status_Error InvalidArgument (ErrorText ErrInvalidCursor)"
| "toStatus ErrUnauthenticated = status_Error Unauthenticated (Literal ''authentication required'')"
| "toStatus ErrTokenReuse = status_Error Unauthenticated (Literal ''authentication required'')"
| "toStatus ErrPermissionDenied = status_Error PermissionDenied (Literal ''permission denied'')"
| "toStatus ErrQuotaExceeded = status_Error ResourceExhausted (Literal ''storage quota exceeded'')"
| "toStatus ErrRateLimited = status_Error ResourceExhausted (Literal ''rate limit exceeded'')"
| "toStatus ErrFileLocked = status_Error FailedPrecondition (ErrorText ErrFileLocked)"
| "toStatus ErrUploadIncomplete = status_Error FailedPrecondition (ErrorText ErrUploadIncomplete)"
| "toStatus ErrUploadExpired = status_Error FailedPrecondition (ErrorText ErrUploadExpired)"
| "toStatus ErrChecksumMismatch = status_Error FailedPrecondition (ErrorText ErrChecksumMismatch)"
| "toStatus ErrPasswordRequired = status_Error FailedPrecondition (ErrorText ErrPasswordRequired)"
| "toStatus ErrCanceled = status_Error Canceled (Literal ''request canceled'')"
| "toStatus ErrDeadlineExceeded = status_Error DeadlineExceeded (Literal ''deadline exceeded'')"
| "toStatus ErrCiphertextCorrupt = status_Error Internal (Literal ''internal server error'')"
| "toStatus ErrInvalidHash = status_Error Internal (Literal ''internal server error'')"
| "toStatus ErrInternal = status_Error Internal (Literal ''internal server error'')"

text \<open>A handler answers with a status or a message.\<close>

type_synonym 'a rpc = "(world, RpcStatus, 'a) act"

text \<open>\<open>x, err := m; if err != nil { return nil, toStatus(ctx, err) }\<close>\<close>

definition call :: "'a action \<Rightarrow> 'a rpc" where
  "call m = (\<lambda>w. case m w of (Inl err, w') \<Rightarrow> (Inl (toStatus err), w') | (Inr x, w') \<Rightarrow> (Inr x, w'))"

section \<open>Messages\<close>

record FileMetadata =
  FM_Id :: string
  FM_Name :: string
  FM_FolderId :: string
  FM_MimeType :: string
  FM_SizeBytes :: int
  FM_ChecksumSha256 :: string
  FM_VersionNumber :: int
  FM_IsDeleted :: bool
  FM_IsLocked :: bool
  FM_LockedByUserId :: string
  FM_CreatedAt :: time
  FM_UpdatedAt :: time
  FM_DeletedAt :: "time option"

record FolderMetadata =
  FoM_Id :: string
  FoM_Name :: string
  FoM_ParentId :: string
  FoM_CreatedAt :: time

record FileVersion =
  FV_Id :: string
  FV_FileId :: string
  FV_VersionNumber :: int
  FV_SizeBytes :: int
  FV_ChecksumSha256 :: string
  FV_CreatedByUserId :: string
  FV_CreatedAt :: time

datatype PermissionPB = PERMISSION_UNSPECIFIED | PERMISSION_VIEWER | PERMISSION_EDITOR
  | PERMISSION_OWNER | PERMISSION_UNKNOWN int

record ShareMessage =
  SM_Id :: string
  SM_FileId :: string
  SM_OwnerId :: string
  SM_GranteeEmail :: string
  SM_PublicUrl :: string
  SM_Permission :: PermissionPB
  SM_CreatedAt :: time
  SM_ExpiresAt :: "time option"

record PageRequest =
  PR_PageSize :: int
  PR_PageToken :: string

section \<open>Mappers\<close>

text \<open>\<open>int32(n)\<close>\<close>

definition int32_wrap :: "int \<Rightarrow> int" where
  "int32_wrap x = (x + 2 ^ 31) mod 2 ^ 32 - 2 ^ 31"

definition parseUUID :: "ext \<Rightarrow> string \<Rightarrow> error + uuid" where
  "parseUUID X s = (case X_uuid_Parse X s of None \<Rightarrow> Inl ErrInvalidArgument | Some i \<Rightarrow> Inr i)"

definition optionalUUID :: "ext \<Rightarrow> string \<Rightarrow> error + uuid option" where
  "optionalUUID X s =
     (if s = [] then Inr None
      else case parseUUID X s of Inl e \<Rightarrow> Inl e | Inr i \<Rightarrow> Inr (Some i))"

definition optional_string :: "ext \<Rightarrow> uuid option \<Rightarrow> string" where
  "optional_string X i = (case i of None \<Rightarrow> [] | Some u \<Rightarrow> X_uuid_String X u)"

definition fileToProto :: "ext \<Rightarrow> File \<Rightarrow> FileMetadata" where
  "fileToProto X f = \<lparr>FM_Id = X_uuid_String X (File_ID f), FM_Name = File_Name f,
     FM_FolderId = optional_string X (File_FolderID f), FM_MimeType = File_MimeType f,
     FM_SizeBytes = File_SizeBytes f,
     FM_ChecksumSha256 = hex_EncodeToString (File_ChecksumSHA256 f),
     FM_VersionNumber = int32_wrap (File_VersionNumber f), FM_IsDeleted = File_IsDeleted f,
     FM_IsLocked = (File_LockedBy f \<noteq> None),
     FM_LockedByUserId = optional_string X (File_LockedBy f), FM_CreatedAt = File_CreatedAt f,
     FM_UpdatedAt = File_UpdatedAt f, FM_DeletedAt = File_DeletedAt f\<rparr>"

definition filesToProto :: "ext \<Rightarrow> File list \<Rightarrow> FileMetadata list" where
  "filesToProto X fs = map (fileToProto X) fs"

definition folderToProto :: "ext \<Rightarrow> Folder \<Rightarrow> FolderMetadata" where
  "folderToProto X f = \<lparr>FoM_Id = X_uuid_String X (Folder_ID f), FoM_Name = Folder_Name f,
     FoM_ParentId = optional_string X (Folder_ParentID f), FoM_CreatedAt = Folder_CreatedAt f\<rparr>"

definition versionToProto :: "ext \<Rightarrow> Version \<Rightarrow> FileVersion" where
  "versionToProto X v = \<lparr>FV_Id = X_uuid_String X (Version_ID v),
     FV_FileId = X_uuid_String X (Version_FileID v),
     FV_VersionNumber = int32_wrap (Version_VersionNumber v), FV_SizeBytes = Version_SizeBytes v,
     FV_ChecksumSha256 = hex_EncodeToString (Version_ChecksumSHA256 v),
     FV_CreatedByUserId = X_uuid_String X (Version_CreatedBy v),
     FV_CreatedAt = Version_CreatedAt v\<rparr>"

fun permissionToProto :: "Permission \<Rightarrow> PermissionPB" where
  "permissionToProto PermissionViewer = PERMISSION_VIEWER"
| "permissionToProto PermissionEditor = PERMISSION_EDITOR"
| "permissionToProto PermissionOwner = PERMISSION_OWNER"
| "permissionToProto (PermissionOther _) = PERMISSION_UNSPECIFIED"

fun permissionFromProto :: "PermissionPB \<Rightarrow> Permission" where
  "permissionFromProto PERMISSION_VIEWER = PermissionViewer"
| "permissionFromProto PERMISSION_EDITOR = PermissionEditor"
| "permissionFromProto PERMISSION_OWNER = PermissionOwner"
| "permissionFromProto PERMISSION_UNSPECIFIED = PermissionOther []"
| "permissionFromProto (PERMISSION_UNKNOWN _) = PermissionOther []"

definition shareToProto :: "ext \<Rightarrow> Share \<Rightarrow> string \<Rightarrow> string \<Rightarrow> ShareMessage" where
  "shareToProto X s granteeEmail publicURL = \<lparr>SM_Id = X_uuid_String X (Share_ID s),
     SM_FileId = X_uuid_String X (Share_FileID s), SM_OwnerId = X_uuid_String X (Share_OwnerID s),
     SM_GranteeEmail = granteeEmail, SM_PublicUrl = publicURL,
     SM_Permission = permissionToProto (Share_Permission s), SM_CreatedAt = Share_CreatedAt s,
     SM_ExpiresAt = Share_ExpiresAt s\<rparr>"

definition pageFromProto :: "cursor_json \<Rightarrow> PageRequest option \<Rightarrow> error + (Cursor \<times> nat)" where
  "pageFromProto J p = (case p of
     None \<Rightarrow> Inr (zero_cursor, nat DefaultPageSize)
   | Some pr \<Rightarrow>
       (case Cursor_Decode J (PR_PageToken pr) of
          Inl err \<Rightarrow> Inl err
        | Inr cur \<Rightarrow> Inr (cur, nat (ClampPageSize (PR_PageSize pr)))))"

text \<open>\<open>nextPageToken\<close>: the token of the \<open>PageResponse\<close> it returns, empty when unset.\<close>

definition nextPageToken :: "ext \<Rightarrow> cursor_json \<Rightarrow> nat \<Rightarrow> nat \<Rightarrow> time \<Rightarrow> string \<Rightarrow> string" where
  "nextPageToken X J count limit lastCreated lastID =
     (if count < limit then []
      else case parseUUID X lastID of
        Inl _ \<Rightarrow> []
      | Inr i \<Rightarrow> Cursor_Encode J \<lparr>Cursor_CreatedAt = lastCreated, Cursor_ID = i\<rparr>)"

text \<open>
  The end of the list handlers: the page's token, derived from the last row when the page is
  full.
\<close>

definition page_token :: "ext \<Rightarrow> cursor_json \<Rightarrow> ('r \<Rightarrow> time \<times> uuid) \<Rightarrow> 'r list \<Rightarrow> nat \<Rightarrow> string" where
  "page_token X J key rows limit =
     (if length rows = limit then
        nextPageToken X J (length rows) limit (fst (key (last rows)))
          (X_uuid_String X (snd (key (last rows))))
      else [])"

section \<open>Facts\<close>

lemma permission_roundtrip:
  "p \<in> {PermissionViewer, PermissionEditor, PermissionOwner} \<Longrightarrow> permissionFromProto (permissionToProto p) = p"
  by auto

text \<open>Internal errors reach the client as a fixed text.\<close>

lemma toStatus_internal:
  "Status_code (toStatus e) = Internal \<Longrightarrow> Status_text (toStatus e) = Literal ''internal server error''"
  by (cases e) (simp_all add: status_Error_def)

lemma call_Inr [simp]: "call m w = (Inr x, w') \<longleftrightarrow> m w = (Inr x, w')"
  by (auto simp: call_def split: prod.splits sum.splits)

lemma snd_call [simp]: "snd (call m w) = snd (m w)"
  by (simp add: call_def split: prod.splits sum.splits)

lemma page_token_full:
  assumes "uuid_ok X" "json_ok J" "rows \<noteq> []" "length rows = limit"
    "json_Marshal J (row_cursor key (last rows)) = Some raw"
  shows "page_token X J key rows limit \<noteq> [] \<and>
    Cursor_Decode J (page_token X J key rows limit) = Inr (row_cursor key (last rows))"
  using Cursor_roundtrip [OF assms(2,5)] assms
  by (simp add: page_token_def nextPageToken_def parseUUID_def uuid_ok_def row_cursor_def)

end
