(* ===== verification/Grpc_Handlers.thy ===== *)
theory Grpc_Handlers
  imports System Wire "HOL-Library.List_Lexorder"
begin

text \<open>
  \<open>internal/transport/grpc\<close>: \<open>auth_handler.go\<close>, \<open>file_handler.go\<close>, \<open>share_handler.go\<close>.
  A handler gets the identity the context carries, if any, and the fields of the request
  message in their order; it parses them, calls its use case and builds the response.
\<close>

section \<open>AuthHandler\<close>

definition AuthHandler_Register ::
    "AuthUseCase \<Rightarrow> string \<Rightarrow> string \<Rightarrow> string \<Rightarrow> string rpc" where
  "AuthHandler_Register uc email password displayName =
     bnd (call (Register uc email password displayName)) (\<lambda>user.
     ret (X_uuid_String (au_ext uc) (User_ID user)))"

definition AuthHandler_Login :: "AuthUseCase \<Rightarrow> string \<Rightarrow> string \<Rightarrow> (string \<times> string \<times> time) rpc" where
  "AuthHandler_Login uc email password =
     bnd (call (Login uc email password)) (\<lambda>p.
     ret (Pair_AccessToken p, Pair_RefreshToken p, Pair_AccessExpiresAt p))"

definition AuthHandler_RefreshToken :: "AuthUseCase \<Rightarrow> string \<Rightarrow> (string \<times> string \<times> time) rpc" where
  "AuthHandler_RefreshToken uc refreshToken =
     bnd (call (Refresh uc refreshToken)) (\<lambda>p.
     ret (Pair_AccessToken p, Pair_RefreshToken p, Pair_AccessExpiresAt p))"

definition AuthHandler_Logout :: "AuthUseCase \<Rightarrow> string \<Rightarrow> unit rpc" where
  "AuthHandler_Logout uc refreshToken = bnd (call (Logout uc refreshToken)) (\<lambda>_. ret ())"

record ProfileMessage =
  PM_UserId :: string
  PM_Email :: string
  PM_DisplayName :: string
  PM_Role :: string
  PM_QuotaBytes :: int
  PM_UsedBytes :: int
  PM_CreatedAt :: time

definition AuthHandler_GetProfile :: "AuthUseCase \<Rightarrow> Identity option \<Rightarrow> ProfileMessage rpc" where
  "AuthHandler_GetProfile uc ctx =
     bnd (call (from_sum (IdentityFromContext ctx))) (\<lambda>ident.
     bnd (call (Profile ident)) (\<lambda>(user, quota).
     ret \<lparr>PM_UserId = X_uuid_String (au_ext uc) (User_ID user), PM_Email = User_Email user,
       PM_DisplayName = User_DisplayName user, PM_Role = role_string (User_Role user),
       PM_QuotaBytes = Quota_QuotaBytes quota, PM_UsedBytes = Quota_UsedBytes quota,
       PM_CreatedAt = User_CreatedAt user\<rparr>))"

section \<open>FileHandler\<close>

record FileHandler =
  fh_files :: FileUseCase
  fh_uploads :: UploadUseCase
  fh_json :: cursor_json

abbreviation fh_ext :: "FileHandler \<Rightarrow> ext" where
  "fh_ext h \<equiv> fu_ext (fh_files h)"

definition identAndID :: "ext \<Rightarrow> Identity option \<Rightarrow> string \<Rightarrow> error + (Identity \<times> uuid)" where
  "identAndID X ctx rawID =
     (case IdentityFromContext ctx of
        Inl err \<Rightarrow> Inl err
      | Inr ident \<Rightarrow> (case parseUUID X rawID of Inl err \<Rightarrow> Inl err | Inr i \<Rightarrow> Inr (ident, i)))"

subsection \<open>Upload lifecycle\<close>

definition FileHandler_InitUpload :: "FileHandler \<Rightarrow> Identity option \<Rightarrow> string \<Rightarrow> string \<Rightarrow> string \<Rightarrow>
    int \<Rightarrow> string \<Rightarrow> (string \<times> int \<times> int \<times> bool) rpc" where
  "FileHandler_InitUpload h ctx name folderId mimeType sizeBytes checksum =
     bnd (call (from_sum (IdentityFromContext ctx))) (\<lambda>ident.
     bnd (call (InitUpload (fh_uploads h) ident name folderId mimeType sizeBytes checksum)) (\<lambda>res.
     let sess = Init_Session res in
     ret (X_uuid_String (fh_ext h) (Upload_ID sess), Upload_ChunkSize sess,
          int32_wrap (Upload_TotalChunks sess), Init_AlreadyExists res)))"

definition status_string :: "UploadStatus \<Rightarrow> string" where
  "status_string s = (case s of UploadPending \<Rightarrow> ''pending'' | UploadCompleted \<Rightarrow> ''completed''
     | UploadAborted \<Rightarrow> ''aborted'' | UploadExpired \<Rightarrow> ''expired'')"

definition FileHandler_GetUploadStatus ::
    "FileHandler \<Rightarrow> Identity option \<Rightarrow> string \<Rightarrow> (string \<times> int list \<times> int \<times> string) rpc" where
  "FileHandler_GetUploadStatus h ctx rawID =
     bnd (call (from_sum (IdentityFromContext ctx))) (\<lambda>ident.
     bnd (call (from_sum (parseUUID (fh_ext h) rawID))) (\<lambda>sessionID.
     bnd (call (Status ident sessionID)) (\<lambda>(sess, received).
     ret (X_uuid_String (fh_ext h) (Upload_ID sess), map int32_wrap received,
          int32_wrap (Upload_TotalChunks sess), status_string (Upload_Status sess)))))"

definition FileHandler_CompleteUpload ::
    "FileHandler \<Rightarrow> Identity option \<Rightarrow> string \<Rightarrow> FileMetadata rpc" where
  "FileHandler_CompleteUpload h ctx rawID =
     bnd (call (from_sum (IdentityFromContext ctx))) (\<lambda>ident.
     bnd (call (from_sum (parseUUID (fh_ext h) rawID))) (\<lambda>sessionID.
     bnd (call (Complete (fh_uploads h) ident sessionID)) (\<lambda>f.
     ret (fileToProto (fh_ext h) f))))"

definition FileHandler_AbortUpload :: "FileHandler \<Rightarrow> Identity option \<Rightarrow> string \<Rightarrow> unit rpc" where
  "FileHandler_AbortUpload h ctx rawID =
     bnd (call (from_sum (IdentityFromContext ctx))) (\<lambda>ident.
     bnd (call (from_sum (parseUUID (fh_ext h) rawID))) (\<lambda>sessionID.
     bnd (call (Abort ident sessionID)) (\<lambda>_. ret ())))"

subsection \<open>File metadata\<close>

definition FileHandler_GetFile :: "FileHandler \<Rightarrow> Identity option \<Rightarrow> string \<Rightarrow> FileMetadata rpc" where
  "FileHandler_GetFile h ctx rawID =
     bnd (call (from_sum (identAndID (fh_ext h) ctx rawID))) (\<lambda>(ident, fileID).
     bnd (call (FileUC_Get ident fileID)) (\<lambda>f. ret (fileToProto (fh_ext h) f)))"

text \<open>A page of files: its metadata and the token of the next page.\<close>

definition file_page :: "FileHandler \<Rightarrow> File list \<Rightarrow> nat \<Rightarrow> FileMetadata list \<times> string" where
  "file_page h fs limit =
     (filesToProto (fh_ext h) fs, page_token (fh_ext h) (fh_json h) file_key fs limit)"

datatype SortOrder = SORT_ORDER_UNSPECIFIED | SORT_ORDER_ASC | SORT_ORDER_DESC
  | SORT_ORDER_UNKNOWN int

definition FileHandler_ListFiles :: "FileHandler \<Rightarrow> Identity option \<Rightarrow> string \<Rightarrow> bool \<Rightarrow>
    PageRequest option \<Rightarrow> SortOrder \<Rightarrow> (FileMetadata list \<times> string) rpc" where
  "FileHandler_ListFiles h ctx folderId includeDeleted page order =
     bnd (call (from_sum (IdentityFromContext ctx))) (\<lambda>ident.
     bnd (call (from_sum (pageFromProto (fh_json h) page))) (\<lambda>(cur, limit).
     bnd (call (from_sum (optionalUUID (fh_ext h) folderId))) (\<lambda>fid.
     bnd (call (FileUC_List ident fid includeDeleted (order = SORT_ORDER_DESC) cur limit)) (\<lambda>fs.
     ret (file_page h fs limit)))))"

definition FileHandler_SearchFiles :: "FileHandler \<Rightarrow> Identity option \<Rightarrow> string \<Rightarrow> string \<Rightarrow>
    PageRequest option \<Rightarrow> (FileMetadata list \<times> string) rpc" where
  "FileHandler_SearchFiles h ctx q mimeType page =
     bnd (call (from_sum (IdentityFromContext ctx))) (\<lambda>ident.
     bnd (call (from_sum (pageFromProto (fh_json h) page))) (\<lambda>(cur, limit).
     bnd (call (FileUC_Search ident q mimeType cur limit)) (\<lambda>fs.
     ret (file_page h fs limit))))"

definition FileHandler_MoveFile ::
    "FileHandler \<Rightarrow> Identity option \<Rightarrow> string \<Rightarrow> string \<Rightarrow> FileMetadata rpc" where
  "FileHandler_MoveFile h ctx rawID targetFolderId =
     bnd (call (from_sum (identAndID (fh_ext h) ctx rawID))) (\<lambda>(ident, fileID).
     bnd (call (from_sum (optionalUUID (fh_ext h) targetFolderId))) (\<lambda>target.
     bnd (call (FileUC_Move ident fileID target)) (\<lambda>f. ret (fileToProto (fh_ext h) f))))"

definition FileHandler_RenameFile ::
    "FileHandler \<Rightarrow> Identity option \<Rightarrow> string \<Rightarrow> string \<Rightarrow> FileMetadata rpc" where
  "FileHandler_RenameFile h ctx rawID newName =
     bnd (call (from_sum (identAndID (fh_ext h) ctx rawID))) (\<lambda>(ident, fileID).
     bnd (call (FileUC_Rename ident fileID newName)) (\<lambda>f. ret (fileToProto (fh_ext h) f)))"

definition FileHandler_DeleteFile :: "FileHandler \<Rightarrow> Identity option \<Rightarrow> string \<Rightarrow> unit rpc" where
  "FileHandler_DeleteFile h ctx rawID =
     bnd (call (from_sum (identAndID (fh_ext h) ctx rawID))) (\<lambda>(ident, fileID).
     bnd (call (FileUC_Delete (fh_files h) ident fileID)) (\<lambda>_. ret ()))"

definition FileHandler_RestoreFile :: "FileHandler \<Rightarrow> Identity option \<Rightarrow> string \<Rightarrow> FileMetadata rpc" where
  "FileHandler_RestoreFile h ctx rawID =
     bnd (call (from_sum (identAndID (fh_ext h) ctx rawID))) (\<lambda>(ident, fileID).
     bnd (call (FileUC_Restore (fh_files h) ident fileID)) (\<lambda>f. ret (fileToProto (fh_ext h) f)))"

text \<open>\<open>url.Values.Encode\<close>: sorted by key, values escaped.\<close>

definition url_unreserved :: "char \<Rightarrow> bool" where
  "url_unreserved c = (let n = of_char c :: nat in
     48 \<le> n \<and> n \<le> 57 \<or> 65 \<le> n \<and> n \<le> 90 \<or> 97 \<le> n \<and> n \<le> 122 \<or>
     c = CHR ''-'' \<or> c = CHR ''_'' \<or> c = CHR ''.'' \<or> c = CHR ''~'')"

definition upper_hex :: "nat \<Rightarrow> char" where
  "upper_hex n = (if n < 10 then char_of (48 + n) else char_of (55 + n))"

definition QueryEscape :: "string \<Rightarrow> string" where
  "QueryEscape s = concat (map (\<lambda>c.
     if url_unreserved c then [c]
     else if c = CHR '' '' then ''+''
     else CHR ''%'' # [upper_hex ((of_char c :: nat) div 16), upper_hex ((of_char c :: nat) mod 16)]) s)"

fun join_with :: "string \<Rightarrow> string list \<Rightarrow> string" where
  "join_with sep [] = []"
| "join_with sep [s] = s"
| "join_with sep (s # ss) = s @ sep @ join_with sep ss"

definition values_Encode :: "url_values \<Rightarrow> string" where
  "values_Encode vs = join_with ''&'' (map (\<lambda>(k, v). QueryEscape k @ ''='' @ QueryEscape v)
     (sort_key (\<lambda>(k, _). map (of_char :: char \<Rightarrow> nat) k) vs))"

text \<open>\<open>int64(ttl.Seconds())\<close>, exact for the lifetimes in use.\<close>

definition FileHandler_GetDownloadURL ::
    "FileHandler \<Rightarrow> Identity option \<Rightarrow> string \<Rightarrow> (string \<times> int) rpc" where
  "FileHandler_GetDownloadURL h ctx rawID =
     bnd (call (from_sum (identAndID (fh_ext h) ctx rawID))) (\<lambda>(ident, fileID).
     bnd (call (SignedDownloadQuery (fh_files h) ident fileID)) (\<lambda>(vs, ttl).
     ret (''/v1/files/'' @ X_uuid_String (fh_ext h) fileID @ ''/content?'' @ values_Encode vs,
          ttl sdiv nanos_per_second)))"

subsection \<open>Versions, locks, folders\<close>

definition FileHandler_ListVersions :: "FileHandler \<Rightarrow> Identity option \<Rightarrow> string \<Rightarrow>
    PageRequest option \<Rightarrow> (FileVersion list \<times> string) rpc" where
  "FileHandler_ListVersions h ctx rawID page =
     bnd (call (from_sum (identAndID (fh_ext h) ctx rawID))) (\<lambda>(ident, fileID).
     bnd (call (from_sum (pageFromProto (fh_json h) page))) (\<lambda>(cur, limit).
     bnd (call (FileUC_ListVersions ident fileID cur limit)) (\<lambda>vs.
     ret (map (versionToProto (fh_ext h)) vs,
          page_token (fh_ext h) (fh_json h) version_key vs limit))))"

definition FileHandler_RestoreVersion ::
    "FileHandler \<Rightarrow> Identity option \<Rightarrow> string \<Rightarrow> string \<Rightarrow> FileMetadata rpc" where
  "FileHandler_RestoreVersion h ctx rawID rawVersionID =
     bnd (call (from_sum (identAndID (fh_ext h) ctx rawID))) (\<lambda>(ident, fileID).
     bnd (call (from_sum (parseUUID (fh_ext h) rawVersionID))) (\<lambda>versionID.
     bnd (call (RestoreVersion (fh_files h) ident fileID versionID)) (\<lambda>f.
     ret (fileToProto (fh_ext h) f))))"

definition FileHandler_LockFile :: "FileHandler \<Rightarrow> Identity option \<Rightarrow> string \<Rightarrow> unit rpc" where
  "FileHandler_LockFile h ctx rawID =
     bnd (call (from_sum (identAndID (fh_ext h) ctx rawID))) (\<lambda>(ident, fileID).
     bnd (call (FileUC_Lock (fh_files h) ident fileID)) (\<lambda>_. ret ()))"

definition FileHandler_UnlockFile :: "FileHandler \<Rightarrow> Identity option \<Rightarrow> string \<Rightarrow> unit rpc" where
  "FileHandler_UnlockFile h ctx rawID =
     bnd (call (from_sum (identAndID (fh_ext h) ctx rawID))) (\<lambda>(ident, fileID).
     bnd (call (FileUC_Unlock (fh_files h) ident fileID)) (\<lambda>_. ret ()))"

definition FileHandler_CreateFolder ::
    "FileHandler \<Rightarrow> Identity option \<Rightarrow> string \<Rightarrow> string \<Rightarrow> FolderMetadata rpc" where
  "FileHandler_CreateFolder h ctx name parentId =
     bnd (call (from_sum (IdentityFromContext ctx))) (\<lambda>ident.
     bnd (call (from_sum (optionalUUID (fh_ext h) parentId))) (\<lambda>parent.
     bnd (call (CreateFolder ident name parent)) (\<lambda>folder.
     ret (folderToProto (fh_ext h) folder))))"

definition FileHandler_ListFolder :: "FileHandler \<Rightarrow> Identity option \<Rightarrow> string \<Rightarrow>
    PageRequest option \<Rightarrow> (FolderMetadata list \<times> FileMetadata list \<times> string) rpc" where
  "FileHandler_ListFolder h ctx folderId page =
     bnd (call (from_sum (IdentityFromContext ctx))) (\<lambda>ident.
     bnd (call (from_sum (optionalUUID (fh_ext h) folderId))) (\<lambda>fid.
     bnd (call (from_sum (pageFromProto (fh_json h) page))) (\<lambda>(cur, limit).
     bnd (call (ListFolder ident fid cur limit)) (\<lambda>(fos, fs).
     ret (map (folderToProto (fh_ext h)) fos, file_page h fs limit)))))"

definition FileHandler_DeleteFolder :: "FileHandler \<Rightarrow> Identity option \<Rightarrow> string \<Rightarrow> unit rpc" where
  "FileHandler_DeleteFolder h ctx rawID =
     bnd (call (from_sum (identAndID (fh_ext h) ctx rawID))) (\<lambda>(ident, folderID).
     bnd (call (DeleteFolder ident folderID)) (\<lambda>_. ret ()))"

section \<open>ShareHandler\<close>

record ShareHandler =
  sh_ext :: ext
  sh_json :: cursor_json
  sh_publicBaseURL :: string

definition ShareHandler_CreateShare :: "ShareHandler \<Rightarrow> Identity option \<Rightarrow> string \<Rightarrow> string \<Rightarrow>
    PermissionPB \<Rightarrow> time option \<Rightarrow> ShareMessage rpc" where
  "ShareHandler_CreateShare h ctx rawID granteeEmail perm expiresAt =
     bnd (call (from_sum (IdentityFromContext ctx))) (\<lambda>ident.
     bnd (call (from_sum (parseUUID (sh_ext h) rawID))) (\<lambda>fileID.
     bnd (call (CreateShare (sh_ext h) ident fileID granteeEmail (permissionFromProto perm) expiresAt))
       (\<lambda>share. ret (shareToProto (sh_ext h) share granteeEmail []))))"

definition ShareHandler_CreatePublicLink :: "ShareHandler \<Rightarrow> Identity option \<Rightarrow> string \<Rightarrow>
    PermissionPB \<Rightarrow> time option \<Rightarrow> string \<Rightarrow> ShareMessage rpc" where
  "ShareHandler_CreatePublicLink h ctx rawID perm expiresAt password =
     bnd (call (from_sum (IdentityFromContext ctx))) (\<lambda>ident.
     bnd (call (from_sum (parseUUID (sh_ext h) rawID))) (\<lambda>fileID.
     bnd (call (CreatePublicLink (sh_ext h) ident fileID (permissionFromProto perm) expiresAt password))
       (\<lambda>(share, token).
       ret (shareToProto (sh_ext h) share [] (sh_publicBaseURL h @ ''/public/'' @ token)))))"

definition ShareHandler_ListShares :: "ShareHandler \<Rightarrow> Identity option \<Rightarrow> string \<Rightarrow>
    PageRequest option \<Rightarrow> (ShareMessage list \<times> string) rpc" where
  "ShareHandler_ListShares h ctx rawID page =
     bnd (call (from_sum (IdentityFromContext ctx))) (\<lambda>ident.
     bnd (call (from_sum (optionalUUID (sh_ext h) rawID))) (\<lambda>fileID.
     bnd (call (from_sum (pageFromProto (sh_json h) page))) (\<lambda>(cur, limit).
     bnd (call (ShareUC_List ident fileID cur limit)) (\<lambda>ss.
     ret (map (\<lambda>s. shareToProto (sh_ext h) s [] []) ss,
          page_token (sh_ext h) (sh_json h) share_key ss limit)))))"

definition ShareHandler_RevokeShare :: "ShareHandler \<Rightarrow> Identity option \<Rightarrow> string \<Rightarrow> unit rpc" where
  "ShareHandler_RevokeShare h ctx rawID =
     bnd (call (from_sum (IdentityFromContext ctx))) (\<lambda>ident.
     bnd (call (from_sum (parseUUID (sh_ext h) rawID))) (\<lambda>shareID.
     bnd (call (ShareUC_Revoke (sh_ext h) ident shareID)) (\<lambda>_. ret ())))"

end
