(* ===== verification/Config.thy ===== *)
theory Config
  imports System
begin

text \<open>
  \<open>internal/config/config.go\<close> and the wiring of \<open>internal/app/app.go\<close> and
  \<open>cmd/worker/main.go\<close>: the configuration structs, their validation, and which value reaches
  which component. Reading the file and the environment is the work of a library (\<open>viper\<close>);
  the log section and the sampling ratio of the telemetry steer output only and are left out. The
  sections with a single field (\<open>Encryption\<close>, \<open>Quota\<close>) are that field.
\<close>

section \<open>Configuration\<close>

record TLSConfig =
  TLS_Enabled :: bool
  TLS_CertFile :: string
  TLS_KeyFile :: string

record ServerConfig =
  Server_GRPCAddr :: string
  Server_HTTPAddr :: string
  Server_MetricsAddr :: string
  Server_ShutdownTimeout :: duration
  Server_TLS :: TLSConfig

record PostgresConfig =
  PG_Host :: string
  PG_Port :: int
  PG_User :: string
  PG_Password :: string
  PG_Database :: string
  PG_SSLMode :: string
  PG_MaxConns :: int
  PG_MinConns :: int
  PG_MaxConnLifetime :: duration

definition DSN :: "PostgresConfig \<Rightarrow> string" where
  "DSN p = ''postgres://'' @ PG_User p @ '':'' @ PG_Password p @ ''@'' @ PG_Host p @ '':'' @
     show_int (PG_Port p) @ ''/'' @ PG_Database p @ ''?sslmode='' @ PG_SSLMode p"

record RedisConfig =
  Redis_Addr :: string
  Redis_Password :: string
  Redis_DB :: int

record S3Config =
  S3_Endpoint :: string
  S3_AccessKey :: string
  S3_SecretKey :: string
  S3_Bucket :: string
  S3_Region :: string
  S3_UseSSL :: bool
  S3_SignedURLTTL :: duration

record AuthConfig =
  Auth_JWTSecret :: string
  Auth_Issuer :: string
  Auth_AccessTokenTTL :: duration
  Auth_RefreshTokenTTL :: duration

text \<open>\<open>MasterKeyBytes\<close>; the errors are told apart by their text.\<close>

definition MasterKeyBytes :: "string \<Rightarrow> string + byte list" where
  "MasterKeyBytes masterKey = (case base64_padded_decode masterKey of
     None \<Rightarrow> Inl ''encryption.master_key is not valid base64''
   | Some key \<Rightarrow>
       if length key \<noteq> 32 then Inl ''encryption.master_key must decode to 32 bytes'' else Inr key)"

record UploadConfig =
  Upload_cfg_ChunkSize :: int
  Upload_cfg_MaxFileSize :: int
  Upload_cfg_SessionTTL :: duration
  Upload_cfg_MaxParallelChunks :: int

record RateLimitConfig =
  RL_Enabled :: bool
  RL_RequestsPerMinute :: int
  RL_AuthRequestsPerMinute :: int

record WorkerConfig =
  Worker_GCInterval :: duration
  Worker_PoolSize :: int
  Worker_TrashRetention :: duration
  Worker_OrphanGrace :: duration

record TelemetryConfig =
  Telemetry_ServiceName :: string
  Telemetry_OTLPEndpoint :: string

record Config =
  Cfg_Server :: ServerConfig
  Cfg_Postgres :: PostgresConfig
  Cfg_Redis :: RedisConfig
  Cfg_S3 :: S3Config
  Cfg_Auth :: AuthConfig
  Cfg_MasterKey :: string
  Cfg_Upload :: UploadConfig
  Cfg_DefaultBytes :: int
  Cfg_RateLimit :: RateLimitConfig
  Cfg_Worker :: WorkerConfig
  Cfg_Telemetry :: TelemetryConfig

text \<open>\<open>Validate\<close>: the errors it joins, in order; none is nil.\<close>

definition Validate :: "Config \<Rightarrow> string list" where
  "Validate c =
     (if Auth_JWTSecret (Cfg_Auth c) = [] then [''auth.jwt_secret is required''] else []) @
     (if length (Auth_JWTSecret (Cfg_Auth c)) < 32
      then [''auth.jwt_secret must be at least 32 characters''] else []) @
     (case MasterKeyBytes (Cfg_MasterKey c) of Inl err \<Rightarrow> [err] | Inr _ \<Rightarrow> []) @
     (if Upload_cfg_ChunkSize (Cfg_Upload c) < push_bit 20 1
      then [''upload.chunk_size must be at least 1 MiB''] else []) @
     (if TLS_Enabled (Server_TLS (Cfg_Server c)) \<and>
         (TLS_CertFile (Server_TLS (Cfg_Server c)) = [] \<or> TLS_KeyFile (Server_TLS (Cfg_Server c)) = [])
      then [''server.tls requires cert_file and key_file when enabled''] else [])"

section \<open>Wiring\<close>

text \<open>\<open>NewJWTManager\<close>; the library's two functions come as parameters.\<close>

definition NewJWTManager :: "ext \<Rightarrow> (claims \<Rightarrow> byte list \<Rightarrow> string option) \<Rightarrow>
    (string \<Rightarrow> (SigningMethod \<Rightarrow> byte list option) \<Rightarrow> string \<Rightarrow> time \<Rightarrow> claims option) \<Rightarrow>
    AuthConfig \<Rightarrow> JWTManager" where
  "NewJWTManager X sgn_fn parse_fn cfg = \<lparr>jm_ext = X, jm_secret = bytes_of (Auth_JWTSecret cfg),
     jm_issuer = Auth_Issuer cfg, jm_ttl = Auth_AccessTokenTTL cfg, jm_SignedString = sgn_fn,
     jm_ParseWithClaims = parse_fn\<rparr>"

text \<open>The worker's collector; it leaves the batch size to its default.\<close>

definition NewGC :: "WorkerConfig \<Rightarrow> GCConfig" where
  "NewGC cfg = \<lparr>gc_TrashRetention = Worker_TrashRetention cfg,
     gc_OrphanGrace = Worker_OrphanGrace cfg, gc_BatchSize = 0\<rparr>"

text \<open>The components, once the key and the backends are there.\<close>

definition wire :: "ext \<Rightarrow> (claims \<Rightarrow> byte list \<Rightarrow> string option) \<Rightarrow>
    (string \<Rightarrow> (SigningMethod \<Rightarrow> byte list option) \<Rightarrow> string \<Rightarrow> time \<Rightarrow> claims option) \<Rightarrow>
    Config \<Rightarrow> byte list \<Rightarrow> system" where
  "wire X sgn_fn parse_fn cfg kek = \<lparr>sys_ext = X, sys_kek = kek,
     sys_ChunkSize = Upload_cfg_ChunkSize (Cfg_Upload cfg),
     sys_MaxFileSize = Upload_cfg_MaxFileSize (Cfg_Upload cfg),
     sys_SessionTTL = Upload_cfg_SessionTTL (Cfg_Upload cfg),
     sys_url_secret = bytes_of (Auth_JWTSecret (Cfg_Auth cfg)),
     sys_SignedURLTTL = S3_SignedURLTTL (Cfg_S3 cfg),
     sys_RefreshTokenTTL = Auth_RefreshTokenTTL (Cfg_Auth cfg),
     sys_DefaultQuotaBytes = Cfg_DefaultBytes cfg,
     sys_jwt = NewJWTManager X sgn_fn parse_fn (Cfg_Auth cfg), sys_gc = NewGC (Cfg_Worker cfg)\<rparr>"

section \<open>The gateway's target\<close>

definition LastIndex :: "string \<Rightarrow> char \<Rightarrow> int" where
  "LastIndex s c =
     (let post = takeWhile (\<lambda>x. x \<noteq> c) (rev s) in
      if length post = length s then -1 else int (length s - length post - 1))"

text \<open>\<open>net.SplitHostPort\<close> and \<open>net.JoinHostPort\<close>.\<close>

definition SplitHostPort :: "string \<Rightarrow> (string \<times> string) option" where
  "SplitHostPort hostport =
     (let i = LastIndex hostport (CHR '':'') in
      if i < 0 then None
      else if hd hostport = CHR ''['' then
        (let e = IndexByte hostport (CHR '']'') in
         if e < 0 \<or> e + 1 \<noteq> i then None
         else if List.member (drop 1 hostport) (CHR ''['') \<or>
           List.member (drop (nat (e + 1)) hostport) (CHR '']'') then None
         else Some (take (nat e - 1) (drop 1 hostport), drop (nat i + 1) hostport))
      else
        (let host = take (nat i) hostport in
         if List.member host (CHR '':'') then None
         else if List.member hostport (CHR ''['') \<or> List.member hostport (CHR '']'') then None
         else Some (host, drop (nat i + 1) hostport)))"

definition JoinHostPort :: "string \<Rightarrow> string \<Rightarrow> string" where
  "JoinHostPort host port =
     (if List.member host (CHR '':'') then ''['' @ host @ '']:'' @ port else host @ '':'' @ port)"

definition gatewayTarget :: "string \<Rightarrow> string" where
  "gatewayTarget listenAddr = (case SplitHostPort listenAddr of
     None \<Rightarrow> listenAddr
   | Some (host, port) \<Rightarrow>
       JoinHostPort (if host = [] \<or> host = ''::'' \<or> host = ''0.0.0.0'' then ''127.0.0.1'' else host) port)"

section \<open>What a validated configuration guarantees\<close>

lemma Validate_ok:
  assumes "Validate c = []"
  shows "32 \<le> length (Auth_JWTSecret (Cfg_Auth c))"
    and "\<exists>kek. MasterKeyBytes (Cfg_MasterKey c) = Inr kek \<and> length kek = 32"
    and "2 ^ 20 \<le> Upload_cfg_ChunkSize (Cfg_Upload c)"
  using assms
  by (auto simp: Validate_def MasterKeyBytes_def push_bit_eq_mult split: if_splits sum.splits option.splits)

lemma gatewayTarget_examples:
  "gatewayTarget '':9090'' = ''127.0.0.1:9090''" "gatewayTarget ''[::]:9090'' = ''127.0.0.1:9090''"
  "gatewayTarget ''10.0.0.5:9090'' = ''10.0.0.5:9090''"
  by (simp_all add: gatewayTarget_def SplitHostPort_def JoinHostPort_def LastIndex_def IndexByte_def Let_def)

end
