(* ===== verification/Rate_Limiter.thy ===== *)
theory Rate_Limiter
  imports Store
begin

text \<open>
  \<open>internal/repository/redis/rate_limiter.go\<close>: the sliding-window log kept in a Redis sorted
  set, and its refinement of the plain log of admitted instants.

  A sorted set is a list of members with their scores; a key without members does not exist.
  A script runs atomically. The clocks of the replicas and of Redis agree, and stand still
  during a call.
\<close>

section \<open>Sorted sets\<close>

type_synonym zset = "(string \<times> int) list"

text \<open>The members of a key, and when it expires (in milliseconds), if ever.\<close>

type_synonym zstore = "string \<Rightarrow> (zset \<times> int option) option"

definition expired :: "int \<Rightarrow> int option \<Rightarrow> bool" where
  "expired now e = (case e of None \<Rightarrow> False | Some t \<Rightarrow> t < now)"

definition zget :: "int \<Rightarrow> zstore \<Rightarrow> string \<Rightarrow> zset \<times> int option" where
  "zget now st key = (case st key of
     None \<Rightarrow> ([], None)
   | Some (zs, e) \<Rightarrow> if expired now e then ([], None) else (zs, e))"

definition zput :: "string \<Rightarrow> zset \<times> int option \<Rightarrow> zstore \<Rightarrow> zstore" where
  "zput key v st = st(key := if fst v = [] then None else Some v)"

definition ZREMRANGEBYSCORE :: "int \<Rightarrow> string \<Rightarrow> int \<Rightarrow> zstore \<Rightarrow> zstore" where
  "ZREMRANGEBYSCORE now key mx st = (case zget now st key of (zs, e) \<Rightarrow>
     zput key (filter (\<lambda>(_, s). mx < s) zs, e) st)"

definition ZCARD :: "int \<Rightarrow> string \<Rightarrow> zstore \<Rightarrow> int" where
  "ZCARD now key st = int (length (fst (zget now st key)))"

definition ZADD :: "int \<Rightarrow> string \<Rightarrow> int \<Rightarrow> string \<Rightarrow> zstore \<Rightarrow> zstore" where
  "ZADD now key score member st = (case zget now st key of (zs, e) \<Rightarrow>
     zput key (filter (\<lambda>(m, _). m \<noteq> member) zs @ [(member, score)], e) st)"

definition PEXPIRE :: "int \<Rightarrow> string \<Rightarrow> int \<Rightarrow> zstore \<Rightarrow> zstore" where
  "PEXPIRE now key ms st = (case zget now st key of (zs, e) \<Rightarrow>
     if ms \<le> 0 then st(key := None) else zput key (zs, Some (now + ms)) st)"

section \<open>The script\<close>

definition slidingWindow ::
    "string \<Rightarrow> int \<Rightarrow> int \<Rightarrow> int \<Rightarrow> string \<Rightarrow> zstore \<Rightarrow> int \<times> zstore" where
  "slidingWindow key now window limit member st =
     (let st = ZREMRANGEBYSCORE now key (now - window) st;
          count = ZCARD now key st in
      if count \<ge> limit then (0, st)
      else
        let st = ZADD now key now member st;
            st = PEXPIRE now key window st in
        (1, st))"

text \<open>\<open>time.Now().UnixMilli()\<close> and \<open>window.Milliseconds()\<close>.\<close>

definition UnixMilli :: "time \<Rightarrow> int" where
  "UnixMilli t = t div 1000000 - unix_epoch_seconds * 1000"

definition Milliseconds :: "duration \<Rightarrow> int" where
  "Milliseconds d = d sdiv 1000000"

text \<open>
  \<open>Allow\<close>: the answer, and the error that comes with it. The keys live beside the rest of the
  state, in \<open>srv_zsets\<close>.
\<close>

record server =
  srv_world :: world
  srv_zsets :: zstore

definition Allow ::
    "ext \<Rightarrow> string \<Rightarrow> int \<Rightarrow> duration \<Rightarrow> server \<Rightarrow> (bool \<times> error option) \<times> server" where
  "Allow X key limit window s =
     (let w = srv_world s;
          now = UnixMilli (w_clock w);
          (i, w1) = (w_uuids w (w_calls w), next_call w);
          member = show_int now @ ''-'' @ take 8 (X_uuid_String X i) in
      case infra_point w1 of
        (Inl err, w2) \<Rightarrow> ((True, Some err), s\<lparr>srv_world := w2\<rparr>)
      | (Inr _, w2) \<Rightarrow>
          (case slidingWindow (''ratelimit:'' @ key) now (Milliseconds window) limit member (srv_zsets s) of
             (res, z) \<Rightarrow> ((res = 1, None), \<lparr>srv_world = w2, srv_zsets = z\<rparr>)))"

section \<open>The log of admitted instants\<close>

text \<open>
  What a sliding-window limiter promises: a call at \<open>now\<close> is admitted exactly when fewer than
  \<open>limit\<close> calls were admitted in the window that ends at \<open>now\<close>.
\<close>

definition recent :: "int \<Rightarrow> int \<Rightarrow> int list \<Rightarrow> int list" where
  "recent window now log = filter (\<lambda>t. now - window < t) log"

definition admits :: "int \<Rightarrow> int \<Rightarrow> int \<Rightarrow> int list \<Rightarrow> bool" where
  "admits window limit now log \<longleftrightarrow> int (length (recent window now log)) < limit"

definition admit :: "int \<Rightarrow> int \<Rightarrow> int \<Rightarrow> int list \<Rightarrow> int list" where
  "admit window limit now log = (if admits window limit now log then log @ [now] else log)"

fun admitted :: "int \<Rightarrow> int \<Rightarrow> int list \<Rightarrow> int list \<Rightarrow> bool list" where
  "admitted window limit log [] = []"
| "admitted window limit log (now # ts) =
     admits window limit now log # admitted window limit (admit window limit now log) ts"

text \<open>A limiter called at a sequence of instants, each with the member it records.\<close>

fun run_calls :: "(int \<Rightarrow> string \<Rightarrow> 's \<Rightarrow> bool \<times> 's) \<Rightarrow> (int \<times> string) list \<Rightarrow> 's \<Rightarrow> bool list" where
  "run_calls allow [] s = []"
| "run_calls allow ((now, m) # cs) s = (case allow now m s of (ok, s') \<Rightarrow> ok # run_calls allow cs s')"

text \<open>
  The interface: \<open>represents t log ms s\<close> says that at instant \<open>t\<close> the state \<open>s\<close> stands for
  \<open>log\<close>, and that members outside \<open>ms\<close> are unused.
\<close>

locale sliding_window =
  fixes allow :: "int \<Rightarrow> string \<Rightarrow> 's \<Rightarrow> bool \<times> 's" and window limit :: int
    and represents :: "int \<Rightarrow> int list \<Rightarrow> string set \<Rightarrow> 's \<Rightarrow> bool"
  assumes decides: "represents t log ms s \<Longrightarrow> t \<le> now \<Longrightarrow> m \<notin> ms \<Longrightarrow>
      fst (allow now m s) = admits window limit now log"
    and records: "represents t log ms s \<Longrightarrow> t \<le> now \<Longrightarrow> m \<notin> ms \<Longrightarrow>
      represents now (admit window limit now log) (insert m ms) (snd (allow now m s))"
begin

lemma refines_log:
  assumes "represents t log ms s" "sorted (t # map fst cs)" "distinct (map snd cs)"
    "ms \<inter> set (map snd cs) = {}"
  shows "run_calls allow cs s = admitted window limit log (map fst cs)"
  using assms
proof (induction cs arbitrary: t log ms s)
  case (Cons c cs)
  obtain now m where c: "c = (now, m)" by fastforce
  obtain ok s' where call: "allow now m s = (ok, s')" by fastforce
  have "t \<le> now" "m \<notin> ms" using Cons.prems c by auto
  note d = decides [OF Cons.prems(1) this] and r = records [OF Cons.prems(1) this]
  have "run_calls allow cs s' = admitted window limit (admit window limit now log) (map fst cs)"
    using Cons.IH [of now "admit window limit now log" "insert m ms" s'] r Cons.prems c call by auto
  with c call d show ?case by simp
qed simp

end

text \<open>The bound the log gives: no window holds more than \<open>limit\<close> admissions.\<close>

definition within_limit :: "int \<Rightarrow> int \<Rightarrow> int list \<Rightarrow> bool" where
  "within_limit window limit log \<longleftrightarrow> (\<forall>t. int (length (filter (\<lambda>x. t - window < x \<and> x \<le> t) log)) \<le> limit)"

lemma length_filter_mono: "(\<And>x. P x \<Longrightarrow> Q x) \<Longrightarrow> length (filter P xs) \<le> length (filter Q xs)"
  by (induction xs) (auto intro: le_SucI)

lemma within_limit_admit:
  assumes "within_limit window limit log" "\<And>x. x \<in> set log \<Longrightarrow> x \<le> now" "0 \<le> limit"
  shows "within_limit window limit (admit window limit now log)"
  unfolding within_limit_def
proof
  fix t
  let ?n = "\<lambda>l. int (length (filter (\<lambda>x. t - window < x \<and> x \<le> t) l))"
  show "?n (admit window limit now log) \<le> limit"
  proof (cases "admits window limit now log \<and> t - window < now \<and> now \<le> t")
    case True
    have "length (filter (\<lambda>x. t - window < x \<and> x \<le> t) log) \<le> length (recent window now log)"
      unfolding recent_def using True by (intro length_filter_mono) auto
    with True show ?thesis by (auto simp: admit_def admits_def)
  next
    case False
    then have "?n (admit window limit now log) = ?n log" by (auto simp: admit_def)
    then show ?thesis using assms(1) by (simp add: within_limit_def)
  qed
qed

definition admissions :: "int list \<Rightarrow> bool list \<Rightarrow> int list" where
  "admissions ts oks = map fst (filter snd (zip ts oks))"

lemma admitted_within_limit:
  assumes "within_limit window limit log" "sorted (log @ ts)" "0 \<le> limit"
  shows "within_limit window limit (log @ admissions ts (admitted window limit log ts))"
  using assms
proof (induction ts arbitrary: log)
  case (Cons now ts)
  let ?log = "admit window limit now log"
  have "within_limit window limit ?log"
    using Cons.prems by (intro within_limit_admit) (auto simp: sorted_append)
  moreover have "sorted (?log @ ts)"
    using Cons.prems(2) by (auto simp: admit_def sorted_append)
  ultimately have "within_limit window limit (?log @ admissions ts (admitted window limit ?log ts))"
    using Cons.IH Cons.prems(3) by blast
  then show ?case by (simp add: admissions_def admit_def split: if_splits)
qed (simp add: admissions_def)

section \<open>The script refines the log\<close>

definition allow_call :: "string \<Rightarrow> int \<Rightarrow> int \<Rightarrow> int \<Rightarrow> string \<Rightarrow> zstore \<Rightarrow> bool \<times> zstore" where
  "allow_call key window limit now m st =
     (case slidingWindow key now window limit m st of (res, st') \<Rightarrow> (res = 1, st'))"

definition keeps_log :: "string \<Rightarrow> int \<Rightarrow> int \<Rightarrow> int list \<Rightarrow> string set \<Rightarrow> zstore \<Rightarrow> bool" where
  "keeps_log key window t log ms st \<longleftrightarrow>
     (\<forall>x \<in> set log. x \<le> t) \<and>
     (case st key of
        None \<Rightarrow> recent window t log = []
      | Some (zs, e) \<Rightarrow> fst ` set zs \<subseteq> ms \<and> recent window t log = recent window t (map snd zs) \<and>
          (\<exists>t1. e = Some t1 \<and> (\<forall>x \<in> set (map snd zs). x + window \<le> t1)))"

lemma recent_later: "t \<le> now \<Longrightarrow> recent window now (recent window t log) = recent window now log"
  by (auto simp: recent_def intro: filter_cong)

lemma recent_map: "recent window now (map snd zs) = map snd (filter (\<lambda>(_, s). now - window < s) zs)"
  by (simp add: recent_def filter_map comp_def case_prod_unfold)

text \<open>After trimming, the set holds exactly the recent part of the log.\<close>

lemma trimmed:
  assumes "keeps_log key window t log ms st" "t \<le> now"
  shows "\<exists>zs e. zget now st key = (zs, e) \<and>
    map snd (filter (\<lambda>(_, s). now - window < s) zs) = recent window now log \<and> fst ` set zs \<subseteq> ms \<and>
    (zs \<noteq> [] \<longrightarrow> \<not> expired now e \<and> (\<exists>t1. e = Some t1 \<and> (\<forall>x \<in> set (map snd zs). x + window \<le> t1)))"
proof (cases "st key")
  case None
  then have "recent window now log = []"
    using assms recent_later [of t now window log] by (simp add: keeps_log_def recent_def)
  with None show ?thesis by (simp add: zget_def)
next
  case (Some v)
  then obtain zs t1 where v: "v = (zs, Some t1)" "fst ` set zs \<subseteq> ms"
    "recent window t log = recent window t (map snd zs)" "\<forall>x \<in> set (map snd zs). x + window \<le> t1"
    using assms(1) by (cases v) (auto simp: keeps_log_def)
  have now: "recent window now log = recent window now (map snd zs)"
    using recent_later [OF assms(2)] v(3) by metis
  show ?thesis
  proof (cases "t1 < now")
    case True
    then have "recent window now (map snd zs) = []"
      using v(4) by (force simp: recent_def filter_empty_conv)
    then show ?thesis using True Some v(1) now by (simp add: zget_def expired_def)
  next
    case False
    then show ?thesis using Some v now by (simp add: zget_def expired_def recent_map)
  qed
qed

lemma zget_zput:
  "zget now (zput key (zs, e) st) key = (if zs = [] \<or> expired now e then ([], None) else (zs, e))"
  by (simp add: zget_def zput_def)

lemma zput_zput [simp]: "zput key v (zput key v' st) = zput key v st" "(zput key v st)(key := x) = st(key := x)"
  by (simp_all add: zput_def)

text \<open>The script in one step, on what is left of the set after trimming.\<close>

lemma allow_call_run:
  assumes "zget now st key = (zs, e)" "zs \<noteq> [] \<longrightarrow> \<not> expired now e" "m \<notin> fst ` set zs"
    and zs'_def: "zs' = filter (\<lambda>(_, s). now - window < s) zs"
  shows "allow_call key window limit now m st =
    (if int (length zs') < limit
     then (True, if window \<le> 0 then st(key := None)
           else zput key (zs' @ [(m, now)], Some (now + window)) st)
     else (False, zput key (zs', e) st))"
proof -
  have live: "zs' \<noteq> [] \<longrightarrow> \<not> expired now e" using assms(2) by (auto simp: zs'_def)
  have "ZREMRANGEBYSCORE now key (now - window) st = zput key (zs', e) st"
    by (simp add: ZREMRANGEBYSCORE_def assms(1) zs'_def)
  moreover have z: "zget now (zput key (zs', e) st) key = (if zs' = [] then ([], None) else (zs', e))"
    using live by (simp add: zget_zput)
  moreover have "filter (\<lambda>(m', _). m' \<noteq> m) zs' = zs'"
    using assms(3) unfolding zs'_def by (intro filter_True) force
  then have "ZADD now key now m (zput key (zs', e) st) =
      zput key (zs' @ [(m, now)], if zs' = [] then None else e) st"
    by (simp add: ZADD_def z)
  moreover have "zget now (zput key (zs' @ [(m, now)], if zs' = [] then None else e) st) key =
      (zs' @ [(m, now)], if zs' = [] then None else e)"
    using live by (simp add: zget_zput expired_def)
  ultimately show ?thesis
    by (simp add: allow_call_def slidingWindow_def ZCARD_def PEXPIRE_def Let_def)
qed

interpretation redis: sliding_window "allow_call key window limit" window limit "keeps_log key window"
  for key window limit
proof unfold_locales
  fix t log ms st now m
  assume rep: "keeps_log key window t log ms st" and now: "t \<le> now" and m: "m \<notin> ms"
  obtain zs e where z: "zget now st key = (zs, e)"
    "map snd (filter (\<lambda>(_, s). now - window < s) zs) = recent window now log" "fst ` set zs \<subseteq> ms"
    "zs \<noteq> [] \<longrightarrow> \<not> expired now e \<and> (\<exists>t1. e = Some t1 \<and> (\<forall>x \<in> set (map snd zs). x + window \<le> t1))"
    using trimmed [OF rep now] by blast
  define zs' where "zs' = filter (\<lambda>(_, s). now - window < s) zs"
  have run: "allow_call key window limit now m st =
    (if int (length zs') < limit
     then (True, if window \<le> 0 then st(key := None)
           else zput key (zs' @ [(m, now)], Some (now + window)) st)
     else (False, zput key (zs', e) st))"
    using z m by (intro allow_call_run [OF z(1) _ _ zs'_def]) auto
  have sub: "set zs' \<subseteq> set zs" by (auto simp: zs'_def)
  have rec: "recent window now log = map snd zs'" using z(2) by (simp add: zs'_def)
  then have count: "admits window limit now log \<longleftrightarrow> int (length zs') < limit"
    by (simp add: admits_def)
  with run show "fst (allow_call key window limit now m st) = admits window limit now log" by simp
  have old: "\<forall>x \<in> set log. x \<le> now" using rep now by (force simp: keeps_log_def)
  have self: "recent window now (map snd zs') = map snd zs'"
    using rec by (metis recent_later order_refl)
  have le: "x \<le> now" if "x \<in> snd ` set zs'" for x
    using that rec old by (metis (no_types, lifting) filter_is_subset image_set recent_def subsetD)
  have none: "zs' = []" if "window \<le> 0"
  proof (rule ccontr)
    assume "zs' \<noteq> []"
    then obtain x where "x \<in> set zs'" by (meson last_in_set)
    then have "now - window < snd x" by (auto simp: zs'_def)
    with le [of "snd x"] \<open>x \<in> set zs'\<close> that show False by simp
  qed
  have names: "fst ` set zs' \<subseteq> ms" using z(3) sub by blast
  have expiry: "zs' \<noteq> [] \<Longrightarrow> \<exists>t1. e = Some t1 \<and> (\<forall>x \<in> set (map snd zs'). x + window \<le> t1)"
    using z(4) sub by (cases "zs = []") auto
  show "keeps_log key window now (admit window limit now log) (insert m ms)
    (snd (allow_call key window limit now m st))"
    using old names rec self le none expiry
    by (auto simp: run keeps_log_def admit_def count zput_def recent_def filter_empty_conv)
qed

section \<open>Properties\<close>

text \<open>What \<open>Allow\<close> answers: the script's verdict, and yes when Redis cannot be reached.\<close>

lemma Allow_answers:
  "fst (Allow X key limit window s) =
     (case w_faults (srv_world s) (Suc (w_calls (srv_world s))) of
        Some i \<Rightarrow> (True, Some (infra_error i))
      | None \<Rightarrow> (fst (allow_call (''ratelimit:'' @ key) (Milliseconds window) limit
          (UnixMilli (w_clock (srv_world s)))
          (show_int (UnixMilli (w_clock (srv_world s))) @ ''-'' @
             take 8 (X_uuid_String X (w_uuids (srv_world s) (w_calls (srv_world s)))))
          (srv_zsets s)), None))"
  by (simp add: Allow_def allow_call_def Let_def infra_point_def split: option.splits prod.splits)

text \<open>
  C18: The sliding-window script over the sorted set, with its trimming and key expiry, run on a
  key not used before by calls in the order of their clock readings and with distinct members,
  admits and refuses exactly as the plain log of admitted instants does.
\<close>

theorem rate_limiter_refines:
  assumes "st key = None" "sorted (map fst cs)" "distinct (map snd cs)"
  shows "run_calls (allow_call key window limit) cs st = admitted window limit [] (map fst cs)"
proof (cases cs)
  case (Cons c cs')
  have "keeps_log key window (fst c) [] {} st" using assms(1) by (simp add: keeps_log_def recent_def)
  from redis.refines_log [OF this, of cs] assms(2,3) Cons show ?thesis by simp
qed simp

theorem rate_limiter_refines_witness:
  "run_calls (allow_call ''k'' 60 2) [(0, ''a''), (10, ''b''), (59, ''c''), (60, ''d''), (69, ''e''), (70, ''f'')]
     (\<lambda>_. None) = [True, True, False, True, False, True]"
  by (subst rate_limiter_refines) (simp_all add: admits_def admit_def recent_def)

text \<open>
  C36: When the script runs on a key not used before, by calls in the order of their clock
  readings and with distinct members, no window of the configured length, wherever it lies,
  contains more calls the script admitted than the limit. (Calls let through because Redis failed
  do not run the script and are not counted.)
\<close>

theorem rate_limit_bound:
  assumes "st key = None" "sorted (map fst cs)" "distinct (map snd cs)" "0 \<le> limit"
  shows "int (length (filter (\<lambda>x. t - window < x \<and> x \<le> t)
    (admissions (map fst cs) (run_calls (allow_call key window limit) cs st)))) \<le> limit"
proof -
  have "keeps_log key window (fst (hd cs)) [] {} st" using assms(1) by (simp add: keeps_log_def recent_def)
  then have "run_calls (allow_call key window limit) cs st = admitted window limit [] (map fst cs)"
    using redis.refines_log [of key window "fst (hd cs)" "[]" "{}" st cs limit] assms(2,3)
    by (cases cs) auto
  moreover have "within_limit window limit [] " using assms(4) by (simp add: within_limit_def)
  ultimately show ?thesis
    using admitted_within_limit [of window limit "[]" "map fst cs"] assms(2,4)
    by (simp add: within_limit_def)
qed

theorem rate_limit_bound_witness:
  "int (length (filter (\<lambda>x. 61 - 60 < x \<and> x \<le> 61)
    (admissions [0, 10, 59, 60] (run_calls (allow_call ''k'' 60 2)
      [(0, ''a''), (10, ''b''), (59, ''c''), (60, ''d'')] (\<lambda>_. None))))) \<le> 2"
  using rate_limit_bound [of "\<lambda>_. None" "''k''" "[(0, ''a''), (10, ''b''), (59, ''c''), (60, ''d'')]" 2 61 60]
  by simp

text \<open>
  The bound needs the calls to reach Redis in the order of their clock readings. Each caller reads
  its clock before it runs the script: a caller whose call arrives late, after one with a later
  reading has trimmed the set, is not counted against the calls trimmed, and a window can hold
  more than the limit.
\<close>

lemma late_reading_exceeds_limit:
  "let cs = [(5, ''a''), (6, ''b''), (17, ''c''), (7, ''d'')] in
   length (filter (\<lambda>x. 7 - 10 < x \<and> x \<le> 7)
     (admissions (map fst cs) (run_calls (allow_call ''k'' 10 2) cs (\<lambda>_. None)))) = 3"
  by code_simp

end
