(* ===== verification/Grpc_Server.thy ===== *)
theory Grpc_Server
  imports Grpc_Handlers Config Rate_Limiter
begin

text \<open>
  \<open>internal/middleware/interceptors.go\<close> and \<open>internal/transport/grpc/server.go\<close>: the
  interceptor chain and the dispatch of the three services. Metrics, logging and tracing only
  observe; the panic that \<open>Recovery\<close> turns into an internal error is the use cases'
  \<open>ErrInternal\<close>.
\<close>

section \<open>Calls\<close>

text \<open>The request messages of the three services.\<close>

datatype rpc_call =
    RPC_Register string string string
  | RPC_Login string string
  | RPC_RefreshToken string
  | RPC_Logout string
  | RPC_GetProfile
  | RPC_InitUpload string string string int string
  | RPC_GetUploadStatus string
  | RPC_CompleteUpload string
  | RPC_AbortUpload string
  | RPC_GetFile string
  | RPC_ListFiles string bool "PageRequest option" SortOrder
  | RPC_SearchFiles string string "PageRequest option"
  | RPC_MoveFile string string
  | RPC_RenameFile string string
  | RPC_DeleteFile string
  | RPC_RestoreFile string
  | RPC_GetDownloadURL string
  | RPC_ListVersions string "PageRequest option"
  | RPC_RestoreVersion string string
  | RPC_LockFile string
  | RPC_UnlockFile string
  | RPC_CreateFolder string string
  | RPC_ListFolder string "PageRequest option"
  | RPC_DeleteFolder string
  | RPC_CreateShare string string PermissionPB "time option"
  | RPC_CreatePublicLink string PermissionPB "time option" string
  | RPC_ListShares string "PageRequest option"
  | RPC_RevokeShare string

datatype rpc_response =
    RespId string
  | RespTokens "string \<times> string \<times> time"
  | RespEmpty
  | RespProfile ProfileMessage
  | RespInit "string \<times> int \<times> int \<times> bool"
  | RespStatus "string \<times> int list \<times> int \<times> string"
  | RespFile FileMetadata
  | RespFiles "FileMetadata list \<times> string"
  | RespURL "string \<times> int"
  | RespVersions "FileVersion list \<times> string"
  | RespFolder FolderMetadata
  | RespListing "FolderMetadata list \<times> FileMetadata list \<times> string"
  | RespShare ShareMessage
  | RespShares "ShareMessage list \<times> string"

text \<open>\<open>info.FullMethod\<close>\<close>

definition auth_method :: "string \<Rightarrow> string" where
  "auth_method m = ''/strato.v1.AuthService/'' @ m"

definition file_method :: "string \<Rightarrow> string" where
  "file_method m = ''/strato.v1.FileService/'' @ m"

definition share_method :: "string \<Rightarrow> string" where
  "share_method m = ''/strato.v1.ShareService/'' @ m"

fun FullMethod :: "rpc_call \<Rightarrow> string" where
  "FullMethod (RPC_Register _ _ _) = auth_method ''Register''"
| "FullMethod (RPC_Login _ _) = auth_method ''Login''"
| "FullMethod (RPC_RefreshToken _) = auth_method ''RefreshToken''"
| "FullMethod (RPC_Logout _) = auth_method ''Logout''"
| "FullMethod RPC_GetProfile = auth_method ''GetProfile''"
| "FullMethod (RPC_InitUpload _ _ _ _ _) = file_method ''InitUpload''"
| "FullMethod (RPC_GetUploadStatus _) = file_method ''GetUploadStatus''"
| "FullMethod (RPC_CompleteUpload _) = file_method ''CompleteUpload''"
| "FullMethod (RPC_AbortUpload _) = file_method ''AbortUpload''"
| "FullMethod (RPC_GetFile _) = file_method ''GetFile''"
| "FullMethod (RPC_ListFiles _ _ _ _) = file_method ''ListFiles''"
| "FullMethod (RPC_SearchFiles _ _ _) = file_method ''SearchFiles''"
| "FullMethod (RPC_MoveFile _ _) = file_method ''MoveFile''"
| "FullMethod (RPC_RenameFile _ _) = file_method ''RenameFile''"
| "FullMethod (RPC_DeleteFile _) = file_method ''DeleteFile''"
| "FullMethod (RPC_RestoreFile _) = file_method ''RestoreFile''"
| "FullMethod (RPC_GetDownloadURL _) = file_method ''GetDownloadURL''"
| "FullMethod (RPC_ListVersions _ _) = file_method ''ListVersions''"
| "FullMethod (RPC_RestoreVersion _ _) = file_method ''RestoreVersion''"
| "FullMethod (RPC_LockFile _) = file_method ''LockFile''"
| "FullMethod (RPC_UnlockFile _) = file_method ''UnlockFile''"
| "FullMethod (RPC_CreateFolder _ _) = file_method ''CreateFolder''"
| "FullMethod (RPC_ListFolder _ _) = file_method ''ListFolder''"
| "FullMethod (RPC_DeleteFolder _) = file_method ''DeleteFolder''"
| "FullMethod (RPC_CreateShare _ _ _ _) = share_method ''CreateShare''"
| "FullMethod (RPC_CreatePublicLink _ _ _ _) = share_method ''CreatePublicLink''"
| "FullMethod (RPC_ListShares _ _) = share_method ''ListShares''"
| "FullMethod (RPC_RevokeShare _) = share_method ''RevokeShare''"

section \<open>Dispatch\<close>

text \<open>The handlers as \<open>app.New\<close> builds them; the public base URL is empty.\<close>

definition file_handler :: "system \<Rightarrow> cursor_json \<Rightarrow> FileHandler" where
  "file_handler S J = \<lparr>fh_files = file_uc S, fh_uploads = upload_uc S, fh_json = J\<rparr>"

definition share_handler :: "system \<Rightarrow> cursor_json \<Rightarrow> ShareHandler" where
  "share_handler S J = \<lparr>sh_ext = sys_ext S, sh_json = J, sh_publicBaseURL = []\<rparr>"

definition respond :: "('a \<Rightarrow> rpc_response) \<Rightarrow> 'a rpc \<Rightarrow> rpc_response rpc" where
  "respond wrap m = bnd m (\<lambda>x. ret (wrap x))"

fun dispatch :: "system \<Rightarrow> cursor_json \<Rightarrow> Identity option \<Rightarrow> rpc_call \<Rightarrow> rpc_response rpc" where
  "dispatch S J ctx (RPC_Register e pw nm) = respond RespId (AuthHandler_Register (auth_uc S) e pw nm)"
| "dispatch S J ctx (RPC_Login e pw) = respond RespTokens (AuthHandler_Login (auth_uc S) e pw)"
| "dispatch S J ctx (RPC_RefreshToken t) = respond RespTokens (AuthHandler_RefreshToken (auth_uc S) t)"
| "dispatch S J ctx (RPC_Logout t) = respond (\<lambda>_. RespEmpty) (AuthHandler_Logout (auth_uc S) t)"
| "dispatch S J ctx RPC_GetProfile = respond RespProfile (AuthHandler_GetProfile (auth_uc S) ctx)"
| "dispatch S J ctx (RPC_InitUpload nm fo mime n chk) =
     respond RespInit (FileHandler_InitUpload (file_handler S J) ctx nm fo mime n chk)"
| "dispatch S J ctx (RPC_GetUploadStatus i) =
     respond RespStatus (FileHandler_GetUploadStatus (file_handler S J) ctx i)"
| "dispatch S J ctx (RPC_CompleteUpload i) =
     respond RespFile (FileHandler_CompleteUpload (file_handler S J) ctx i)"
| "dispatch S J ctx (RPC_AbortUpload i) =
     respond (\<lambda>_. RespEmpty) (FileHandler_AbortUpload (file_handler S J) ctx i)"
| "dispatch S J ctx (RPC_GetFile i) = respond RespFile (FileHandler_GetFile (file_handler S J) ctx i)"
| "dispatch S J ctx (RPC_ListFiles fo del pg ord) =
     respond RespFiles (FileHandler_ListFiles (file_handler S J) ctx fo del pg ord)"
| "dispatch S J ctx (RPC_SearchFiles q m pg) =
     respond RespFiles (FileHandler_SearchFiles (file_handler S J) ctx q m pg)"
| "dispatch S J ctx (RPC_MoveFile i t) = respond RespFile (FileHandler_MoveFile (file_handler S J) ctx i t)"
| "dispatch S J ctx (RPC_RenameFile i nm) =
     respond RespFile (FileHandler_RenameFile (file_handler S J) ctx i nm)"
| "dispatch S J ctx (RPC_DeleteFile i) =
     respond (\<lambda>_. RespEmpty) (FileHandler_DeleteFile (file_handler S J) ctx i)"
| "dispatch S J ctx (RPC_RestoreFile i) =
     respond RespFile (FileHandler_RestoreFile (file_handler S J) ctx i)"
| "dispatch S J ctx (RPC_GetDownloadURL i) =
     respond RespURL (FileHandler_GetDownloadURL (file_handler S J) ctx i)"
| "dispatch S J ctx (RPC_ListVersions i pg) =
     respond RespVersions (FileHandler_ListVersions (file_handler S J) ctx i pg)"
| "dispatch S J ctx (RPC_RestoreVersion i v) =
     respond RespFile (FileHandler_RestoreVersion (file_handler S J) ctx i v)"
| "dispatch S J ctx (RPC_LockFile i) =
     respond (\<lambda>_. RespEmpty) (FileHandler_LockFile (file_handler S J) ctx i)"
| "dispatch S J ctx (RPC_UnlockFile i) =
     respond (\<lambda>_. RespEmpty) (FileHandler_UnlockFile (file_handler S J) ctx i)"
| "dispatch S J ctx (RPC_CreateFolder nm p) =
     respond RespFolder (FileHandler_CreateFolder (file_handler S J) ctx nm p)"
| "dispatch S J ctx (RPC_ListFolder fo pg) =
     respond RespListing (FileHandler_ListFolder (file_handler S J) ctx fo pg)"
| "dispatch S J ctx (RPC_DeleteFolder i) =
     respond (\<lambda>_. RespEmpty) (FileHandler_DeleteFolder (file_handler S J) ctx i)"
| "dispatch S J ctx (RPC_CreateShare i e p t) =
     respond RespShare (ShareHandler_CreateShare (share_handler S J) ctx i e p t)"
| "dispatch S J ctx (RPC_CreatePublicLink i p t pw) =
     respond RespShare (ShareHandler_CreatePublicLink (share_handler S J) ctx i p t pw)"
| "dispatch S J ctx (RPC_ListShares i pg) =
     respond RespShares (ShareHandler_ListShares (share_handler S J) ctx i pg)"
| "dispatch S J ctx (RPC_RevokeShare i) =
     respond (\<lambda>_. RespEmpty) (ShareHandler_RevokeShare (share_handler S J) ctx i)"

section \<open>Interceptors\<close>

definition publicMethods :: "string \<Rightarrow> bool" where
  "publicMethods m = List.member [auth_method ''Register'', auth_method ''Login'',
     auth_method ''RefreshToken'', auth_method ''Logout''] m"

definition authRateLimited :: "string \<Rightarrow> bool" where
  "authRateLimited m = List.member [auth_method ''Register'', auth_method ''Login''] m"

text \<open>What the connection brings: the peer's address and the metadata, by lower-case key.\<close>

record incoming =
  in_peer :: "string option"
  in_md :: "string \<Rightarrow> string list"

definition trim_brackets :: "string \<Rightarrow> string" where
  "trim_brackets s = (let f = dropWhile (\<lambda>c. c = CHR ''['' \<or> c = CHR '']'') in rev (f (rev (f s))))"

definition hostOnly :: "string \<Rightarrow> string" where
  "hostOnly addr =
     (let i = LastIndex addr (CHR '':'') in
      if i > 0 then trim_brackets (take (nat i) addr) else addr)"

text \<open>\<open>strings.TrimSpace(strings.Split(s, ",")[0])\<close>\<close>

definition first_forwarded :: "string \<Rightarrow> string" where
  "first_forwarded s = TrimSpace (takeWhile (\<lambda>c. c \<noteq> CHR '','') s)"

definition RequestMeta_of :: "incoming \<Rightarrow> RequestMeta" where
  "RequestMeta_of req =
     (let ip = (case in_peer req of None \<Rightarrow> [] | Some a \<Rightarrow> hostOnly a);
          ua = (case in_md req ''user-agent'' of [] \<Rightarrow> [] | a # _ \<Rightarrow> a);
          ip' = (case in_md req ''x-forwarded-for'' of
             [] \<Rightarrow> ip | a # _ \<Rightarrow> if a \<noteq> [] then first_forwarded a else ip) in
      \<lparr>Meta_IP = ip', Meta_UserAgent = ua\<rparr>)"

text \<open>\<open>strings.EqualFold\<close> against an ASCII prefix without \<open>k\<close> and \<open>s\<close>.\<close>

definition bearer_token :: "string \<Rightarrow> string option" where
  "bearer_token v =
     (if length v \<le> 7 \<or> lower (take 7 v) \<noteq> ''bearer '' then None else Some (drop 7 v))"

definition bearerFromMD :: "incoming \<Rightarrow> string option" where
  "bearerFromMD req = (case in_md req ''authorization'' of [] \<Rightarrow> None | v # _ \<Rightarrow> bearer_token v)"

definition callerKey :: "incoming \<Rightarrow> RequestMeta \<Rightarrow> string" where
  "callerKey req meta = (case bearerFromMD req of
     Some token \<Rightarrow> if length token > 16 then ''tok:'' @ take 16 token else ''ip:'' @ Meta_IP meta
   | None \<Rightarrow> ''ip:'' @ Meta_IP meta)"

definition minute :: duration where "minute = 60 * nanos_per_second"

definition on_world :: "(world, 'e, 'a) act \<Rightarrow> (server, 'e, 'a) act" where
  "on_world m = (\<lambda>s. case m (srv_world s) of (r, w) \<Rightarrow> (r, s\<lparr>srv_world := w\<rparr>))"

text \<open>An error of the limiter is logged; its answer then is to allow.\<close>

definition RateLimit :: "ext \<Rightarrow> RateLimitConfig \<Rightarrow> incoming \<Rightarrow> string \<Rightarrow>
    (server, RpcStatus, 'a) act \<Rightarrow> (server, RpcStatus, 'a) act" where
  "RateLimit X cfg req meth handler = (\<lambda>s.
     if \<not> RL_Enabled cfg then handler s
     else
       let key = callerKey req (w_meta (srv_world s));
           (key, limit) = (if authRateLimited meth
             then (''auth:'' @ key, RL_AuthRequestsPerMinute cfg) else (key, RL_RequestsPerMinute cfg)) in
       case Allow X key limit minute s of ((allowed, _), s1) \<Rightarrow>
         if \<not> allowed then (Inl (status_Error ResourceExhausted (Literal ''rate limit exceeded'')), s1)
         else handler s1)"

definition Authentication :: "JWTManager \<Rightarrow> incoming \<Rightarrow> string \<Rightarrow>
    (Identity option \<Rightarrow> (server, RpcStatus, 'a) act) \<Rightarrow> (server, RpcStatus, 'a) act" where
  "Authentication tokens req meth handler = (\<lambda>s.
     if publicMethods meth then handler None s
     else case bearerFromMD req of
       None \<Rightarrow> (Inl (status_Error Unauthenticated (Literal ''missing bearer token'')), s)
     | Some token \<Rightarrow>
         (case ParseAccessToken tokens (w_clock (srv_world s)) token of
            Inl _ \<Rightarrow> (Inl (status_Error Unauthenticated (Literal ''invalid or expired token'')), s)
          | Inr ident \<Rightarrow> handler (Some ident) s))"

definition RequestMeta_interceptor :: "incoming \<Rightarrow> (server, 'e, 'a) act \<Rightarrow> (server, 'e, 'a) act" where
  "RequestMeta_interceptor req handler = (\<lambda>s.
     handler (s\<lparr>srv_world := (srv_world s)\<lparr>w_meta := RequestMeta_of req\<rparr>\<rparr>))"

text \<open>The server: the chain in its order, then the service.\<close>

definition serve_grpc :: "system \<Rightarrow> cursor_json \<Rightarrow> RateLimitConfig \<Rightarrow> incoming \<Rightarrow> rpc_call \<Rightarrow>
    (server, RpcStatus, rpc_response) act" where
  "serve_grpc S J cfg req c =
     RequestMeta_interceptor req
       (RateLimit (sys_ext S) cfg req (FullMethod c)
         (Authentication (sys_jwt S) req (FullMethod c)
           (\<lambda>ctx. on_world (dispatch S J ctx c))))"

end
