(* ===== verification/Api_Props.thy ===== *)
theory Api_Props
  imports Grpc_Server Integrity_Props
begin

text \<open>
  What the gRPC server adds to the use cases: every call amounts to at most one request of theory
  \<open>System\<close>, made as the caller its token names, and nothing but the four public methods works
  without a token.
\<close>

section \<open>Handlers make at most one request\<close>

definition client_request :: "request \<Rightarrow> bool" where
  "client_request r = (case r of SweepUploads \<Rightarrow> False | SweepTrash \<Rightarrow> False | SweepBlobs \<Rightarrow> False
     | SweepSessions \<Rightarrow> False | _ \<Rightarrow> True)"

fun caller :: "request \<Rightarrow> Identity option" where
  "caller (ReqProfile ident) = Some ident"
| "caller (ReqInitUpload ident _ _ _ _ _) = Some ident"
| "caller (ReqUploadChunk ident _ _ _) = Some ident"
| "caller (ReqStatus ident _) = Some ident"
| "caller (ReqComplete ident _) = Some ident"
| "caller (ReqAbort ident _) = Some ident"
| "caller (ReqGet ident _) = Some ident"
| "caller (ReqList ident _ _ _ _ _) = Some ident"
| "caller (ReqSearch ident _ _ _ _) = Some ident"
| "caller (ReqRename ident _ _) = Some ident"
| "caller (ReqMove ident _ _) = Some ident"
| "caller (ReqDelete ident _) = Some ident"
| "caller (ReqRestore ident _) = Some ident"
| "caller (ReqListVersions ident _ _ _) = Some ident"
| "caller (ReqRestoreVersion ident _ _) = Some ident"
| "caller (ReqLock ident _) = Some ident"
| "caller (ReqUnlock ident _) = Some ident"
| "caller (ReqCreateFolder ident _ _) = Some ident"
| "caller (ReqListFolder ident _ _ _) = Some ident"
| "caller (ReqDeleteFolder ident _) = Some ident"
| "caller (ReqDownload ident _) = Some ident"
| "caller (ReqSignedQuery ident _) = Some ident"
| "caller (ReqCreateShare ident _ _ _ _) = Some ident"
| "caller (ReqCreatePublicLink ident _ _ _ _) = Some ident"
| "caller (ReqListShares ident _ _ _) = Some ident"
| "caller (ReqRevokeShare ident _) = Some ident"
| "caller _ = None"

text \<open>
  \<open>as_request S ctx m\<close>: \<open>m\<close> leaves the state that one request, made as \<open>ctx\<close>, leaves;
  \<open>one_request\<close>: or it leaves the state alone.
\<close>

definition as_request :: "system \<Rightarrow> Identity option \<Rightarrow> (world, 'e, 'a) act \<Rightarrow> bool" where
  "as_request S ctx m \<longleftrightarrow>
     (\<exists>r. client_request r \<and> caller r = ctx \<and> (\<forall>w. snd (m w) = run_request S r w))"

definition one_request :: "system \<Rightarrow> Identity option \<Rightarrow> (world, 'e, 'a) act \<Rightarrow> bool" where
  "one_request S ctx m \<longleftrightarrow>
     (\<forall>w. snd (m w) = w \<or> (\<exists>r. client_request r \<and> caller r = ctx \<and> snd (m w) = run_request S r w))"

definition pure_tail :: "('a \<Rightarrow> (world, 'e, 'b) act) \<Rightarrow> bool" where
  "pure_tail f \<longleftrightarrow> (\<forall>x w. snd (f x w) = w)"

lemma as_requestI:
  "(\<And>w. run_request S r w = snd (m w)) \<Longrightarrow> client_request r \<Longrightarrow> caller r = ctx \<Longrightarrow> as_request S ctx m"
  by (auto simp: as_request_def)

lemmas use_cases = run_request.simps [THEN as_requestI]

lemma one_request_parse:
  assumes "\<And>x. r = Inr x \<Longrightarrow> one_request S ctx (f x)"
  shows "one_request S ctx (bnd (call (from_sum r)) f)"
  using assms by (cases r) (auto simp: one_request_def bnd_def call_def from_sum_def)

lemma pure_tail_ret: "pure_tail (\<lambda>x. ret (g x))"
  by (simp add: pure_tail_def ret_def)

lemma pure_tail_ret_pair: "pure_tail (\<lambda>(x, y). ret (g x y))"
  by (auto simp: pure_tail_def ret_def)

lemma snd_bnd_pure: "pure_tail f \<Longrightarrow> snd (bnd m f w) = snd (m w)"
  by (simp add: pure_tail_def bnd_def split: prod.splits sum.splits)

lemma one_request_call: "as_request S ctx m \<Longrightarrow> pure_tail f \<Longrightarrow> one_request S ctx (bnd (call m) f)"
  by (auto simp: as_request_def one_request_def snd_bnd_pure)

lemma one_request_respond: "one_request S ctx m \<Longrightarrow> one_request S ctx (respond wrap m)"
  by (simp add: one_request_def respond_def snd_bnd_pure pure_tail_ret)

lemma identAndID_Inr: "identAndID X ctx s = Inr (ident, i) \<longleftrightarrow> ctx = Some ident \<and> parseUUID X s = Inr i"
  by (auto simp: identAndID_def IdentityFromContext_def split: option.splits sum.splits)

lemma IdentityFromContext_Inr: "IdentityFromContext ctx = Inr ident \<longleftrightarrow> ctx = Some ident"
  by (auto simp: IdentityFromContext_def split: option.splits)

lemmas handler_defs = AuthHandler_Register_def AuthHandler_Login_def AuthHandler_RefreshToken_def
  AuthHandler_Logout_def AuthHandler_GetProfile_def FileHandler_InitUpload_def
  FileHandler_GetUploadStatus_def FileHandler_CompleteUpload_def FileHandler_AbortUpload_def
  FileHandler_GetFile_def FileHandler_ListFiles_def FileHandler_SearchFiles_def
  FileHandler_MoveFile_def FileHandler_RenameFile_def FileHandler_DeleteFile_def
  FileHandler_RestoreFile_def FileHandler_GetDownloadURL_def FileHandler_ListVersions_def
  FileHandler_RestoreVersion_def FileHandler_LockFile_def FileHandler_UnlockFile_def
  FileHandler_CreateFolder_def FileHandler_ListFolder_def FileHandler_DeleteFolder_def
  ShareHandler_CreateShare_def ShareHandler_CreatePublicLink_def ShareHandler_ListShares_def
  ShareHandler_RevokeShare_def file_handler_def share_handler_def

lemma dispatch_one_request:
  assumes "publicMethods (FullMethod c) \<longleftrightarrow> ctx = None"
  shows "one_request S ctx (dispatch S J ctx c)"
  using assms
  by (cases c)
    (auto simp: handler_defs publicMethods_def auth_method_def file_method_def share_method_def
      identAndID_Inr IdentityFromContext_Inr Let_def client_request_def
      intro!: one_request_respond one_request_parse one_request_call use_cases
        pure_tail_ret pure_tail_ret_pair)

section \<open>The interceptors\<close>

text \<open>The identity a call's bearer token names at an instant, if it has one.\<close>

definition bearer_identity :: "JWTManager \<Rightarrow> incoming \<Rightarrow> time \<Rightarrow> Identity option" where
  "bearer_identity tokens req now = (case bearerFromMD req of
     None \<Rightarrow> None
   | Some token \<Rightarrow> (case ParseAccessToken tokens now token of Inl _ \<Rightarrow> None | Inr ident \<Rightarrow> Some ident))"

lemma environment_refl: "environment w w" and environment_trans:
  "environment w w1 \<Longrightarrow> environment w1 w2 \<Longrightarrow> environment w w2"
  by (simp_all add: environment_def)

lemma Allow_environment:
  assumes "Allow X key limit window s = (r, s')"
  shows "environment (srv_world s) (srv_world s') \<and> w_clock (srv_world s') = w_clock (srv_world s)"
  using assms
  by (auto simp: Allow_def Let_def environment_def infra_point_def split: prod.splits option.splits)

text \<open>What reaches \<open>Authentication\<close>: the same data and clock, or a refusal.\<close>

lemma RateLimit_cases:
  assumes "RateLimit X cfg req meth handler s = (r, s')"
  obtains (refused) "r = Inl (status_Error ResourceExhausted (Literal ''rate limit exceeded''))"
      "environment (srv_world s) (srv_world s')"
  | (passed) s1 where "handler s1 = (r, s')" "environment (srv_world s) (srv_world s1)"
      "w_clock (srv_world s1) = w_clock (srv_world s)"
proof (cases "RL_Enabled cfg")
  case False
  with assms passed environment_refl show ?thesis by (simp add: RateLimit_def)
next
  case True
  let ?key = "callerKey req (w_meta (srv_world s))"
  obtain key limit where k: "(if authRateLimited meth then (''auth:'' @ ?key, RL_AuthRequestsPerMinute cfg)
      else (?key, RL_RequestsPerMinute cfg)) = (key, limit)" by fastforce
  obtain allowed err s1 where a: "Allow X key limit minute s = ((allowed, err), s1)"
    by (metis surj_pair)
  show ?thesis
  proof (cases allowed)
    case True
    with assms \<open>RL_Enabled cfg\<close> k a Allow_environment [OF a] passed show ?thesis
      by (simp add: RateLimit_def Let_def)
  next
    case False
    with assms \<open>RL_Enabled cfg\<close> k a Allow_environment [OF a] refused show ?thesis
      by (simp add: RateLimit_def Let_def)
  qed
qed

lemma serve_grpc_cases:
  assumes "serve_grpc S J cfg req c s = (r, s')"
  obtains (refused) e t where "r = Inl (status_Error e t)" "e \<in> {ResourceExhausted, Unauthenticated}"
      "environment (srv_world s) (srv_world s')"
  | (served) ctx w1 where "dispatch S J ctx c w1 = (r, srv_world s')" "environment (srv_world s) w1"
      "if publicMethods (FullMethod c) then ctx = None
       else ctx \<noteq> None \<and> ctx = bearer_identity (sys_jwt S) req (w_clock (srv_world s))"
proof -
  let ?s = "s\<lparr>srv_world := (srv_world s)\<lparr>w_meta := RequestMeta_of req\<rparr>\<rparr>"
  let ?auth = "Authentication (sys_jwt S) req (FullMethod c) (\<lambda>ctx. on_world (dispatch S J ctx c))"
  have run: "RateLimit (sys_ext S) cfg req (FullMethod c) ?auth ?s = (r, s')"
    using assms by (simp add: serve_grpc_def RequestMeta_interceptor_def)
  have env: "environment (srv_world s) (srv_world ?s)" by (simp add: environment_def)
  from run show ?thesis
  proof (cases rule: RateLimit_cases)
    case refused
    with that(1) environment_trans [OF env] show ?thesis by blast
  next
    case (passed s1)
    note e1 = environment_trans [OF env passed(2)]
    have clock: "w_clock (srv_world s1) = w_clock (srv_world s)" using passed(3) by simp
    show ?thesis
      using passed(1) that(1) [of Unauthenticated] that(2) [of _ "srv_world s1"] e1
      by (auto simp: Authentication_def on_world_def bearer_identity_def clock
          split: if_splits option.splits sum.splits prod.splits)
  qed
qed

section \<open>Properties\<close>

text \<open>
  C6: Through rate limiting, authentication, parsing and the handler, every gRPC call changes the
  state as at most one request of the abstract request system does, made as nobody on the four
  public methods and otherwise as the identity the bearer token names.
\<close>

theorem grpc_call_is_one_request:
  "\<exists>w1. environment (srv_world s) w1 \<and>
    (srv_world (snd (serve_grpc S J cfg req c s)) = w1 \<or>
     (\<exists>r. client_request r \<and> srv_world (snd (serve_grpc S J cfg req c s)) = run_request S r w1 \<and>
        (if publicMethods (FullMethod c) then caller r = None
         else caller r \<noteq> None \<and> caller r = bearer_identity (sys_jwt S) req (w_clock (srv_world s)))))"
proof -
  obtain r s' where run: "serve_grpc S J cfg req c s = (r, s')" by fastforce
  then show ?thesis
  proof (cases rule: serve_grpc_cases)
    case (served ctx w1)
    then have "publicMethods (FullMethod c) \<longleftrightarrow> ctx = None" by (auto split: if_splits)
    from dispatch_one_request [OF this, of S J] have "snd (dispatch S J ctx c w1) = w1 \<or>
      (\<exists>r. client_request r \<and> caller r = ctx \<and> snd (dispatch S J ctx c w1) = run_request S r w1)"
      by (simp add: one_request_def)
    with served run show ?thesis by (intro exI [of _ w1]) (auto split: if_splits)
  qed (use run in auto)
qed

text \<open>
  C13: A call of a non-public method without a valid bearer token is answered Unauthenticated (or
  refused by the rate limit) and changes neither the database nor the object store.
\<close>

theorem grpc_requires_token:
  assumes "\<not> publicMethods (FullMethod c)"
    and "\<And>token ident. bearerFromMD req = Some token \<Longrightarrow>
      ParseAccessToken (sys_jwt S) (w_clock (srv_world s)) token \<noteq> Inr ident"
    and "serve_grpc S J cfg req c s = (r, s')"
  shows "\<exists>st. r = Inl st \<and> Status_code st \<in> {Unauthenticated, ResourceExhausted} \<and>
    w_db (srv_world s') = w_db (srv_world s) \<and> w_objects (srv_world s') = w_objects (srv_world s)"
proof -
  have none: "bearer_identity (sys_jwt S) req (w_clock (srv_world s)) = None"
    using assms(2) by (auto simp: bearer_identity_def split: option.splits sum.splits)
  from assms(3) show ?thesis
    by (cases rule: serve_grpc_cases) (use assms(1) none in \<open>auto simp: status_Error_def environment_def\<close>)
qed

definition demo_limits :: RateLimitConfig where
  "demo_limits = \<lparr>RL_Enabled = False, RL_RequestsPerMinute = 100, RL_AuthRequestsPerMinute = 10\<rparr>"

definition demo_server :: server where
  "demo_server = \<lparr>srv_world = demo_world demo_db, srv_zsets = (\<lambda>_. None)\<rparr>"

definition no_json :: cursor_json where
  "no_json = \<lparr>json_Marshal = (\<lambda>_. None), json_Unmarshal = (\<lambda>_. None)\<rparr>"

theorem grpc_requires_token_witness:
  "\<exists>st s'. serve_grpc demo_system no_json demo_limits \<lparr>in_peer = None, in_md = (\<lambda>_. [''Bearer x''])\<rparr>
      (RPC_DeleteFile ''10'') demo_server = (Inl st, s') \<and>
    Status_code st \<in> {Unauthenticated, ResourceExhausted} \<and> w_db (srv_world s') = demo_db"
proof -
  let ?req = "\<lparr>in_peer = None, in_md = (\<lambda>_. [''Bearer x''])\<rparr>" and ?c = "RPC_DeleteFile ''10''"
  obtain r s' where run: "serve_grpc demo_system no_json demo_limits ?req ?c demo_server = (r, s')"
    by fastforce
  have "\<not> publicMethods (FullMethod ?c)"
    by (simp add: publicMethods_def auth_method_def file_method_def)
  from grpc_requires_token [OF this _ run] run show ?thesis
    by (auto simp: ParseAccessToken_def demo_system_def demo_issuer_def demo_server_def)
qed

end
