(* ===== verification/Paging_Props.thy ===== *)
theory Paging_Props
  imports Grpc_Server Integrity_Props
begin

text \<open>
  A client that follows the page tokens of \<open>ListFiles\<close> sees the whole listing, once and in
  order, whatever page size it asks for.
\<close>

section \<open>The listing and the walk\<close>

definition file_rows :: "db \<Rightarrow> uuid \<Rightarrow> uuid option \<Rightarrow> bool \<Rightarrow> File list" where
  "file_rows d ownerID folderID includeDeleted =
     filter (\<lambda>f. File_OwnerID f = ownerID \<and> File_FolderID f = folderID \<and>
       (includeDeleted \<or> \<not> File_IsDeleted f)) (files d)"

definition sorted_rows :: "bool \<Rightarrow> File list \<Rightarrow> File list" where
  "sorted_rows descending rows =
     (if descending then rev (sort_key file_key rows) else sort_key file_key rows)"

text \<open>The client: it asks for the next page until a page comes without a token.\<close>

fun walk_files :: "nat \<Rightarrow> FileHandler \<Rightarrow> Identity \<Rightarrow> string \<Rightarrow> bool \<Rightarrow> int \<Rightarrow> SortOrder \<Rightarrow>
    string \<Rightarrow> FileMetadata list option rpc" where
  "walk_files 0 h ident fo del sz ord token = ret None"
| "walk_files (Suc n) h ident fo del sz ord token =
     bnd (FileHandler_ListFiles h (Some ident) fo del (Some \<lparr>PR_PageSize = sz, PR_PageToken = token\<rparr>) ord)
       (\<lambda>(ms, nxt).
       if nxt = [] then ret (Some ms)
       else bnd (walk_files n h ident fo del sz ord nxt) (\<lambda>rest. ret (map_option (\<lambda>r. ms @ r) rest)))"

section \<open>One page\<close>

lemma file_key_fileSelect [simp]: "file_key (fileSelect d f) = file_key f"
  by (simp add: file_key_def fileSelect_def split: option.splits list.splits)

text \<open>What is asked of the folder and of the rows below it.\<close>

definition own_folder :: "db \<Rightarrow> uuid \<Rightarrow> uuid option \<Rightarrow> bool" where
  "own_folder d u fid \<longleftrightarrow> (case fid of None \<Rightarrow> True | Some i \<Rightarrow>
     (\<exists>fo \<in> set (folders d). Folder_ID fo = i \<and> Folder_OwnerID fo = u \<and> Folder_DeletedAt fo = None))"

lemma ownFolder_opt_succeeds:
  assumes "schema_ok (w_db w)" "fault_free w" "own_folder (w_db w) (Identity_UserID ident) fid"
  shows "\<exists>w'. ownFolder_opt ident fid w = (Inr (), w') \<and> w_db w' = w_db w \<and> fault_free w'"
proof (cases fid)
  case (Some i)
  then obtain fo where fo: "fo \<in> set (folders (w_db w))" "Folder_ID fo = i"
    "Folder_OwnerID fo = Identity_UserID ident" "Folder_DeletedAt fo = None"
    using assms(3) by (auto simp: own_folder_def)
  have "distinct (map Folder_ID (folders (w_db w)))"
    using schema_okD(3) [OF assms(1)] by (simp add: unique_constraints_def)
  then have single: "filter (\<lambda>f. Folder_ID f = i) (folders (w_db w)) = [fo]"
    using distinct_filter_single [of Folder_ID "folders (w_db w)" fo] fo by simp
  have "filter (\<lambda>f. Folder_ID f = i \<and> Folder_DeletedAt f = None) (folders (w_db w)) =
      filter (\<lambda>f. Folder_DeletedAt f = None) (filter (\<lambda>f. Folder_ID f = i) (folders (w_db w)))"
    by (simp add: conj_commute)
  also have "\<dots> = [fo]" using fo(4) by (simp add: single)
  finally have "filter (\<lambda>f. Folder_ID f = i \<and> Folder_DeletedAt f = None) (folders (w_db w)) = [fo]" .
  then show ?thesis
    using Some fo assms(2)
    by (simp add: ownFolder_opt_def ownFolder_def FolderRepo_GetByID_def run_simps fault_free_def)
qed (use assms in \<open>simp add: ownFolder_opt_def run_simps\<close>)

lemma listable_rows:
  assumes "schema_ok d" "0 \<notin> File_ID ` set (files d)"
  shows "listable file_key (file_rows d u fid del)"
proof -
  have "distinct (map File_ID (files d))"
    using schema_okD(3) [OF assms(1)] by (simp add: unique_constraints_def)
  then have "distinct (map file_key (files d))"
    by (auto simp: distinct_map inj_on_def file_key_def)
  with assms(2) show ?thesis
    by (auto simp: listable_def file_rows_def file_key_def distinct_map_filter)
qed

text \<open>The cursor of a client that has seen the rows \<open>seen\<close>.\<close>

definition cursor_after :: "File list \<Rightarrow> Cursor" where
  "cursor_after seen = (if seen = [] then zero_cursor else row_cursor file_key (last seen))"

lemma FileUC_List_page:
  assumes "schema_ok (w_db w)" "0 \<notin> File_ID ` set (files (w_db w))" "fault_free w"
    and "own_folder (w_db w) (Identity_UserID ident) fid"
    and rows: "sorted_rows desc (file_rows (w_db w) (Identity_UserID ident) fid del) = seen @ rest"
  shows "\<exists>w'. FileUC_List ident fid del desc (cursor_after seen) n w =
    (Inr (map (fileSelect (w_db w)) (take n rest)), w') \<and> w_db w' = w_db w \<and> fault_free w'"
proof -
  let ?rows = "file_rows (w_db w) (Identity_UserID ident) fid del"
  obtain w1 where w1: "ownFolder_opt ident fid w = (Inr (), w1)" "w_db w1 = w_db w" "fault_free w1"
    using ownFolder_opt_succeeds assms by blast
  have ok: "listable file_key ?rows" by (rule listable_rows [OF assms(1,2)])
  have "(if desc then page_desc file_key (cursor_after seen) n ?rows
         else page_asc file_key (cursor_after seen) n ?rows) = take n rest"
    using asc.page_after [OF ok, of seen rest n] desc.page_after [OF ok, of seen rest n] rows
    unfolding cursor_after_def sorted_rows_def by (cases desc) simp_all
  then show ?thesis
    using w1 by (auto simp: FileUC_List_def FileRepo_List_def run_simps fault_free_def file_rows_def Let_def)
qed

section \<open>The walk\<close>

lemma walk_files_next:
  assumes "FileHandler_ListFiles h (Some ident) fo del (Some \<lparr>PR_PageSize = sz, PR_PageToken = token\<rparr>) ord w =
      (Inr (ms, nxt), w1)" "nxt \<noteq> []" "fst (walk_files n h ident fo del sz ord nxt w1) = Inr (Some rest)"
  shows "fst (walk_files (Suc n) h ident fo del sz ord token w) = Inr (Some (ms @ rest))"
  using assms by (cases "walk_files n h ident fo del sz ord nxt w1") (simp add: bnd_def ret_def)

lemma walk_from:
  assumes w: "schema_ok (w_db w)" "0 \<notin> File_ID ` set (files (w_db w))" "fault_free w"
    "own_folder (w_db w) (Identity_UserID ident) fid"
    and h: "uuid_ok (fh_ext h)" "json_ok (fh_json h)" "optionalUUID (fh_ext h) fo = Inr fid"
    and rows: "sorted_rows (ord = SORT_ORDER_DESC) (file_rows (w_db w) (Identity_UserID ident) fid del) = seen @ rest"
    and cursors: "\<And>f. f \<in> set rest \<Longrightarrow> json_Marshal (fh_json h) (row_cursor file_key f) \<noteq> None"
    and token: "Cursor_Decode (fh_json h) token = Inr (cursor_after seen)"
    and fuel: "length rest < n"
  shows "fst (walk_files n h ident fo del sz ord token w) =
    Inr (Some (filesToProto (fh_ext h) (map (fileSelect (w_db w)) rest)))"
  using assms
proof (induction n arbitrary: w seen rest token)
  case (Suc n)
  let ?limit = "nat (ClampPageSize sz)" and ?d = "w_db w"
  let ?page = "map (fileSelect ?d) (take ?limit rest)"
  let ?token = "page_token (fh_ext h) (fh_json h) file_key ?page ?limit"
  have pos: "0 < ?limit" using ClampPageSize_range [of sz] by simp
  obtain w1 where w1: "FileUC_List ident fid del (ord = SORT_ORDER_DESC) (cursor_after seen) ?limit w =
      (Inr ?page, w1)" "w_db w1 = ?d" "fault_free w1"
    using FileUC_List_page [of w ident fid "ord = SORT_ORDER_DESC" del seen rest] Suc.prems by blast
  have page: "FileHandler_ListFiles h (Some ident) fo del (Some \<lparr>PR_PageSize = sz, PR_PageToken = token\<rparr>) ord w =
      (Inr (filesToProto (fh_ext h) ?page, ?token), w1)"
    using w1 Suc.prems
    by (simp add: FileHandler_ListFiles_def IdentityFromContext_def pageFromProto_def file_page_def
        call_def run_simps)
  show ?case
  proof (cases "length ?page = ?limit")
    case False
    then have "?token = []" "?page = map (fileSelect ?d) rest" by (auto simp: page_token_def)
    with page show ?thesis by (simp add: bnd_def ret_def)
  next
    case True
    then have ne: "take ?limit rest \<noteq> []" using pos by auto
    let ?last = "last (take ?limit rest)"
    have key: "row_cursor file_key (last ?page) = row_cursor file_key ?last"
      using ne by (simp add: last_map row_cursor_def)
    have "?last \<in> set rest" using last_in_set [OF ne] in_set_takeD by fast
    then obtain raw where "json_Marshal (fh_json h) (row_cursor file_key (last ?page)) = Some raw"
      using Suc.prems(9) key by fastforce
    from page_token_full [OF Suc.prems(5,6) _ True this] ne key
    have t: "?token \<noteq> []" "Cursor_Decode (fh_json h) ?token = Inr (cursor_after (seen @ take ?limit rest))"
      by (auto simp: cursor_after_def)
    have "length (drop ?limit rest) < n" using Suc.prems(11) pos True by auto
    then have "fst (walk_files n h ident fo del sz ord ?token w1) =
      Inr (Some (filesToProto (fh_ext h) (map (fileSelect ?d) (drop ?limit rest))))"
      using Suc.IH [of w1 "seen @ take ?limit rest" "drop ?limit rest" ?token] Suc.prems(1-10) w1 t(2)
      by (simp add: in_set_dropD)
    moreover have "filesToProto (fh_ext h) (map (fileSelect ?d) rest) =
        filesToProto (fh_ext h) ?page @ filesToProto (fh_ext h) (map (fileSelect ?d) (drop ?limit rest))"
      by (metis append_take_drop_id filesToProto_def map_append)
    ultimately show ?thesis using walk_files_next [OF page t(1)] by simp
  qed
qed simp

section \<open>Properties\<close>

text \<open>
  C19: A client that follows the page tokens of ListFiles, with any page size and in either order,
  terminates and has seen exactly the whole sorted listing of the folder, every file once.
\<close>

theorem paging_lists_everything:
  assumes "schema_ok (w_db w)" "0 \<notin> File_ID ` set (files (w_db w))" "fault_free w"
    and "own_folder (w_db w) (Identity_UserID ident) fid"
    and "uuid_ok (fh_ext h)" "json_ok (fh_json h)" "optionalUUID (fh_ext h) fo = Inr fid"
    and "\<And>f. f \<in> set (files (w_db w)) \<Longrightarrow> json_Marshal (fh_json h) (row_cursor file_key f) \<noteq> None"
    and "length (files (w_db w)) < n"
  shows "fst (walk_files n h ident fo del sz ord [] w) =
    Inr (Some (filesToProto (fh_ext h) (map (fileSelect (w_db w))
      (sorted_rows (ord = SORT_ORDER_DESC) (file_rows (w_db w) (Identity_UserID ident) fid del)))))"
proof (rule walk_from [OF assms(1-7), where seen = "[]"])
  show "Cursor_Decode (fh_json h) [] = Inr (cursor_after [])"
    by (simp add: Cursor_Decode_def cursor_after_def)
qed (use assms(8,9) le_less_trans [OF length_filter_le] in
  \<open>auto simp: sorted_rows_def file_rows_def split: if_splits\<close>)

definition two_files :: db where
  "two_files = demo_db\<lparr>files := [demo_file, demo_file\<lparr>File_ID := 11, File_Name := ''b.txt'',
     File_CurrentVersionID := None\<rparr>]\<rparr>"

text \<open>A stand-in for the encoding of the cursors of this installation.\<close>

definition demo_json :: cursor_json where
  "demo_json = \<lparr>json_Marshal = (\<lambda>c. if Cursor_CreatedAt c = 1 then Some (replicate (Suc (Cursor_ID c)) 0) else None),
     json_Unmarshal = (\<lambda>raw. if raw = [] then None
       else Some \<lparr>Cursor_CreatedAt = 1, Cursor_ID = length raw - 1\<rparr>)\<rparr>"

definition demo_handler :: FileHandler where
  "demo_handler = \<lparr>fh_files = file_uc demo_system, fh_uploads = upload_uc demo_system, fh_json = demo_json\<rparr>"

lemma json_ok_demo: "json_ok demo_json"
  by (auto simp: json_ok_def demo_json_def)

lemma demo_handler_fields [simp]: "fh_ext demo_handler = demo_ext" "fh_json demo_handler = demo_json"
  by (simp_all add: demo_handler_def file_uc_def)

lemma schema_ok_two_files: "schema_ok two_files"
proof -
  have "name_ok ''a.txt''" "name_ok ''b.txt''" by (simp_all add: name_ok_def text_length_def)
  then have "column_ranges two_files" "check_constraints two_files" "unique_constraints two_files"
    "foreign_keys two_files"
    by (simp_all add: two_files_def demo_defs column_ranges_def check_constraints_def
        unique_constraints_def foreign_keys_def bigint_def int64_ok_def integer4_def lower_def
        to_lower_def ref_in_def opt_ref_in_def Let_def file_sibling_def)
  then show ?thesis by (simp add: schema_ok_iff)
qed

theorem paging_lists_everything_witness:
  "\<exists>ms. fst (walk_files 3 demo_handler (demo_ident 1) [] False 1 SORT_ORDER_DESC [] (demo_world two_files)) =
      Inr (Some ms) \<and> map FM_Name ms = [''b.txt'', ''a.txt'']"
proof -
  have "json_Marshal demo_json (row_cursor file_key f) \<noteq> None" if "f \<in> set (files two_files)" for f
    using that by (auto simp: two_files_def demo_file_def demo_json_def row_cursor_def file_key_def)
  moreover have "0 \<notin> File_ID ` set (files two_files)" "length (files two_files) < 3"
    by (simp_all add: two_files_def demo_file_def)
  ultimately show ?thesis
    using paging_lists_everything [of "demo_world two_files" "demo_ident 1" None demo_handler "[]" 3 False 1
      SORT_ORDER_DESC] schema_ok_two_files json_ok_demo uuid_ok_demo
    by (simp add: own_folder_def optionalUUID_def fault_free_def)
      (simp add: two_files_def file_key_def sorted_rows_def file_rows_def
        filesToProto_def fileToProto_def fileSelect_def demo_defs)
qed

end
