(* ===== verification/Http_Handlers.thy ===== *)
theory Http_Handlers
  imports Grpc_Server "HOL-Library.Sublist"
begin

text \<open>
  \<open>internal/middleware/http.go\<close> and \<open>internal/transport/http\<close>: the HTTP side, for chunk
  uploads, downloads and public links. Logging, metrics and the panic handler only observe. The
  JSON gateway is generated code and a parameter, as is \<open>mime.ParseMediaType\<close>, of which only
  success matters.
\<close>

section \<open>Requests and responses\<close>

text \<open>
  A request: the path is split at its slashes and unescaped, a header that is not sent is empty,
  the body is the bytes it delivers and the error it may end with.
\<close>

record http_request =
  Http_Method :: string
  Http_Path :: "string list"
  Http_Header :: "string \<Rightarrow> string"
  Http_RemoteAddr :: string
  Http_Query :: url_values
  Http_Body :: reader

text \<open>
  How the copy of a stream into the response may end early: reading fails, or the server refuses
  to write more than the announced length (\<open>http.ErrContentLength\<close>).
\<close>

datatype copy_error = ReadFailed error | ErrContentLength

text \<open>\<open>Attachment name\<close> is the header value \<open>attachment; filename=%q\<close>.\<close>

datatype header_value = Value string | Attachment string

text \<open>
  A body as the handler writes it; the server drops the texts written in answer to a \<open>HEAD\<close>.
\<close>

datatype http_body =
    Text string
  | Json_Error nat status_text
  | Json_Chunk string int int string
  | Streamed "byte list" "copy_error option"

record http_response =
  Resp_Code :: nat
  Resp_Header :: "string \<rightharpoonup> header_value"
  Resp_Body :: http_body

text \<open>\<open>http.Error\<close>\<close>

definition http_Error :: "string \<Rightarrow> nat \<Rightarrow> http_response" where
  "http_Error msg code = \<lparr>Resp_Code = code,
     Resp_Header = [''Content-Type'' \<mapsto> Value ''text/plain; charset=utf-8'',
       ''X-Content-Type-Options'' \<mapsto> Value ''nosniff''],
     Resp_Body = Text (msg @ [CHR 0x0A])\<rparr>"

definition http_ok :: "string \<Rightarrow> http_response" where
  "http_ok msg = \<lparr>Resp_Code = 200, Resp_Header = Map.empty, Resp_Body = Text msg\<rparr>"

fun error_status :: "error \<Rightarrow> nat \<times> status_text" where
  "error_status ErrNotFound = (404, Literal ''resource not found'')"
| "error_status ErrInvalidArgument = (400, ErrorText ErrInvalidArgument)"
| "error_status ErrAlreadyExists = (409, ErrorText ErrAlreadyExists)"
| "error_status ErrUnauthenticated = (401, Literal ''authentication required'')"
| "error_status ErrPermissionDenied = (403, Literal ''permission denied'')"
| "error_status ErrQuotaExceeded = (507, Literal ''storage quota exceeded'')"
| "error_status ErrPasswordRequired = (401, Literal ''share password required or incorrect'')"
| "error_status ErrFileLocked = (412, ErrorText ErrFileLocked)"
| "error_status ErrUploadIncomplete = (412, ErrorText ErrUploadIncomplete)"
| "error_status ErrUploadExpired = (412, ErrorText ErrUploadExpired)"
| "error_status ErrChecksumMismatch = (412, ErrorText ErrChecksumMismatch)"
| "error_status _ = (500, Literal ''internal server error'')"

definition writeError :: "error \<Rightarrow> http_response" where
  "writeError err = (case error_status err of (code, msg) \<Rightarrow>
     \<lparr>Resp_Code = code, Resp_Header = [''Content-Type'' \<mapsto> Value ''application/json''],
      Resp_Body = Json_Error code msg\<rparr>)"

section \<open>Handlers\<close>

type_synonym http_action = "world \<Rightarrow> http_response \<times> world"

text \<open>\<open>http.MaxBytesReader(w, body, n)\<close>\<close>

definition MaxBytesReader :: "reader \<Rightarrow> int \<Rightarrow> reader" where
  "MaxBytesReader body n =
     (if length (fst body) \<le> nat n then body else (take (nat n) (fst body), Some ErrInternal))"

definition UploadHandler_ServeHTTP :: "UploadUseCase \<Rightarrow> int \<Rightarrow> http_request \<Rightarrow> Identity option \<Rightarrow>
    string \<Rightarrow> string \<Rightarrow> http_action" where
  "UploadHandler_ServeHTTP u chunkSize r ctx session_id raw_index = (\<lambda>w.
     case IdentityFromContext ctx of
       Inl err \<Rightarrow> (writeError err, w)
     | Inr ident \<Rightarrow>
         (case X_uuid_Parse (up_ext u) session_id of
            None \<Rightarrow> (http_Error ''malformed session id'' 400, w)
          | Some sessionID \<Rightarrow>
              (case ParseInt64 raw_index of
                 None \<Rightarrow> (http_Error ''malformed chunk index'' 400, w)
               | Some index \<Rightarrow>
                   if index < 0 then (http_Error ''malformed chunk index'' 400, w)
                   else
                     let body = MaxBytesReader (Http_Body r) (chunkSize + 1) in
                     (case UploadChunk u ident sessionID index body w of
                        (Inl err, w') \<Rightarrow> (writeError err, w')
                      | (Inr chunk, w') \<Rightarrow>
                          (\<lparr>Resp_Code = 200,
                            Resp_Header = [''Content-Type'' \<mapsto> Value ''application/json''],
                            Resp_Body = Json_Chunk (X_uuid_String (up_ext u) sessionID)
                              (Chunk_Index chunk) (Chunk_SizeBytes chunk)
                              (hex_EncodeToString (Chunk_ChecksumSHA256 chunk))\<rparr>, w')))))"

text \<open>
  \<open>io.Copy\<close> from a decrypting reader to the response: reads of at most \<open>Suc n\<close> bytes, each
  written at once (the response writer of the logging middleware takes no reader). A write that
  would take the body beyond the announced length is refused as a whole, and nothing of it sent.
\<close>

function io_Copy :: "ext \<Rightarrow> nat \<Rightarrow> int option \<Rightarrow> int \<Rightarrow> StreamReader \<Rightarrow> byte list \<times> copy_error option" where
  "io_Copy X n limit written r =
     (case StreamReader_Read X (Suc n) r of
        (bs, e, r') \<Rightarrow>
          if bs \<noteq> [] \<and> (case limit of None \<Rightarrow> False | Some m \<Rightarrow> written + int (length bs) > m)
          then ([], Some ErrContentLength)
          else case e of
            Some EOF \<Rightarrow> (bs, None)
          | Some (ReadErr x) \<Rightarrow> (bs, Some (ReadFailed x))
          | None \<Rightarrow> (case io_Copy X n limit (written + int (length bs)) r' of (cs, ce) \<Rightarrow> (bs @ cs, ce)))"
  by pat_completeness auto
termination
proof (relation "measures [\<lambda>(X, n, limit, written, r). length (sr_src r),
    \<lambda>(X, n, limit, written, r). length (sr_plain r)]", goal_cases)
  case (2 X n limit written r bs q e r')
  then show ?case using StreamReader_Read_progress [of X "Suc n" r bs e r'] by auto
qed simp

declare io_Copy.simps [simp del]

text \<open>
  \<open>serveStream\<close>. The server announces a length that is not negative; it lets writes to the answer
  of a \<open>HEAD\<close> request pass and sends no body. An error of the copy is only logged: the status and
  the headers have been sent.
\<close>

definition serveStream :: "ext \<Rightarrow> (string \<Rightarrow> bool) \<Rightarrow> http_request \<Rightarrow> StreamReader \<Rightarrow> File \<Rightarrow> http_response" where
  "serveStream X ParseMediaType_ok r rc f =
     (let contentType = (if ParseMediaType_ok (File_MimeType f) then File_MimeType f
            else ''application/octet-stream'');
          limit = (if 0 \<le> File_SizeBytes f then Some (File_SizeBytes f) else None);
          (bytes, err) = io_Copy X (32 * 1024 - 1) limit 0 rc in
      \<lparr>Resp_Code = 200,
       Resp_Header = [''Content-Type'' \<mapsto> Value contentType,
         ''Content-Disposition'' \<mapsto> Attachment (File_Name f),
         ''Cache-Control'' \<mapsto> Value ''private, no-store''] ++
         (if limit = None then Map.empty else [''Content-Length'' \<mapsto> Value (show_int (File_SizeBytes f))]),
       Resp_Body = Streamed (if Http_Method r = ''HEAD'' then [] else bytes) err\<rparr>)"

definition DownloadHandler_ServeHTTP :: "FileUseCase \<Rightarrow> (string \<Rightarrow> bool) \<Rightarrow> http_request \<Rightarrow>
    Identity option \<Rightarrow> string \<Rightarrow> http_action" where
  "DownloadHandler_ServeHTTP u ParseMediaType_ok r ctx file_id = (\<lambda>w.
     case X_uuid_Parse (fu_ext u) file_id of
       None \<Rightarrow> (http_Error ''malformed file id'' 400, w)
     | Some fileID \<Rightarrow>
         (case (case IdentityFromContext ctx of
                  Inr ident \<Rightarrow> OpenDownload u ident fileID w
                | Inl _ \<Rightarrow> VerifySignedDownload u fileID (Http_Query r) w) of
            (Inl err, w') \<Rightarrow> (writeError err, w')
          | (Inr (rc, f), w') \<Rightarrow> (serveStream (fu_ext u) ParseMediaType_ok r rc f, w')))"

definition PublicHandler_ServeHTTP :: "FileUseCase \<Rightarrow> (string \<Rightarrow> bool) \<Rightarrow> http_request \<Rightarrow> string \<Rightarrow>
    http_action" where
  "PublicHandler_ServeHTTP u ParseMediaType_ok r token = (\<lambda>w.
     if token = [] \<or> length token > 128 then (http_Error ''malformed link'' 400, w)
     else
       let password = (let p = Http_Header r ''X-Share-Password'' in
             if p = [] then values_Get (Http_Query r) ''password'' else p) in
       case ResolvePublicLink (fu_ext u) token password w of
         (Inl err, w1) \<Rightarrow> (writeError err, w1)
       | (Inr (f, _), w1) \<Rightarrow>
           (case OpenFileContent u f w1 of
              (Inl err, w2) \<Rightarrow> (writeError err, w2)
            | (Inr rc, w2) \<Rightarrow> (serveStream (fu_ext u) ParseMediaType_ok r rc f, w2)))"

section \<open>Middleware\<close>

type_synonym http_next = "server \<Rightarrow> http_response \<times> server"

definition bearerFromHeader :: "http_request \<Rightarrow> string" where
  "bearerFromHeader r = (case bearer_token (Http_Header r ''Authorization'') of
     None \<Rightarrow> [] | Some token \<Rightarrow> token)"

definition clientIP :: "http_request \<Rightarrow> string" where
  "clientIP r =
     (let fwd = Http_Header r ''X-Forwarded-For'' in
      if fwd \<noteq> [] then first_forwarded fwd
      else case SplitHostPort (Http_RemoteAddr r) of
        Some (host, _) \<Rightarrow> host
      | None \<Rightarrow> Http_RemoteAddr r)"

definition HTTPRequestMeta :: "http_request \<Rightarrow> http_next \<Rightarrow> http_next" where
  "HTTPRequestMeta r nxt = (\<lambda>s. nxt (s\<lparr>srv_world := (srv_world s)\<lparr>w_meta :=
     \<lparr>Meta_IP = clientIP r, Meta_UserAgent = Http_Header r ''User-Agent''\<rparr>\<rparr>\<rparr>))"

definition HTTPRateLimit :: "ext \<Rightarrow> RateLimitConfig \<Rightarrow> http_request \<Rightarrow> http_next \<Rightarrow> http_next" where
  "HTTPRateLimit X cfg r nxt = (\<lambda>s.
     if \<not> RL_Enabled cfg then nxt s
     else
       let token = bearerFromHeader r;
           key = (if token \<noteq> [] \<and> length token > 16 then ''tok:'' @ take 16 token
             else ''ip:'' @ clientIP r) in
       case Allow X key (RL_RequestsPerMinute cfg) minute s of ((allowed, _), s1) \<Rightarrow>
         if \<not> allowed then (http_Error ''rate limit exceeded'' 429, s1) else nxt s1)"

definition HTTPAuthenticate :: "JWTManager \<Rightarrow> bool \<Rightarrow> http_request \<Rightarrow>
    (Identity option \<Rightarrow> http_next) \<Rightarrow> http_next" where
  "HTTPAuthenticate tokens allowAnonymous r nxt = (\<lambda>s.
     let token = bearerFromHeader r in
     if token = [] then
       if allowAnonymous then nxt None s else (http_Error ''missing bearer token'' 401, s)
     else case ParseAccessToken tokens (w_clock (srv_world s)) token of
       Inl _ \<Rightarrow> (http_Error ''invalid or expired token'' 401, s)
     | Inr ident \<Rightarrow> nxt (Some ident) s)"

text \<open>Headers a handler sets later replace these.\<close>

definition security_headers :: "string \<rightharpoonup> header_value" where
  "security_headers = [''X-Content-Type-Options'' \<mapsto> Value ''nosniff'',
     ''X-Frame-Options'' \<mapsto> Value ''DENY'', ''Referrer-Policy'' \<mapsto> Value ''no-referrer'',
     ''Content-Security-Policy'' \<mapsto> Value (''default-src 'none'' @ [CHR 0x27])]"

definition SecurityHeaders :: "http_next \<Rightarrow> http_next" where
  "SecurityHeaders nxt = (\<lambda>s. case nxt s of (resp, s') \<Rightarrow>
     (resp\<lparr>Resp_Header := security_headers ++ Resp_Header resp\<rparr>, s'))"

section \<open>Router\<close>

datatype route = RouteUpload string string | RouteContent string | RoutePublic string
  | RouteHealthz | RouteReadyz | RouteGateway

text \<open>
  The mux: \<open>GET\<close> patterns match \<open>HEAD\<close> too, a wildcard matches one non-empty segment, and
  what no other pattern matches goes to the gateway.
\<close>

definition is_get :: "string \<Rightarrow> bool" where
  "is_get m \<longleftrightarrow> m = ''GET'' \<or> m = ''HEAD''"

definition match_route :: "string \<Rightarrow> string list \<Rightarrow> route" where
  "match_route m path = (case path of
     [a] \<Rightarrow>
       if is_get m \<and> a = ''healthz'' then RouteHealthz
       else if is_get m \<and> a = ''readyz'' then RouteReadyz else RouteGateway
   | [a, token] \<Rightarrow>
       if is_get m \<and> a = ''public'' \<and> token \<noteq> [] then RoutePublic token else RouteGateway
   | [a, b, file_id, c] \<Rightarrow>
       if is_get m \<and> a = ''v1'' \<and> b = ''files'' \<and> file_id \<noteq> [] \<and> c = ''content''
       then RouteContent file_id else RouteGateway
   | [a, b, session_id, c, index] \<Rightarrow>
       if m = ''PUT'' \<and> a = ''v1'' \<and> b = ''uploads'' \<and> session_id \<noteq> [] \<and> c = ''chunks'' \<and> index \<noteq> []
       then RouteUpload session_id index else RouteGateway
   | _ \<Rightarrow> RouteGateway)"

text \<open>The readiness probes, in the order they are run: name and whether the dependency is up.\<close>

fun readyz :: "(string \<times> bool) list \<Rightarrow> http_response" where
  "readyz [] = http_ok ''ready''"
| "readyz ((name, up) # checks) =
     (if \<not> up then http_Error (name @ '' unavailable'') 503 else readyz checks)"

definition http_on_world :: "http_action \<Rightarrow> http_next" where
  "http_on_world m = (\<lambda>s. case m (srv_world s) of (resp, w) \<Rightarrow> (resp, s\<lparr>srv_world := w\<rparr>))"

text \<open>What the router is built from, beside the use cases.\<close>

record router_deps =
  deps_ParseMediaType_ok :: "string \<Rightarrow> bool"
  deps_RateCfg :: RateLimitConfig
  deps_Gateway :: "http_request \<Rightarrow> http_next"
  deps_ReadyChecks :: "(string \<times> bool) list"

definition mux :: "system \<Rightarrow> router_deps \<Rightarrow> http_request \<Rightarrow> http_next" where
  "mux S d r = (case match_route (Http_Method r) (Http_Path r) of
     RouteUpload session_id index \<Rightarrow> HTTPAuthenticate (sys_jwt S) False r (\<lambda>ctx.
       http_on_world (UploadHandler_ServeHTTP (upload_uc S) (sys_ChunkSize S) r ctx session_id index))
   | RouteContent file_id \<Rightarrow> HTTPAuthenticate (sys_jwt S) True r (\<lambda>ctx.
       http_on_world (DownloadHandler_ServeHTTP (file_uc S) (deps_ParseMediaType_ok d) r ctx file_id))
   | RoutePublic token \<Rightarrow>
       http_on_world (PublicHandler_ServeHTTP (file_uc S) (deps_ParseMediaType_ok d) r token)
   | RouteHealthz \<Rightarrow> (\<lambda>s. (http_ok ''ok'', s))
   | RouteReadyz \<Rightarrow> (\<lambda>s. (readyz (deps_ReadyChecks d), s))
   | RouteGateway \<Rightarrow> deps_Gateway d r)"

definition NewRouter :: "system \<Rightarrow> router_deps \<Rightarrow> http_request \<Rightarrow> http_next" where
  "NewRouter S d r =
     SecurityHeaders (HTTPRequestMeta r (HTTPRateLimit (sys_ext S) (deps_RateCfg d) r (mux S d r)))"

section \<open>Facts\<close>

lemma writeError_not_ok: "Resp_Code (writeError e) \<noteq> 200"
  by (cases e) (simp_all add: writeError_def)

lemma http_Error_code [simp]: "Resp_Code (http_Error msg c) = c"
  by (simp add: http_Error_def)

lemma serveStream_code [simp]: "Resp_Code (serveStream X mt r rc f) = 200"
  by (simp add: serveStream_def Let_def split: prod.splits)

text \<open>What the copy sends of a stream that reads without error.\<close>

lemma io_Copy_sends:
  assumes "ReadAll X n r = (plain, None)" "written \<le> m"
  shows "if written + int (length plain) \<le> m then io_Copy X n (Some m) written r = (plain, None)
    else \<exists>sent. io_Copy X n (Some m) written r = (sent, Some ErrContentLength) \<and> prefix sent plain \<and>
      written + int (length sent) \<le> m"
  using assms
proof (induction X n r arbitrary: plain written rule: ReadAll.induct)
  case (1 X n r)
  obtain bs e r' where rd: "StreamReader_Read X (Suc n) r = (bs, e, r')" by (metis prod_cases3)
  show ?case
  proof (cases "bs \<noteq> [] \<and> written + int (length bs) > m")
    case True
    have "prefix bs plain"
      using "1.prems"(1) rd by (auto simp: ReadAll.simps [of X n r] split: option.splits read_err.splits prod.splits)
    then have "length bs \<le> length plain" by (rule prefix_length_le)
    then show ?thesis using True rd "1.prems"(2) by (auto simp: io_Copy.simps [of X n _ _ r])
  next
    case fits: False
    show ?thesis
    proof (cases e)
      case (Some x)
      then show ?thesis using "1.prems" rd fits
        by (cases x) (auto simp: ReadAll.simps [of X n r] io_Copy.simps [of X n _ _ r])
    next
      case None
      then obtain cs where cs: "ReadAll X n r' = (cs, None)" "plain = bs @ cs"
        using "1.prems"(1) rd by (auto simp: ReadAll.simps [of X n r] split: prod.splits)
      have "written + int (length bs) \<le> m" using fits "1.prems"(2) by auto
      from "1.IH" [OF rd [symmetric] refl None cs(1) this]
      show ?thesis using rd fits cs(2) None
        by (fastforce simp: io_Copy.simps [of X n _ _ r] split: if_splits)
    qed
  qed
qed

text \<open>
  A body longer than the chunk is not refused: of it, the bytes of the chunk are taken and the
  rest is ignored, whatever the cap of the request body.
\<close>

lemma oversized_chunk_accepted:
  assumes "0 \<le> expected" "expected \<le> chunkSize" "nat expected \<le> length bytes"
  shows "LimitReader (MaxBytesReader (bytes, None) (chunkSize + 1)) expected = (take (nat expected) bytes, None)"
  using assms by (auto simp: LimitReader_def MaxBytesReader_def min_def)

end
