(* ===== verification/Http_Props.thy ===== *)
theory Http_Props
  imports Http_Handlers Api_Props "Session_Props"
begin

text \<open>
  What the HTTP routes serve: content goes only to those who may see it, and what a successful
  answer carries is the stored content, cut where it is longer than the announced length.
\<close>

section \<open>Through the middleware\<close>

lemma HTTPRateLimit_cases:
  assumes "HTTPRateLimit X cfg r nxt s = (resp, s')"
  obtains (refused) "Resp_Code resp = 429" "environment (srv_world s) (srv_world s')"
  | (passed) s1 where "nxt s1 = (resp, s')" "environment (srv_world s) (srv_world s1)"
      "w_clock (srv_world s1) = w_clock (srv_world s)"
proof (cases "RL_Enabled cfg")
  case False
  with assms passed environment_refl show ?thesis by (simp add: HTTPRateLimit_def)
next
  case True
  define key where "key = (if bearerFromHeader r \<noteq> [] \<and> length (bearerFromHeader r) > 16
    then ''tok:'' @ take 16 (bearerFromHeader r) else ''ip:'' @ clientIP r)"
  obtain allowed err s1 where a: "Allow X key (RL_RequestsPerMinute cfg) minute s = ((allowed, err), s1)"
    by (metis surj_pair)
  have run: "(if \<not> allowed then (http_Error ''rate limit exceeded'' 429, s1) else nxt s1) = (resp, s')"
    using assms True a by (simp add: HTTPRateLimit_def Let_def key_def)
  from Allow_environment [OF a] run passed refused show ?thesis
    by (cases allowed) auto
qed

lemma map_le_Some: "m \<subseteq>\<^sub>m m' \<Longrightarrow> m k = Some v \<Longrightarrow> m' k = Some v"
  by (force simp: map_le_def)

text \<open>An answer other than \<open>429\<close> is that of the mux with more headers.\<close>

lemma NewRouter_cases:
  assumes "NewRouter S d r s = (resp, s')" "Resp_Code resp \<noteq> 429"
  shows "\<exists>s1 resp1. mux S d r s1 = (resp1, s') \<and> Resp_Code resp1 = Resp_Code resp \<and>
    Resp_Body resp1 = Resp_Body resp \<and> Resp_Header resp1 \<subseteq>\<^sub>m Resp_Header resp \<and>
    environment (srv_world s) (srv_world s1) \<and>
    w_clock (srv_world s1) = w_clock (srv_world s)"
proof -
  define s0 where "s0 = s\<lparr>srv_world := (srv_world s)\<lparr>w_meta :=
    \<lparr>Meta_IP = clientIP r, Meta_UserAgent = Http_Header r ''User-Agent''\<rparr>\<rparr>\<rparr>"
  have env: "environment (srv_world s) (srv_world s0)" "w_clock (srv_world s0) = w_clock (srv_world s)"
    by (simp_all add: s0_def environment_def)
  obtain resp1 where r1: "HTTPRateLimit (sys_ext S) (deps_RateCfg d) r (mux S d r) s0 = (resp1, s')"
    "Resp_Code resp1 = Resp_Code resp" "Resp_Body resp1 = Resp_Body resp"
    "Resp_Header resp1 \<subseteq>\<^sub>m Resp_Header resp"
    using assms(1) by (auto simp: NewRouter_def SecurityHeaders_def HTTPRequestMeta_def s0_def
        split: prod.splits)
  from r1(1) show ?thesis
    by (cases rule: HTTPRateLimit_cases)
      (use assms(2) r1 env environment_trans [OF env(1)] in auto)
qed

text \<open>An answer of 200 on the content route: whom it is served to, and what was opened.\<close>

definition http_identity :: "system \<Rightarrow> time \<Rightarrow> http_request \<Rightarrow> uuid \<Rightarrow> Identity \<Rightarrow> bool" where
  "http_identity S now r i ident \<longleftrightarrow>
     (if bearerFromHeader r \<noteq> [] then ParseAccessToken (sys_jwt S) now (bearerFromHeader r) = Inr ident
      else \<exists>u. Verify (sys_ext S) (sys_url_secret S) now i (Http_Query r) = Inr u \<and>
        ident = signed_identity u)"

lemma content_route:
  assumes "match_route (Http_Method r) (Http_Path r) = RouteContent raw"
    and "mux S d r s = (resp, s')" "Resp_Code resp = 200"
  obtains ident i rc f w' where "X_uuid_Parse (sys_ext S) raw = Some i"
    "http_identity S (w_clock (srv_world s)) r i ident"
    "OpenDownload (file_uc S) ident i (srv_world s) = (Inr (rc, f), w')"
    "resp = serveStream (sys_ext S) (deps_ParseMediaType_ok d) r rc f"
proof -
  have ext: "fu_ext (file_uc S) = sys_ext S" "fu_secret (file_uc S) = sys_url_secret S"
    by (simp_all add: file_uc_def)
  show ?thesis
  proof (cases "bearerFromHeader r = []")
    case True
    with assms obtain i rc f w' where "X_uuid_Parse (sys_ext S) raw = Some i"
      "VerifySignedDownload (file_uc S) i (Http_Query r) (srv_world s) = (Inr (rc, f), w')"
      "resp = serveStream (sys_ext S) (deps_ParseMediaType_ok d) r rc f"
      by (auto simp: mux_def HTTPAuthenticate_def http_on_world_def DownloadHandler_ServeHTTP_def
          IdentityFromContext_def ext writeError_not_ok split: option.splits prod.splits sum.splits)
    with True that show ?thesis
      by (auto simp: VerifySignedDownload_def run_inv clock_Now_run http_identity_def ext)
  next
    case False
    with assms obtain i ident rc f w' where "X_uuid_Parse (sys_ext S) raw = Some i"
      "ParseAccessToken (sys_jwt S) (w_clock (srv_world s)) (bearerFromHeader r) = Inr ident"
      "OpenDownload (file_uc S) ident i (srv_world s) = (Inr (rc, f), w')"
      "resp = serveStream (sys_ext S) (deps_ParseMediaType_ok d) r rc f"
      by (auto simp: mux_def HTTPAuthenticate_def http_on_world_def DownloadHandler_ServeHTTP_def
          IdentityFromContext_def ext writeError_not_ok split: option.splits prod.splits sum.splits)
    with False that show ?thesis by (auto simp: http_identity_def)
  qed
qed

text \<open>The same for public links.\<close>

lemma public_route:
  assumes "match_route (Http_Method r) (Http_Path r) = RoutePublic token"
    and "mux S d r s = (resp, s')" "Resp_Code resp = 200"
  obtains password share f rc w1 w2 where
    "ResolvePublicLink (sys_ext S) token password (srv_world s) = (Inr (f, share), w1)"
    "OpenFileContent (file_uc S) f w1 = (Inr rc, w2)"
    "resp = serveStream (sys_ext S) (deps_ParseMediaType_ok d) r rc f"
  using assms that
  by (auto simp: mux_def http_on_world_def PublicHandler_ServeHTTP_def file_uc_def Let_def
      writeError_not_ok split: prod.splits sum.splits if_splits)

section \<open>What was opened is the stored content\<close>

lemma fileSelect_tables:
  "file_versions d' = file_versions d \<Longrightarrow> blobs d' = blobs d \<Longrightarrow> fileSelect d' f = fileSelect d f"
  by (simp add: fileSelect_def split: option.splits list.splits)

lemma Auditor_Record_tables:
  assumes "Auditor_Record u a t i m w = (r, w')"
  shows "files (w_db w') = files (w_db w)" "file_versions (w_db w') = file_versions (w_db w)"
    "blobs (w_db w') = blobs (w_db w)"
  using assms
  by (auto simp: Auditor_Record_def AuditRepo_Insert_def run_simps commit_stmt_def
      split: option.splits sum.splits prod.splits if_splits)

lemma ResolvePublicLink_file:
  assumes "ResolvePublicLink X tok pw w = (Inr (f, share), w')"
  shows "blobs (w_db w') = blobs (w_db w) \<and>
    (\<exists>g \<in> set (files (w_db w')). File_ID g = Share_FileID share \<and> f = fileSelect (w_db w') g)"
proof -
  from assms obtain w1 w2 r where s: "ShareRepo_GetByTokenHash (HashToken X tok) w = (Inr share, w1)"
    and g: "FileRepo_GetByID (Share_FileID share) w1 = (Inr f, w2)"
    and a: "Auditor_Record None AuditShareAccessed ''share'' (X_uuid_String X (Share_ID share))
        [(''file_id'', X_uuid_String X (File_ID f))] w2 = (r, w')"
    by (auto simp: ResolvePublicLink_def run_inv clock_Now_run split: if_splits)
  have "w_db w1 = w_db w" using s by (auto simp: ShareRepo_GetByTokenHash_def sql_Inr_iff query_row_Inr)
  moreover have "w_db w2 = w_db w1" using g by (auto simp: FileRepo_GetByID_def sql_Inr_iff query_row_Inr)
  ultimately show ?thesis using FileRepo_GetByID_Inr [OF g] Auditor_Record_tables [OF a] fileSelect_tables
    by metis
qed

lemma environment_sound: "environment w w' \<Longrightarrow> sound_storage S w \<Longrightarrow> sound_storage S w'"
  using storage.moves by blast

lemma public_reads:
  assumes sound: "sound_storage S w" and aead: "aead_ok (sys_ext S)"
    and link: "ResolvePublicLink (sys_ext S) tok pw w = (Inr (f, share), w1)"
    and opened: "OpenFileContent (file_uc S) f w1 = (Inr rc, w2)"
  shows "\<exists>plain. ReadAll (sys_ext S) n rc = (plain, None) \<and>
    X_sha256 (sys_ext S) plain = File_ChecksumSHA256 f \<and>
    (\<exists>b \<in> set (blobs (w_db w)). Blob_ChecksumSHA256 b = File_ChecksumSHA256 f \<and>
       Blob_SizeBytes b = int (length plain))"
proof -
  obtain g where g: "g \<in> set (files (w_db w1))" "f = fileSelect (w_db w1) g"
    and db: "blobs (w_db w1) = blobs (w_db w)"
    using ResolvePublicLink_file [OF link] by blast
  have "keeps (sound_storage S) (ResolvePublicLink (sys_ext S) tok pw)"
    by (rule storage.keeps_share_uc(5))
  from keepsD [OF this sound] link
  have "content (fu_ext (file_uc S)) (fu_kek (file_uc S)) w1"
    by (simp add: sound_storage_def file_uc_def)
  from OpenFileContent_reads [OF this, of g rc w2 n] aead g opened show ?thesis
    by (simp add: file_uc_def db)
qed

text \<open>What is sent of a stored content, by the size recorded for the version.\<close>

lemma recorded_size: "schema_ok d \<Longrightarrow> 0 \<le> File_SizeBytes (fileSelect d g)"
  using schema_okD(2) [of d]
  by (auto simp: fileSelect_def check_constraints_def list_all_iff filter_eq_Cons_iff
      split: option.splits list.splits)

definition delivered :: "string \<Rightarrow> int \<Rightarrow> byte list \<Rightarrow> byte list \<Rightarrow> copy_error option \<Rightarrow> bool" where
  "delivered meth announced plain sent err \<longleftrightarrow>
     (if meth = ''HEAD'' then sent = []
      else if int (length plain) \<le> announced then sent = plain \<and> err = None
      else prefix sent plain \<and> int (length sent) \<le> announced \<and> err = Some ErrContentLength)"

lemma serveStream_delivers:
  assumes "ReadAll X (32 * 1024 - 1) rc = (plain, None)" "0 \<le> File_SizeBytes f"
  shows "Resp_Header (serveStream X mt r rc f) ''Content-Length'' = Some (Value (show_int (File_SizeBytes f)))"
    "\<exists>sent err. Resp_Body (serveStream X mt r rc f) = Streamed sent err \<and>
      delivered (Http_Method r) (File_SizeBytes f) plain sent err"
  using io_Copy_sends [OF assms(1), of 0 "File_SizeBytes f"] assms(2)
  by (cases "Http_Method r = ''HEAD''";
      auto simp: serveStream_def Let_def delivered_def split: if_splits prod.splits)+

text \<open>The file a successful answer on the content route is about.\<close>

lemma OpenDownload_file:
  assumes "OpenDownload (file_uc S) ident i w = (Inr (rc, f), w')"
  shows "\<exists>g \<in> set (files (w_db w)). File_ID g = i \<and> f = fileSelect (w_db w) g \<and>
    \<not> File_IsDeleted g \<and> may_access (w_db w) (w_clock w) ident PermissionViewer g"
proof -
  obtain w1 where auth: "authorizeFile ident i PermissionViewer (w_clock w) w = (Inr f, w1)"
    and live: "\<not> File_IsDeleted f"
    using assms by (auto simp: OpenDownload_def run_inv clock_Now_run split: if_splits)
  have "File_IsDeleted (fileSelect d g) = File_IsDeleted g" for d g
    by (simp add: fileSelect_def split: option.splits list.splits)
  with authorizeFile_sound(1) [OF auth] live show ?thesis by auto
qed

section \<open>Properties\<close>

text \<open>
  C7: The content route answers 200 only for a stored file outside the trash which the caller,
  named by a valid bearer token or, without one, by a valid signature in the query, may view under
  the access policy.
\<close>

theorem http_content_authorized:
  assumes "match_route (Http_Method r) (Http_Path r) = RouteContent raw"
    and "NewRouter S d r s = (resp, s')" "Resp_Code resp = 200"
  shows "\<exists>i ident. \<exists>g \<in> set (files (w_db (srv_world s))). X_uuid_Parse (sys_ext S) raw = Some i \<and>
    File_ID g = i \<and> \<not> File_IsDeleted g \<and>
    may_access (w_db (srv_world s)) (w_clock (srv_world s)) ident PermissionViewer g \<and>
    (if bearerFromHeader r \<noteq> []
     then ParseAccessToken (sys_jwt S) (w_clock (srv_world s)) (bearerFromHeader r) = Inr ident
     else \<exists>u. Verify (sys_ext S) (sys_url_secret S) (w_clock (srv_world s)) i (Http_Query r) = Inr u \<and>
       ident = signed_identity u)"
proof -
  obtain s1 resp1 where m: "mux S d r s1 = (resp1, s')" "Resp_Code resp1 = 200"
    "environment (srv_world s) (srv_world s1)" "w_clock (srv_world s1) = w_clock (srv_world s)"
    using NewRouter_cases [OF assms(2)] assms(3) by auto
  obtain ident i rc f w' where c: "X_uuid_Parse (sys_ext S) raw = Some i"
    "http_identity S (w_clock (srv_world s)) r i ident"
    "OpenDownload (file_uc S) ident i (srv_world s1) = (Inr (rc, f), w')"
    using content_route [OF assms(1) m(1,2)] m(4) by metis
  have "w_db (srv_world s1) = w_db (srv_world s)" using m(3) by (simp add: environment_def)
  then obtain g where g: "g \<in> set (files (w_db (srv_world s)))" "File_ID g = i" "\<not> File_IsDeleted g"
    "may_access (w_db (srv_world s)) (w_clock (srv_world s)) ident PermissionViewer g"
    using OpenDownload_file [OF c(3)] m(4) by auto
  show ?thesis
    by (rule exI [of _ i], rule exI [of _ ident], rule bexI [OF _ g(1)])
      (use c(1,2) g(2-4) in \<open>simp add: http_identity_def\<close>)
qed

text \<open>
  C8: In every state reachable with blob sweeps that complete, an answer 200 on the content route
  or on a public link is about a stored file outside the trash; it announces the size recorded for
  the current version as its length. To a GET it carries the content with the checksum of that
  version, whole and without error when the recorded size is at least that of the blob; when it is
  smaller, a prefix of the content no longer than announced, the copy ending with
  ErrContentLength. To a HEAD it carries no body.
\<close>

theorem http_delivers_content:
  assumes "initial w0 \<or> sound_storage S w0" "reachable blob_sweep_succeeds S w0 (srv_world s)"
    and "aead_ok (sys_ext S)"
    and "match_route (Http_Method r) (Http_Path r) \<in> {RouteContent raw, RoutePublic raw}"
    and "NewRouter S d r s = (resp, s')" "Resp_Code resp = 200"
  shows "\<exists>plain sent err. \<exists>g \<in> set (files (w_db (srv_world s))). \<exists>b \<in> set (blobs (w_db (srv_world s))).
    let f = fileSelect (w_db (srv_world s)) g in
      \<not> File_IsDeleted g \<and> X_sha256 (sys_ext S) plain = File_ChecksumSHA256 f \<and>
      Blob_ChecksumSHA256 b = File_ChecksumSHA256 f \<and> Blob_SizeBytes b = int (length plain) \<and>
      Resp_Header resp ''Content-Length'' = Some (Value (show_int (File_SizeBytes f))) \<and>
      Resp_Body resp = Streamed sent err \<and>
      (if Http_Method r = ''HEAD'' then sent = []
       else if Blob_SizeBytes b \<le> File_SizeBytes f then sent = plain \<and> err = None
       else prefix sent plain \<and> int (length sent) \<le> File_SizeBytes f \<and> err = Some ErrContentLength)"
proof -
  let ?d = "w_db (srv_world s)"
  obtain s1 resp1 where m: "mux S d r s1 = (resp1, s')" "Resp_Code resp1 = 200"
    "Resp_Body resp1 = Resp_Body resp" "environment (srv_world s) (srv_world s1)"
    "Resp_Header resp1 \<subseteq>\<^sub>m Resp_Header resp"
    using NewRouter_cases [OF assms(5)] assms(6) by auto
  have sound: "sound_storage S (srv_world s1)"
    using environment_sound [OF m(4)] sound_reachable [OF assms(1,2)] by blast
  have db: "w_db (srv_world s1) = ?d" using m(4) by (simp add: environment_def)
  from assms(4) consider
    (content) "match_route (Http_Method r) (Http_Path r) = RouteContent raw"
  | (link) "match_route (Http_Method r) (Http_Path r) = RoutePublic raw" by blast
  then obtain rc g where g: "g \<in> set (files ?d)" "\<not> File_IsDeleted g"
    and srv: "resp1 = serveStream (sys_ext S) (deps_ParseMediaType_ok d) r rc (fileSelect ?d g)"
    and reads: "\<exists>plain. ReadAll (sys_ext S) (32 * 1024 - 1) rc = (plain, None) \<and>
      X_sha256 (sys_ext S) plain = File_ChecksumSHA256 (fileSelect ?d g) \<and>
      (\<exists>b \<in> set (blobs ?d). Blob_ChecksumSHA256 b = File_ChecksumSHA256 (fileSelect ?d g) \<and>
         Blob_SizeBytes b = int (length plain))"
  proof cases
    case content
    obtain ident i rc f w' where
      op: "OpenDownload (file_uc S) ident i (srv_world s1) = (Inr (rc, f), w')"
      and b: "resp1 = serveStream (sys_ext S) (deps_ParseMediaType_ok d) r rc f"
      using content_route [OF content m(1,2)] by metis
    from download_reads [OF sound assms(3) op] OpenDownload_file [OF op] b db that show ?thesis by metis
  next
    case link
    obtain password share f rc w1 w2 where
      op: "ResolvePublicLink (sys_ext S) raw password (srv_world s1) = (Inr (f, share), w1)"
        "OpenFileContent (file_uc S) f w1 = (Inr rc, w2)"
      and b: "resp1 = serveStream (sys_ext S) (deps_ParseMediaType_ok d) r rc f"
      using public_route [OF link m(1,2)] by metis
    from public_reads [OF sound assms(3) op] ResolvePublicLink_sound [OF op(1)] b db that show ?thesis
      by metis
  qed
  obtain plain b where p: "ReadAll (sys_ext S) (32 * 1024 - 1) rc = (plain, None)"
    "X_sha256 (sys_ext S) plain = File_ChecksumSHA256 (fileSelect ?d g)" "b \<in> set (blobs ?d)"
    "Blob_ChecksumSHA256 b = File_ChecksumSHA256 (fileSelect ?d g)" "Blob_SizeBytes b = int (length plain)"
    using reads by blast
  have "0 \<le> File_SizeBytes (fileSelect ?d g)"
    using recorded_size sound db by (auto simp: sound_storage_def content_def)
  note sent = serveStream_delivers [OF p(1) this, of "deps_ParseMediaType_ok d" r, folded srv, unfolded m(3)]
  have "Resp_Header resp ''Content-Length'' = Some (Value (show_int (File_SizeBytes (fileSelect ?d g))))"
    by (rule map_le_Some [OF m(5), OF sent(1)])
  moreover obtain bs err where "Resp_Body resp = Streamed bs err"
    "delivered (Http_Method r) (File_SizeBytes (fileSelect ?d g)) plain bs err"
    using sent(2) by blast
  ultimately show ?thesis
    by (intro exI [of _ plain] exI [of _ bs] exI [of _ err] bexI [OF _ g(1)] bexI [OF _ p(3)])
      (use g(2) p(2,4,5) in \<open>simp add: delivered_def\<close>)
qed

definition demo_http_system :: system where
  "demo_http_system = demo_system\<lparr>sys_jwt := demo_jwt\<rparr>"

definition demo_get :: http_request where
  "demo_get = \<lparr>Http_Method = ''GET'', Http_Path = [''v1'', ''files'', replicate 10 (CHR ''u''), ''content''],
     Http_Header = (\<lambda>n. if n = ''Authorization'' then ''Bearer token'' else []),
     Http_RemoteAddr = ''1.2.3.4:5'', Http_Query = [], Http_Body = ([], None)\<rparr>"

definition demo_deps :: router_deps where
  "demo_deps = \<lparr>deps_ParseMediaType_ok = (\<lambda>_. True), deps_RateCfg = demo_limits,
     deps_Gateway = (\<lambda>_ s. (http_ok [], s)), deps_ReadyChecks = []\<rparr>"

definition stored_server :: server where
  "stored_server = \<lparr>srv_world = stored_world, srv_zsets = (\<lambda>_. None)\<rparr>"

lemma sound_http: "sound_storage demo_http_system w = sound_storage demo_system w"
  by (simp add: sound_storage_def demo_http_system_def)

lemma demo_get_route: "match_route (Http_Method demo_get) (Http_Path demo_get) = RouteContent (replicate 10 (CHR ''u''))"
  by (simp add: demo_get_def match_route_def is_get_def)

lemma demo_get_id: "X_uuid_Parse demo_ext (replicate 10 (CHR ''u'')) = Some 10"
  by (simp add: demo_ext_def list_all_iff)

lemma demo_get_token: "bearerFromHeader demo_get = ''token''"
  by code_simp

lemma demo_get_served:
  "\<exists>resp s'. NewRouter demo_http_system demo_deps demo_get stored_server = (resp, s') \<and> Resp_Code resp = 200"
proof -
  let ?w = "stored_world\<lparr>w_meta := \<lparr>Meta_IP = clientIP demo_get, Meta_UserAgent = []\<rparr>\<rparr>"
  let ?id = "\<lparr>Identity_UserID = 1, Identity_Email = ''a@x'', Identity_Role = RoleUser\<rparr>"
  have "environment stored_world ?w" by (simp add: environment_def)
  from environment_sound [OF this sound_stored_world] have "sound_storage demo_http_system ?w"
    by (simp add: sound_http)
  moreover have "demo_file \<in> set (files (w_db ?w))" by (simp add: demo_db_def)
  ultimately obtain rc f w' where
    "OpenDownload (file_uc demo_http_system) ?id 10 ?w = (Inr (rc, f), w')"
    using owner_download_opens [of demo_http_system ?w demo_file ?id] aead_ok_demo stored_world_fields(3)
    by (auto simp: demo_file_def demo_http_system_def fault_free_def)
  moreover have "ParseAccessToken demo_jwt (w_clock stored_world) ''token'' = Inr ?id"
    by (simp add: ParseAccessToken_def demo_jwt_def key_for_def demo_claims_def time_Unix_def
        nanos_per_second_def unix_epoch_seconds_def demo_ext_def role_of_string_def stored_world_def)
  moreover have "sys_jwt demo_http_system = demo_jwt" "fu_ext (file_uc demo_http_system) = demo_ext"
    by (simp_all add: demo_http_system_def file_uc_def)
  moreover note demo_get_id
  moreover have "Http_Header demo_get ''User-Agent'' = []" by (simp add: demo_get_def)
  ultimately show ?thesis
    using demo_get_route demo_get_token
    by (simp add: NewRouter_def SecurityHeaders_def HTTPRequestMeta_def HTTPRateLimit_def demo_deps_def
        demo_limits_def mux_def HTTPAuthenticate_def http_on_world_def DownloadHandler_ServeHTTP_def
        IdentityFromContext_def stored_server_def Let_def)
qed

theorem http_content_authorized_witness:
  "\<exists>ident. \<exists>g \<in> set (files demo_db). File_ID g = 10 \<and> may_access demo_db 100 ident PermissionViewer g \<and>
    ParseAccessToken demo_jwt 100 ''token'' = Inr ident"
proof -
  obtain resp s' where "NewRouter demo_http_system demo_deps demo_get stored_server = (resp, s')"
    "Resp_Code resp = 200" using demo_get_served by blast
  from http_content_authorized [OF demo_get_route this]
  show ?thesis
    by (auto simp: demo_get_token demo_get_id stored_server_def stored_world_def demo_http_system_def)
qed

theorem http_delivers_content_witness:
  "\<exists>resp s' plain. NewRouter demo_http_system demo_deps demo_get stored_server = (resp, s') \<and>
    Resp_Body resp = Streamed plain None \<and> X_sha256 demo_ext plain = demo_checksum \<and> length plain = 3"
proof -
  obtain resp s' where run: "NewRouter demo_http_system demo_deps demo_get stored_server = (resp, s')"
    "Resp_Code resp = 200" using demo_get_served by blast
  have reach: "reachable blob_sweep_succeeds demo_http_system stored_world (srv_world stored_server)"
    by (simp add: stored_server_def reachable.start)
  have "initial stored_world \<or> sound_storage demo_http_system stored_world"
    by (simp add: sound_http sound_stored_world)
  from http_delivers_content [OF this reach _ _ run, of "replicate 10 (CHR ''u'')"] run
  show ?thesis
    using aead_ok_demo demo_get_route
    by (auto simp: stored_server_def demo_http_system_def demo_defs fileSelect_def demo_get_def)
qed

end
