(* ===== verification/Startup.thy ===== *)
theory Startup
  imports Config Retry Demo
begin

text \<open>
  Start-up and the worker: \<open>Load\<close> of \<open>internal/config/config.go\<close>, the bucket check of
  \<open>internal/storage/minio.go\<close> under \<open>retry.Do\<close>, \<open>New\<close> of \<open>internal/app/app.go\<close> with the
  constructors that may fail, and \<open>Run\<close> of \<open>internal/service/gc.go\<close>.
\<close>

section \<open>Loading the configuration\<close>

text \<open>
  The configuration library: reading a file, binding a key to the environment (both may fail),
  and decoding, from the file if one was read and the bound keys.
\<close>

record viper =
  viper_ReadInConfig :: "string \<Rightarrow> string option"
  viper_BindEnv :: "string \<Rightarrow> string option"
  viper_Unmarshal :: "string option \<Rightarrow> string list \<Rightarrow> string + Config"

definition allKeys :: "string list" where
  "allKeys = [
     ''server.grpc_addr'', ''server.http_addr'', ''server.metrics_addr'', ''server.shutdown_timeout'',
     ''postgres.host'', ''postgres.port'', ''postgres.user'', ''postgres.password'', ''postgres.database'',
     ''postgres.ssl_mode'', ''postgres.max_conns'', ''postgres.min_conns'', ''postgres.max_conn_lifetime'',
     ''redis.addr'', ''redis.password'', ''redis.db'',
     ''s3.endpoint'', ''s3.access_key'', ''s3.secret_key'', ''s3.bucket'', ''s3.region'', ''s3.use_ssl'',
     ''s3.signed_url_ttl'',
     ''auth.jwt_secret'', ''auth.issuer'', ''auth.access_token_ttl'', ''auth.refresh_token_ttl'',
     ''encryption.master_key'',
     ''upload.chunk_size'', ''upload.max_file_size'', ''upload.session_ttl'', ''upload.max_parallel_chunks'',
     ''quota.default_bytes'',
     ''rate_limit.enabled'', ''rate_limit.requests_per_minute'', ''rate_limit.auth_requests_per_minute'',
     ''worker.gc_interval'', ''worker.pool_size'', ''worker.trash_retention'', ''worker.orphan_grace'',
     ''telemetry.service_name'', ''telemetry.otlp_endpoint'', ''telemetry.sample_ratio'',
     ''log.level'', ''log.format'']"

text \<open>The texts of the errors \<open>Load\<close> returns; \<open>Validate\<close> may join several.\<close>

definition Load :: "viper \<Rightarrow> string \<Rightarrow> string list + Config" where
  "Load v path =
     (case (if path \<noteq> [] then viper_ReadInConfig v path else None) of
        Some err \<Rightarrow> Inl [''reading config '' @ path @ '': '' @ err]
      | None \<Rightarrow>
          (case find (\<lambda>key. viper_BindEnv v key \<noteq> None) allKeys of
             Some key \<Rightarrow> Inl [''binding env for '' @ key @ '': '' @ the (viper_BindEnv v key)]
           | None \<Rightarrow>
               (case viper_Unmarshal v (if path \<noteq> [] then Some path else None) allKeys of
                  Inl err \<Rightarrow> Inl [''unmarshaling config: '' @ err]
                | Inr cfg \<Rightarrow> if Validate cfg \<noteq> [] then Inl (Validate cfg) else Inr cfg)))"

lemma Load_valid: "Load v path = Inr cfg \<Longrightarrow> Validate cfg = []"
  by (auto simp: Load_def split: option.splits sum.splits if_splits)

text \<open>No key of the TLS section is bound.\<close>

lemma tls_keys_unbound: "list_all (\<lambda>key. take 11 key \<noteq> ''server.tls.'') allKeys"
  by code_simp

section \<open>The bucket\<close>

text \<open>
  The bucket as this process and its replicas see it: whether it exists, the calls made so far,
  which calls fail, and before which calls another replica creates it.
\<close>

record 'e bucket =
  bk_exists :: bool
  bk_calls :: nat
  bk_faults :: "nat \<Rightarrow> 'e option"
  bk_other :: "nat \<Rightarrow> bool"

definition bucket_call :: "'e bucket \<Rightarrow> 'e option \<times> 'e bucket" where
  "bucket_call b = (bk_faults b (bk_calls b),
     b\<lparr>bk_exists := bk_exists b \<or> bk_other b (bk_calls b), bk_calls := Suc (bk_calls b)\<rparr>)"

definition BucketExists :: "'e bucket \<Rightarrow> ('e + bool) \<times> 'e bucket" where
  "BucketExists b = (case bucket_call b of
     (Some e, b') \<Rightarrow> (Inl e, b') | (None, b') \<Rightarrow> (Inr (bk_exists b'), b'))"

text \<open>\<open>owned\<close>: the error for a bucket that exists.\<close>

definition MakeBucket :: "'e \<Rightarrow> 'e bucket \<Rightarrow> 'e option \<times> 'e bucket" where
  "MakeBucket owned b = (case bucket_call b of
     (Some e, b') \<Rightarrow> (Some e, b')
   | (None, b') \<Rightarrow> if bk_exists b' then (Some owned, b') else (None, b'\<lparr>bk_exists := True\<rparr>))"

definition ensure_bucket :: "'e \<Rightarrow> 'e bucket \<Rightarrow> 'e option \<times> 'e bucket" where
  "ensure_bucket owned b = (case BucketExists b of
     (Inl err, b1) \<Rightarrow> (Some err, b1)
   | (Inr True, b1) \<Rightarrow> (None, b1)
   | (Inr False, b1) \<Rightarrow>
       (case MakeBucket owned b1 of
          (None, b2) \<Rightarrow> (None, b2)
        | (Some err, b2) \<Rightarrow>
            (case BucketExists b2 of
               (Inr True, b3) \<Rightarrow> (None, b3)
             | (_, b3) \<Rightarrow> (Some err, b3))))"

text \<open>The retried part of \<open>NewMinioStore\<close>.\<close>

definition ensure_retried :: "'e retry_env \<Rightarrow> 'e \<Rightarrow> 'e bucket \<Rightarrow>
    'e retry_result \<times> 'e bucket \<times> 'e option list \<times> duration list" where
  "ensure_retried env owned b = Do DefaultPolicy env (ensure_bucket owned) b"

lemma bucket_call_keeps: "bucket_call b = (r, b') \<Longrightarrow> bk_exists b \<Longrightarrow> bk_exists b'"
  by (auto simp: bucket_call_def)

lemma ensure_bucket_ok: "ensure_bucket owned b = (None, b') \<Longrightarrow> bk_exists b'"
  by (auto simp: ensure_bucket_def BucketExists_def MakeBucket_def
      split: prod.splits sum.splits bool.splits option.splits if_splits)

text \<open>A state is what its last call left.\<close>

lemma Do_loop_ok:
  assumes "\<And>s s'. fn s = (None, s') \<Longrightarrow> Q s'"
    and "Do_loop p env fn left k lastErr s = (RetryOK, s', calls, sleeps)" "lastErr \<noteq> None \<or> left \<noteq> 0"
  shows "Q s'"
  using assms(2,3)
proof (induction left arbitrary: k lastErr s calls sleeps)
  case (Suc left)
  then show ?case
    using assms(1)
    by (fastforce simp: Let_def split: if_splits option.splits prod.splits)
qed (auto split: option.splits)

lemma ensure_retried_ensures:
  "ensure_retried env owned b = (RetryOK, b', calls, sleeps) \<Longrightarrow> bk_exists b'"
  using Do_loop_ok [of "ensure_bucket owned" bk_exists, OF ensure_bucket_ok]
  by (auto simp: ensure_retried_def Do_def DefaultPolicy_def)

text \<open>A store that answers is ready after one attempt.\<close>

lemma ensure_retried_answers:
  assumes "\<And>n. bk_faults b n = None"
  shows "\<exists>b' calls sleeps. ensure_retried env owned b = (RetryOK, b', calls, sleeps)"
proof -
  have "fst (ensure_bucket owned b) = None"
    using assms by (auto simp: ensure_bucket_def BucketExists_def MakeBucket_def bucket_call_def
        split: bool.splits)
  then obtain b' where "ensure_bucket owned b = (None, b')" by (metis prod.collapse)
  then show ?thesis by (simp add: ensure_retried_def Do_def DefaultPolicy_def eval_nat_numeral)
qed

section \<open>Building the application\<close>

text \<open>
  The libraries \<open>New\<close> calls on, each with the error it may return: the tracing exporter and its
  resource, the Postgres pool (parsing the DSN, building the pool, the ping), the ping of Redis,
  the client of the object store, the state of its bucket, and the gateway's client connection and
  handler registration.
\<close>

record backends =
  otlptracegrpc_New :: "string \<Rightarrow> string option"
  resource_Merge :: "string \<Rightarrow> string option"
  pgxpool_ParseConfig :: "string \<Rightarrow> string option"
  pgxpool_NewWithConfig :: "PostgresConfig \<Rightarrow> string option"
  pgxpool_Ping :: "PostgresConfig \<Rightarrow> string option"
  redis_Ping :: "RedisConfig \<Rightarrow> string option"
  minio_New :: "S3Config \<Rightarrow> string option"
  minio_env :: "string retry_env"
  minio_owned :: string
  minio_bucket :: "string bucket"
  grpc_NewClient :: "string \<Rightarrow> string option"
  register_handlers :: "string option list"

text \<open>The errors of \<open>New\<close>: a constructor stands for the text wrapped around the library's error.\<close>

datatype new_error =
    Creating_OTLP_exporter string
  | Building_otel_resource string
  | Parsing_postgres_config string
  | Creating_postgres_pool string
  | Pinging_postgres string
  | Pinging_redis string
  | Creating_minio_client string
  | Ensuring_bucket string "string retry_result"
  | Master_key string
  | Precomputing_dummy_hash error
  | Dialing_grpc string
  | Registering_gateway_handler string

definition setupTracing :: "backends \<Rightarrow> TelemetryConfig \<Rightarrow> new_error + unit" where
  "setupTracing B cfg =
     (if Telemetry_OTLPEndpoint cfg = [] then Inr ()
      else case otlptracegrpc_New B (Telemetry_OTLPEndpoint cfg) of
        Some err \<Rightarrow> Inl (Creating_OTLP_exporter err)
      | None \<Rightarrow>
          (case resource_Merge B (Telemetry_ServiceName cfg) of
             Some err \<Rightarrow> Inl (Building_otel_resource err)
           | None \<Rightarrow> Inr ()))"

definition postgres_New :: "backends \<Rightarrow> PostgresConfig \<Rightarrow> new_error + unit" where
  "postgres_New B cfg =
     (case pgxpool_ParseConfig B (DSN cfg) of
        Some err \<Rightarrow> Inl (Parsing_postgres_config err)
      | None \<Rightarrow>
          (case pgxpool_NewWithConfig B cfg of
             Some err \<Rightarrow> Inl (Creating_postgres_pool err)
           | None \<Rightarrow>
               (case pgxpool_Ping B cfg of
                  Some err \<Rightarrow> Inl (Pinging_postgres err)
                | None \<Rightarrow> Inr ())))"

definition redis_New :: "backends \<Rightarrow> RedisConfig \<Rightarrow> new_error + unit" where
  "redis_New B cfg = (case redis_Ping B cfg of Some err \<Rightarrow> Inl (Pinging_redis err) | None \<Rightarrow> Inr ())"

definition NewMinioStore :: "backends \<Rightarrow> S3Config \<Rightarrow> new_error + string bucket" where
  "NewMinioStore B cfg =
     (case minio_New B cfg of
        Some err \<Rightarrow> Inl (Creating_minio_client err)
      | None \<Rightarrow>
          (case ensure_retried (minio_env B) (minio_owned B) (minio_bucket B) of
             (RetryOK, b, _) \<Rightarrow> Inr b
           | (err, b, _) \<Rightarrow> Inl (Ensuring_bucket (S3_Bucket cfg) err)))"

text \<open>\<open>NewAuthUseCase\<close> precomputes the hash that a login of an unknown user is compared with.\<close>

definition NewAuthUseCase :: "ext \<Rightarrow> string action" where
  "NewAuthUseCase X =
     bnd new_uuid (\<lambda>i. HashPassword X (X_uuid_String X i) DefaultArgon2Params)"

definition NewGateway :: "backends \<Rightarrow> string \<Rightarrow> new_error + unit" where
  "NewGateway B grpcAddr =
     (case grpc_NewClient B grpcAddr of
        Some err \<Rightarrow> Inl (Dialing_grpc err)
      | None \<Rightarrow>
          (case find (\<lambda>e. e \<noteq> None) (register_handlers B) of
             Some (Some err) \<Rightarrow> Inl (Registering_gateway_handler err)
           | _ \<Rightarrow> Inr ()))"

record app =
  app_system :: system
  app_bucket :: "string bucket"
  app_dummyHash :: string

text \<open>\<open>New\<close>: the first error in the order of the code ends it.\<close>

definition New_App :: "backends \<Rightarrow> ext \<Rightarrow> (claims \<Rightarrow> byte list \<Rightarrow> string option) \<Rightarrow>
    (string \<Rightarrow> (SigningMethod \<Rightarrow> byte list option) \<Rightarrow> string \<Rightarrow> time \<Rightarrow> claims option) \<Rightarrow>
    Config \<Rightarrow> (world, new_error, app) act" where
  "New_App B X sgn_fn parse_fn cfg =
     bnd (from_sum (setupTracing B (Cfg_Telemetry cfg))) (\<lambda>_.
     bnd (from_sum (postgres_New B (Cfg_Postgres cfg))) (\<lambda>_.
     bnd (from_sum (redis_New B (Cfg_Redis cfg))) (\<lambda>_.
     bnd (from_sum (NewMinioStore B (Cfg_S3 cfg))) (\<lambda>store.
     bnd (from_sum (map_sum Master_key id (MasterKeyBytes (Cfg_MasterKey cfg)))) (\<lambda>kek.
     bnd (\<lambda>w. case NewAuthUseCase X w of
            (Inl err, w') \<Rightarrow> (Inl (Precomputing_dummy_hash err), w')
          | (Inr dummy, w') \<Rightarrow> (Inr dummy, w')) (\<lambda>dummy.
     bnd (from_sum (NewGateway B (gatewayTarget (Server_GRPCAddr (Cfg_Server cfg))))) (\<lambda>_.
     ret \<lparr>app_system = wire X sgn_fn parse_fn cfg kek, app_bucket = store, app_dummyHash = dummy\<rparr>)))))))"

text \<open>Every backend answers, and the random source does.\<close>

definition backends_answer :: "backends \<Rightarrow> Config \<Rightarrow> world \<Rightarrow> bool" where
  "backends_answer B cfg w \<longleftrightarrow>
     (Telemetry_OTLPEndpoint (Cfg_Telemetry cfg) \<noteq> [] \<longrightarrow>
        otlptracegrpc_New B (Telemetry_OTLPEndpoint (Cfg_Telemetry cfg)) = None \<and>
        resource_Merge B (Telemetry_ServiceName (Cfg_Telemetry cfg)) = None) \<and>
     pgxpool_ParseConfig B (DSN (Cfg_Postgres cfg)) = None \<and>
     pgxpool_NewWithConfig B (Cfg_Postgres cfg) = None \<and> pgxpool_Ping B (Cfg_Postgres cfg) = None \<and>
     redis_Ping B (Cfg_Redis cfg) = None \<and> minio_New B (Cfg_S3 cfg) = None \<and>
     (\<forall>n. bk_faults (minio_bucket B) n = None) \<and> (\<forall>n. w_faults w n = None) \<and>
     grpc_NewClient B (gatewayTarget (Server_GRPCAddr (Cfg_Server cfg))) = None \<and>
     list_all (\<lambda>e. e = None) (register_handlers B)"

lemma NewMinioStore_ensures: "NewMinioStore B cfg = Inr b \<Longrightarrow> bk_exists b"
  by (auto simp: NewMinioStore_def dest: ensure_retried_ensures
      split: option.splits prod.splits retry_result.splits)

lemma NewGateway_answers:
  assumes "grpc_NewClient B addr = None" "list_all (\<lambda>e. e = None) (register_handlers B)"
  shows "NewGateway B addr = Inr ()"
proof -
  have "find (\<lambda>e. e \<noteq> None) (register_handlers B) = None"
    using assms(2) by (auto simp: find_None_iff list_all_iff)
  then show ?thesis using assms(1) by (simp add: NewGateway_def)
qed

lemma backends_answerD:
  assumes "backends_answer B cfg w"
  shows "setupTracing B (Cfg_Telemetry cfg) = Inr ()" "postgres_New B (Cfg_Postgres cfg) = Inr ()"
    "redis_New B (Cfg_Redis cfg) = Inr ()" "\<exists>b. NewMinioStore B (Cfg_S3 cfg) = Inr b"
    "\<exists>h w'. NewAuthUseCase X w = (Inr h, w')"
    "NewGateway B (gatewayTarget (Server_GRPCAddr (Cfg_Server cfg))) = Inr ()"
proof -
  note B = assms [unfolded backends_answer_def]
  show "setupTracing B (Cfg_Telemetry cfg) = Inr ()" "postgres_New B (Cfg_Postgres cfg) = Inr ()"
    "redis_New B (Cfg_Redis cfg) = Inr ()"
    using B by (auto simp: setupTracing_def postgres_New_def redis_New_def)
  show "\<exists>b. NewMinioStore B (Cfg_S3 cfg) = Inr b"
    using ensure_retried_answers [of "minio_bucket B" "minio_env B" "minio_owned B"] B
    by (auto simp: NewMinioStore_def)
  show "\<exists>h w'. NewAuthUseCase X w = (Inr h, w')"
    using B by (simp add: NewAuthUseCase_def HashPassword_def DefaultArgon2Params_def run_simps rand_Read_def)
  show "NewGateway B (gatewayTarget (Server_GRPCAddr (Cfg_Server cfg))) = Inr ()"
    using B by (intro NewGateway_answers) auto
qed

section \<open>The worker\<close>

text \<open>\<open>Run\<close>: a first pass, then one for each tick, until the context ends.\<close>

fun GC_Run :: "GCConfig \<Rightarrow> nat \<Rightarrow> unit action" where
  "GC_Run cfg 0 = Sweep cfg"
| "GC_Run cfg (Suc ticks) = bnd (GC_Run cfg ticks) (\<lambda>_. Sweep cfg)"

definition one_pass :: "request list" where
  "one_pass = [SweepUploads, SweepTrash, SweepBlobs, SweepSessions]"

text \<open>A pass returns whatever fails in it, and is the four sweeps in turn.\<close>

definition infallible :: "(world, 'e, 'a) act \<Rightarrow> bool" where
  "infallible m \<longleftrightarrow> (\<forall>w e. fst (m w) \<noteq> Inl e)"

lemma infallible_intros:
  "infallible (ret x)" "infallible (attempt m)" "infallible (ignore m)" "infallible (gets g)"
  by (auto simp: infallible_def ret_def attempt_def ignore_def gets_def split: prod.splits)

lemma infallible_bnd: "infallible m \<Longrightarrow> (\<And>x. infallible (f x)) \<Longrightarrow> infallible (bnd m f)"
  unfolding infallible_def by (metis bnd_InlE fst_conv surjective_pairing)

lemma infallible_count_each: "infallible (count_each f xs)"
  by (induction xs) (auto intro!: infallible_bnd infallible_intros)

lemma infallible_sweeps:
  "infallible (sweepExpiredUploads cfg)" "infallible (sweepTrash cfg)" "infallible (sweepOrphanedBlobs cfg)"
  unfolding sweepExpiredUploads_def sweepTrash_def sweepOrphanedBlobs_def clock_Now_def
  by (auto intro!: infallible_bnd infallible_intros infallible_count_each split: sum.splits)

lemma snd_bnd_infallible: "infallible m \<Longrightarrow> snd (bnd m (\<lambda>_. k) w) = snd (k (snd (m w)))"
  by (cases "m w"; cases "fst (m w)") (auto simp: infallible_def bnd_def dest: spec [of _ w])

lemma Sweep_requests: "snd (Sweep (sys_gc S) w) = fold (run_request S) one_pass w"
  by (simp add: Sweep_def one_pass_def snd_bnd_infallible infallible_sweeps)

lemma infallible_Sweep: "infallible (Sweep cfg)"
  unfolding Sweep_def clock_Now_def by (intro infallible_bnd infallible_sweeps infallible_intros)

lemma infallible_GC_Run: "infallible (GC_Run cfg ticks)"
  by (induction ticks) (auto intro!: infallible_bnd infallible_Sweep)

lemma GC_Run_requests:
  "snd (GC_Run (sys_gc S) ticks w) = fold (run_request S) (concat (replicate (Suc ticks) one_pass)) w"
proof (induction ticks)
  case (Suc ticks)
  have "snd (GC_Run (sys_gc S) (Suc ticks) w) = fold (run_request S) one_pass (snd (GC_Run (sys_gc S) ticks w))"
    by (simp add: snd_bnd_infallible infallible_GC_Run Sweep_requests)
  also have "\<dots> = fold (run_request S) (concat (replicate (Suc ticks) one_pass) @ one_pass) w"
    using Suc by (simp only: fold_append comp_apply)
  also have "concat (replicate (Suc ticks) one_pass) @ one_pass = concat (replicate (Suc (Suc ticks)) one_pass)"
    by (metis append_Nil2 concat.simps concat_append replicate_append_same replicate_Suc)
  finally show ?case .
qed (simp add: Sweep_requests)

lemma fold_reachable:
  "reachable any_request S w0 w \<Longrightarrow> reachable any_request S w0 (fold (run_request S) rs w)"
  by (induction rs arbitrary: w) (simp_all add: reachable.serve any_request_def)

lemma worker_reachable:
  "reachable any_request S w0 w \<Longrightarrow> reachable any_request S w0 (snd (GC_Run (sys_gc S) ticks w))"
  unfolding GC_Run_requests by (rule fold_reachable)

section \<open>Properties\<close>

text \<open>
  C40: With a configuration that Load returned, New never fails on the master key, and succeeds
  when tracing, Postgres, Redis, the object store, the random source and the gateway do; an
  application it returns has its bucket, a chunk size of at least 1 MiB and signing secrets of at
  least 32 bytes, and its master key wraps every data key so that unwrapping gives it back.
\<close>

theorem loaded_config_sound:
  assumes "Load v path = Inr cfg" "New_App B X sgn_fn parse_fn cfg w = (r, w')"
  shows "(backends_answer B cfg w \<longrightarrow> (\<exists>a. r = Inr a)) \<and> (\<forall>msg. r \<noteq> Inl (Master_key msg)) \<and>
    (\<forall>a. r = Inr a \<longrightarrow> bk_exists (app_bucket a) \<and> 2 ^ 20 \<le> sys_ChunkSize (app_system a) \<and>
      32 \<le> length (sys_url_secret (app_system a)) \<and> 32 \<le> length (jm_secret (sys_jwt (app_system a))) \<and>
      (aead_ok X \<longrightarrow> (\<forall>dek nonce. length nonce = nonceLen \<longrightarrow>
         (\<exists>wrapped. WrapKey X (sys_kek (app_system a)) dek nonce = Inr wrapped \<and>
            UnwrapKey X (sys_kek (app_system a)) wrapped = Inr dek))))"
proof (intro conjI allI impI)
  obtain kek where kek: "MasterKeyBytes (Cfg_MasterKey cfg) = Inr kek" "length kek = 32"
    using Validate_ok(2) [OF Load_valid [OF assms(1)]] by blast
  note run = assms(2) [unfolded New_App_def kek(1)]
  show "\<exists>a. r = Inr a" if "backends_answer B cfg w"
    using backends_answerD(1-4,6) [OF that] backends_answerD(5) [OF that, of X] run
    by (auto simp: bnd_def from_sum_def ret_def)
  show "r \<noteq> Inl (Master_key msg)" for msg
    using run by (auto simp: bnd_def from_sum_def ret_def setupTracing_def postgres_New_def redis_New_def
        NewMinioStore_def NewGateway_def split: prod.splits sum.splits option.splits if_splits
        retry_result.splits)
  fix a assume a: "r = Inr a"
  then have sys: "app_system a = wire X sgn_fn parse_fn cfg kek" "NewMinioStore B (Cfg_S3 cfg) = Inr (app_bucket a)"
    using run by (auto simp: run_inv split: sum.splits prod.splits)
  show "bk_exists (app_bucket a)" using NewMinioStore_ensures [OF sys(2)] .
  note ok = Validate_ok(1,3) [OF Load_valid [OF assms(1)]]
  show "2 ^ 20 \<le> sys_ChunkSize (app_system a)" "32 \<le> length (sys_url_secret (app_system a))"
    "32 \<le> length (jm_secret (sys_jwt (app_system a)))"
    using ok by (simp_all add: sys(1) wire_def NewJWTManager_def bytes_of_def)
  show "\<exists>wrapped. WrapKey X (sys_kek (app_system a)) dek nonce = Inr wrapped \<and>
      UnwrapKey X (sys_kek (app_system a)) wrapped = Inr dek"
    if "aead_ok X" "length nonce = nonceLen" for dek nonce
    using UnwrapKey_WrapKey [OF that(1), of kek nonce dek] kek(2) that(2)
    by (simp add: sys(1) wire_def KeySize_def)
qed

definition demo_config :: Config where
  "demo_config = \<lparr>
     Cfg_Server = \<lparr>Server_GRPCAddr = '':9090'', Server_HTTPAddr = '':8080'', Server_MetricsAddr = '':9100'',
       Server_ShutdownTimeout = 0, Server_TLS = \<lparr>TLS_Enabled = False, TLS_CertFile = [], TLS_KeyFile = []\<rparr>\<rparr>,
     Cfg_Postgres = \<lparr>PG_Host = ''db'', PG_Port = 5432, PG_User = ''strato'', PG_Password = [],
       PG_Database = ''strato'', PG_SSLMode = ''disable'', PG_MaxConns = 20, PG_MinConns = 2,
       PG_MaxConnLifetime = 0\<rparr>,
     Cfg_Redis = \<lparr>Redis_Addr = ''redis:6379'', Redis_Password = [], Redis_DB = 0\<rparr>,
     Cfg_S3 = \<lparr>S3_Endpoint = [], S3_AccessKey = [], S3_SecretKey = [], S3_Bucket = [], S3_Region = [],
       S3_UseSSL = False, S3_SignedURLTTL = 900\<rparr>,
     Cfg_Auth = \<lparr>Auth_JWTSecret = replicate 32 (CHR ''s''), Auth_Issuer = ''strato'',
       Auth_AccessTokenTTL = 900, Auth_RefreshTokenTTL = 900\<rparr>,
     Cfg_MasterKey = replicate 43 (CHR ''A'') @ ''='',
     Cfg_Upload = \<lparr>Upload_cfg_ChunkSize = 2 ^ 23, Upload_cfg_MaxFileSize = 2 ^ 40,
       Upload_cfg_SessionTTL = 900, Upload_cfg_MaxParallelChunks = 4\<rparr>,
     Cfg_DefaultBytes = 1000,
     Cfg_RateLimit = \<lparr>RL_Enabled = True, RL_RequestsPerMinute = 300, RL_AuthRequestsPerMinute = 10\<rparr>,
     Cfg_Worker = \<lparr>Worker_GCInterval = 900, Worker_PoolSize = 4, Worker_TrashRetention = 900,
       Worker_OrphanGrace = 900\<rparr>,
     Cfg_Telemetry = \<lparr>Telemetry_ServiceName = ''strato'', Telemetry_OTLPEndpoint = []\<rparr>\<rparr>"

lemma demo_master_key: "MasterKeyBytes (replicate 43 (CHR ''A'') @ ''='') = Inr (replicate 32 0)"
  by code_simp

definition demo_viper :: viper where
  "demo_viper = \<lparr>viper_ReadInConfig = (\<lambda>_. None), viper_BindEnv = (\<lambda>_. None),
     viper_Unmarshal = (\<lambda>_ _. Inr demo_config)\<rparr>"

definition demo_backends :: backends where
  "demo_backends = \<lparr>otlptracegrpc_New = (\<lambda>_. None), resource_Merge = (\<lambda>_. None),
     pgxpool_ParseConfig = (\<lambda>_. None), pgxpool_NewWithConfig = (\<lambda>_. None), pgxpool_Ping = (\<lambda>_. None),
     redis_Ping = (\<lambda>_. None), minio_New = (\<lambda>_. None),
     minio_env = \<lparr>ended = (\<lambda>_. None), rnd = (\<lambda>_ _. 0)\<rparr>, minio_owned = ''owned'',
     minio_bucket = \<lparr>bk_exists = False, bk_calls = 0, bk_faults = (\<lambda>_. None), bk_other = (\<lambda>_. False)\<rparr>,
     grpc_NewClient = (\<lambda>_. None), register_handlers = [None, None, None]\<rparr>"

theorem loaded_config_sound_witness:
  "\<exists>a w'. New_App demo_backends demo_ext (\<lambda>_ _. None) (\<lambda>_ _ _ _. None) demo_config (demo_world demo_db) =
      (Inr a, w') \<and> bk_exists (app_bucket a) \<and> 2 ^ 20 \<le> sys_ChunkSize (app_system a)"
proof -
  have "Validate demo_config = []"
    by (simp add: Validate_def demo_config_def demo_master_key push_bit_eq_mult)
  moreover have "find (\<lambda>key. False) allKeys = None" by (simp add: find_None_iff)
  ultimately have load: "Load demo_viper [] = Inr demo_config" by (simp add: Load_def demo_viper_def)
  obtain r w' where run: "New_App demo_backends demo_ext (\<lambda>_ _. None) (\<lambda>_ _ _ _. None) demo_config
      (demo_world demo_db) = (r, w')" by fastforce
  have "backends_answer demo_backends demo_config (demo_world demo_db)"
    by (simp add: backends_answer_def demo_backends_def demo_config_def)
  with loaded_config_sound [OF load run] run show ?thesis by auto
qed

end
