(* ===== verification/Observability.thy ===== *)
theory Observability
  imports Api_Props Http_Handlers
begin

text \<open>
  The interceptors and middleware that do not decide requests but watch them: panic recovery,
  logging and metrics, of \<open>internal/middleware\<close> (\<open>interceptors.go\<close>, \<open>http.go\<close>,
  \<open>metrics.go\<close>). A handler may panic; what it had done to the state by then stays.
\<close>

section \<open>Outcomes and telemetry\<close>

datatype 'a outcome = Returns 'a | Panics string

datatype log_level = LevelInfo | LevelError

text \<open>A code of \<open>None\<close> is \<open>codes.OK\<close>.\<close>

datatype log_line =
    PanicLine string string
  | RpcLine log_level string "code option" duration
  | HttpLine nat duration

text \<open>
  \<open>tel_clock\<close> is the wall clock, \<open>time.Now()\<close>, at each reading of it.
\<close>

record telemetry =
  tel_log :: "log_line list"
  rpcInFlight :: int
  rpcDuration :: "(string \<times> code option \<times> duration) list"
  tel_clock :: "nat \<Rightarrow> time"
  tel_reads :: nat

definition time_Now :: "telemetry \<Rightarrow> time \<times> telemetry" where
  "time_Now t = (tel_clock t (tel_reads t), t\<lparr>tel_reads := Suc (tel_reads t)\<rparr>)"

definition emit :: "log_line \<Rightarrow> telemetry \<Rightarrow> telemetry" where
  "emit l t = t\<lparr>tel_log := tel_log t @ [l]\<rparr>"

type_synonym 'a observed = "server \<times> telemetry \<Rightarrow> 'a outcome \<times> server \<times> telemetry"

section \<open>gRPC interceptors\<close>

definition Recovery :: "string \<Rightarrow> (RpcStatus + 'a) observed \<Rightarrow> (RpcStatus + 'a) observed" where
  "Recovery meth handler = (\<lambda>st. case handler st of
     (Returns r, st') \<Rightarrow> (Returns r, st')
   | (Panics v, s, t) \<Rightarrow>
       (Returns (Inl (status_Error Internal (Literal ''internal server error''))), s,
        emit (PanicLine meth v) t))"

definition status_Code :: "RpcStatus + 'a \<Rightarrow> code option" where
  "status_Code r = (case r of Inl st \<Rightarrow> Some (Status_code st) | Inr _ \<Rightarrow> None)"

text \<open>Handlers return statuses, so \<open>codes.Unknown\<close> does not occur.\<close>

definition Logging :: "string \<Rightarrow> (RpcStatus + 'a) observed \<Rightarrow> (RpcStatus + 'a) observed" where
  "Logging meth handler = (\<lambda>(s, t).
     let (start, t) = time_Now t in
     case handler (s, t) of
       (Panics v, st) \<Rightarrow> (Panics v, st)
     | (Returns r, s, t) \<Rightarrow>
         let code = status_Code r;
             level = (if code = Some Internal then LevelError else LevelInfo);
             (now, t) = time_Now t in
         (Returns r, s, emit (RpcLine level meth code (now - start)) t))"

text \<open>\<open>defer m.rpcInFlight.Dec()\<close> runs on a panic too; the observation does not.\<close>

definition UnaryInterceptor ::
    "string \<Rightarrow> (RpcStatus + 'a) observed \<Rightarrow> (RpcStatus + 'a) observed" where
  "UnaryInterceptor meth handler = (\<lambda>(s, t).
     let (start, t) = time_Now (t\<lparr>rpcInFlight := rpcInFlight t + 1\<rparr>) in
     case handler (s, t) of
       (Panics v, s, t) \<Rightarrow> (Panics v, s, t\<lparr>rpcInFlight := rpcInFlight t - 1\<rparr>)
     | (Returns r, s, t) \<Rightarrow>
         let code = status_Code r;
             (now, t) = time_Now t;
             t = t\<lparr>rpcDuration := rpcDuration t @ [(meth, code, now - start)]\<rparr> in
         (Returns r, s, t\<lparr>rpcInFlight := rpcInFlight t - 1\<rparr>))"

text \<open>A handler that may panic, as the interceptors inside the chain see it: \<open>Inr (Inl v)\<close>.\<close>

definition observe :: "(server, RpcStatus, string + 'a) act \<Rightarrow> (RpcStatus + 'a) observed" where
  "observe m = (\<lambda>(s, t). case m s of
     (Inl e, s') \<Rightarrow> (Returns (Inl e), s', t)
   | (Inr (Inl v), s') \<Rightarrow> (Panics v, s', t)
   | (Inr (Inr x), s') \<Rightarrow> (Returns (Inr x), s', t))"

text \<open>\<open>grpc.ChainUnaryInterceptor(...)\<close> of \<open>NewServer\<close>, in its order, around a service.\<close>

definition unary_chain :: "system \<Rightarrow> RateLimitConfig \<Rightarrow> incoming \<Rightarrow> string \<Rightarrow>
    (Identity option \<Rightarrow> (server, RpcStatus, string + 'a) act) \<Rightarrow> (RpcStatus + 'a) observed" where
  "unary_chain S cfg req meth service = (\<lambda>(s, t).
     Recovery meth (Logging meth (UnaryInterceptor meth (observe
       (RateLimit (sys_ext S) cfg req meth (Authentication (sys_jwt S) req meth service)))))
       (snd (RequestMeta_interceptor req (ret () :: (server, RpcStatus, unit) act) s), t))"

text \<open>A service that does not panic.\<close>

definition no_panic :: "('s, 'e, 'a) act \<Rightarrow> ('s, 'e, string + 'a) act" where
  "no_panic m = bnd m (\<lambda>x. ret (Inr x))"

section \<open>HTTP middleware\<close>

text \<open>
  An HTTP handler may panic before or after it has begun its response. \<open>http.Error\<close> in the
  recovery then either makes the response, or only adds its text to the one begun.
\<close>

datatype http_outcome = Answered http_response | HandlerPanics string "http_response option"

type_synonym http_observed = "server \<times> telemetry \<Rightarrow> (http_response \<times> string) \<times> server \<times> telemetry"

definition HTTPLogging ::
    "(server \<times> telemetry \<Rightarrow> http_outcome \<times> server \<times> telemetry) \<Rightarrow>
     server \<times> telemetry \<Rightarrow> http_outcome \<times> server \<times> telemetry" where
  "HTTPLogging nxt = (\<lambda>(s, t).
     let (start, t) = time_Now t in
     case nxt (s, t) of
       (HandlerPanics v sent, st) \<Rightarrow> (HandlerPanics v sent, st)
     | (Answered resp, s, t) \<Rightarrow>
         let (now, t) = time_Now t in
         (Answered resp, s, emit (HttpLine (Resp_Code resp) (now - start)) t))"

text \<open>The response, and the text written after it.\<close>

definition HTTPRecovery :: "string \<Rightarrow> (server \<times> telemetry \<Rightarrow> http_outcome \<times> server \<times> telemetry) \<Rightarrow>
    http_observed" where
  "HTTPRecovery path nxt = (\<lambda>st. case nxt st of
     (Answered resp, st') \<Rightarrow> ((resp, []), st')
   | (HandlerPanics v sent, s, t) \<Rightarrow>
       ((case sent of
           None \<Rightarrow> (http_Error ''internal server error'' 500, [])
         | Some resp \<Rightarrow> (resp, ''internal server error'' @ [CHR 0x0A])),
        s, emit (PanicLine path v) t))"

section \<open>What the interceptors do\<close>

lemma time_Now_fields [simp]:
  "snd (time_Now t) = t\<lparr>tel_reads := Suc (tel_reads t)\<rparr>"
  by (simp add: time_Now_def)

lemma emit_fields [simp]:
  "tel_log (emit l t) = tel_log t @ [l]" "rpcInFlight (emit l t) = rpcInFlight t"
  "rpcDuration (emit l t) = rpcDuration t"
  by (simp_all add: emit_def)

text \<open>
  What the chain answers for what the interceptors and the service inside it gave (\<open>Inr (Inl v)\<close>
  is a panic), and the telemetry of the call: a panic leaves its line and no observation, anything
  else one line and one observation with the code, timed by the readings of the clock around it.
\<close>

definition chain_answer :: "RpcStatus + string + 'a \<Rightarrow> RpcStatus + 'a" where
  "chain_answer r0 = (case r0 of
     Inl e \<Rightarrow> Inl e
   | Inr (Inl v) \<Rightarrow> Inl (status_Error Internal (Literal ''internal server error''))
   | Inr (Inr x) \<Rightarrow> Inr x)"

definition recorded :: "string \<Rightarrow> telemetry \<Rightarrow> RpcStatus + string + 'a \<Rightarrow> telemetry \<Rightarrow> bool" where
  "recorded meth t r0 t' \<longleftrightarrow> rpcInFlight t' = rpcInFlight t \<and>
     (let code = status_Code (chain_answer r0); clock = (\<lambda>k. tel_clock t (tel_reads t + k)) in
      case r0 of
        Inr (Inl v) \<Rightarrow> tel_log t' = tel_log t @ [PanicLine meth v] \<and> rpcDuration t' = rpcDuration t
      | _ \<Rightarrow>
          tel_log t' = tel_log t @ [RpcLine (if code = Some Internal then LevelError else LevelInfo)
            meth code (clock 3 - clock 0)] \<and>
          rpcDuration t' = rpcDuration t @ [(meth, code, clock 2 - clock 1)])"

lemma observed_chain:
  assumes "m s = (r0, s')"
  shows "\<exists>t'. Recovery meth (Logging meth (UnaryInterceptor meth (observe m))) (s, t) =
      (Returns (chain_answer r0), s', t') \<and> recorded meth t r0 t'"
  using assms
  by (auto simp: Recovery_def Logging_def UnaryInterceptor_def observe_def time_Now_def Let_def
      recorded_def emit_def chain_answer_def eval_nat_numeral split: sum.splits)

text \<open>The chain answers and serves as the chain without the watching interceptors does.\<close>

lemma RateLimit_no_panic:
  "RateLimit X cfg req meth (no_panic h) = no_panic (RateLimit X cfg req meth h)"
  by (rule ext) (auto simp: RateLimit_def no_panic_def bnd_def Let_def split: prod.splits)

lemma Authentication_no_panic:
  "Authentication tokens req meth (\<lambda>ctx. no_panic (h ctx)) = no_panic (Authentication tokens req meth h)"
  by (rule ext) (auto simp: Authentication_def no_panic_def bnd_def split: option.splits sum.splits)

lemma unary_chain_serves:
  "\<exists>t'. unary_chain S cfg req (FullMethod c) (\<lambda>ctx. no_panic (on_world (dispatch S J ctx c))) (s, t) =
      (Returns (fst (serve_grpc S J cfg req c s)), snd (serve_grpc S J cfg req c s), t') \<and>
    recorded (FullMethod c) t (map_sum id Inr (fst (serve_grpc S J cfg req c s))) t'"
proof -
  let ?m = "RateLimit (sys_ext S) cfg req (FullMethod c) (Authentication (sys_jwt S) req (FullMethod c)
    (\<lambda>ctx. on_world (dispatch S J ctx c)))"
  let ?s = "snd (RequestMeta_interceptor req (ret () :: (server, RpcStatus, unit) act) s)"
  have serve: "serve_grpc S J cfg req c s = ?m ?s"
    by (simp add: serve_grpc_def RequestMeta_interceptor_def ret_def)
  obtain r s' where run: "?m ?s = (r, s')" by fastforce
  then have "no_panic ?m ?s = (map_sum id Inr r, s')"
    by (auto simp: no_panic_def bnd_def ret_def split: sum.splits)
  moreover have "chain_answer (map_sum id Inr r) = r" by (cases r) (simp_all add: chain_answer_def)
  ultimately show ?thesis
    using observed_chain [of "no_panic ?m" ?s "map_sum id Inr r" s' "FullMethod c" t]
    unfolding unary_chain_def serve run
    by (simp add: RateLimit_no_panic Authentication_no_panic)
qed

section \<open>Properties\<close>

text \<open>
  C14: Whatever the rate limiter, the authentication and the service inside it do, the interceptor
  chain returns: their own answer and state, or after a panic the status Internal with a fixed
  text and the state at the panic. The number of calls in flight is back at its value; a call that
  did not panic left one log line and one observation, with its method, the code of that answer
  and the time between the clock readings around it; a panicking one left a log line and no
  observation.
\<close>

theorem server_survives_panics:
  "let inner = RateLimit (sys_ext S) cfg req meth (Authentication (sys_jwt S) req meth service);
       s0 = s\<lparr>srv_world := (srv_world s)\<lparr>w_meta := RequestMeta_of req\<rparr>\<rparr>;
       r0 = fst (inner s0)
   in \<exists>t'. unary_chain S cfg req meth service (s, t) =
        (Returns (case r0 of
            Inl e \<Rightarrow> Inl e
          | Inr (Inl v) \<Rightarrow> Inl (status_Error Internal (Literal ''internal server error''))
          | Inr (Inr x) \<Rightarrow> Inr x), snd (inner s0), t') \<and>
      recorded meth t r0 t'"
proof -
  let ?m = "RateLimit (sys_ext S) cfg req meth (Authentication (sys_jwt S) req meth service)"
  let ?s = "s\<lparr>srv_world := (srv_world s)\<lparr>w_meta := RequestMeta_of req\<rparr>\<rparr>"
  obtain r0 s' where run: "?m ?s = (r0, s')" by fastforce
  from observed_chain [of ?m ?s, OF run, of meth t] run show ?thesis
    by (simp add: unary_chain_def RequestMeta_interceptor_def ret_def chain_answer_def)
qed

end
