(* ===== verification/Lifecycle.thy ===== *)
theory Lifecycle
  imports Main
begin

text \<open>
  \<open>Run\<close> of \<open>internal/app/app.go\<close>: the three servers, and the goroutine that takes them down
  once the context ends, as a step relation. Of the servers' libraries it uses: \<open>GracefulStop\<close>
  refuses new calls and returns when none is running, \<open>Stop\<close> refuses new calls, closes the
  connections and does not wait for handlers; \<open>Shutdown\<close> of an HTTP server refuses new requests and returns when none is
  running or when its context has ended.
\<close>

section \<open>State\<close>

text \<open>Where the goroutine of \<open>Run\<close> that shuts down stands.\<close>

datatype shutdown_phase =
    Serving | StoppingGrpc | StoppingHttp | StoppingMetrics | RunningHooks nat | ClosingDB | ClosingRedis
  | ShutDown

text \<open>
  \<open>app_ctx_done\<close>: the context has ended, by a signal or because a server failed.
  \<open>app_deadline\<close>: the shutdown timeout has passed. A server is up while it takes new requests.
  \<open>app_err\<close> is the first error of a server, which \<open>g.Wait()\<close> returns.
\<close>

record app_state =
  app_phase :: shutdown_phase
  app_ctx_done :: bool
  app_deadline :: bool
  grpc_up :: bool
  http_up :: bool
  metrics_up :: bool
  grpc_active :: nat
  http_active :: nat
  app_hooks :: nat
  db_open :: bool
  redis_open :: bool
  app_err :: "string option"

definition started :: "nat \<Rightarrow> app_state" where
  "started hooks = \<lparr>app_phase = Serving, app_ctx_done = False, app_deadline = False, grpc_up = True,
     http_up = True, metrics_up = True, grpc_active = 0, http_active = 0, app_hooks = hooks,
     db_open = True, redis_open = True, app_err = None\<rparr>"

section \<open>Steps\<close>

text \<open>
  The clients and the operating system. A server that fails ends the context; it counts as up
  until it is stopped.
\<close>

inductive outside :: "app_state \<Rightarrow> app_state \<Rightarrow> bool" where
  grpc_begin: "grpc_up a \<Longrightarrow> outside a (a\<lparr>grpc_active := Suc (grpc_active a)\<rparr>)"
| grpc_end: "grpc_active a = Suc n \<Longrightarrow> outside a (a\<lparr>grpc_active := n\<rparr>)"
| http_begin: "http_up a \<Longrightarrow> outside a (a\<lparr>http_active := Suc (http_active a)\<rparr>)"
| http_end: "http_active a = Suc n \<Longrightarrow> outside a (a\<lparr>http_active := n\<rparr>)"
| signalled: "outside a (a\<lparr>app_ctx_done := True\<rparr>)"
| server_failed: "grpc_up a \<or> http_up a \<or> metrics_up a \<Longrightarrow>
    outside a (a\<lparr>app_ctx_done := True, app_err := Some (case app_err a of None \<Rightarrow> e | Some e' \<Rightarrow> e')\<rparr>)"

text \<open>The timeout runs from the moment the context has ended.\<close>

inductive timeout :: "app_state \<Rightarrow> app_state \<Rightarrow> bool" where
  pass: "app_phase a \<noteq> Serving \<Longrightarrow> timeout a (a\<lparr>app_deadline := True\<rparr>)"

text \<open>The goroutine, statement by statement.\<close>

inductive shutdown :: "app_state \<Rightarrow> app_state \<Rightarrow> bool" where
  ctx_done: "app_phase a = Serving \<Longrightarrow> app_ctx_done a \<Longrightarrow>
    shutdown a (a\<lparr>app_phase := StoppingGrpc, grpc_up := False\<rparr>)"
| graceful: "app_phase a = StoppingGrpc \<Longrightarrow> grpc_active a = 0 \<Longrightarrow>
    shutdown a (a\<lparr>app_phase := StoppingHttp, http_up := False\<rparr>)"
| stop: "app_phase a = StoppingGrpc \<Longrightarrow> app_deadline a \<Longrightarrow>
    shutdown a (a\<lparr>app_phase := StoppingHttp, http_up := False\<rparr>)"
| http_stopped: "app_phase a = StoppingHttp \<Longrightarrow> http_active a = 0 \<or> app_deadline a \<Longrightarrow>
    shutdown a (a\<lparr>app_phase := StoppingMetrics, metrics_up := False\<rparr>)"
| metrics_stopped: "app_phase a = StoppingMetrics \<Longrightarrow>
    shutdown a (a\<lparr>app_phase := RunningHooks (app_hooks a)\<rparr>)"
| hook: "app_phase a = RunningHooks (Suc n) \<Longrightarrow> shutdown a (a\<lparr>app_phase := RunningHooks n\<rparr>)"
| close_db: "app_phase a = RunningHooks 0 \<Longrightarrow>
    shutdown a (a\<lparr>app_phase := ClosingDB, db_open := False\<rparr>)"
| close_redis: "app_phase a = ClosingDB \<Longrightarrow>
    shutdown a (a\<lparr>app_phase := ClosingRedis, redis_open := False\<rparr>)"
| return: "app_phase a = ClosingRedis \<Longrightarrow> shutdown a (a\<lparr>app_phase := ShutDown\<rparr>)"

definition app_step :: "app_state \<Rightarrow> app_state \<Rightarrow> bool" where
  "app_step a a' \<longleftrightarrow> outside a a' \<or> timeout a a' \<or> shutdown a a'"

inductive_cases outsideE: "outside a a'"
inductive_cases timeoutE: "timeout a a'"
inductive_cases shutdownE: "shutdown a a'"

section \<open>Order\<close>

text \<open>How far the goroutine is, counting the statements left.\<close>

fun statements_left :: "nat \<Rightarrow> shutdown_phase \<Rightarrow> nat" where
  "statements_left hooks Serving = hooks + 8"
| "statements_left hooks StoppingGrpc = hooks + 7"
| "statements_left hooks StoppingHttp = hooks + 6"
| "statements_left hooks StoppingMetrics = hooks + 5"
| "statements_left hooks (RunningHooks n) = n + 4"
| "statements_left hooks ClosingDB = 3"
| "statements_left hooks ClosingRedis = 2"
| "statements_left hooks ShutDown = 1"

definition before_http :: "app_state \<Rightarrow> bool" where
  "before_http a \<longleftrightarrow> app_phase a \<in> {Serving, StoppingGrpc}"

definition before_metrics :: "app_state \<Rightarrow> bool" where
  "before_metrics a \<longleftrightarrow> app_phase a \<in> {Serving, StoppingGrpc, StoppingHttp}"

text \<open>
  A server takes requests exactly until the goroutine stops it; past it, requests are still
  running only where the timeout has passed; the database and Redis close after both servers.
\<close>

definition app_inv :: "app_state \<Rightarrow> bool" where
  "app_inv a \<longleftrightarrow>
     (grpc_up a \<longleftrightarrow> app_phase a = Serving) \<and> (http_up a \<longleftrightarrow> before_http a) \<and>
     (\<not> before_http a \<longrightarrow> grpc_active a = 0 \<or> app_deadline a) \<and>
     (\<not> before_metrics a \<longrightarrow> http_active a = 0 \<or> app_deadline a) \<and>
     (db_open a \<longleftrightarrow> app_phase a \<notin> {ClosingDB, ClosingRedis, ShutDown}) \<and>
     (redis_open a \<longleftrightarrow> app_phase a \<notin> {ClosingRedis, ShutDown}) \<and>
     (app_err a \<noteq> None \<longrightarrow> app_ctx_done a) \<and>
     (app_phase a \<noteq> Serving \<longrightarrow> app_ctx_done a)"

lemma app_inv_started: "app_inv (started hooks)"
  by (simp add: app_inv_def started_def before_http_def before_metrics_def)

lemma app_inv_step:
  assumes "app_step a a'" "app_inv a"
  shows "app_inv a'"
  using assms unfolding app_step_def
  by (elim disjE outsideE timeoutE shutdownE)
    (auto simp: app_inv_def before_http_def before_metrics_def)

lemma app_inv_reachable: "app_step\<^sup>*\<^sup>* (started hooks) a \<Longrightarrow> app_inv a"
  by (induction rule: rtranclp_induct) (auto intro: app_inv_started app_inv_step)

text \<open>No request runs on closed storage unless the timeout has cut it off.\<close>

theorem storage_outlives_requests:
  assumes "app_step\<^sup>*\<^sup>* (started hooks) a" "\<not> db_open a \<or> \<not> redis_open a" "\<not> app_deadline a"
  shows "grpc_active a = 0 \<and> http_active a = 0 \<and> \<not> grpc_up a \<and> \<not> http_up a"
  using app_inv_reachable [OF assms(1)] assms(2,3)
  by (cases "app_phase a") (simp_all add: app_inv_def before_http_def before_metrics_def)

section \<open>Run returns\<close>

text \<open>Every statement of the goroutine is one fewer left.\<close>

lemma shutdown_fewer:
  "shutdown a a' \<Longrightarrow>
     statements_left (app_hooks a') (app_phase a') < statements_left (app_hooks a) (app_phase a)"
  by (elim shutdownE) auto

text \<open>Once the timeout has passed, no statement waits.\<close>

lemma shutdown_enabled:
  assumes "app_deadline a" "app_phase a \<noteq> Serving" "app_phase a \<noteq> ShutDown"
  shows "\<exists>a'. shutdown a a'"
proof (cases "app_phase a")
  case (RunningHooks n)
  then show ?thesis by (cases n) (auto intro: shutdown.intros)
qed (use assms in \<open>auto intro: shutdown.intros\<close>)

theorem run_returns:
  assumes "app_deadline a" "app_phase a \<noteq> Serving"
  shows "\<exists>a'. shutdown\<^sup>*\<^sup>* a a' \<and> app_phase a' = ShutDown"
  using assms
proof (induction "statements_left (app_hooks a) (app_phase a)" arbitrary: a rule: less_induct)
  case less
  show ?case
  proof (cases "app_phase a = ShutDown")
    case False
    then obtain a' where step: "shutdown a a'" using shutdown_enabled less.prems by blast
    have "app_deadline a' \<and> app_phase a' \<noteq> Serving"
      using step less.prems by (elim shutdownE) auto
    then show ?thesis
      using less.hyps [OF shutdown_fewer [OF step]] step by (meson converse_rtranclp_into_rtranclp)
  qed auto
qed

section \<open>What is cut off\<close>

lemma app_step_intros:
  "outside a a' \<Longrightarrow> app_step a a'" "timeout a a' \<Longrightarrow> app_step a a'" "shutdown a a' \<Longrightarrow> app_step a a'"
  by (simp_all add: app_step_def)

text \<open>
  The HTTP server still takes requests while the gRPC server it forwards the JSON interface to
  refuses them.
\<close>

lemma gateway_cut_off: "\<exists>a. app_step\<^sup>*\<^sup>* (started hooks) a \<and> http_up a \<and> \<not> grpc_up a"
proof (intro exI conjI)
  let ?a = "(started hooks)\<lparr>app_ctx_done := True\<rparr>"
  have "app_step (started hooks) ?a" by (intro app_step_intros outside.signalled)
  moreover have "app_step ?a (?a\<lparr>app_phase := StoppingGrpc, grpc_up := False\<rparr>)"
    by (intro app_step_intros shutdown.ctx_done) (simp_all add: started_def)
  ultimately show "app_step\<^sup>*\<^sup>* (started hooks) (?a\<lparr>app_phase := StoppingGrpc, grpc_up := False\<rparr>)"
    by (meson converse_rtranclp_into_rtranclp r_into_rtranclp)
qed (simp_all add: started_def)

end
