(* ===== verification/Spec2Isabelle.thy ===== *)
theory Spec2Isabelle
  imports Interleaving_Props Completion Access_Props Upload_Props Session_Props Integrity_Props Retry Worker_Pool
    Api_Props Paging_Props Http_Props Startup Observability Lifecycle
begin

text \<open>
  Strato is a file-storage service: a server with a gRPC API and HTTP routes for bytes, a worker
  that collects garbage, PostgreSQL for metadata, an S3-compatible store for content, Redis for
  locks and rate limits. This development models the server and the worker from the wire down to
  the rows and objects, and proves what keeps them correct. Paths below are under \<open>src/\<close>.

  \<^bold>\<open>State.\<close> The record \<open>world\<close> (theory \<open>World\<close>) is what the program shares: the database
  \<open>w_db\<close> (a record of tables as row lists, theory \<open>Database\<close>), the objects, the Redis locks,
  the clocks, the metadata of the current request, and the choices of the environment: which call
  of a backend fails and how (\<open>w_faults\<close>, by call number), which failed commits took effect all
  the same (\<open>w_ack_lost\<close>), the identifiers and random bytes it draws. The record \<open>server\<close> (theory \<open>Rate_Limiter\<close>) adds the sorted sets of the rate limiter.
  Stateful Go code is an \<open>act\<close> (theory \<open>Act\<close>): a function from a state to a result or an error
  and the new state. Errors are the sentinels of \<open>internal/domain/errors.go\<close> as a datatype.

  \<^bold>\<open>Layers, bottom up.\<close>
  \<^item> \<open>Prelude\<close>, \<open>Act\<close>: shared types, integer widths, lists, the monad and its rules.
  \<^item> \<open>Codec\<close>, \<open>Base64\<close>: decimal numbers, hexadecimal, strings, base 64, object keys
    (\<open>internal/storage/keys.go\<close>).
  \<^item> \<open>Entity\<close>: \<open>internal/entity\<close>, \<open>internal/domain\<close>. \<open>Database\<close>: \<open>migrations\<close> as
    constraints on the state a statement leaves. \<open>World\<close>: \<open>postgres/db.go\<close>, with statements,
    error mapping and transactions.
  \<^item> \<open>Repo_Accounts\<close>, \<open>Repo_Files\<close>, \<open>Repo_Uploads\<close>: the repositories of
    \<open>internal/repository/postgres\<close>, one definition per method, from its SQL.
  \<^item> \<open>Store\<close>: \<open>internal/storage/minio.go\<close>, \<open>redis/lock.go\<close>, opaque tokens.
    \<open>Rate_Limiter\<close>: \<open>redis/rate_limiter.go\<close>.
  \<^item> \<open>Crypto\<close>, \<open>Crypto_Stream\<close>, \<open>Password\<close>: \<open>pkg/crypto\<close>. \<open>Signer\<close>:
    \<open>internal/service/signer.go\<close>. \<open>Jwt\<close>: \<open>internal/auth\<close>. \<open>Pagination\<close>, \<open>Retry\<close>,
    \<open>Worker_Pool\<close>: the packages of \<open>pkg\<close> with these names.
  \<^item> \<open>Access\<close>, \<open>Upload_UC\<close>, \<open>File_UC\<close>, \<open>Share_UC\<close>, \<open>Auth_UC\<close>: \<open>internal/usecase\<close>, one
    definition per use case with all its calls. \<open>GC\<close>: the sweeps of \<open>internal/service/gc.go\<close>.
  \<^item> \<open>Config\<close>: \<open>internal/config\<close> and the wiring of \<open>internal/app/app.go\<close>. \<open>Wire\<close>,
    \<open>Grpc_Handlers\<close>, \<open>Grpc_Server\<close>: \<open>internal/transport/grpc\<close> and the interceptors.
    \<open>Http_Handlers\<close>: \<open>internal/transport/http\<close> and the HTTP middleware.
  \<^item> \<open>Startup\<close>: loading the configuration, \<open>New\<close> of \<open>internal/app/app.go\<close> with every
    constructor that may fail (tracing, Postgres, Redis, the object store with its bucket check
    under \<open>retry.Do\<close>, the dummy password hash, the gateway), the worker's loop.
  \<^item> \<open>System\<close>: all requests and sweeps as one datatype, \<open>run_request\<close>, and the states
    reachable by them, with the environment free to move clocks, locks, faults and randomness in
    between.
  \<^item> \<open>Threads\<close>, \<open>Thread_UC\<close>: programs as trees of atomic calls that others interleave with,
    and the requests and sweeps that move accounts as such programs. Run alone, each is its
    sequential definition (the lemmas \<open>alone_...\<close>).
  \<^item> \<open>Observability\<close>: panic recovery, logging and metrics around the gRPC chain and the HTTP
    handlers. \<open>Lifecycle\<close>: \<open>Run\<close> of \<open>internal/app/app.go\<close>, its servers and its shutdown, as
    a step relation.

  \<^bold>\<open>Interfaces.\<close> Five contracts are locales. \<open>neutral_invariant\<close> (\<open>Invariant\<close>) and its
  extensions \<open>request_step\<close> and \<open>request_invariant\<close> (\<open>System\<close>) say what an invariant of
  the whole system has to meet: kept by the statements that do not concern it, and by the few
  operations that do. They are interpreted by the accounting invariant (\<open>Accounting_System\<close>),
  the growth of the version table (\<open>History\<close>) and the content invariant (\<open>Integrity\<close>).
  Its first part is interpreted twice more for interleavings (\<open>Concurrent\<close>), which use the locale
  \<open>rely_guarantee\<close> (\<open>Threads\<close>): a relation that every atomic move of every program stays
  within, with the rules by which a program is shown to, and the theorem that then every
  interleaving does.
  \<open>sliding_window\<close> is what a rate limiter promises; the Redis script provides it.
  \<open>keyset_listing\<close> is what a repository promises a client that walks its pages; the ascending
  and the descending queries provide it.

  \<^bold>\<open>What is shown.\<close>
  \<^item> Accounting (this theory, from \<open>Invariant\<close>, \<open>Accounting\<close>, \<open>Accounting_UC\<close>,
    \<open>Accounting_System\<close>, \<open>History\<close>): in every reachable state, whatever fails, reference
    counts, charged bytes and version numbers are exact; history only grows.
  \<^item> Completion (\<open>Completion\<close>): completing an upload attaches one version with its reference and
    charge, or leaves the accounts alone, whichever calls fail and whether or not a failed commit
    took effect.
  \<^item> Interleavings (\<open>Concurrent\<close>, \<open>Interleaved_History\<close>, \<open>Interleaving_Props\<close>): the accounts
    balance and history only grows however the calls of requests and sweeps interleave; and the
    races that remain: a second completion of a session, a purge of a restored file, a purge in a
    transaction that is not isolated.
  \<^item> Content (\<open>Integrity\<close>, \<open>Integrity_Props\<close>): every blob row has an object that decrypts to
    the recorded content, and the owner's download delivers it.
  \<^item> Access (\<open>Access_Props\<close>): authorization equals the policy read off the tables; strangers
    cannot tell that a file exists; locks freeze files; which names are accepted.
  \<^item> Cryptography (\<open>Crypto_Stream\<close>, \<open>Crypto_Props\<close>): the stream format, its round trip,
    rejection of truncation and of anything not sealed segment by segment up to the final segment,
    exact sizes, wrapped keys.
  \<^item> Uploads (\<open>Upload_Props\<close>), sessions, locks, signed URLs, tokens, passwords and public links
    (\<open>Session_Props\<close>).
  \<^item> The API (\<open>Api_Props\<close>, \<open>Paging_Props\<close>, \<open>Http_Props\<close>): a gRPC call is at most one request
    made as the token's owner; nothing works without a token but the public methods; pages list
    everything once; the HTTP routes serve the right content to the right caller, as far as the
    announced length reaches.
  \<^item> Start-up (\<open>Startup\<close>): with a loaded configuration only the backends can keep the system from
    being built, and what is built has a working key and its bucket; the worker's loop is a
    sequence of the sweeps of \<open>System\<close>.
  \<^item> Operation (\<open>Observability\<close>, \<open>Lifecycle\<close>): the chain hands on the service's answer, no panic
    escapes it, every call is accounted for; storage closes after the servers, no request on it but those the
    timeout cut off, and \<open>Run\<close> returns.
  \<^item> Utilities: the limiter refines the log of admitted instants for calls in the order of their
    clock readings (\<open>late_reading_exceeds_limit\<close> shows why), \<open>Do\<close> makes its calls, sleeps and
    gives up as its contract says, the pool loses no task and drains.

  \<^bold>\<open>Parameters.\<close> Code outside the repository is an argument (record \<open>ext\<close>, \<open>cursor_json\<close>,
  \<open>viper\<close>, \<open>backends\<close>, the functions of the JWT library, the media-type check). What is relied on are named hypotheses: \<open>aead_ok\<close> (opening
  undoes sealing, and adds 16 bytes), \<open>aead_strict\<close> (only sealed texts open), \<open>uuid_ok\<close>,
  \<open>argon2_ok\<close>, \<open>jwt_ok\<close>, \<open>json_ok\<close>, \<open>hmac_binds\<close> (two given messages have different
  MACs), \<open>jitter_ok\<close>. \<open>Crypto_Props\<close> and \<open>Demo\<close> hold concrete instances on which every
  property is exercised.

  \<^bold>\<open>Bounds and termination.\<close> Integers are \<open>int\<close> with the wrap-around of 64 and 32 bits
  written out where the code can reach it; segment counters are 32-bit words. Loops are total functions,
  each with its termination proof where the recursion is not structural.
  A client walking pages is given more steps than there are files, which is enough because every
  page but the last holds at least one.

  \<^bold>\<open>Assumptions of the model.\<close> In \<open>System\<close>, and so for the properties stated with
  \<open>reachable\<close> or \<open>run_request\<close>, requests and sweeps run one after the other; within one, clocks
  stand still. In \<open>Concurrent\<close> they interleave at every call of a repository, the object store or
  Redis; a transaction is one step (isolated), and an identifier drawn for a new file was never
  in use; the requests that only issue neutral statements appear as moves of the environment
  (\<open>other_requests_are_neutral\<close>). A failing \<open>Put\<close> leaves the object as it was; a failing statement has no effect
  and aborts its transaction; a failing commit has no effect or its full effect, as the environment
  chooses. The HTTP server sends at most the length a response announces and no body to a
  \<open>HEAD\<close>; the connection delivers what is sent. The replicas' clocks and Redis' agree. Case folding is ASCII. The
  producer goroutine of an upload runs to its end before \<open>Put\<close> is judged. The content invariant
  assumes that no sweep of orphaned blobs fails half-way (\<open>blob_sweep_succeeds\<close>, which
  \<open>fault_free\<close> sweeps meet); \<open>failing_sweep_loses_object\<close> shows why.

  \<^bold>\<open>Not modelled.\<close> Interleavings inside a transaction, but for the one race shown; the content
  invariant under interleavings, which does not hold (\<open>resurrected_blob_loses_object\<close>);
  the clients of the backends and listening; reading the configuration from file and environment, which a library
  does; the byte counters, traces and the format of log lines, which only observe; presigned object URLs, which
  nothing calls; the generated JSON gateway, which forwards to the gRPC server; the in-memory fakes
  of the tests.
\<close>

section \<open>Accounting\<close>

text \<open>
  C1: Every client request and every garbage-collector sweep, whichever of its database, object-
  store or lock calls fail, takes a metadata state in which all accounts balance (blob reference
  counts, charged bytes, version numbering, schema constraints) to such a state.
\<close>

theorem requests_keep_accounting:
  assumes "\<not> w_in_tx w" "accounting (w_db w)"
  shows "accounting (w_db (run_request S r w))"
  using acc_sys.serves [of w r S] assms by (simp add: at_rest_def any_request_def)

theorem requests_keep_accounting_witness:
  "accounting (w_db (run_request demo_system SweepTrash (demo_world demo_db)))"
  by (rule requests_keep_accounting) (simp_all add: accounting_demo)

lemma balanced_reachable:
  "initial w0 \<or> at_rest accounting w0 \<Longrightarrow> reachable any_request S w0 w \<Longrightarrow> at_rest accounting w"
  using acc_sys.invariant acc_sys.from_initial by blast

text \<open>
  C3: In every state reachable from an empty installation (or from any state in which the accounts
  balance), the stored reference count of a blob is the number of file versions that point to it.
\<close>

theorem refcounts_exact:
  assumes "initial w0 \<or> at_rest accounting w0" "reachable any_request S w0 w"
    and "b \<in> set (blobs (w_db w))"
  shows "Blob_RefCount b = int (length (filter (\<lambda>v. Version_BlobID v = Blob_ID b) (file_versions (w_db w))))"
  using balanced_reachable [OF assms(1,2)] assms(3)
  by (auto simp: at_rest_def accounting_def refcounts_ok_def list_all_iff refs_def)

lemma demo_reachable:
  "initial (demo_world demo_db) \<or> at_rest accounting (demo_world demo_db)"
  "reachable any_request demo_system (demo_world demo_db) (demo_world demo_db)"
  by (simp_all add: at_rest_def accounting_demo reachable.start)

theorem refcounts_exact_witness:
  "Blob_RefCount demo_blob = int (length (filter (\<lambda>v. Version_BlobID v = 30) [demo_version]))"
  using refcounts_exact [OF demo_reachable, of demo_blob] by (simp add: demo_db_def demo_blob_def)

lemma accounting_usage:
  "accounting d \<Longrightarrow> q \<in> set (storage_quotas d) \<Longrightarrow>
     Quota_UsedBytes q = usage d (Quota_UserID q) \<and> 0 \<le> Quota_UsedBytes q \<and>
     Quota_UsedBytes q \<le> Quota_QuotaBytes q"
  by (auto simp: accounting_def usage_ok_def list_all_iff schema_ok_iff check_constraints_def)

text \<open>
  C4: In every reachable state the bytes charged to a user are the total size of all versions of
  the files the user owns; they are non-negative and within the quota.
\<close>

theorem usage_exact:
  assumes "initial w0 \<or> at_rest accounting w0" "reachable any_request S w0 w"
    and "q \<in> set (storage_quotas (w_db w))"
  shows "Quota_UsedBytes q = usage (w_db w) (Quota_UserID q) \<and> 0 \<le> Quota_UsedBytes q \<and>
    Quota_UsedBytes q \<le> Quota_QuotaBytes q"
  using balanced_reachable [OF assms(1,2)] accounting_usage [OF _ assms(3)] by (simp add: at_rest_def)

theorem usage_exact_witness: "usage demo_db 1 = 3"
  using usage_exact [OF demo_reachable, of "demo_quota 1 3"] by (simp add: demo_db_def demo_quota_def)

lemma history_of_last:
  assumes "history_of vs (Some i)"
  shows "vs \<noteq> [] \<and> i = Version_ID (last vs) \<and> Version_VersionNumber (last vs) = int (length vs)"
proof -
  have ne: "vs \<noteq> []" and i: "i = Version_ID (last vs)"
    and nums: "map Version_VersionNumber vs = map int [1 ..< Suc (length vs)]"
    using assms by (auto simp: history_of_def split: if_splits)
  have "Version_VersionNumber (last vs) = last (map Version_VersionNumber vs)"
    using ne by (simp add: last_map)
  also have "\<dots> = int (length vs)" using ne by (simp add: nums last_map del: upt_Suc)
  finally show ?thesis using ne i by simp
qed

lemma accounting_current:
  assumes "accounting d" "f \<in> set (files d)" "File_CurrentVersionID f = Some i"
  shows "\<exists>v \<in> set (file_versions d). Version_ID v = i \<and> Version_FileID v = File_ID f \<and>
    Version_VersionNumber v = int (length (versions_of d (File_ID f))) \<and>
    (\<exists>b \<in> set (blobs d). Blob_ID b = Version_BlobID v \<and> 1 \<le> Blob_RefCount b)"
proof -
  let ?vs = "versions_of d (File_ID f)" let ?v = "last ?vs"
  have h: "?vs \<noteq> []" "i = Version_ID ?v" "Version_VersionNumber ?v = int (length ?vs)"
    using history_of_last [of ?vs i] assms by (auto simp: accounting_def history_ok_def list_all_iff)
  from last_in_set [OF h(1)] have v: "?v \<in> set (file_versions d)" "Version_FileID ?v = File_ID f"
    by (auto simp: versions_of_def)
  have "foreign_keys d" using assms(1) schema_okD(4) by (auto simp: accounting_def)
  with v(1) obtain b where b: "b \<in> set (blobs d)" "Blob_ID b = Version_BlobID ?v"
    by (auto simp: foreign_keys_def list_all_iff ref_in_def List.member_iff Let_def)
  have "Blob_RefCount b = refs d (Blob_ID b)"
    using assms(1) b(1) by (auto simp: accounting_def refcounts_ok_def list_all_iff)
  moreover have "filter (\<lambda>v. Version_BlobID v = Blob_ID b) (file_versions d) \<noteq> []"
    using v(1) b(2) by (auto simp: filter_empty_conv)
  ultimately have "1 \<le> Blob_RefCount b" by (simp add: refs_def Suc_le_eq)
  with v b h show ?thesis by blast
qed

text \<open>
  In every reachable state a file with a current version points to a version row of that very
  file, the one with the highest number, whose blob row exists and has a positive reference count.
\<close>

theorem current_version_resolves:
  assumes "initial w0 \<or> at_rest accounting w0" "reachable any_request S w0 w"
    and "f \<in> set (files (w_db w))" "File_CurrentVersionID f = Some i"
  shows "\<exists>v \<in> set (file_versions (w_db w)). Version_ID v = i \<and> Version_FileID v = File_ID f \<and>
    Version_VersionNumber v = int (length (versions_of (w_db w) (File_ID f))) \<and>
    (\<exists>b \<in> set (blobs (w_db w)). Blob_ID b = Version_BlobID v \<and> 1 \<le> Blob_RefCount b)"
  using balanced_reachable [OF assms(1,2)] accounting_current assms(3,4) by (simp add: at_rest_def)

theorem current_version_resolves_witness:
  "\<exists>v \<in> set (file_versions demo_db). Version_ID v = 20 \<and> Version_FileID v = 10"
  using current_version_resolves [OF demo_reachable, of demo_file 20]
  by (auto simp: demo_db_def demo_file_def)

text \<open>
  C10: In every reachable state the versions of a file are numbered 1, 2, 3, ... in the order they
  were created, without gaps or repetitions.
\<close>

theorem history_linear:
  assumes "initial w0 \<or> at_rest accounting w0" "reachable any_request S w0 w"
    and "f \<in> set (files (w_db w))"
  shows "map Version_VersionNumber (versions_of (w_db w) (File_ID f)) =
    map int [1 ..< Suc (length (versions_of (w_db w) (File_ID f)))]"
  using balanced_reachable [OF assms(1,2)] assms(3)
  by (auto simp: at_rest_def accounting_def history_ok_def history_of_def list_all_iff)

theorem history_linear_witness: "map Version_VersionNumber (versions_of demo_db 10) = [1]"
  using history_linear [OF demo_reachable, of demo_file]
  by (simp add: demo_db_def demo_file_def versions_of_def demo_version_def)

text \<open>
  No request and no sweep other than the trash sweep changes or removes an existing version
  row: the version table only grows at its end.
\<close>

theorem history_append_only:
  assumes "\<not> w_in_tx w" "r \<noteq> SweepTrash"
  shows "prefix (file_versions (w_db w)) (file_versions (w_db (run_request S r w)))"
  using hist_sys.serves [of "file_versions (w_db w)" w r S] assms
  by (simp add: at_rest_def extends_def no_trash_sweep_def)

theorem history_append_only_witness:
  "prefix [demo_version] (file_versions (w_db (run_request demo_system (ReqRestoreVersion (demo_ident 1) 10 20) (demo_world demo_db))))"
  using history_append_only [of "demo_world demo_db" "ReqRestoreVersion (demo_ident 1) 10 20" demo_system]
  by (simp add: demo_db_def)

end
